(* ===== verification/Maestro_Prelude.thy ===== *)
theory Maestro_Prelude
  imports Main "HOL-Library.Word" "HOL-Library.List_Lexorder" "HOL-Library.Product_Lexorder"
    "HOL-Library.Sublist"
begin

text \<open>
  Shared vocabulary of the development: the machine types of the Rust sources, checked
  arithmetic, big-endian byte strings with their order, insertion-ordered and hash maps as
  lists and partial functions, and the generic lemmas the component theories use.

  Unsigned integers are words of their width. The workspace is built with the default release
  profile, so \<open>+\<close> and \<open>-\<close> on them wrap around; \<open>checked_add\<close> and
  \<open>checked_sub\<close> are the operations of the standard library that return \<open>None\<close> instead.
  A byte string (\<open>Vec<u8>\<close>, \<open>[u8; N]\<close>) is a list of bytes, ordered lexicographically.
\<close>

section \<open>Machine types\<close>

type_synonym byte = "8 word"
type_synonym bytes = "byte list"
type_synonym u8 = "8 word"
type_synonym u16 = "16 word"
type_synonym u32 = "32 word"
type_synonym u64 = "64 word"
type_synonym usize = "64 word"
type_synonym u128 = "128 word"

named_theorems codec_simps \<open>unfolding rules of the encoders and decoders\<close>
named_theorems store_simps \<open>unfolding rules of the storage operations\<close>

section \<open>Checked arithmetic\<close>

definition checked_add :: "'a::len word \<Rightarrow> 'a word \<Rightarrow> 'a word option" where
  "checked_add a b = (if unat a + unat b < 2 ^ LENGTH('a) then Some (a + b) else None)"

definition checked_sub :: "'a::len word \<Rightarrow> 'a word \<Rightarrow> 'a word option" where
  "checked_sub a b = (if b \<le> a then Some (a - b) else None)"

definition saturating_sub :: "'a::len word \<Rightarrow> 'a word \<Rightarrow> 'a word" where
  "saturating_sub a b = (if b \<le> a then a - b else 0)"

lemma unat_add_no_overflow:
  fixes a b :: "'a::len word"
  shows "unat a + unat b < 2 ^ LENGTH('a) \<Longrightarrow> unat (a + b) = unat a + unat b"
  by (simp add: unat_word_ariths)

lemma unat_sub_le:
  fixes a b :: "'a::len word"
  shows "b \<le> a \<Longrightarrow> unat (a - b) = unat a - unat b"
  by (simp add: unat_sub)

lemma checked_add_Some:
  "checked_add a b = Some c \<longleftrightarrow>
     unat a + unat b < 2 ^ LENGTH('a) \<and> c = a + b \<and> unat c = unat a + unat (b :: 'a::len word)"
  by (auto simp: checked_add_def unat_add_no_overflow)

lemma checked_sub_Some:
  "checked_sub a b = Some c \<longleftrightarrow> b \<le> a \<and> c = a - b \<and> unat c = unat a - unat (b :: 'a::len word)"
  by (auto simp: checked_sub_def unat_sub_le)

section \<open>Fallible work\<close>

text \<open>
  The errors of a worker: \<open>ShouldRestart\<close> and \<open>WorkPanic\<close> are the errors of the stage
  runtime the sources return, \<open>RustPanic\<close> is a panic of the language (\<open>unwrap\<close>,
  \<open>assert\<close>, \<open>panic\<close>).
\<close>

datatype work_error = ShouldRestart | WorkPanic | RustPanic

type_synonym 'a work = "work_error + 'a"

definition work_bind :: "'a work \<Rightarrow> ('a \<Rightarrow> 'b work) \<Rightarrow> 'b work" where
  "work_bind r f = (case r of Inl e \<Rightarrow> Inl e | Inr x \<Rightarrow> f x)"

lemma work_bind_simps [simp]:
  "work_bind (Inr x) f = f x"
  "work_bind (Inl e) f = Inl e"
  by (simp_all add: work_bind_def)

lemma work_bind_Inr_iff: "work_bind r f = Inr y \<longleftrightarrow> (\<exists>x. r = Inr x \<and> f x = Inr y)"
  by (cases r) simp_all

definition unwrap :: "'a option \<Rightarrow> 'a work" where
  "unwrap x = (case x of None \<Rightarrow> Inl RustPanic | Some v \<Rightarrow> Inr v)"

lemma unwrap_Inr_iff [simp]: "unwrap x = Inr v \<longleftrightarrow> x = Some v"
  by (cases x) (simp_all add: unwrap_def)

text \<open>A loop that applies a fallible step to every element and stops at the first error.\<close>

primrec work_map :: "('a \<Rightarrow> 'b work) \<Rightarrow> 'a list \<Rightarrow> 'b list work" where
  "work_map f [] = Inr []"
| "work_map f (x # xs) = work_bind (f x) (\<lambda>y. work_bind (work_map f xs) (\<lambda>ys. Inr (y # ys)))"

primrec work_fold :: "('a \<Rightarrow> 's \<Rightarrow> 's work) \<Rightarrow> 'a list \<Rightarrow> 's \<Rightarrow> 's work" where
  "work_fold f [] s = Inr s"
| "work_fold f (x # xs) s = work_bind (f x s) (work_fold f xs)"

lemma work_map_Inr_iff: "work_map f xs = Inr ys \<longleftrightarrow> list_all2 (\<lambda>x y. f x = Inr y) xs ys"
  by (induction xs arbitrary: ys) (auto simp: work_bind_Inr_iff list_all2_Cons1)

lemma work_fold_append:
  "work_fold f (xs @ ys) s = work_bind (work_fold f xs s) (work_fold f ys)"
  by (induction xs arbitrary: s) (auto simp: work_bind_def split: sum.splits)

section \<open>The key after a key\<close>

lemma less_snoc: "(xs :: bytes) < xs @ [x]"
  by (induction xs) auto

lemma snoc_zero_le_iff: "xs @ [0] \<le> k \<longleftrightarrow> xs < (k :: bytes)"
proof (induction xs arbitrary: k)
  case Nil
  then show ?case by (cases k) (auto simp: word_neq_0_conv)
next
  case (Cons x xs)
  then show ?case by (cases k) auto
qed

lemma length_filter_less_filter:
  assumes "x \<in> set xs" "Q x" "\<not> P x" "\<And>y. P y \<Longrightarrow> Q y"
  shows "length (filter P xs) < length (filter Q xs)"
proof -
  have "filter P xs = filter P (filter Q xs)" using assms(4) by (auto simp: filter_filter intro!: filter_cong)
  moreover have "length (filter P (filter Q xs)) < length (filter Q xs)"
    using assms(1-3) by (intro length_filter_less [of x]) simp_all
  ultimately show ?thesis by simp
qed

section \<open>Big-endian byte strings\<close>

text \<open>
  \<open>to_be_bytes\<close> and \<open>from_be_bytes\<close> of the standard library, on the value of the integer:
  \<open>be_bytes n v\<close> are the \<open>n\<close> low-order bytes of \<open>v\<close>, most significant first.
\<close>

primrec be_bytes :: "nat \<Rightarrow> nat \<Rightarrow> bytes" where
  "be_bytes 0 v = []"
| "be_bytes (Suc n) v = be_bytes n (v div 256) @ [of_nat (v mod 256)]"

definition be_val :: "bytes \<Rightarrow> nat" where
  "be_val bs = foldl (\<lambda>acc b. acc * 256 + unat b) 0 bs"

lemma length_be_bytes [simp]: "length (be_bytes n v) = n"
  by (induction n arbitrary: v) auto

lemma be_val_Nil [simp]: "be_val [] = 0"
  by (simp add: be_val_def)

lemma be_val_snoc [simp]: "be_val (bs @ [b]) = be_val bs * 256 + unat b"
  by (simp add: be_val_def)

lemma unat_byte_bound: "unat (b :: byte) < 256"
  using unsigned_less [of b, where ?'a = nat] by simp

lemma unat_of_nat_byte [simp]: "v < 256 \<Longrightarrow> unat (of_nat v :: byte) = v"
  by (simp add: unat_of_nat)

lemma be_val_be_bytes: "be_val (be_bytes n v) = v mod 256 ^ n"
proof (induction n arbitrary: v)
  case 0
  then show ?case by simp
next
  case (Suc n)
  then show ?case
    by (simp add: mod_mult2_eq mult.commute)
qed

lemma be_bytes_be_val: "be_bytes (length bs) (be_val bs) = bs"
proof (induction bs rule: rev_induct)
  case Nil
  then show ?case by simp
next
  case (snoc b bs)
  have "(be_val bs * 256 + unat b) div 256 = be_val bs"
    using unat_byte_bound [of b] by simp
  moreover have "of_nat ((be_val bs * 256 + unat b) mod 256) = b"
    using unat_byte_bound [of b] by simp
  ultimately show ?case using snoc by simp
qed

lemma be_val_bound: "be_val bs < 256 ^ length bs"
proof (induction bs rule: rev_induct)
  case Nil
  then show ?case by simp
next
  case (snoc b bs)
  then show ?case using unat_byte_bound [of b] by simp
qed

lemma be_val_Cons: "be_val (b # bs) = unat b * 256 ^ length bs + be_val bs"
  by (induction bs rule: rev_induct) (simp_all add: be_val_def algebra_simps)

lemma be_val_replicate_zero [simp]: "be_val (replicate n 0 @ bs) = be_val bs"
  by (induction n) (simp_all add: be_val_Cons)

section \<open>Lexicographic order of byte strings\<close>

lemma Cons_less_iff: "(x # xs < y # ys) \<longleftrightarrow> x < y \<or> (x = y \<and> xs < (ys :: 'a::linorder list))"
  by auto

lemma append_less_cancel [simp]: "(zs @ xs < zs @ ys) \<longleftrightarrow> xs < (ys :: 'a::linorder list)"
  by (induction zs) auto

lemma append_le_cancel [simp]: "(zs @ xs \<le> zs @ ys) \<longleftrightarrow> xs \<le> (ys :: 'a::linorder list)"
  by (induction zs) auto

text \<open>
  Two strings of the same length are ordered at the position where they first differ, so what
  follows them does not matter unless they are equal.
\<close>

lemma append_less_same_length:
  "length (xs :: 'a::linorder list) = length ys \<Longrightarrow>
     (xs @ r < ys @ s) \<longleftrightarrow> xs < ys \<or> (xs = ys \<and> r < s)"
  by (induction xs ys rule: list_induct2) auto

lemma be_val_less_iff:
  "length xs = length ys \<Longrightarrow> (xs < ys) \<longleftrightarrow> be_val xs < be_val ys"
proof (induction xs ys rule: list_induct2)
  case Nil
  then show ?case by simp
next
  case (Cons x xs y ys)
  let ?p = "256 ^ length xs :: nat"
  have bx: "be_val xs < ?p" and by_: "be_val ys < ?p"
    using be_val_bound [of xs] be_val_bound [of ys] Cons.hyps by simp_all
  show ?case
  proof (cases "x = y")
    case True
    then show ?thesis using Cons by (simp add: be_val_Cons)
  next
    case False
    have "(x < y) \<longleftrightarrow> unat x * ?p + be_val xs < unat y * ?p + be_val ys"
    proof
      assume "x < y"
      then have "Suc (unat x) \<le> unat y" by (simp add: word_less_nat_alt)
      then have "Suc (unat x) * ?p \<le> unat y * ?p" by (rule mult_le_mono1)
      then show "unat x * ?p + be_val xs < unat y * ?p + be_val ys" using bx by simp
    next
      assume *: "unat x * ?p + be_val xs < unat y * ?p + be_val ys"
      show "x < y"
      proof (rule ccontr)
        assume "\<not> x < y"
        with False have "Suc (unat y) \<le> unat x" by (auto simp: word_less_nat_alt word_unat_eq_iff)
        then have "Suc (unat y) * ?p \<le> unat x * ?p" by (rule mult_le_mono1)
        with * by_ show False by simp
      qed
    qed
    with False show ?thesis by (simp add: be_val_Cons Cons.hyps)
  qed
qed

lemma prefix_le: "prefix xs ys \<Longrightarrow> xs \<le> (ys :: 'a::linorder list)"
  by (metis Nil_le_Cons append_Nil2 append_le_cancel list.exhaust order_refl prefixE)

end
