(* ===== verification/Timbre_Codec.thy ===== *)
theory Timbre_Codec
  imports Maestro_Prelude
begin

text \<open>
  The byte codec of the schema library (\<open>crates/timbre-xbt/src/lib.rs\<close>,
  \<open>encdec/encode.rs\<close>, \<open>encdec/decode.rs\<close>): one encoder and one decoder for every
  implementation of the \<open>Encode\<close> and \<open>Decode\<close> traits. A decoder returns the decoded value
  with the bytes that follow it; a \<open>TimbreError\<close> is \<open>Inl (Fail _)\<close> and a Rust panic
  (an index or slice out of range) is \<open>Inl Panic\<close>.

  The contract of a codec is the locale \<open>codec\<close>: decoding what was encoded returns the value
  and the rest, for every rest. It gives injectivity and prefix-freedom once for all codecs. The
  locale \<open>ordered_codec\<close> adds that byte order is value order, which is what makes a range
  scan over keys a range scan over values.
\<close>

section \<open>Errors and decoders\<close>

text \<open>
  The wrapped errors of the standard library and of the base64 crate are kept without their
  payload.
\<close>

datatype TimbreError =
    MalformedInput string
  | InvalidUtf8
  | InvalidUtf8Str
  | MalformedBase64
  | InvalidRange
  | VarUIntCasting u128

datatype failure = Fail TimbreError | Panic

type_synonym 'a decoded = "failure + ('a \<times> bytes)"
type_synonym 'a decoder = "bytes \<Rightarrow> 'a decoded"

text \<open>The \<open>?\<close> operator on a decoding step: go on with the value and the remaining bytes.\<close>

definition and_then :: "'a decoded \<Rightarrow> ('a \<Rightarrow> bytes \<Rightarrow> 'b decoded) \<Rightarrow> 'b decoded" where
  "and_then r f = (case r of Inl e \<Rightarrow> Inl e | Inr (x, rest) \<Rightarrow> f x rest)"

lemma and_then_simps [simp, codec_simps]:
  "and_then (Inr (x, rest)) f = f x rest"
  "and_then (Inl e) f = Inl e"
  by (simp_all add: and_then_def)

section \<open>The contract of a codec\<close>

locale codec =
  fixes enc :: "'a \<Rightarrow> bytes"
    and dec :: "'a decoder"
    and wf :: "'a \<Rightarrow> bool"
  assumes dec_enc: "wf x \<Longrightarrow> dec (enc x @ rest) = Inr (x, rest)"
begin

lemma dec_enc_exact: "wf x \<Longrightarrow> dec (enc x) = Inr (x, [])"
  using dec_enc [of x "[]"] by simp

lemma prefix_free: "wf x \<Longrightarrow> wf y \<Longrightarrow> enc x @ r = enc y @ s \<Longrightarrow> x = y \<and> r = s"
  by (metis Inr_inject dec_enc prod.inject)

lemma append_eq_iff: "wf x \<Longrightarrow> wf y \<Longrightarrow> enc x @ r = enc y @ s \<longleftrightarrow> x = y \<and> r = s"
  using prefix_free by blast

lemma enc_inj: "wf x \<Longrightarrow> wf y \<Longrightarrow> enc x = enc y \<Longrightarrow> x = y"
  using prefix_free [of x y "[]" "[]"] by simp

end

locale ordered_codec = codec enc dec wf
  for enc :: "'a::linorder \<Rightarrow> bytes" and dec :: "'a decoder" and wf :: "'a \<Rightarrow> bool" +
  assumes enc_mono: "wf x \<Longrightarrow> wf y \<Longrightarrow> x < y \<Longrightarrow> enc x @ r < enc y @ s"
begin

lemma append_less_iff:
  assumes "wf x" and "wf y"
  shows "enc x @ r < enc y @ s \<longleftrightarrow> x < y \<or> (x = y \<and> r < s)"
proof -
  consider "x < y" | "x = y" | "y < x" by fastforce
  then show ?thesis
  proof cases
    case 1
    with enc_mono [OF assms] show ?thesis by simp
  next
    case 2
    then show ?thesis by simp
  next
    case 3
    with enc_mono [OF assms(2,1), of s r] show ?thesis by auto
  qed
qed

lemma enc_less_iff: "wf x \<Longrightarrow> wf y \<Longrightarrow> enc x < enc y \<longleftrightarrow> x < y"
  using append_less_iff [of x y "[]" "[]"] by simp

end

section \<open>Variable-length unsigned integers\<close>

datatype VarUInt = VarUInt (inner: u128)

text \<open>
  The loop of \<open>VarUInt::encode\<close>: the first index with a non-zero byte ends it, with the number
  of bytes left as the length prefix; a value with no such byte is the single byte 0.
\<close>

primrec varuint_scan :: "bytes \<Rightarrow> bytes" where
  "varuint_scan [] = [0]"
| "varuint_scan (b # bs) =
     (if b \<noteq> 0 then of_nat (length (b # bs)) # b # bs else varuint_scan bs)"

definition VarUInt_encode :: "VarUInt \<Rightarrow> bytes" where
  "VarUInt_encode v = varuint_scan (be_bytes 16 (unat (inner v)))"

definition VarUInt_decode :: "VarUInt decoder" where
  "VarUInt_decode bs =
     (case bs of
        [] \<Rightarrow> Inl (Fail (MalformedInput ''Empty input for VarUInt decode''))
      | len_byte # rest \<Rightarrow>
          (let len = unat len_byte in
           if len > 16 then Inl (Fail (MalformedInput ''VarUInt length exceeds 16 bytes''))
           else if len > length rest then
             Inl (Fail (MalformedInput ''Insufficient bytes for VarUInt decode''))
           else
             (let data = take len rest; be_128 = replicate (16 - len) 0 @ data in
              Inr (VarUInt (of_nat (be_val be_128)), drop len rest))))"

text \<open>\<open>From\<close> and \<open>TryFrom\<close> between \<open>VarUInt\<close> and the unsigned types.\<close>

definition VarUInt_from :: "'a::len word \<Rightarrow> VarUInt" where
  "VarUInt_from v = VarUInt (ucast v)"

definition VarUInt_try_into :: "VarUInt \<Rightarrow> failure + 'a::len word" where
  "VarUInt_try_into v =
     (if unat (inner v) < 2 ^ LENGTH('a) then Inr (ucast (inner v))
      else Inl (Fail (VarUIntCasting (inner v))))"

text \<open>\<open>impl_uint_encode\<close> and \<open>impl_uint_decode\<close>, for u16, u32, u64, u128 and usize.\<close>

definition uint_encode :: "'a::len word \<Rightarrow> bytes" where
  "uint_encode v = VarUInt_encode (VarUInt_from v)"

definition uint_decode :: "'a::len word decoder" where
  "uint_decode bs =
     and_then (VarUInt_decode bs)
       (\<lambda>v rem. case VarUInt_try_into v of Inl e \<Rightarrow> Inl e | Inr casted \<Rightarrow> Inr (casted, rem))"

subsection \<open>Shape of the encoding\<close>

lemma varuint_scan_strip:
  "varuint_scan bs = of_nat (length (dropWhile (\<lambda>b. b = 0) bs)) # dropWhile (\<lambda>b. b = 0) bs"
  by (induction bs) auto

lemma be_val_dropWhile_zero: "be_val (dropWhile (\<lambda>b. b = 0) bs) = be_val bs"
  by (induction bs) (auto simp: be_val_Cons)

lemma unat_u128_bound: "unat (v :: u128) < 256 ^ 16"
  using unsigned_less [of v, where ?'a = nat] by simp

lemma be_val_u128 [simp]: "be_val (be_bytes 16 (unat (v :: u128))) = unat v"
  using unat_u128_bound [of v] by (simp add: be_val_be_bytes)

definition sig_bytes :: "u128 \<Rightarrow> bytes" where
  "sig_bytes v = dropWhile (\<lambda>b. b = 0) (be_bytes 16 (unat v))"

lemma length_sig_bytes: "length (sig_bytes v) \<le> 16"
  by (metis length_be_bytes length_dropWhile_le sig_bytes_def)

lemma be_val_sig_bytes [simp]: "be_val (sig_bytes v) = unat v"
  by (simp add: sig_bytes_def be_val_dropWhile_zero)

lemma VarUInt_encode_sig:
  "VarUInt_encode (VarUInt v) = of_nat (length (sig_bytes v)) # sig_bytes v"
  by (simp add: VarUInt_encode_def varuint_scan_strip sig_bytes_def)

lemma unat_of_nat_sig_length [simp]: "unat (of_nat (length (sig_bytes v)) :: byte) = length (sig_bytes v)"
  using length_sig_bytes [of v] by simp

lemma VarUInt_decode_encode:
  "VarUInt_decode (VarUInt_encode v @ rest) = Inr (v, rest)"
proof -
  obtain u where v: "v = VarUInt u" by (cases v)
  show ?thesis
    using length_sig_bytes [of u] by (simp add: v VarUInt_encode_sig VarUInt_decode_def Let_def)
qed

text \<open>A longer significand is a larger number, because its first byte is not 0.\<close>

lemma sig_bytes_first: "sig_bytes v = b # bs \<Longrightarrow> b \<noteq> 0"
  by (metis (mono_tags, lifting) hd_dropWhile list.distinct(1) list.sel(1) sig_bytes_def)

lemma sig_bytes_shorter_less:
  assumes "length (sig_bytes v) < length (sig_bytes w)"
  shows "v < w"
proof -
  obtain b bs where w: "sig_bytes w = b # bs" using assms by (cases "sig_bytes w") auto
  have "be_val (sig_bytes v) < 256 ^ length (sig_bytes v)" by (rule be_val_bound)
  also have "\<dots> \<le> 256 ^ length bs" using assms w by (intro power_increasing) auto
  also have "\<dots> \<le> unat b * 256 ^ length bs"
    using sig_bytes_first [OF w] by (cases "unat b") (auto simp: unat_eq_zero)
  also have "\<dots> \<le> be_val (sig_bytes w)" by (simp only: w be_val_Cons)
  finally show ?thesis by (simp add: word_less_nat_alt)
qed

lemma VarUInt_encode_mono:
  assumes "v < w"
  shows "VarUInt_encode (VarUInt v) @ r < VarUInt_encode (VarUInt w) @ s"
proof -
  let ?v = "sig_bytes v" and ?w = "sig_bytes w"
  have le: "length ?v \<le> length ?w"
    using sig_bytes_shorter_less [of w v] assms by (meson leI less_asym')
  show ?thesis
  proof (cases "length ?v = length ?w")
    case True
    have "?v < ?w" using assms True by (simp add: be_val_less_iff word_less_nat_alt)
    then show ?thesis using True by (simp add: VarUInt_encode_sig append_less_same_length)
  next
    case False
    with le have "(of_nat (length ?v) :: byte) < of_nat (length ?w)"
      by (simp add: word_less_nat_alt)
    then show ?thesis by (simp add: VarUInt_encode_sig)
  qed
qed

lemma ucast_u128_inverse:
  fixes v :: "'a::len word"
  assumes "LENGTH('a) \<le> 128"
  shows "unat (ucast v :: u128) = unat v"
proof -
  have "unat v < 2 ^ LENGTH('a)" by (rule unsigned_less)
  also have "\<dots> \<le> 2 ^ 128" using assms by (intro power_increasing) auto
  finally show ?thesis by (simp add: unsigned_ucast_eq take_bit_nat_eq_self)
qed

lemma uint_decode_encode:
  fixes v :: "'a::len word"
  assumes "LENGTH('a) \<le> 128"
  shows "uint_decode (uint_encode v @ rest) = Inr (v, rest)"
proof -
  have "unat (ucast v :: u128) < 2 ^ LENGTH('a)"
    using assms by (simp add: ucast_u128_inverse unsigned_less)
  moreover have "(ucast (ucast v :: u128) :: 'a word) = v"
    using assms
    by (simp add: word_unat_eq_iff unsigned_ucast_eq [of "ucast v :: u128"] ucast_u128_inverse
        take_bit_nat_eq_self unsigned_less)
  ultimately show ?thesis
    by (simp add: uint_decode_def uint_encode_def VarUInt_decode_encode VarUInt_try_into_def
        VarUInt_from_def)
qed

lemma uint_encode_mono:
  fixes v w :: "'a::len word"
  assumes "LENGTH('a) \<le> 128" and "v < w"
  shows "uint_encode v @ r < uint_encode w @ s"
  unfolding uint_encode_def VarUInt_from_def
  by (rule VarUInt_encode_mono) (use assms in \<open>simp add: word_less_nat_alt ucast_u128_inverse\<close>)

interpretation varuint: codec VarUInt_encode VarUInt_decode "\<lambda>_. True"
  by unfold_locales (rule VarUInt_decode_encode)

interpretation u16: ordered_codec "uint_encode :: u16 \<Rightarrow> bytes" uint_decode "\<lambda>_. True"
  by unfold_locales (simp_all add: uint_decode_encode uint_encode_mono)

interpretation u32: ordered_codec "uint_encode :: u32 \<Rightarrow> bytes" uint_decode "\<lambda>_. True"
  by unfold_locales (simp_all add: uint_decode_encode uint_encode_mono)

interpretation u64: ordered_codec "uint_encode :: u64 \<Rightarrow> bytes" uint_decode "\<lambda>_. True"
  by unfold_locales (simp_all add: uint_decode_encode uint_encode_mono)

interpretation u128: ordered_codec "uint_encode :: u128 \<Rightarrow> bytes" uint_decode "\<lambda>_. True"
  by unfold_locales (simp_all add: uint_decode_encode uint_encode_mono)

section \<open>Scalars and byte arrays\<close>

definition u8_encode :: "u8 \<Rightarrow> bytes" where
  "u8_encode b = [b]"

definition u8_decode :: "u8 decoder" where
  "u8_decode bs =
     (case bs of
        [] \<Rightarrow> Inl (Fail (MalformedInput ''Insufficient bytes for u8 decoding''))
      | b # rest \<Rightarrow> Inr (b, rest))"

definition bool_encode :: "bool \<Rightarrow> bytes" where
  "bool_encode b = [if b then 1 else 0]"

definition bool_decode :: "bool decoder" where
  "bool_decode bs =
     and_then (u8_decode bs)
       (\<lambda>byte rem.
          if byte = 0 then Inr (False, rem)
          else if byte = 1 then Inr (True, rem)
          else Inl (Fail (MalformedInput ''bool byte not 0 or 1'')))"

text \<open>\<open>[u8; N]\<close>: the bytes themselves.\<close>

definition array_encode :: "bytes \<Rightarrow> bytes" where
  "array_encode a = a"

definition array_decode :: "nat \<Rightarrow> bytes decoder" where
  "array_decode N bs =
     (if N \<le> length bs then Inr (take N bs, drop N bs)
      else Inl (Fail (MalformedInput ''Insufficient bytes for array decoding'')))"

lemma u8_decode_encode: "u8_decode (u8_encode b @ rest) = Inr (b, rest)"
  by (simp add: u8_decode_def u8_encode_def)

lemma bool_decode_encode: "bool_decode (bool_encode b @ rest) = Inr (b, rest)"
  by (simp add: bool_decode_def bool_encode_def u8_decode_def)

lemma array_decode_encode: "length a = N \<Longrightarrow> array_decode N (array_encode a @ rest) = Inr (a, rest)"
  by (simp add: array_decode_def array_encode_def)

interpretation u8: ordered_codec u8_encode u8_decode "\<lambda>_. True"
  by unfold_locales (rule u8_decode_encode, simp add: u8_encode_def)

interpretation bool: codec bool_encode bool_decode "\<lambda>_. True"
  by unfold_locales (rule bool_decode_encode)

interpretation array: ordered_codec array_encode "array_decode N" "\<lambda>a. length a = N" for N
  by unfold_locales
    (simp_all add: array_decode_encode, simp add: array_encode_def append_less_same_length)

section \<open>Tuples, options, vectors and maps\<close>

definition pair_encode :: "('a \<Rightarrow> bytes) \<Rightarrow> ('b \<Rightarrow> bytes) \<Rightarrow> 'a \<times> 'b \<Rightarrow> bytes" where
  "pair_encode encA encB p = encA (fst p) @ encB (snd p)"

definition pair_decode :: "'a decoder \<Rightarrow> 'b decoder \<Rightarrow> ('a \<times> 'b) decoder" where
  "pair_decode decA decB bs =
     and_then (decA bs) (\<lambda>first bs.
     and_then (decB bs) (\<lambda>second bs. Inr ((first, second), bs)))"

definition triple_encode ::
  "('a \<Rightarrow> bytes) \<Rightarrow> ('b \<Rightarrow> bytes) \<Rightarrow> ('c \<Rightarrow> bytes) \<Rightarrow> 'a \<times> 'b \<times> 'c \<Rightarrow> bytes" where
  "triple_encode encA encB encC p = encA (fst p) @ encB (fst (snd p)) @ encC (snd (snd p))"

definition triple_decode ::
  "'a decoder \<Rightarrow> 'b decoder \<Rightarrow> 'c decoder \<Rightarrow> ('a \<times> 'b \<times> 'c) decoder" where
  "triple_decode decA decB decC bs =
     and_then (decA bs) (\<lambda>first bs.
     and_then (decB bs) (\<lambda>second bs.
     and_then (decC bs) (\<lambda>third bs. Inr ((first, second, third), bs))))"

definition option_encode :: "('a \<Rightarrow> bytes) \<Rightarrow> 'a option \<Rightarrow> bytes" where
  "option_encode enc x =
     bool_encode (x \<noteq> None) @ (case x of None \<Rightarrow> [] | Some t \<Rightarrow> enc t)"

definition option_decode :: "'a decoder \<Rightarrow> 'a option decoder" where
  "option_decode dec bs =
     and_then (bool_decode bs) (\<lambda>presence bs.
       if \<not> presence then Inr (None, bs)
       else and_then (dec bs) (\<lambda>value bs. Inr (Some value, bs)))"

definition vec_encode :: "('a \<Rightarrow> bytes) \<Rightarrow> 'a list \<Rightarrow> bytes" where
  "vec_encode enc xs = VarUInt_encode (VarUInt_from (of_nat (length xs) :: usize)) @ concat (map enc xs)"

text \<open>The loop \<open>for _ in 0..len\<close> of the vector decoder.\<close>

primrec items_decode :: "'a decoder \<Rightarrow> nat \<Rightarrow> 'a list decoder" where
  "items_decode dec 0 bs = Inr ([], bs)"
| "items_decode dec (Suc n) bs =
     and_then (dec bs) (\<lambda>item rest.
     and_then (items_decode dec n rest) (\<lambda>items rest. Inr (item # items, rest)))"

definition vec_decode :: "'a decoder \<Rightarrow> 'a list decoder" where
  "vec_decode dec bs =
     and_then (VarUInt_decode bs) (\<lambda>v bs.
       case (VarUInt_try_into v :: failure + usize) of
         Inl e \<Rightarrow> Inl e
       | Inr len \<Rightarrow> items_decode dec (unat len) bs)"

text \<open>
  An \<open>IndexMap\<close> is its entries in insertion order; inserting a present key replaces the value in
  place.
\<close>

definition im_insert :: "'k \<Rightarrow> 'v \<Rightarrow> ('k \<times> 'v) list \<Rightarrow> ('k \<times> 'v) list" where
  "im_insert k v m =
     (if k \<in> fst ` set m then map (\<lambda>(k', v'). if k' = k then (k', v) else (k', v')) m
      else m @ [(k, v)])"

definition indexmap_encode :: "('k \<Rightarrow> bytes) \<Rightarrow> ('v \<Rightarrow> bytes) \<Rightarrow> ('k \<times> 'v) list \<Rightarrow> bytes" where
  "indexmap_encode encK encV m =
     VarUInt_encode (VarUInt_from (of_nat (length m) :: usize)) @
     concat (map (\<lambda>(k, v). encK k @ encV v) m)"

primrec entries_decode ::
  "'k decoder \<Rightarrow> 'v decoder \<Rightarrow> nat \<Rightarrow> ('k \<times> 'v) list \<Rightarrow> ('k \<times> 'v) list decoder" where
  "entries_decode decK decV 0 m bs = Inr (m, bs)"
| "entries_decode decK decV (Suc n) m bs =
     and_then (decK bs) (\<lambda>key rest.
     and_then (decV rest) (\<lambda>value rest. entries_decode decK decV n (im_insert key value m) rest))"

definition indexmap_decode :: "'k decoder \<Rightarrow> 'v decoder \<Rightarrow> ('k \<times> 'v) list decoder" where
  "indexmap_decode decK decV bs =
     and_then (VarUInt_decode bs) (\<lambda>len bs. entries_decode decK decV (unat (inner len)) [] bs)"

locale codec_pair = left: codec encA decA wfA + right: codec encB decB wfB
  for encA :: "'a \<Rightarrow> bytes" and decA :: "'a decoder" and wfA :: "'a \<Rightarrow> bool"
    and encB :: "'b \<Rightarrow> bytes" and decB :: "'b decoder" and wfB :: "'b \<Rightarrow> bool"
begin

lemma pair_decode_encode:
  "wfA (fst p) \<Longrightarrow> wfB (snd p) \<Longrightarrow> pair_decode decA decB (pair_encode encA encB p @ rest) = Inr (p, rest)"
  by (simp add: pair_decode_def pair_encode_def left.dec_enc right.dec_enc)

lemma entries_decode_encode:
  assumes "\<forall>(k, v) \<in> set es. wfA k \<and> wfB v" and "distinct (map fst (m @ es))"
  shows "entries_decode decA decB (length es) m (concat (map (\<lambda>(k, v). encA k @ encB v) es) @ rest)
           = Inr (m @ es, rest)"
  using assms
proof (induction es arbitrary: m)
  case Nil
  then show ?case by simp
next
  case (Cons e es)
  obtain k v where e: "e = (k, v)" by (cases e)
  have "im_insert k v m = m @ [(k, v)]" using Cons.prems(2) by (auto simp: im_insert_def e)
  moreover have "wfA k" "wfB v" using Cons.prems(1) by (simp_all add: e)
  ultimately show ?case
    using Cons.IH [of "m @ [(k, v)]"] Cons.prems by (simp add: e left.dec_enc right.dec_enc)
qed

end

sublocale codec_pair \<subseteq> pair:
  codec "pair_encode encA encB" "pair_decode decA decB" "\<lambda>p. wfA (fst p) \<and> wfB (snd p)"
  by unfold_locales (simp add: pair_decode_encode)

locale codec_elem = elem: codec enc dec wf
  for enc :: "'a \<Rightarrow> bytes" and dec :: "'a decoder" and wf :: "'a \<Rightarrow> bool"
begin

lemma option_decode_encode:
  "(\<forall>t. x = Some t \<longrightarrow> wf t) \<Longrightarrow> option_decode dec (option_encode enc x @ rest) = Inr (x, rest)"
  by (cases x) (simp_all add: option_decode_def option_encode_def bool.dec_enc elem.dec_enc)

lemma items_decode_encode:
  "\<forall>x \<in> set xs. wf x \<Longrightarrow> items_decode dec (length xs) (concat (map enc xs) @ rest) = Inr (xs, rest)"
  by (induction xs) (simp_all add: elem.dec_enc)

lemma vec_decode_encode:
  assumes "\<forall>x \<in> set xs. wf x" and "length xs < 2 ^ 64"
  shows "vec_decode dec (vec_encode enc xs @ rest) = Inr (xs, rest)"
proof -
  let ?n = "of_nat (length xs) :: usize"
  have n: "unat ?n = length xs" using assms(2) by (simp add: unat_of_nat)
  have "VarUInt_try_into (VarUInt_from ?n) = (Inr ?n :: failure + usize)"
    using uint_decode_encode [of ?n "[]"]
    by (auto simp: uint_decode_def uint_encode_def varuint.dec_enc_exact split: sum.splits)
  then show ?thesis
    using items_decode_encode [OF assms(1)] n
    by (simp add: vec_decode_def vec_encode_def VarUInt_decode_encode)
qed

end

sublocale codec_elem \<subseteq> option:
  codec "option_encode enc" "option_decode dec" "\<lambda>x. \<forall>t. x = Some t \<longrightarrow> wf t"
  by unfold_locales (simp add: option_decode_encode)

sublocale codec_elem \<subseteq> vec:
  codec "vec_encode enc" "vec_decode dec" "\<lambda>xs. (\<forall>x \<in> set xs. wf x) \<and> length xs < 2 ^ 64"
  by unfold_locales (simp add: vec_decode_encode)

context codec_pair
begin

lemma indexmap_decode_encode:
  assumes "\<forall>(k, v) \<in> set m. wfA k \<and> wfB v" and "distinct (map fst m)" and "length m < 2 ^ 64"
  shows "indexmap_decode decA decB (indexmap_encode encA encB m @ rest) = Inr (m, rest)"
proof -
  let ?n = "of_nat (length m) :: usize"
  have "unat (inner (VarUInt_from ?n)) = length m"
    using assms by (simp add: VarUInt_from_def ucast_u128_inverse unat_of_nat)
  then show ?thesis
    using assms entries_decode_encode [of m "[]" rest]
    by (simp add: indexmap_decode_def indexmap_encode_def VarUInt_decode_encode)
qed

end

sublocale codec_pair \<subseteq> indexmap:
  codec "indexmap_encode encA encB" "indexmap_decode decA decB"
    "\<lambda>m. (\<forall>(k, v) \<in> set m. wfA k \<and> wfB v) \<and> distinct (map fst m) \<and> length m < 2 ^ 64"
  by unfold_locales (simp add: indexmap_decode_encode)

section \<open>Strings\<close>

text \<open>A byte string of at most 255 bytes, with one length byte (the length \<open>as u8\<close>).\<close>

datatype ShortByteString = ShortByteString (short_bytes: bytes)

definition ShortByteString_try_from :: "bytes \<Rightarrow> bytes + ShortByteString" where
  "ShortByteString_try_from bs = (if length bs > 255 then Inl bs else Inr (ShortByteString bs))"

definition ShortByteString_encode :: "ShortByteString \<Rightarrow> bytes" where
  "ShortByteString_encode s = u8_encode (of_nat (length (short_bytes s))) @ short_bytes s"

definition ShortByteString_decode :: "ShortByteString decoder" where
  "ShortByteString_decode bs =
     (case bs of
        [] \<Rightarrow> Inl Panic
      | b # rest \<Rightarrow>
          (let len = unat b in
           if len > length rest then Inl Panic
           else Inr (ShortByteString (take len rest), drop len rest)))"

lemma ShortByteString_decode_encode:
  "length (short_bytes s) \<le> 255 \<Longrightarrow>
     ShortByteString_decode (ShortByteString_encode s @ rest) = Inr (s, rest)"
  by (simp add: ShortByteString_decode_def ShortByteString_encode_def u8_encode_def Let_def)

interpretation short: codec ShortByteString_encode ShortByteString_decode
  "\<lambda>s. length (short_bytes s) \<le> 255"
  by unfold_locales (rule ShortByteString_decode_encode)

lemma ShortByteString_try_from_wf:
  "ShortByteString_try_from bs = Inr s \<Longrightarrow> short_bytes s = bs \<and> length (short_bytes s) \<le> 255"
  by (auto simp: ShortByteString_try_from_def split: if_splits)

text \<open>Well-formed UTF-8 (\<open>String::from_utf8\<close>), by the byte ranges of the Unicode standard.\<close>

definition utf8_tail :: "byte \<Rightarrow> bool" where
  "utf8_tail b \<longleftrightarrow> 0x80 \<le> b \<and> b \<le> 0xBF"

fun utf8_valid :: "bytes \<Rightarrow> bool" where
  "utf8_valid [] = True"
| "utf8_valid (b1 # bs) =
     (if b1 \<le> 0x7F then utf8_valid bs
      else if 0xC2 \<le> b1 \<and> b1 \<le> 0xDF then
        (case bs of b2 # cs \<Rightarrow> utf8_tail b2 \<and> utf8_valid cs | _ \<Rightarrow> False)
      else if 0xE0 \<le> b1 \<and> b1 \<le> 0xEF then
        (case bs of b2 # b3 # cs \<Rightarrow>
            (if b1 = 0xE0 then 0xA0 \<le> b2 \<and> b2 \<le> 0xBF
             else if b1 = 0xED then 0x80 \<le> b2 \<and> b2 \<le> 0x9F else utf8_tail b2)
            \<and> utf8_tail b3 \<and> utf8_valid cs
         | _ \<Rightarrow> False)
      else if 0xF0 \<le> b1 \<and> b1 \<le> 0xF4 then
        (case bs of b2 # b3 # b4 # cs \<Rightarrow>
            (if b1 = 0xF0 then 0x90 \<le> b2 \<and> b2 \<le> 0xBF
             else if b1 = 0xF4 then 0x80 \<le> b2 \<and> b2 \<le> 0x8F else utf8_tail b2)
            \<and> utf8_tail b3 \<and> utf8_tail b4 \<and> utf8_valid cs
         | _ \<Rightarrow> False)
      else False)"

text \<open>
  The string codec as written: the length is written as a variable-length integer, and read back
  from the first four bytes only, which are also all the bytes the content is then taken from.
\<close>

definition String_encode :: "bytes \<Rightarrow> bytes" where
  "String_encode s = uint_encode (of_nat (length s) :: usize) @ s"

definition String_decode :: "bytes decoder" where
  "String_decode bs =
     (if length bs < 4 then Inl Panic
      else and_then (uint_decode (take 4 bs) :: u32 decoded) (\<lambda>len bs.
        if unat len > length bs then Inl Panic
        else if utf8_valid (take (unat len) bs) then Inr (take (unat len) bs, drop (unat len) bs)
        else Inl (Fail InvalidUtf8)))"

section \<open>The cursor and the split-commit lock\<close>

record CursorValue =
  cv_height :: u64
  cv_hash :: bytes
  cv_was_mempool :: bool
  cv_timestamp :: u64
  cv_mempool_info :: "((u64 \<times> bytes) \<times> u64) option"

record SplitCommitLockValue =
  safe_point :: "(u64 \<times> bytes) option"
  total_actions :: u64
  mutable :: bool

abbreviation point_encode :: "u64 \<times> bytes \<Rightarrow> bytes" where
  "point_encode \<equiv> pair_encode uint_encode array_encode"

abbreviation point_decode :: "(u64 \<times> bytes) decoder" where
  "point_decode \<equiv> pair_decode uint_decode (array_decode 32)"

definition CursorValue_encode :: "CursorValue \<Rightarrow> bytes" where
  "CursorValue_encode c =
     concat [uint_encode (cv_height c), array_encode (cv_hash c), bool_encode (cv_was_mempool c),
       uint_encode (cv_timestamp c),
       option_encode (pair_encode point_encode uint_encode) (cv_mempool_info c)]"

definition CursorValue_decode :: "CursorValue decoder" where
  "CursorValue_decode bs =
     and_then (uint_decode bs) (\<lambda>height bs.
     and_then (array_decode 32 bs) (\<lambda>hash bs.
     and_then (bool_decode bs) (\<lambda>was_mempool bs.
     and_then (uint_decode bs) (\<lambda>timestamp bs.
     and_then (option_decode (pair_decode point_decode uint_decode) bs) (\<lambda>mempool_info bs.
       Inr (\<lparr>cv_height = height, cv_hash = hash, cv_was_mempool = was_mempool,
             cv_timestamp = timestamp, cv_mempool_info = mempool_info\<rparr>, bs))))))"

definition SplitCommitLockValue_encode :: "SplitCommitLockValue \<Rightarrow> bytes" where
  "SplitCommitLockValue_encode l =
     concat [option_encode point_encode (safe_point l), uint_encode (total_actions l),
       bool_encode (mutable l)]"

definition SplitCommitLockValue_decode :: "SplitCommitLockValue decoder" where
  "SplitCommitLockValue_decode bs =
     and_then (option_decode point_decode bs) (\<lambda>safe_point bs.
     and_then (uint_decode bs) (\<lambda>total_actions bs.
     and_then (bool_decode bs) (\<lambda>mutable bs.
       Inr (\<lparr>safe_point = safe_point, total_actions = total_actions, mutable = mutable\<rparr>, bs))))"

definition point_wf :: "u64 \<times> bytes \<Rightarrow> bool" where
  "point_wf p \<longleftrightarrow> length (snd p) = 32"

definition CursorValue_wf :: "CursorValue \<Rightarrow> bool" where
  "CursorValue_wf c \<longleftrightarrow>
     length (cv_hash c) = 32 \<and> (\<forall>i. cv_mempool_info c = Some i \<longrightarrow> point_wf (fst i))"

definition SplitCommitLockValue_wf :: "SplitCommitLockValue \<Rightarrow> bool" where
  "SplitCommitLockValue_wf l \<longleftrightarrow> (\<forall>p. safe_point l = Some p \<longrightarrow> point_wf p)"

interpretation point: codec_pair "uint_encode :: u64 \<Rightarrow> bytes" uint_decode "\<lambda>_. True"
  array_encode "array_decode 32" "\<lambda>a. length a = 32"
  by unfold_locales

interpretation opt_point: codec_elem point_encode point_decode point_wf
  by unfold_locales (simp add: point.pair_decode_encode point_wf_def)

interpretation mempool_info: codec_pair point_encode point_decode point_wf
  "uint_encode :: u64 \<Rightarrow> bytes" uint_decode "\<lambda>_. True"
  by unfold_locales

interpretation opt_mempool_info: codec_elem "pair_encode point_encode (uint_encode :: u64 \<Rightarrow> bytes)"
  "pair_decode point_decode uint_decode" "\<lambda>p. point_wf (fst p)"
  by unfold_locales (simp add: mempool_info.pair_decode_encode)

lemmas codec_roundtrips [codec_simps] =
  u64.dec_enc u32.dec_enc u16.dec_enc u128.dec_enc u8.dec_enc bool.dec_enc array_decode_encode
  short.dec_enc opt_point.option_decode_encode opt_mempool_info.option_decode_encode

interpretation cursor: codec CursorValue_encode CursorValue_decode CursorValue_wf
  by unfold_locales
    (simp add: CursorValue_encode_def CursorValue_decode_def CursorValue_wf_def codec_simps)

interpretation lock: codec SplitCommitLockValue_encode SplitCommitLockValue_decode
  SplitCommitLockValue_wf
  by unfold_locales
    (simp add: SplitCommitLockValue_encode_def SplitCommitLockValue_decode_def
      SplitCommitLockValue_wf_def codec_simps)

section \<open>Decoding arbitrary bytes\<close>

lemma and_then_Panic:
  "and_then r f = Inl Panic \<Longrightarrow> r = Inl Panic \<or> (\<exists>x rest. r = Inr (x, rest) \<and> f x rest = Inl Panic)"
  by (auto simp: and_then_def split: sum.splits)

lemma scalar_decoders_no_Panic [simp]:
  "VarUInt_decode bs \<noteq> Inl Panic"
  "u8_decode bs \<noteq> Inl Panic"
  "bool_decode bs \<noteq> Inl Panic"
  "array_decode N bs \<noteq> Inl Panic"
  "(uint_decode bs :: 'a::len word decoded) \<noteq> Inl Panic"
  by (auto simp: VarUInt_decode_def u8_decode_def bool_decode_def array_decode_def uint_decode_def
      VarUInt_try_into_def and_then_def Let_def split: list.splits sum.splits if_splits)

lemma pair_decode_no_Panic [simp]:
  "(\<And>bs. decA bs \<noteq> Inl Panic) \<Longrightarrow> (\<And>bs. decB bs \<noteq> Inl Panic) \<Longrightarrow> pair_decode decA decB bs \<noteq> Inl Panic"
  by (auto simp: pair_decode_def dest!: and_then_Panic)

lemma option_decode_no_Panic [simp]:
  "(\<And>bs. dec bs \<noteq> Inl Panic) \<Longrightarrow> option_decode dec bs \<noteq> Inl Panic"
  by (auto simp: option_decode_def dest!: and_then_Panic split: if_splits)

lemma items_decode_no_Panic [simp]:
  "(\<And>bs. dec bs \<noteq> Inl Panic) \<Longrightarrow> items_decode dec n bs \<noteq> Inl Panic"
  by (induction n arbitrary: bs) (auto dest!: and_then_Panic)

lemma vec_decode_no_Panic [simp]:
  "(\<And>bs. dec bs \<noteq> Inl Panic) \<Longrightarrow> vec_decode dec bs \<noteq> Inl Panic"
  by (auto simp: vec_decode_def VarUInt_try_into_def dest!: and_then_Panic split: sum.splits if_splits)

lemma sig_bytes_lower_bound:
  assumes "sig_bytes v \<noteq> []"
  shows "256 ^ (length (sig_bytes v) - 1) \<le> unat v"
proof -
  obtain b bs where v: "sig_bytes v = b # bs" using assms by (cases "sig_bytes v") auto
  have "1 \<le> unat b" using sig_bytes_first [OF v] by (cases "unat b") (auto simp: unat_eq_zero)
  then have "1 * 256 ^ length bs \<le> unat b * 256 ^ length bs" by (rule mult_le_mono1)
  also have "\<dots> \<le> unat v" using be_val_sig_bytes [of v] by (simp add: v be_val_Cons)
  finally show ?thesis by (simp add: v)
qed

lemma String_encode_sig:
  assumes "length s < 2 ^ 64"
  obtains v where "unat v = length s"
    and "String_encode s = of_nat (length (sig_bytes v)) # sig_bytes v @ s"
proof
  let ?v = "ucast (of_nat (length s) :: usize) :: u128"
  show "unat ?v = length s" using assms by (simp add: ucast_u128_inverse unat_of_nat)
  show "String_encode s = of_nat (length (sig_bytes ?v)) # sig_bytes ?v @ s"
    by (simp add: String_encode_def uint_encode_def VarUInt_from_def VarUInt_encode_sig)
qed

lemma String_decode_needs_three:
  assumes "String_decode (of_nat n # sig @ s) = Inr (s, [])"
    and "n \<le> 16" and "length sig = n" and "be_val sig = length s"
  shows "n + length s = 3"
proof -
  let ?four = "of_nat n # take 3 (sig @ s) :: bytes"
  have long: "3 \<le> n + length s"
    using assms(1,3) by (auto simp: String_decode_def split: if_splits)
  obtain len :: u32 and rem where u: "uint_decode ?four = Inr (len, rem)"
    and rem: "unat len \<le> length rem"
    using assms(1) by (auto simp: String_decode_def and_then_def split: if_splits sum.splits prod.splits)
  have n: "n \<le> 3"
  proof (rule ccontr)
    assume "\<not> n \<le> 3"
    then have "VarUInt_decode ?four = Inl (Fail (MalformedInput ''Insufficient bytes for VarUInt decode''))"
      using assms(2,3) by (simp add: VarUInt_decode_def)
    with u show False by (simp add: uint_decode_def)
  qed
  have "VarUInt_decode ?four = Inr (VarUInt (of_nat (length s)), take (3 - n) s)"
    using n assms(3,4) by (simp add: VarUInt_decode_def Let_def min_def)
  with u have "VarUInt_try_into (VarUInt (of_nat (length s))) = (Inr len :: failure + u32)"
    and r: "rem = take (3 - n) s"
    by (auto simp: uint_decode_def split: sum.splits)
  moreover have "length s < 2 ^ 24"
  proof -
    have "length s < 256 ^ n" using be_val_bound [of sig] assms(3,4) by simp
    also have "\<dots> \<le> 256 ^ 3" using n by (rule power_increasing) simp
    finally show ?thesis by simp
  qed
  ultimately have "unat len = length s"
    by (auto simp: VarUInt_try_into_def unat_of_nat unsigned_ucast_eq take_bit_nat_eq_self
        split: if_splits)
  with rem r show ?thesis using long n by simp
qed

section \<open>Properties\<close>

text \<open>A cursor with a mempool view, for the witnesses.\<close>

definition sample_cursor :: CursorValue where
  "sample_cursor =
     \<lparr>cv_height = 840000, cv_hash = replicate 32 1, cv_was_mempool = True, cv_timestamp = 1713571767,
      cv_mempool_info = Some ((840001, replicate 32 2), 1713571800)\<rparr>"

text \<open>
  C9: an unsigned integer of any width up to 128 bits is decoded back from its encoding whatever
  follows it, and the byte order of encodings, with anything appended, is the order of the numbers.
\<close>

theorem uint_codec_ordered:
  fixes v w :: "'a::len word"
  assumes "LENGTH('a) \<le> 128"
  shows "uint_decode (uint_encode v @ rest) = Inr (v, rest) \<and>
         (uint_encode v @ r < uint_encode w @ s \<longleftrightarrow> v < w \<or> (v = w \<and> r < s))"
proof -
  consider "v < w" | "v = w" | "w < v" by fastforce
  then have "uint_encode v @ r < uint_encode w @ s \<longleftrightarrow> v < w \<or> (v = w \<and> r < s)"
    by cases (use uint_encode_mono [OF assms, of v w r s] uint_encode_mono [OF assms, of w v s r] in auto)
  then show ?thesis by (simp add: uint_decode_encode assms)
qed

theorem uint_codec_ordered_witness:
  "uint_decode (uint_encode (256 :: u32) @ [7]) = Inr (256 :: u32, [7]) \<and>
   (uint_encode (255 :: u32) @ [9] < uint_encode (256 :: u32) @ [])"
  using uint_codec_ordered [where v = "256 :: u32" and rest = "[7]"]
    uint_codec_ordered [where v = "255 :: u32" and w = "256 :: u32" and r = "[9]" and s = "[]"]
  by simp

text \<open>
  C14: a cursor is decoded back whatever follows it, and a reader that only knows the older format,
  the pair of height and hash, reads exactly the cursor's point from the same bytes.
\<close>

theorem cursor_codec_roundtrip:
  assumes "CursorValue_wf c"
  shows "CursorValue_decode (CursorValue_encode c @ rest) = Inr (c, rest) \<and>
         (\<exists>tail. point_decode (CursorValue_encode c) = Inr ((cv_height c, cv_hash c), tail))"
proof
  show "CursorValue_decode (CursorValue_encode c @ rest) = Inr (c, rest)"
    using assms by (rule cursor.dec_enc)
  have "length (cv_hash c) = 32" using assms by (simp add: CursorValue_wf_def)
  then show "\<exists>tail. point_decode (CursorValue_encode c) = Inr ((cv_height c, cv_hash c), tail)"
    by (simp add: CursorValue_encode_def pair_decode_def codec_simps)
qed

theorem cursor_codec_roundtrip_witness:
  "CursorValue_decode (CursorValue_encode sample_cursor @ [5]) = Inr (sample_cursor, [5])"
  using cursor_codec_roundtrip [of sample_cursor "[5]"]
  by (simp add: sample_cursor_def CursorValue_wf_def point_wf_def)


text \<open>
  C16: the string codec does not round-trip: the decoder looks at four bytes only, so of all valid
  strings it returns exactly those of two bytes. Shorter strings and strings of up to
  \<open>2 ^ 24 - 1\<close> bytes panic, longer ones are rejected.
\<close>

theorem String_codec_partial:
  assumes "utf8_valid s" and "length s < 2 ^ 64"
  shows "String_decode (String_encode s) = Inr (s, []) \<longleftrightarrow> length s = 2"
proof
  assume ok: "String_decode (String_encode s) = Inr (s, [])"
  obtain v where v: "unat v = length s"
    "String_encode s = of_nat (length (sig_bytes v)) # sig_bytes v @ s"
    using String_encode_sig [OF assms(2)] .
  let ?n = "length (sig_bytes v)"
  have sum: "?n + length s = 3"
    by (rule String_decode_needs_three [where sig = "sig_bytes v"])
      (use ok v length_sig_bytes in simp_all)
  then have "sig_bytes v \<noteq> []" using be_val_sig_bytes [of v] v(1) by (cases "sig_bytes v") auto
  then have "256 ^ (?n - 1) \<le> length s" using sig_bytes_lower_bound [of v] v(1) by simp
  then have "256 ^ (?n - 1) < (256 :: nat) ^ 1" using sum by simp
  then have "?n - 1 < 1" by (rule power_less_imp_less_exp [rotated]) simp
  then show "length s = 2" using sum \<open>sig_bytes v \<noteq> []\<close> by (cases "sig_bytes v") auto
next
  assume two: "length s = 2"
  have "uint_encode (2 :: usize) = [1, 2]" by code_simp
  moreover have "uint_encode (2 :: u32) = [1, 2]" by code_simp
  then have "uint_decode [1, 2, x, y] = Inr (2 :: u32, [x, y])" for x y
    using uint_decode_encode [of "2 :: u32" "[x, y]"] by simp
  moreover obtain x y where s: "s = [x, y]" using two by (auto simp: length_Suc_conv eval_nat_numeral)
  ultimately show "String_decode (String_encode s) = Inr (s, [])"
    using assms(1) by (simp add: s String_encode_def String_decode_def del: utf8_valid.simps)
qed

theorem String_codec_partial_witness:
  "String_decode (String_encode [98, 116, 99]) \<noteq> Inr ([98, 116, 99], []) \<and>
   String_decode (String_encode [98, 116]) = Inr ([98, 116], [])"
  using String_codec_partial [of "[98, 116, 99]"] String_codec_partial [of "[98, 116]"] by simp

end
