(* ===== verification/Timbre_Keys.thy ===== *)
theory Timbre_Keys
  imports Timbre_Codec
begin

text \<open>
  The key space of the database (\<open>crates/timbre-xbt/src/encdec/builder.rs\<close>,
  \<open>encdec/namespace.rs\<close>, \<open>lib.rs\<close>, \<open>reducers/mod.rs\<close>, \<open>rollback/mod.rs\<close>,
  \<open>ingestors/miner.rs\<close>): the builder that puts keys together, the namespace of an instance, the
  families of keys an instance owns, and the ranges its scans ask for.

  The lemmas show that a prefix range holds exactly the keys with the prefix, that two keys of any
  families and namespaces are equal only when family, namespace and contents are, and that a
  bounded scan returns exactly the entries whose ordered component lies within the bounds.
\<close>

section \<open>Reducers and ingestors\<close>

datatype Reducer =
    Reducer_EtchingByRuneId
  | Reducer_MintsByRuneId
  | Reducer_UtxosByRuneId
  | Reducer_UtxosByScriptHash
  | Reducer_RunesByUtxo
  | Reducer_RuneInfoByRuneId
  | Reducer_ScriptByScriptHash
  | Reducer_ScriptHashByAddressPayloadHash
  | Reducer_RuneIdByRuneName
  | Reducer_InscriptionsByUtxo
  | Reducer_Brc20TotalBalanceByScriptHash
  | Reducer_Brc20AvailableBalanceByScriptHash
  | Reducer_Brc20TermsByTicker
  | Reducer_BalancesByBrc20
  | Reducer_TxsByScriptHash
  | Reducer_RuneBalancesByScriptHash
  | Reducer_InscriptionsByScriptHash
  | Reducer_ContentByInscriptionId
  | Reducer_TransferInscriptionsByScriptHash
  | Reducer_SatsPerVbByBlock
  | Reducer_InscriptionUtxosByScriptHash
  | Reducer_InscriptionActivityByBlock
  | Reducer_BlockByTxHash
  | Reducer_HeightByBlockHash
  | Reducer_InscriptionActivityByTx
  | Reducer_TxsByInscription
  | Reducer_TxInfo
  | Reducer_BlockInfo
  | Reducer_TxsByBlock
  | Reducer_BalancesByRuneId
  | Reducer_SpendingTxByTxo
  | Reducer_RuneUtxosByScriptHash
  | Reducer_TxsByRuneId
  | Reducer_TxFirstSeenTimestamp
  | Reducer_RuneTxsByScriptHash
  | Reducer_SatBalanceByScriptHash
  | Reducer_SatTxsByScriptHash
  | Reducer_InscriptionActivityByScriptHash
  | Reducer_InscriptionActivityByTxV2
  | Reducer_TotalTxsByScriptHash
  | Reducer_TotalUtxosByScriptHash
  | Reducer_TotalInscriptionsByScriptHash
  | Reducer_HeightByTimestamp
  | Reducer_HistoricalSatBalanceByScriptHash
  | Reducer_TotalOutputsByScriptHash
  | Reducer_TotalSatInOutputsByScriptHash
  | Reducer_TotalSatInInputsByScriptHash

fun Reducer_tag :: "Reducer \<Rightarrow> u8" where
  "Reducer_tag Reducer_EtchingByRuneId = 97"
| "Reducer_tag Reducer_MintsByRuneId = 98"
| "Reducer_tag Reducer_UtxosByRuneId = 99"
| "Reducer_tag Reducer_UtxosByScriptHash = 100"
| "Reducer_tag Reducer_RunesByUtxo = 101"
| "Reducer_tag Reducer_RuneInfoByRuneId = 102"
| "Reducer_tag Reducer_ScriptByScriptHash = 103"
| "Reducer_tag Reducer_ScriptHashByAddressPayloadHash = 104"
| "Reducer_tag Reducer_RuneIdByRuneName = 105"
| "Reducer_tag Reducer_InscriptionsByUtxo = 106"
| "Reducer_tag Reducer_Brc20TotalBalanceByScriptHash = 107"
| "Reducer_tag Reducer_Brc20AvailableBalanceByScriptHash = 108"
| "Reducer_tag Reducer_Brc20TermsByTicker = 109"
| "Reducer_tag Reducer_BalancesByBrc20 = 110"
| "Reducer_tag Reducer_TxsByScriptHash = 111"
| "Reducer_tag Reducer_RuneBalancesByScriptHash = 112"
| "Reducer_tag Reducer_InscriptionsByScriptHash = 113"
| "Reducer_tag Reducer_ContentByInscriptionId = 114"
| "Reducer_tag Reducer_TransferInscriptionsByScriptHash = 115"
| "Reducer_tag Reducer_SatsPerVbByBlock = 116"
| "Reducer_tag Reducer_InscriptionUtxosByScriptHash = 117"
| "Reducer_tag Reducer_InscriptionActivityByBlock = 118"
| "Reducer_tag Reducer_BlockByTxHash = 119"
| "Reducer_tag Reducer_HeightByBlockHash = 120"
| "Reducer_tag Reducer_InscriptionActivityByTx = 121"
| "Reducer_tag Reducer_TxsByInscription = 122"
| "Reducer_tag Reducer_TxInfo = 123"
| "Reducer_tag Reducer_BlockInfo = 124"
| "Reducer_tag Reducer_TxsByBlock = 125"
| "Reducer_tag Reducer_BalancesByRuneId = 126"
| "Reducer_tag Reducer_SpendingTxByTxo = 127"
| "Reducer_tag Reducer_RuneUtxosByScriptHash = 129"
| "Reducer_tag Reducer_TxsByRuneId = 130"
| "Reducer_tag Reducer_TxFirstSeenTimestamp = 131"
| "Reducer_tag Reducer_RuneTxsByScriptHash = 132"
| "Reducer_tag Reducer_SatBalanceByScriptHash = 133"
| "Reducer_tag Reducer_SatTxsByScriptHash = 134"
| "Reducer_tag Reducer_InscriptionActivityByScriptHash = 135"
| "Reducer_tag Reducer_InscriptionActivityByTxV2 = 136"
| "Reducer_tag Reducer_TotalTxsByScriptHash = 137"
| "Reducer_tag Reducer_TotalUtxosByScriptHash = 138"
| "Reducer_tag Reducer_TotalInscriptionsByScriptHash = 139"
| "Reducer_tag Reducer_HeightByTimestamp = 140"
| "Reducer_tag Reducer_HistoricalSatBalanceByScriptHash = 141"
| "Reducer_tag Reducer_TotalOutputsByScriptHash = 142"
| "Reducer_tag Reducer_TotalSatInOutputsByScriptHash = 143"
| "Reducer_tag Reducer_TotalSatInInputsByScriptHash = 144"

definition Reducer_encode :: "Reducer \<Rightarrow> bytes" where
  "Reducer_encode r = [Reducer_tag r]"

datatype CollectionIngestor =
    MetadataByInscription
  | InscriptionsBySymbol
  | TokenMetadataByInscription
  | MetadataBySymbol
  | StatsBySymbol
  | OmbColorGroupByInscription

fun CollectionIngestor_tag :: "CollectionIngestor \<Rightarrow> u8" where
  "CollectionIngestor_tag MetadataByInscription = 67"
| "CollectionIngestor_tag InscriptionsBySymbol = 73"
| "CollectionIngestor_tag TokenMetadataByInscription = 77"
| "CollectionIngestor_tag MetadataBySymbol = 83"
| "CollectionIngestor_tag StatsBySymbol = 85"
| "CollectionIngestor_tag OmbColorGroupByInscription = 66"

definition CollectionIngestor_encode :: "CollectionIngestor \<Rightarrow> bytes" where
  "CollectionIngestor_encode c = [CollectionIngestor_tag c]"

datatype MinerIngestor = MinerIngestor

definition MinerIngestor_encode :: "MinerIngestor \<Rightarrow> bytes" where
  "MinerIngestor_encode m = [77]"

section \<open>The key builder\<close>

definition PREFIX_CURSOR :: byte where "PREFIX_CURSOR = 67"
definition PREFIX_DATA :: byte where "PREFIX_DATA = 68"
definition PREFIX_INFO :: byte where "PREFIX_INFO = 73"
definition PREFIX_ROLLBACK :: byte where "PREFIX_ROLLBACK = 82"
definition PREFIX_COLLECTION_METADATA :: byte where "PREFIX_COLLECTION_METADATA = 84"
definition PREFIX_MINER_METADATA :: byte where "PREFIX_MINER_METADATA = 85"
definition PREFIX_BATCHING_LOCK :: byte where "PREFIX_BATCHING_LOCK = 76"
definition PREFIX_BATCH_COMPLETE :: byte where "PREFIX_BATCH_COMPLETE = 66"
definition BREAK :: byte where "BREAK = 96"
definition BREAK_1 :: byte where "BREAK_1 = BREAK + 1"

text \<open>The builder's only field is its output; each method appends to it.\<close>

type_synonym EncodeBuilder = bytes

definition enc_new :: EncodeBuilder where "enc_new = []"
definition break0 :: "EncodeBuilder \<Rightarrow> EncodeBuilder" where "break0 out = out @ [BREAK]"
definition break1 :: "EncodeBuilder \<Rightarrow> EncodeBuilder" where "break1 out = out @ [BREAK_1]"
definition cursor_tag :: "EncodeBuilder \<Rightarrow> EncodeBuilder" where "cursor_tag out = out @ [PREFIX_CURSOR]"
definition lock_tag :: "EncodeBuilder \<Rightarrow> EncodeBuilder" where "lock_tag out = out @ [PREFIX_BATCHING_LOCK]"
definition batch_complete_tag :: "EncodeBuilder \<Rightarrow> EncodeBuilder" where
  "batch_complete_tag out = out @ [PREFIX_BATCH_COMPLETE]"
definition info_tag :: "EncodeBuilder \<Rightarrow> EncodeBuilder" where "info_tag out = out @ [PREFIX_INFO]"
definition data_tag :: "EncodeBuilder \<Rightarrow> EncodeBuilder" where "data_tag out = out @ [PREFIX_DATA]"
definition rollback_tag :: "EncodeBuilder \<Rightarrow> EncodeBuilder" where "rollback_tag out = out @ [PREFIX_ROLLBACK]"
definition collection_metadata_tag :: "EncodeBuilder \<Rightarrow> EncodeBuilder" where
  "collection_metadata_tag out = out @ [PREFIX_COLLECTION_METADATA]"
definition miner_metadata_tag :: "EncodeBuilder \<Rightarrow> EncodeBuilder" where
  "miner_metadata_tag out = out @ [PREFIX_MINER_METADATA]"

definition eb_append :: "('a \<Rightarrow> bytes) \<Rightarrow> 'a \<Rightarrow> EncodeBuilder \<Rightarrow> EncodeBuilder" where
  "eb_append encode data out = out @ encode data"

definition append_with_break :: "('a \<Rightarrow> bytes) \<Rightarrow> 'a \<Rightarrow> EncodeBuilder \<Rightarrow> EncodeBuilder" where
  "append_with_break encode data out = break0 (eb_append encode data out)"

definition build :: "EncodeBuilder \<Rightarrow> bytes" where "build out = out"

lemmas builder_defs =
  enc_new_def break0_def break1_def cursor_tag_def lock_tag_def batch_complete_tag_def info_tag_def
  data_tag_def rollback_tag_def collection_metadata_tag_def miner_metadata_tag_def eb_append_def
  append_with_break_def build_def

lemmas tag_defs =
  PREFIX_CURSOR_def PREFIX_DATA_def PREFIX_INFO_def PREFIX_ROLLBACK_def
  PREFIX_COLLECTION_METADATA_def PREFIX_MINER_METADATA_def PREFIX_BATCHING_LOCK_def
  PREFIX_BATCH_COMPLETE_def BREAK_def BREAK_1_def

section \<open>Prefix ranges\<close>

text \<open>
  The loop of \<open>prefix_key_range\<close> over the indices from the last to the first: the last byte that
  is not 255 is incremented and what follows it is cut off. With no such byte the end is empty,
  which the database reads as unbounded.
\<close>

primrec range_end_rev :: "bytes \<Rightarrow> bytes" where
  "range_end_rev [] = []"
| "range_end_rev (b # before) = (if b \<noteq> 255 then (b + 1) # before else range_end_rev before)"

definition prefix_key_range :: "bytes \<Rightarrow> bytes \<times> bytes" where
  "prefix_key_range pre = (pre, rev (range_end_rev (rev pre)))"

text \<open>Membership of a scan range: the end is exclusive, an empty end is no bound.\<close>

definition in_range :: "bytes \<times> bytes \<Rightarrow> bytes \<Rightarrow> bool" where
  "in_range r k \<longleftrightarrow> fst r \<le> k \<and> (snd r = [] \<or> k < snd r)"

section \<open>Namespaces and key families\<close>

record Namespace =
  dataplane_id :: u8
  instance_id :: u16

definition Namespace_encode :: "Namespace \<Rightarrow> bytes" where
  "Namespace_encode ns =
     build (eb_append array_encode (be_bytes 2 (unat (instance_id ns)))
       (eb_append array_encode (be_bytes 1 (unat (dataplane_id ns))) enc_new))"

definition Namespace_size :: nat where "Namespace_size = 1 + 2"

definition Namespace_decode :: "Namespace decoder" where
  "Namespace_decode bs =
     (if length bs < Namespace_size then
        Inl (Fail (MalformedInput ''Insufficient bytes for Namespace decode''))
      else Inr (\<lparr>dataplane_id = bs ! 0, instance_id = of_nat (be_val (take 2 (drop 1 bs)))\<rparr>,
             drop 3 bs))"

definition dataplane_key_range :: "Namespace \<Rightarrow> bytes \<times> bytes" where
  "dataplane_key_range ns = prefix_key_range [dataplane_id ns]"

definition instance_key_range :: "Namespace \<Rightarrow> bytes \<times> bytes" where
  "instance_key_range ns = prefix_key_range (Namespace_encode ns)"

definition batch_complete_key_range :: "Namespace \<Rightarrow> bytes \<times> bytes" where
  "batch_complete_key_range ns =
     prefix_key_range (build (break0 (batch_complete_tag (eb_append Namespace_encode ns enc_new))))"

text \<open>The key of an inverse action: the block it belongs to and the key it restores.\<close>

record MetadataKey =
  mk_height :: u64
  mk_hash :: bytes
  modified_key :: bytes

definition MetadataKey_encode :: "MetadataKey \<Rightarrow> bytes" where
  "MetadataKey_encode m =
     concat [uint_encode (mk_height m), array_encode (mk_hash m), vec_encode u8_encode (modified_key m)]"

definition MetadataKey_decode :: "MetadataKey decoder" where
  "MetadataKey_decode bs =
     and_then (uint_decode bs) (\<lambda>height bs.
     and_then (array_decode 32 bs) (\<lambda>hash bs.
     and_then (vec_decode u8_decode bs) (\<lambda>modified_key bs.
       Inr (\<lparr>mk_height = height, mk_hash = hash, modified_key = modified_key\<rparr>, bs))))"

definition MetadataKey_wf :: "MetadataKey \<Rightarrow> bool" where
  "MetadataKey_wf m \<longleftrightarrow> length (mk_hash m) = 32 \<and> length (modified_key m) < 2 ^ 64"

text \<open>\<open>Prefix\<close> is a namespace; its methods are the key families.\<close>

definition Prefix_cursor :: "Namespace \<Rightarrow> bytes" where
  "Prefix_cursor ns = build (cursor_tag (eb_append Namespace_encode ns enc_new))"

definition Prefix_info :: "Namespace \<Rightarrow> bytes" where
  "Prefix_info ns = build (eb_append Namespace_encode ns (break0 (info_tag enc_new)))"

definition Prefix_data :: "Namespace \<Rightarrow> Reducer \<Rightarrow> ('k \<Rightarrow> bytes) \<Rightarrow> 'k \<Rightarrow> bytes" where
  "Prefix_data ns kind encode data =
     build (eb_append encode data
       (append_with_break Reducer_encode kind (data_tag (eb_append Namespace_encode ns enc_new))))"

definition Prefix_collection_metadata ::
  "Namespace \<Rightarrow> CollectionIngestor \<Rightarrow> ('k \<Rightarrow> bytes) \<Rightarrow> 'k \<Rightarrow> bytes" where
  "Prefix_collection_metadata ns kind encode data =
     build (eb_append encode data
       (append_with_break CollectionIngestor_encode kind
         (collection_metadata_tag (eb_append Namespace_encode ns enc_new))))"

definition Prefix_miner_metadata ::
  "Namespace \<Rightarrow> MinerIngestor \<Rightarrow> ('k \<Rightarrow> bytes) \<Rightarrow> 'k \<Rightarrow> bytes" where
  "Prefix_miner_metadata ns kind encode data =
     build (eb_append encode data
       (append_with_break MinerIngestor_encode kind
         (miner_metadata_tag (eb_append Namespace_encode ns enc_new))))"

definition Prefix_rollback :: "Namespace \<Rightarrow> MetadataKey \<Rightarrow> bytes" where
  "Prefix_rollback ns data =
     build (eb_append MetadataKey_encode data
       (break0 (rollback_tag (eb_append Namespace_encode ns enc_new))))"

definition Prefix_lock :: "Namespace \<Rightarrow> bytes" where
  "Prefix_lock ns = build (lock_tag (eb_append Namespace_encode ns enc_new))"

definition Prefix_batch_complete :: "Namespace \<Rightarrow> u32 \<Rightarrow> bytes" where
  "Prefix_batch_complete ns batch_id =
     build (eb_append uint_encode batch_id
       (break0 (batch_complete_tag (eb_append Namespace_encode ns enc_new))))"

section \<open>Ranges of the readers\<close>

definition reducer_prefix :: "Namespace \<Rightarrow> Reducer \<Rightarrow> ('a \<Rightarrow> bytes) \<Rightarrow> 'a option \<Rightarrow> bytes" where
  "reducer_prefix ns reducer encA params =
     (let pre = append_with_break Reducer_encode reducer
                     (data_tag (eb_append Namespace_encode ns enc_new))
      in case params of None \<Rightarrow> pre | Some p \<Rightarrow> eb_append encA p pre)"

definition reducer_maybe_key_range ::
  "Namespace \<Rightarrow> Reducer \<Rightarrow> ('a \<Rightarrow> bytes) \<Rightarrow> ('b \<Rightarrow> bytes) \<Rightarrow> ('c \<Rightarrow> bytes) \<Rightarrow>
   'a option \<Rightarrow> 'b option \<Rightarrow> 'c option \<Rightarrow> bytes option \<times> bytes option" where
  "reducer_maybe_key_range ns reducer encA encB encC params lower upper =
     (let pre = reducer_prefix ns reducer encA params in
      (map_option (\<lambda>v. build (eb_append encB v pre)) lower,
       map_option (\<lambda>v. build (eb_append encC v pre)) upper))"

text \<open>\<open>unwrap_or\<close>.\<close>

definition unwrap_or :: "'a option \<Rightarrow> 'a \<Rightarrow> 'a" where
  "unwrap_or x d = (case x of None \<Rightarrow> d | Some v \<Rightarrow> v)"

lemma unwrap_or_simps [simp]: "unwrap_or None d = d" "unwrap_or (Some v) d = v"
  by (simp_all add: unwrap_or_def)

definition reducer_key_range ::
  "Namespace \<Rightarrow> Reducer \<Rightarrow> ('a \<Rightarrow> bytes) \<Rightarrow> ('b \<Rightarrow> bytes) \<Rightarrow> ('c \<Rightarrow> bytes) \<Rightarrow>
   'a option \<Rightarrow> 'b option \<Rightarrow> 'c option \<Rightarrow> bytes \<times> bytes" where
  "reducer_key_range ns reducer encA encB encC params lower upper =
     (let pre = build (reducer_prefix ns reducer encA params);
          full_range = prefix_key_range pre;
          (start, fin) = reducer_maybe_key_range ns reducer encA encB encC params lower upper
      in (unwrap_or start (fst full_range), unwrap_or fin (snd full_range)))"

definition rollback_metadata_key_range ::
  "Namespace \<Rightarrow> ('a \<Rightarrow> bytes) \<Rightarrow> ('b \<Rightarrow> bytes) \<Rightarrow> 'a option \<Rightarrow> 'b option \<Rightarrow> bytes \<times> bytes" where
  "rollback_metadata_key_range ns encA encB lower upper =
     (let pre = break0 (rollback_tag (eb_append Namespace_encode ns enc_new));
          full_range = prefix_key_range (build pre);
          start = map_option (\<lambda>v. build (eb_append encA v pre)) lower;
          fin = map_option (\<lambda>v. build (eb_append encB v pre)) upper
      in (unwrap_or start (fst full_range), unwrap_or fin (snd full_range)))"

definition miner_metadata_key_range :: "Namespace \<Rightarrow> bytes \<times> bytes" where
  "miner_metadata_key_range ns =
     (let pre = build (append_with_break MinerIngestor_encode MinerIngestor
                       (miner_metadata_tag (eb_append Namespace_encode ns enc_new)));
          range = prefix_key_range pre
      in (fst range, snd range))"

section \<open>Prefix ranges are exact\<close>

lemma word_le_max_byte: "(b :: byte) \<le> 255"
  using unat_byte_bound [of b] by (simp add: word_le_nat_alt)

lemma replicate_max_le_iff_prefix: "replicate n (255 :: byte) \<le> k \<longleftrightarrow> prefix (replicate n 255) k"
proof (induction n arbitrary: k)
  case 0
  then show ?case by simp
next
  case (Suc n)
  show ?case
  proof (cases k)
    case Nil
    then show ?thesis by simp
  next
    case (Cons y ys)
    have "\<not> 255 < y" using word_le_max_byte [of y] by (simp add: not_less)
    then show ?thesis using Suc.IH [of ys] Cons by auto
  qed
qed

lemma less_succ_byte: "b \<noteq> 255 \<Longrightarrow> (y < b + 1) \<longleftrightarrow> y \<le> (b :: byte)"
proof -
  assume "b \<noteq> 255"
  then have "unat b \<noteq> 255" by (simp add: word_unat_eq_iff)
  then have "unat (b + 1) = unat b + 1"
    using unat_byte_bound [of b] by (simp add: unat_word_ariths)
  then show ?thesis by (simp add: word_less_nat_alt word_le_nat_alt less_Suc_eq_le)
qed

lemma Cons_range_iff_prefix:
  assumes IH: "\<And>k. A \<le> k \<and> k < B \<longleftrightarrow> prefix A (k :: bytes)"
  shows "x # A \<le> k \<and> k < x # B \<longleftrightarrow> prefix (x # A) k"
proof (cases k)
  case Nil
  then show ?thesis by simp
next
  case (Cons y ys)
  have "x # A \<le> k \<and> k < x # B \<longleftrightarrow> x = y \<and> A \<le> ys \<and> ys < B"
    by (auto simp: Cons)
  then show ?thesis using IH [of ys] by (simp add: Cons)
qed

lemma incremented_range_iff_prefix:
  assumes "b \<noteq> 255"
  shows "q @ b # replicate n 255 \<le> k \<and> k < q @ [b + 1] \<longleftrightarrow> prefix (q @ b # replicate n 255) (k :: bytes)"
proof (induction q arbitrary: k)
  case Nil
  show ?case
  proof (cases k)
    case Nil
    then show ?thesis by simp
  next
    case (Cons y ys)
    have "k < [b + 1] \<longleftrightarrow> y \<le> b"
      using less_succ_byte [OF assms, of y] by (simp add: Cons)
    moreover have "b # replicate n 255 \<le> k \<longleftrightarrow> b < y \<or> b = y \<and> prefix (replicate n 255) ys"
      by (auto simp: Cons replicate_max_le_iff_prefix)
    ultimately show ?thesis by (auto simp: Cons)
  qed
next
  case (Cons x q)
  then show ?case using Cons_range_iff_prefix [OF Cons.IH] by simp
qed

lemma range_end_rev_exact:
  "(rev xs @ replicate n 255 \<le> k \<and> (range_end_rev xs = [] \<or> k < rev (range_end_rev xs)))
     \<longleftrightarrow> prefix (rev xs @ replicate n 255) k"
proof (induction xs arbitrary: n)
  case Nil
  then show ?case by (simp add: replicate_max_le_iff_prefix)
next
  case (Cons b before)
  show ?case
  proof (cases "b = 255")
    case True
    then show ?thesis using Cons.IH [of "Suc n"] by simp
  next
    case False
    then show ?thesis using incremented_range_iff_prefix [OF False, of "rev before" n k] by simp
  qed
qed

lemma in_prefix_key_range: "in_range (prefix_key_range p) k \<longleftrightarrow> prefix p k"
  using range_end_rev_exact [of "rev p" 0 k] by (simp add: in_range_def prefix_key_range_def)

lemma between_prefix:
  "p @ x \<le> k \<Longrightarrow> k < p @ y \<Longrightarrow> prefix p (k :: 'a::linorder list)"
proof (induction p arbitrary: k)
  case Nil
  then show ?case by simp
next
  case (Cons a p)
  then show ?case by (cases k) auto
qed

section \<open>Keys are distinct across families and namespaces\<close>

lemma Namespace_encode_shape:
  "Namespace_encode ns = be_bytes 1 (unat (dataplane_id ns)) @ be_bytes 2 (unat (instance_id ns))"
  by (simp add: Namespace_encode_def builder_defs array_encode_def)

lemma length_Namespace_encode [simp]: "length (Namespace_encode ns) = 3"
  by (simp add: Namespace_encode_shape)

lemma be_val_u16 [simp]: "be_val (be_bytes 2 (unat (v :: u16))) = unat v"
  using unsigned_less [of v, where ?'a = nat] by (simp add: be_val_be_bytes)

interpretation ns: codec Namespace_encode Namespace_decode "\<lambda>_. True"
proof unfold_locales
  fix n :: Namespace and rest
  have "be_bytes 1 (unat (dataplane_id n)) = [dataplane_id n]"
    using unat_byte_bound [of "dataplane_id n"] by simp
  moreover obtain x y where "be_bytes 2 (unat (instance_id n)) = [x, y]"
    by (simp add: numeral_2_eq_2)
  ultimately show "Namespace_decode (Namespace_encode n @ rest) = Inr (n, rest)"
    using be_val_u16 [of "instance_id n"]
    by (simp add: Namespace_decode_def Namespace_size_def Namespace_encode_shape)
qed

lemma Namespace_encode_eq_iff [simp]:
  "Namespace_encode n @ x = Namespace_encode m @ y \<longleftrightarrow> n = m \<and> x = y"
  by (rule ns.append_eq_iff) simp_all

lemma Namespace_encode_inj [simp]: "Namespace_encode n = Namespace_encode m \<longleftrightarrow> n = m"
  using Namespace_encode_eq_iff [of n "[]" m "[]"] by simp

text \<open>The representation as a byte is unique: all the tags, one by one, are distinct.\<close>

definition all_reducers :: "Reducer list" where
  "all_reducers =
    [Reducer_EtchingByRuneId, Reducer_MintsByRuneId, Reducer_UtxosByRuneId,
     Reducer_UtxosByScriptHash, Reducer_RunesByUtxo, Reducer_RuneInfoByRuneId,
     Reducer_ScriptByScriptHash, Reducer_ScriptHashByAddressPayloadHash, Reducer_RuneIdByRuneName,
     Reducer_InscriptionsByUtxo, Reducer_Brc20TotalBalanceByScriptHash, Reducer_Brc20AvailableBalanceByScriptHash,
     Reducer_Brc20TermsByTicker, Reducer_BalancesByBrc20, Reducer_TxsByScriptHash,
     Reducer_RuneBalancesByScriptHash, Reducer_InscriptionsByScriptHash, Reducer_ContentByInscriptionId,
     Reducer_TransferInscriptionsByScriptHash, Reducer_SatsPerVbByBlock, Reducer_InscriptionUtxosByScriptHash,
     Reducer_InscriptionActivityByBlock, Reducer_BlockByTxHash, Reducer_HeightByBlockHash,
     Reducer_InscriptionActivityByTx, Reducer_TxsByInscription, Reducer_TxInfo,
     Reducer_BlockInfo, Reducer_TxsByBlock, Reducer_BalancesByRuneId,
     Reducer_SpendingTxByTxo, Reducer_RuneUtxosByScriptHash, Reducer_TxsByRuneId,
     Reducer_TxFirstSeenTimestamp, Reducer_RuneTxsByScriptHash, Reducer_SatBalanceByScriptHash,
     Reducer_SatTxsByScriptHash, Reducer_InscriptionActivityByScriptHash, Reducer_InscriptionActivityByTxV2,
     Reducer_TotalTxsByScriptHash, Reducer_TotalUtxosByScriptHash, Reducer_TotalInscriptionsByScriptHash,
     Reducer_HeightByTimestamp, Reducer_HistoricalSatBalanceByScriptHash, Reducer_TotalOutputsByScriptHash,
     Reducer_TotalSatInOutputsByScriptHash, Reducer_TotalSatInInputsByScriptHash]"

lemma in_all_reducers: "r \<in> set all_reducers"
  by (cases r) (simp_all add: all_reducers_def)

lemma distinct_Reducer_tags: "distinct (map Reducer_tag all_reducers)"
  by code_simp

lemma Reducer_tag_inj [simp]: "Reducer_tag r = Reducer_tag s \<longleftrightarrow> r = s"
  using distinct_Reducer_tags in_all_reducers by (metis distinct_map inj_on_eq_iff)

lemma CollectionIngestor_tag_inj [simp]:
  "CollectionIngestor_tag r = CollectionIngestor_tag s \<longleftrightarrow> r = s"
  by (cases r; cases s) simp_all

interpretation modified: codec_elem u8_encode u8_decode "\<lambda>_. True"
  by unfold_locales

interpretation metadata_key: codec MetadataKey_encode MetadataKey_decode MetadataKey_wf
  by unfold_locales
    (simp add: MetadataKey_encode_def MetadataKey_decode_def MetadataKey_wf_def codec_simps
      modified.vec_decode_encode)

lemma Prefix_shapes:
  "Prefix_cursor n = Namespace_encode n @ [67]"
  "Prefix_info n = [73, 96] @ Namespace_encode n"
  "Prefix_data n r enc x = Namespace_encode n @ [68, Reducer_tag r, 96] @ enc x"
  "Prefix_collection_metadata n c enc x = Namespace_encode n @ [84, CollectionIngestor_tag c, 96] @ enc x"
  "Prefix_miner_metadata n m enc x = Namespace_encode n @ [85, 77, 96] @ enc x"
  "Prefix_rollback n k = Namespace_encode n @ [82, 96] @ MetadataKey_encode k"
  "Prefix_lock n = Namespace_encode n @ [76]"
  "Prefix_batch_complete n i = Namespace_encode n @ [66, 96] @ uint_encode i"
  by (simp_all add: Prefix_cursor_def Prefix_info_def Prefix_data_def Prefix_collection_metadata_def
      Prefix_miner_metadata_def Prefix_rollback_def Prefix_lock_def Prefix_batch_complete_def
      builder_defs tag_defs Reducer_encode_def CollectionIngestor_encode_def MinerIngestor_encode_def)

text \<open>
  The abstract view of the key space: a key is a member of one family, in one namespace, with its
  contents.
\<close>

datatype StoreKey =
    CursorKey Namespace
  | InfoKey Namespace
  | DataKey Namespace Reducer bytes
  | CollectionKey Namespace CollectionIngestor bytes
  | MinerKey Namespace bytes
  | RollbackKey Namespace MetadataKey
  | LockKey Namespace
  | BatchKey Namespace u32

fun StoreKey_encode :: "StoreKey \<Rightarrow> bytes" where
  "StoreKey_encode (CursorKey n) = Prefix_cursor n"
| "StoreKey_encode (InfoKey n) = Prefix_info n"
| "StoreKey_encode (DataKey n r x) = Prefix_data n r id x"
| "StoreKey_encode (CollectionKey n c x) = Prefix_collection_metadata n c id x"
| "StoreKey_encode (MinerKey n x) = Prefix_miner_metadata n MinerIngestor id x"
| "StoreKey_encode (RollbackKey n k) = Prefix_rollback n k"
| "StoreKey_encode (LockKey n) = Prefix_lock n"
| "StoreKey_encode (BatchKey n i) = Prefix_batch_complete n i"

fun StoreKey_wf :: "StoreKey \<Rightarrow> bool" where
  "StoreKey_wf (RollbackKey n k) = MetadataKey_wf k"
| "StoreKey_wf _ = True"

fun StoreKey_namespace :: "StoreKey \<Rightarrow> Namespace" where
  "StoreKey_namespace (CursorKey n) = n"
| "StoreKey_namespace (InfoKey n) = n"
| "StoreKey_namespace (DataKey n r x) = n"
| "StoreKey_namespace (CollectionKey n c x) = n"
| "StoreKey_namespace (MinerKey n x) = n"
| "StoreKey_namespace (RollbackKey n k) = n"
| "StoreKey_namespace (LockKey n) = n"
| "StoreKey_namespace (BatchKey n i) = n"

fun is_info_key :: "StoreKey \<Rightarrow> bool" where
  "is_info_key (InfoKey n) = True"
| "is_info_key _ = False"

lemma uint_encode_not_Nil [simp]: "uint_encode v \<noteq> []"
  by (cases "VarUInt_from v") (simp add: uint_encode_def VarUInt_encode_sig)

lemma length_uint_encode: "0 < length (uint_encode v)"
  by simp

lemma StoreKey_info_lengths:
  "length (StoreKey_encode (InfoKey n)) = 5"
  "\<not> is_info_key k \<Longrightarrow> length (StoreKey_encode k) = 5 \<Longrightarrow> False"
  by (simp add: Prefix_shapes, cases k)
    (use length_uint_encode in \<open>auto simp: Prefix_shapes MetadataKey_encode_def\<close>)

lemma StoreKey_encode_inj:
  assumes "StoreKey_wf k" and "StoreKey_wf l" and "StoreKey_encode k = StoreKey_encode l"
  shows "k = l"
proof (cases "is_info_key k \<or> is_info_key l")
  case True
  then have "is_info_key k \<and> is_info_key l"
    using assms(3) StoreKey_info_lengths
    by (metis is_info_key.elims(2))
  then show ?thesis
    using assms(3)
    by (auto elim!: is_info_key.elims(2) simp: Prefix_shapes)
next
  case False
  then show ?thesis
    using assms
    by (cases k; cases l)
      (auto simp: Prefix_shapes dest: u32.enc_inj [simplified] metadata_key.enc_inj)
qed

lemma StoreKey_in_instance_key_range:
  "\<not> is_info_key k \<Longrightarrow> in_range (instance_key_range n) (StoreKey_encode k) \<longleftrightarrow> StoreKey_namespace k = n"
  by (cases k) (auto simp: instance_key_range_def in_prefix_key_range prefix_def Prefix_shapes)

section \<open>Bounded scans\<close>

text \<open>What a scan means: an optional inclusive lower and an optional exclusive upper bound.\<close>

definition within_bounds :: "'a::linorder option \<Rightarrow> 'a option \<Rightarrow> 'a \<Rightarrow> bool" where
  "within_bounds lo hi v \<longleftrightarrow> (\<forall>l. lo = Some l \<longrightarrow> l \<le> v) \<and> (\<forall>h. hi = Some h \<longrightarrow> v < h)"

lemma prefix_range_bounds:
  assumes "x = None \<or> (\<exists>s. x = Some (p @ s))" and "y = None \<or> (\<exists>t. y = Some (p @ t) \<and> p @ t \<noteq> [])"
    and "in_range (unwrap_or x (fst (prefix_key_range p)), unwrap_or y (snd (prefix_key_range p))) k"
  shows "prefix p k"
proof -
  obtain s where s: "unwrap_or x (fst (prefix_key_range p)) = p @ s"
    using assms(1) by (auto simp: prefix_key_range_def)
  show ?thesis
  proof (cases y)
    case None
    have "p \<le> p @ s" by (simp add: prefix_le)
    also have "\<dots> \<le> k" using assms(3) s by (simp add: in_range_def)
    finally have "in_range (prefix_key_range p) k"
      using assms(3) None by (simp add: in_range_def prefix_key_range_def)
    then show ?thesis by (simp add: in_prefix_key_range)
  next
    case (Some e)
    then show ?thesis using assms(2,3) s by (auto simp: in_range_def intro: between_prefix)
  qed
qed

context ordered_codec
begin

lemma bounds_iff:
  assumes "wf v" and "\<forall>l. lo = Some l \<longrightarrow> wf l" and "\<forall>h. hi = Some h \<longrightarrow> wf h" and "p \<noteq> []"
  shows "in_range (unwrap_or (map_option (\<lambda>l. p @ enc l) lo) (fst (prefix_key_range p)),
                   unwrap_or (map_option (\<lambda>h. p @ enc h) hi) (snd (prefix_key_range p)))
           (p @ enc v @ tail)
         \<longleftrightarrow> within_bounds lo hi v"
proof -
  have full: "in_range (prefix_key_range p) (p @ enc v @ tail)"
    by (simp add: in_prefix_key_range)
  have low: "p @ enc l \<le> p @ enc v @ tail \<longleftrightarrow> l \<le> v" if "wf l" for l
    using append_less_iff [OF assms(1) that, of tail "[]"] by (auto simp: not_less [symmetric])
  have high: "p @ enc v @ tail < p @ enc h \<longleftrightarrow> v < h" if "wf h" for h
    using append_less_iff [OF assms(1) that, of tail "[]"] by simp
  show ?thesis
    using assms full low high
    by (cases lo; cases hi) (auto simp: in_range_def within_bounds_def prefix_key_range_def)
qed

end

text \<open>
  The contract between a reducer's keys and its readers: keys are the parameters of the request
  followed by the ordered component the bounds are about, then anything.
\<close>

locale scan_keys = params: codec encA decA wfA + bound: ordered_codec encB decB wfB
  for encA :: "'a \<Rightarrow> bytes" and decA :: "'a decoder" and wfA :: "'a \<Rightarrow> bool"
    and encB :: "'b::linorder \<Rightarrow> bytes" and decB :: "'b decoder" and wfB :: "'b \<Rightarrow> bool"
begin

lemma reducer_scan:
  assumes "wfA a" "wfA a'" "wfB v" "\<forall>l. lo = Some l \<longrightarrow> wfB l" "\<forall>h. hi = Some h \<longrightarrow> wfB h"
  shows "in_range (reducer_key_range ns r encA encB encB (Some a) lo hi)
           (Prefix_data ns' r' id (encA a' @ encB v @ tail))
         \<longleftrightarrow> ns' = ns \<and> r' = r \<and> a' = a \<and> within_bounds lo hi v" (is "in_range ?r ?k \<longleftrightarrow> _")
proof -
  let ?p = "Prefix_data ns r encA a"
  have p: "?p \<noteq> []" by (simp add: Prefix_shapes)
  have r: "?r = (unwrap_or (map_option (\<lambda>l. ?p @ encB l) lo) (fst (prefix_key_range ?p)),
                 unwrap_or (map_option (\<lambda>h. ?p @ encB h) hi) (snd (prefix_key_range ?p)))"
    by (simp add: reducer_key_range_def reducer_maybe_key_range_def reducer_prefix_def
        Prefix_data_def build_def eb_append_def Let_def)
  have "prefix ?p ?k" if "in_range ?r ?k"
    by (rule prefix_range_bounds [OF _ _ that [unfolded r]]) (cases lo; cases hi; simp add: p)+
  then have "ns' = ns \<and> r' = r \<and> a' = a" if "in_range ?r ?k"
    using that params.append_eq_iff [OF assms(2,1)] by (fastforce simp: prefix_def Prefix_shapes)
  moreover have "in_range ?r ?k \<longleftrightarrow> within_bounds lo hi v" if "ns' = ns \<and> r' = r \<and> a' = a"
    using bound.bounds_iff [OF assms(3-5) p, of tail] that by (simp add: r Prefix_shapes)
  ultimately show ?thesis by blast
qed

end

text \<open>Script hash and height: the keys of the \<open>*_by_script_hash\<close> reducers.\<close>

interpretation script_scan: scan_keys array_encode "array_decode 20" "\<lambda>a. length a = 20"
  "uint_encode :: u64 \<Rightarrow> bytes" uint_decode "\<lambda>_. True"
  by unfold_locales

text \<open>Rune identifier and height: the keys of \<open>utxos_by_rune_id\<close>.\<close>

interpretation rune_id: codec_pair "uint_encode :: u64 \<Rightarrow> bytes" uint_decode "\<lambda>_. True"
  "uint_encode :: u32 \<Rightarrow> bytes" uint_decode "\<lambda>_. True"
  by unfold_locales

interpretation rune_scan: scan_keys "pair_encode (uint_encode :: u64 \<Rightarrow> bytes) (uint_encode :: u32 \<Rightarrow> bytes)"
  "pair_decode uint_decode uint_decode" "\<lambda>_. True"
  "uint_encode :: u64 \<Rightarrow> bytes" uint_decode "\<lambda>_. True"
  by unfold_locales (simp add: rune_id.pair_decode_encode)

lemma rollback_scan:
  "in_range (rollback_metadata_key_range ns uint_encode uint_encode lo hi) (Prefix_rollback ns' k)
     \<longleftrightarrow> ns' = ns \<and> within_bounds lo hi (mk_height k)" (is "in_range ?r ?k \<longleftrightarrow> _")
proof -
  let ?p = "Namespace_encode ns @ [82, 96]"
  have p: "?p \<noteq> []" by simp
  have r: "?r = (unwrap_or (map_option (\<lambda>l. ?p @ uint_encode l) lo) (fst (prefix_key_range ?p)),
                 unwrap_or (map_option (\<lambda>h. ?p @ uint_encode h) hi) (snd (prefix_key_range ?p)))"
    by (simp add: rollback_metadata_key_range_def builder_defs tag_defs Let_def)
  have "prefix ?p ?k" if "in_range ?r ?k"
    by (rule prefix_range_bounds [OF _ _ that [unfolded r]]) (cases lo; cases hi; simp)+
  then have "ns' = ns" if "in_range ?r ?k"
    using that by (fastforce simp: prefix_def Prefix_shapes)
  moreover have "in_range ?r ?k \<longleftrightarrow> within_bounds lo hi (mk_height k)" if "ns' = ns"
    using u64.bounds_iff [where v = "mk_height k" and lo = lo and hi = hi and p = ?p] that
    by (simp add: r Prefix_shapes MetadataKey_encode_def)
  ultimately show ?thesis by blast
qed

section \<open>Properties\<close>

lemma MetadataKey_decode_no_Panic: "MetadataKey_decode bs \<noteq> Inl Panic"
  by (auto simp: MetadataKey_decode_def dest!: and_then_Panic)

text \<open>
  C10: the range computed from a prefix holds exactly the keys that start with it, also when bytes
  of the prefix are 255 and when the prefix is empty.
\<close>

theorem prefix_key_range_exact: "in_range (prefix_key_range p) k \<longleftrightarrow> prefix p k"
  by (rule in_prefix_key_range)

text \<open>
  C11: the keys of the store never collide: two well-formed keys have the same bytes only when they
  belong to the same family and namespace and have the same contents.
\<close>

theorem store_keys_never_collide:
  assumes "StoreKey_wf k" and "StoreKey_wf l"
  shows "StoreKey_encode k = StoreKey_encode l \<longleftrightarrow> k = l"
  using StoreKey_encode_inj [OF assms] by blast

definition sample_namespace :: Namespace where
  "sample_namespace = \<lparr>dataplane_id = 1, instance_id = 42\<rparr>"

theorem store_keys_never_collide_witness:
  "StoreKey_encode (LockKey sample_namespace) \<noteq> StoreKey_encode (CursorKey sample_namespace) \<and>
   StoreKey_encode (RollbackKey sample_namespace
     \<lparr>mk_height = 5, mk_hash = replicate 32 0, modified_key = [1]\<rparr>) \<noteq>
   StoreKey_encode (BatchKey sample_namespace 5)"
  using store_keys_never_collide [of "LockKey sample_namespace" "CursorKey sample_namespace"]
    store_keys_never_collide [of "RollbackKey sample_namespace
     \<lparr>mk_height = 5, mk_hash = replicate 32 0, modified_key = [1]\<rparr>" "BatchKey sample_namespace 5"]
  by (simp add: MetadataKey_wf_def)

text \<open>
  C12: a scan over a reducer keyed by script hash and height returns exactly the entries of that
  namespace, reducer and script hash whose height lies within the requested bounds.
\<close>

theorem script_hash_scan_exact:
  assumes "length sh = 20" and "length sh' = 20"
  shows "in_range (reducer_key_range ns r array_encode uint_encode uint_encode (Some sh) lo hi)
           (Prefix_data ns' r' id (array_encode sh' @ uint_encode (height :: u64) @ tail))
         \<longleftrightarrow> ns' = ns \<and> r' = r \<and> sh' = sh \<and> within_bounds lo hi height"
  by (rule script_scan.reducer_scan) (use assms in simp_all)

theorem script_hash_scan_exact_witness:
  "in_range (reducer_key_range sample_namespace Reducer_UtxosByScriptHash array_encode uint_encode
       uint_encode (Some (replicate 20 7)) (Some (255 :: u64)) (Some (257 :: u64)))
     (Prefix_data sample_namespace Reducer_UtxosByScriptHash id
       (array_encode (replicate 20 7) @ uint_encode (256 :: u64) @ [1, 2, 3]))"
  by (simp add: script_hash_scan_exact within_bounds_def)

text \<open>
  C13: the scan of the stored inverse actions returns exactly the entries of the namespace whose
  block height lies within the requested bounds.
\<close>

theorem rollback_scan_exact:
  "in_range (rollback_metadata_key_range ns uint_encode uint_encode lo hi) (Prefix_rollback ns' k)
     \<longleftrightarrow> ns' = ns \<and> within_bounds lo hi (mk_height k)"
  by (rule rollback_scan)

end
