(* ===== verification/Timbre_Derive.thy ===== *)
theory Timbre_Derive
  imports Timbre_Keys
begin

text \<open>
  The derived codecs of the schema library (\<open>crates/timbre-xbt/macros/src/lib.rs\<close>) and the type
  aliases of the reducers (\<open>reducers/mod.rs\<close>). A derived struct is encoded field by field in
  the order of its declaration; a derived enum is encoded as the index of the variant, one byte,
  and the fields of the variant.

  Well-formedness of a value says what its Rust type says and a list of bytes does not: the length of
  an array, at most 255 bytes in a short byte string, distinct keys in a map. The rules
  \<open>codec_intros\<close> give the codec of a composed type from the codecs of its parts.
\<close>

section \<open>Derived encoders\<close>

definition derived_struct_encode :: "bytes list \<Rightarrow> bytes" where
  "derived_struct_encode parts = build (foldl (\<lambda>encoder field. eb_append id field encoder) enc_new parts)"

definition derived_enum_encode :: "u8 \<Rightarrow> bytes list \<Rightarrow> bytes" where
  "derived_enum_encode variant_index parts = concat ([variant_index] # parts)"

definition derived_enum_decode :: "(u8 \<Rightarrow> 'a decoder option) \<Rightarrow> 'a decoder" where
  "derived_enum_decode arms bs =
     (case bs of
        [] \<Rightarrow> Inl Panic
      | kind # rest \<Rightarrow>
          (case arms kind of
             Some decode_fields \<Rightarrow> decode_fields rest
           | None \<Rightarrow> Inl (Fail (MalformedInput ''Unrecognized asset kind''))))"

lemma foldl_eb_append: "foldl (\<lambda>encoder field. eb_append id field encoder) out parts = out @ concat parts"
  by (induction parts arbitrary: out) (simp_all add: eb_append_def)

lemma derived_struct_encode_concat [codec_simps]: "derived_struct_encode parts = concat parts"
  by (simp add: derived_struct_encode_def foldl_eb_append build_def enc_new_def)

section \<open>Well-formed values\<close>

definition any_wf :: "'a \<Rightarrow> bool" where "any_wf x \<longleftrightarrow> True"
definition array_wf :: "nat \<Rightarrow> bytes \<Rightarrow> bool" where "array_wf N a \<longleftrightarrow> length a = N"
definition short_wf :: "ShortByteString \<Rightarrow> bool" where "short_wf s \<longleftrightarrow> length (short_bytes s) \<le> 255"
definition pair_wf :: "('a \<Rightarrow> bool) \<Rightarrow> ('b \<Rightarrow> bool) \<Rightarrow> 'a \<times> 'b \<Rightarrow> bool" where
  "pair_wf wa wb p \<longleftrightarrow> wa (fst p) \<and> wb (snd p)"
definition triple_wf :: "('a \<Rightarrow> bool) \<Rightarrow> ('b \<Rightarrow> bool) \<Rightarrow> ('c \<Rightarrow> bool) \<Rightarrow> 'a \<times> 'b \<times> 'c \<Rightarrow> bool" where
  "triple_wf wa wb wc p \<longleftrightarrow> wa (fst p) \<and> wb (fst (snd p)) \<and> wc (snd (snd p))"
definition option_wf :: "('a \<Rightarrow> bool) \<Rightarrow> 'a option \<Rightarrow> bool" where
  "option_wf w x \<longleftrightarrow> (case x of None \<Rightarrow> True | Some t \<Rightarrow> w t)"
definition vec_wf :: "('a \<Rightarrow> bool) \<Rightarrow> 'a list \<Rightarrow> bool" where
  "vec_wf w xs \<longleftrightarrow> list_all w xs \<and> length xs < 2 ^ 64"
definition indexmap_wf :: "('k \<Rightarrow> bool) \<Rightarrow> ('v \<Rightarrow> bool) \<Rightarrow> ('k \<times> 'v) list \<Rightarrow> bool" where
  "indexmap_wf wk wv m \<longleftrightarrow>
     list_all (\<lambda>e. wk (fst e) \<and> wv (snd e)) m \<and> distinct (map fst m) \<and> length m < 2 ^ 64"

lemma any_wf_True [simp]: "any_wf x"
  by (simp add: any_wf_def)

named_theorems codec_intros \<open>codecs of composed types\<close>

lemma codec_uint:
  assumes "LENGTH('a) \<le> 128"
  shows "codec (uint_encode :: 'a::len word \<Rightarrow> bytes) uint_decode any_wf"
  using assms by unfold_locales (rule uint_decode_encode)

lemma codec_scalars [codec_intros]:
  "codec (uint_encode :: u16 \<Rightarrow> bytes) uint_decode any_wf"
  "codec (uint_encode :: u32 \<Rightarrow> bytes) uint_decode any_wf"
  "codec (uint_encode :: u64 \<Rightarrow> bytes) uint_decode any_wf"
  "codec (uint_encode :: u128 \<Rightarrow> bytes) uint_decode any_wf"
  "codec u8_encode u8_decode any_wf"
  "codec bool_encode bool_decode any_wf"
  "codec array_encode (array_decode N) (array_wf N)"
  "codec ShortByteString_encode ShortByteString_decode short_wf"
  by (simp_all add: codec_uint)
    (unfold_locales, simp_all add: codec_roundtrips array_wf_def short_wf_def)

lemma codec_pair_rule [codec_intros]:
  assumes "codec ea da wa" and "codec eb db wb"
  shows "codec (pair_encode ea eb) (pair_decode da db) (pair_wf wa wb)"
  by unfold_locales
    (simp add: pair_encode_def pair_decode_def pair_wf_def codec.dec_enc [OF assms(1)]
      codec.dec_enc [OF assms(2)])

lemma codec_triple_rule [codec_intros]:
  assumes "codec ea da wa" and "codec eb db wb" and "codec ec dc wc"
  shows "codec (triple_encode ea eb ec) (triple_decode da db dc) (triple_wf wa wb wc)"
  by unfold_locales
    (simp add: triple_encode_def triple_decode_def triple_wf_def codec.dec_enc [OF assms(1)]
      codec.dec_enc [OF assms(2)] codec.dec_enc [OF assms(3)])

lemma codec_option_rule [codec_intros]:
  assumes "codec e d w"
  shows "codec (option_encode e) (option_decode d) (option_wf w)"
proof unfold_locales
  fix x rest
  assume "option_wf w x"
  then show "option_decode d (option_encode e x @ rest) = Inr (x, rest)"
    using codec_elem.option_decode_encode [OF codec_elem.intro, OF assms, of x]
    by (simp add: option_wf_def split: option.splits)
qed

lemma codec_vec_rule [codec_intros]:
  assumes "codec e d w"
  shows "codec (vec_encode e) (vec_decode d) (vec_wf w)"
proof unfold_locales
  fix xs rest
  assume "vec_wf w xs"
  then show "vec_decode d (vec_encode e xs @ rest) = Inr (xs, rest)"
    using codec_elem.vec_decode_encode [OF codec_elem.intro, OF assms, of xs]
    by (simp add: vec_wf_def list_all_iff)
qed

lemma codec_indexmap_rule [codec_intros]:
  assumes "codec ek dk wk" and "codec ev dv wv"
  shows "codec (indexmap_encode ek ev) (indexmap_decode dk dv) (indexmap_wf wk wv)"
proof unfold_locales
  fix m rest
  assume "indexmap_wf wk wv m"
  then show "indexmap_decode dk dv (indexmap_encode ek ev m @ rest) = Inr (m, rest)"
    using codec_pair.indexmap_decode_encode [OF codec_pair.intro, OF assms, of m]
    by (simp add: indexmap_wf_def list_all_iff case_prod_beta)
qed

lemmas scalar_roundtrips [codec_simps] = codec_scalars [THEN codec.dec_enc]

section \<open>Aliases\<close>

type_synonym TxHash = bytes
type_synonym BlockHash = bytes
type_synonym ScriptHash = bytes
type_synonym Height = u64
type_synonym Timestamp = u32
type_synonym TxIndex = u32
type_synonym TxoIndex = u32
type_synonym SatoshiQuantity = u64
type_synonym InscriptionIndex = u32
type_synonym SatoshiOffset = u64
type_synonym InscriptionId = "TxHash \<times> InscriptionIndex"
type_synonym RuneId = "Height \<times> TxIndex"
type_synonym AggregatedSatoshis = u128
type_synonym RuneQuantity = u128
type_synonym Brc20Quantity = u128

abbreviation InscriptionId_encode :: "InscriptionId \<Rightarrow> bytes" where
  "InscriptionId_encode \<equiv> pair_encode array_encode uint_encode"
abbreviation InscriptionId_decode :: "InscriptionId decoder" where
  "InscriptionId_decode \<equiv> pair_decode (array_decode 32) uint_decode"
abbreviation InscriptionId_wf :: "InscriptionId \<Rightarrow> bool" where
  "InscriptionId_wf \<equiv> pair_wf (array_wf 32) any_wf"
abbreviation RuneId_encode :: "RuneId \<Rightarrow> bytes" where
  "RuneId_encode \<equiv> pair_encode uint_encode uint_encode"
abbreviation RuneId_decode :: "RuneId decoder" where
  "RuneId_decode \<equiv> pair_decode uint_decode uint_decode"
abbreviation RuneId_wf :: "RuneId \<Rightarrow> bool" where
  "RuneId_wf \<equiv> pair_wf any_wf any_wf"

end
