(* ===== verification/Schema_Chain.thy ===== *)
theory Schema_Chain
  imports Timbre_Derive
begin

text \<open>
  Keys, values and cursors of the reducers about blocks, transactions, scripts and satoshis
  (\<open>crates/timbre-xbt/src/reducers\<close>): the struct as a record, its derived encoder and
  decoder, what a well-formed value is, and the codec contract of each of them.
\<close>

subsection \<open>\<open>block_by_tx_hash\<close>\<close>

record BlockByTxHash_Key =
  bbthk_tx_hash :: TxHash

definition BlockByTxHash_Key_encode :: "BlockByTxHash_Key \<Rightarrow> bytes" where
  "BlockByTxHash_Key_encode r = derived_struct_encode
     [array_encode (bbthk_tx_hash r)]"

definition BlockByTxHash_Key_decode :: "BlockByTxHash_Key decoder" where
  "BlockByTxHash_Key_decode bs =
     and_then (array_decode 32 bs) (\<lambda>tx_hash bs.
       Inr (\<lparr>bbthk_tx_hash = tx_hash\<rparr>, bs))"

definition BlockByTxHash_Key_wf :: "BlockByTxHash_Key \<Rightarrow> bool" where
  "BlockByTxHash_Key_wf r \<longleftrightarrow> array_wf 32 (bbthk_tx_hash r)"

interpretation bbth_key: codec BlockByTxHash_Key_encode BlockByTxHash_Key_decode BlockByTxHash_Key_wf
  by unfold_locales
    (simp add: BlockByTxHash_Key_encode_def BlockByTxHash_Key_decode_def BlockByTxHash_Key_wf_def codec_simps)

lemmas BlockByTxHash_Key_codec [codec_intros] = bbth_key.codec_axioms
lemmas BlockByTxHash_Key_roundtrip [codec_simps] = bbth_key.dec_enc

record BlockByTxHash_Value =
  bbthv_height :: Height

definition BlockByTxHash_Value_encode :: "BlockByTxHash_Value \<Rightarrow> bytes" where
  "BlockByTxHash_Value_encode r = derived_struct_encode
     [uint_encode (bbthv_height r)]"

definition BlockByTxHash_Value_decode :: "BlockByTxHash_Value decoder" where
  "BlockByTxHash_Value_decode bs =
     and_then (uint_decode bs) (\<lambda>height bs.
       Inr (\<lparr>bbthv_height = height\<rparr>, bs))"

definition BlockByTxHash_Value_wf :: "BlockByTxHash_Value \<Rightarrow> bool" where
  "BlockByTxHash_Value_wf r \<longleftrightarrow> True"

interpretation bbth_value: codec BlockByTxHash_Value_encode BlockByTxHash_Value_decode BlockByTxHash_Value_wf
  by unfold_locales
    (simp add: BlockByTxHash_Value_encode_def BlockByTxHash_Value_decode_def BlockByTxHash_Value_wf_def codec_simps)

lemmas BlockByTxHash_Value_codec [codec_intros] = bbth_value.codec_axioms
lemmas BlockByTxHash_Value_roundtrip [codec_simps] = bbth_value.dec_enc

subsection \<open>\<open>block_info\<close>\<close>

record BlockInfo_Key =
  bik_height :: Height

definition BlockInfo_Key_encode :: "BlockInfo_Key \<Rightarrow> bytes" where
  "BlockInfo_Key_encode r = derived_struct_encode
     [uint_encode (bik_height r)]"

definition BlockInfo_Key_decode :: "BlockInfo_Key decoder" where
  "BlockInfo_Key_decode bs =
     and_then (uint_decode bs) (\<lambda>height bs.
       Inr (\<lparr>bik_height = height\<rparr>, bs))"

definition BlockInfo_Key_wf :: "BlockInfo_Key \<Rightarrow> bool" where
  "BlockInfo_Key_wf r \<longleftrightarrow> True"

interpretation bi_key: codec BlockInfo_Key_encode BlockInfo_Key_decode BlockInfo_Key_wf
  by unfold_locales
    (simp add: BlockInfo_Key_encode_def BlockInfo_Key_decode_def BlockInfo_Key_wf_def codec_simps)

lemmas BlockInfo_Key_codec [codec_intros] = bi_key.codec_axioms
lemmas BlockInfo_Key_roundtrip [codec_simps] = bi_key.dec_enc

record BlockInfo_Value =
  biv_block_hash :: "BlockHash option"
  biv_block_size :: u64
  biv_block_weight_units :: u64
  biv_timestamp :: "u32 option"
  biv_total_fees :: AggregatedSatoshis
  biv_total_volume :: AggregatedSatoshis
  biv_total_txs :: TxIndex
  biv_involves_inscriptions :: bool
  biv_involves_runes :: bool
  biv_involves_brc20 :: bool
  biv_coinbase_script_sig :: bytes

definition BlockInfo_Value_encode :: "BlockInfo_Value \<Rightarrow> bytes" where
  "BlockInfo_Value_encode r = derived_struct_encode
     [option_encode array_encode (biv_block_hash r),
      uint_encode (biv_block_size r),
      uint_encode (biv_block_weight_units r),
      option_encode uint_encode (biv_timestamp r),
      uint_encode (biv_total_fees r),
      uint_encode (biv_total_volume r),
      uint_encode (biv_total_txs r),
      bool_encode (biv_involves_inscriptions r),
      bool_encode (biv_involves_runes r),
      bool_encode (biv_involves_brc20 r),
      vec_encode u8_encode (biv_coinbase_script_sig r)]"

definition BlockInfo_Value_decode :: "BlockInfo_Value decoder" where
  "BlockInfo_Value_decode bs =
     and_then (option_decode (array_decode 32) bs) (\<lambda>block_hash bs.
     and_then (uint_decode bs) (\<lambda>block_size bs.
     and_then (uint_decode bs) (\<lambda>block_weight_units bs.
     and_then (option_decode uint_decode bs) (\<lambda>timestamp bs.
     and_then (uint_decode bs) (\<lambda>total_fees bs.
     and_then (uint_decode bs) (\<lambda>total_volume bs.
     and_then (uint_decode bs) (\<lambda>total_txs bs.
     and_then (bool_decode bs) (\<lambda>involves_inscriptions bs.
     and_then (bool_decode bs) (\<lambda>involves_runes bs.
     and_then (bool_decode bs) (\<lambda>involves_brc20 bs.
     and_then (vec_decode u8_decode bs) (\<lambda>coinbase_script_sig bs.
       Inr (\<lparr>biv_block_hash = block_hash,
            biv_block_size = block_size,
            biv_block_weight_units = block_weight_units,
            biv_timestamp = timestamp,
            biv_total_fees = total_fees,
            biv_total_volume = total_volume,
            biv_total_txs = total_txs,
            biv_involves_inscriptions = involves_inscriptions,
            biv_involves_runes = involves_runes,
            biv_involves_brc20 = involves_brc20,
            biv_coinbase_script_sig = coinbase_script_sig\<rparr>, bs))))))))))))"

definition BlockInfo_Value_wf :: "BlockInfo_Value \<Rightarrow> bool" where
  "BlockInfo_Value_wf r \<longleftrightarrow> option_wf (array_wf 32) (biv_block_hash r) \<and>
     option_wf any_wf (biv_timestamp r) \<and>
     vec_wf any_wf (biv_coinbase_script_sig r)"

lemma BlockInfo_Value_block_hash_codec:
  "codec (option_encode array_encode :: BlockHash option \<Rightarrow> bytes)
     (option_decode (array_decode 32))
     (option_wf (array_wf 32))"
  by (intro codec_intros)

lemma BlockInfo_Value_timestamp_codec:
  "codec (option_encode uint_encode :: u32 option \<Rightarrow> bytes)
     (option_decode uint_decode)
     (option_wf any_wf)"
  by (intro codec_intros)

lemma BlockInfo_Value_coinbase_script_sig_codec:
  "codec (vec_encode u8_encode :: bytes \<Rightarrow> bytes)
     (vec_decode u8_decode)
     (vec_wf any_wf)"
  by (intro codec_intros)

lemmas BlockInfo_Value_roundtrips [codec_simps] =
  BlockInfo_Value_block_hash_codec [THEN codec.dec_enc]
  BlockInfo_Value_timestamp_codec [THEN codec.dec_enc]
  BlockInfo_Value_coinbase_script_sig_codec [THEN codec.dec_enc]

interpretation bi_value: codec BlockInfo_Value_encode BlockInfo_Value_decode BlockInfo_Value_wf
  by unfold_locales
    (simp add: BlockInfo_Value_encode_def BlockInfo_Value_decode_def BlockInfo_Value_wf_def codec_simps)

lemmas BlockInfo_Value_codec [codec_intros] = bi_value.codec_axioms
lemmas BlockInfo_Value_roundtrip [codec_simps] = bi_value.dec_enc

subsection \<open>\<open>height_by_block_hash\<close>\<close>

record HeightByBlockHash_Key =
  hbbhk_block_hash :: BlockHash

definition HeightByBlockHash_Key_encode :: "HeightByBlockHash_Key \<Rightarrow> bytes" where
  "HeightByBlockHash_Key_encode r = derived_struct_encode
     [array_encode (hbbhk_block_hash r)]"

definition HeightByBlockHash_Key_decode :: "HeightByBlockHash_Key decoder" where
  "HeightByBlockHash_Key_decode bs =
     and_then (array_decode 32 bs) (\<lambda>block_hash bs.
       Inr (\<lparr>hbbhk_block_hash = block_hash\<rparr>, bs))"

definition HeightByBlockHash_Key_wf :: "HeightByBlockHash_Key \<Rightarrow> bool" where
  "HeightByBlockHash_Key_wf r \<longleftrightarrow> array_wf 32 (hbbhk_block_hash r)"

interpretation hbbh_key: codec HeightByBlockHash_Key_encode HeightByBlockHash_Key_decode HeightByBlockHash_Key_wf
  by unfold_locales
    (simp add: HeightByBlockHash_Key_encode_def HeightByBlockHash_Key_decode_def HeightByBlockHash_Key_wf_def codec_simps)

lemmas HeightByBlockHash_Key_codec [codec_intros] = hbbh_key.codec_axioms
lemmas HeightByBlockHash_Key_roundtrip [codec_simps] = hbbh_key.dec_enc

record HeightByBlockHash_Value =
  hbbhv_block_height :: Height

definition HeightByBlockHash_Value_encode :: "HeightByBlockHash_Value \<Rightarrow> bytes" where
  "HeightByBlockHash_Value_encode r = derived_struct_encode
     [uint_encode (hbbhv_block_height r)]"

definition HeightByBlockHash_Value_decode :: "HeightByBlockHash_Value decoder" where
  "HeightByBlockHash_Value_decode bs =
     and_then (uint_decode bs) (\<lambda>block_height bs.
       Inr (\<lparr>hbbhv_block_height = block_height\<rparr>, bs))"

definition HeightByBlockHash_Value_wf :: "HeightByBlockHash_Value \<Rightarrow> bool" where
  "HeightByBlockHash_Value_wf r \<longleftrightarrow> True"

interpretation hbbh_value: codec HeightByBlockHash_Value_encode HeightByBlockHash_Value_decode HeightByBlockHash_Value_wf
  by unfold_locales
    (simp add: HeightByBlockHash_Value_encode_def HeightByBlockHash_Value_decode_def HeightByBlockHash_Value_wf_def codec_simps)

lemmas HeightByBlockHash_Value_codec [codec_intros] = hbbh_value.codec_axioms
lemmas HeightByBlockHash_Value_roundtrip [codec_simps] = hbbh_value.dec_enc

subsection \<open>\<open>height_by_timestamp\<close>\<close>

record HeightByTimestamp_Key =
  hbtk_timestamp :: Timestamp

definition HeightByTimestamp_Key_encode :: "HeightByTimestamp_Key \<Rightarrow> bytes" where
  "HeightByTimestamp_Key_encode r = derived_struct_encode
     [uint_encode (hbtk_timestamp r)]"

definition HeightByTimestamp_Key_decode :: "HeightByTimestamp_Key decoder" where
  "HeightByTimestamp_Key_decode bs =
     and_then (uint_decode bs) (\<lambda>timestamp bs.
       Inr (\<lparr>hbtk_timestamp = timestamp\<rparr>, bs))"

definition HeightByTimestamp_Key_wf :: "HeightByTimestamp_Key \<Rightarrow> bool" where
  "HeightByTimestamp_Key_wf r \<longleftrightarrow> True"

interpretation hbt_key: codec HeightByTimestamp_Key_encode HeightByTimestamp_Key_decode HeightByTimestamp_Key_wf
  by unfold_locales
    (simp add: HeightByTimestamp_Key_encode_def HeightByTimestamp_Key_decode_def HeightByTimestamp_Key_wf_def codec_simps)

lemmas HeightByTimestamp_Key_codec [codec_intros] = hbt_key.codec_axioms
lemmas HeightByTimestamp_Key_roundtrip [codec_simps] = hbt_key.dec_enc

record HeightByTimestamp_Value =
  hbtv_height :: Height

definition HeightByTimestamp_Value_encode :: "HeightByTimestamp_Value \<Rightarrow> bytes" where
  "HeightByTimestamp_Value_encode r = derived_struct_encode
     [uint_encode (hbtv_height r)]"

definition HeightByTimestamp_Value_decode :: "HeightByTimestamp_Value decoder" where
  "HeightByTimestamp_Value_decode bs =
     and_then (uint_decode bs) (\<lambda>height bs.
       Inr (\<lparr>hbtv_height = height\<rparr>, bs))"

definition HeightByTimestamp_Value_wf :: "HeightByTimestamp_Value \<Rightarrow> bool" where
  "HeightByTimestamp_Value_wf r \<longleftrightarrow> True"

interpretation hbt_value: codec HeightByTimestamp_Value_encode HeightByTimestamp_Value_decode HeightByTimestamp_Value_wf
  by unfold_locales
    (simp add: HeightByTimestamp_Value_encode_def HeightByTimestamp_Value_decode_def HeightByTimestamp_Value_wf_def codec_simps)

lemmas HeightByTimestamp_Value_codec [codec_intros] = hbt_value.codec_axioms
lemmas HeightByTimestamp_Value_roundtrip [codec_simps] = hbt_value.dec_enc

subsection \<open>\<open>historical_sat_balance_by_script_hash\<close>\<close>

record HistoricalSatBalanceByScriptHash_Key =
  hsbbshk_script_hash :: ScriptHash
  hsbbshk_height :: Height

definition HistoricalSatBalanceByScriptHash_Key_encode :: "HistoricalSatBalanceByScriptHash_Key \<Rightarrow> bytes" where
  "HistoricalSatBalanceByScriptHash_Key_encode r = derived_struct_encode
     [array_encode (hsbbshk_script_hash r),
      uint_encode (hsbbshk_height r)]"

definition HistoricalSatBalanceByScriptHash_Key_decode :: "HistoricalSatBalanceByScriptHash_Key decoder" where
  "HistoricalSatBalanceByScriptHash_Key_decode bs =
     and_then (array_decode 20 bs) (\<lambda>script_hash bs.
     and_then (uint_decode bs) (\<lambda>height bs.
       Inr (\<lparr>hsbbshk_script_hash = script_hash, hsbbshk_height = height\<rparr>, bs)))"

definition HistoricalSatBalanceByScriptHash_Key_wf :: "HistoricalSatBalanceByScriptHash_Key \<Rightarrow> bool" where
  "HistoricalSatBalanceByScriptHash_Key_wf r \<longleftrightarrow> array_wf 20 (hsbbshk_script_hash r)"

interpretation hsbbsh_key: codec HistoricalSatBalanceByScriptHash_Key_encode HistoricalSatBalanceByScriptHash_Key_decode HistoricalSatBalanceByScriptHash_Key_wf
  by unfold_locales
    (simp add: HistoricalSatBalanceByScriptHash_Key_encode_def HistoricalSatBalanceByScriptHash_Key_decode_def HistoricalSatBalanceByScriptHash_Key_wf_def codec_simps)

lemmas HistoricalSatBalanceByScriptHash_Key_codec [codec_intros] = hsbbsh_key.codec_axioms
lemmas HistoricalSatBalanceByScriptHash_Key_roundtrip [codec_simps] = hsbbsh_key.dec_enc

subsection \<open>\<open>sat_balance_by_script_hash\<close>\<close>

record SatBalanceByScriptHash_Key =
  sbbshk_script_hash :: ScriptHash

definition SatBalanceByScriptHash_Key_encode :: "SatBalanceByScriptHash_Key \<Rightarrow> bytes" where
  "SatBalanceByScriptHash_Key_encode r = derived_struct_encode
     [array_encode (sbbshk_script_hash r)]"

definition SatBalanceByScriptHash_Key_decode :: "SatBalanceByScriptHash_Key decoder" where
  "SatBalanceByScriptHash_Key_decode bs =
     and_then (array_decode 20 bs) (\<lambda>script_hash bs.
       Inr (\<lparr>sbbshk_script_hash = script_hash\<rparr>, bs))"

definition SatBalanceByScriptHash_Key_wf :: "SatBalanceByScriptHash_Key \<Rightarrow> bool" where
  "SatBalanceByScriptHash_Key_wf r \<longleftrightarrow> array_wf 20 (sbbshk_script_hash r)"

interpretation sbbsh_key: codec SatBalanceByScriptHash_Key_encode SatBalanceByScriptHash_Key_decode SatBalanceByScriptHash_Key_wf
  by unfold_locales
    (simp add: SatBalanceByScriptHash_Key_encode_def SatBalanceByScriptHash_Key_decode_def SatBalanceByScriptHash_Key_wf_def codec_simps)

lemmas SatBalanceByScriptHash_Key_codec [codec_intros] = sbbsh_key.codec_axioms
lemmas SatBalanceByScriptHash_Key_roundtrip [codec_simps] = sbbsh_key.dec_enc

record SatBalanceByScriptHash_Value =
  sbbshv_satoshis :: SatoshiQuantity

definition SatBalanceByScriptHash_Value_encode :: "SatBalanceByScriptHash_Value \<Rightarrow> bytes" where
  "SatBalanceByScriptHash_Value_encode r = derived_struct_encode
     [uint_encode (sbbshv_satoshis r)]"

definition SatBalanceByScriptHash_Value_decode :: "SatBalanceByScriptHash_Value decoder" where
  "SatBalanceByScriptHash_Value_decode bs =
     and_then (uint_decode bs) (\<lambda>satoshis bs.
       Inr (\<lparr>sbbshv_satoshis = satoshis\<rparr>, bs))"

definition SatBalanceByScriptHash_Value_wf :: "SatBalanceByScriptHash_Value \<Rightarrow> bool" where
  "SatBalanceByScriptHash_Value_wf r \<longleftrightarrow> True"

interpretation sbbsh_value: codec SatBalanceByScriptHash_Value_encode SatBalanceByScriptHash_Value_decode SatBalanceByScriptHash_Value_wf
  by unfold_locales
    (simp add: SatBalanceByScriptHash_Value_encode_def SatBalanceByScriptHash_Value_decode_def SatBalanceByScriptHash_Value_wf_def codec_simps)

lemmas SatBalanceByScriptHash_Value_codec [codec_intros] = sbbsh_value.codec_axioms
lemmas SatBalanceByScriptHash_Value_roundtrip [codec_simps] = sbbsh_value.dec_enc

subsection \<open>\<open>sat_txs_by_script_hash\<close>\<close>

datatype SatTxsByScriptHash_SatActivityType =
    Increased
  | Decreased
  | SelfTransferred

fun SatTxsByScriptHash_SatActivityType_encode :: "SatTxsByScriptHash_SatActivityType \<Rightarrow> bytes" where
  "SatTxsByScriptHash_SatActivityType_encode (Increased) = derived_enum_encode 0 []"
| "SatTxsByScriptHash_SatActivityType_encode (Decreased) = derived_enum_encode 1 []"
| "SatTxsByScriptHash_SatActivityType_encode (SelfTransferred) = derived_enum_encode 2 []"

definition SatTxsByScriptHash_SatActivityType_decode :: "SatTxsByScriptHash_SatActivityType decoder" where
  "SatTxsByScriptHash_SatActivityType_decode = derived_enum_decode (\<lambda>kind.
        if kind = 0 then Some (\<lambda>bs. Inr (Increased, bs))
        else if kind = 1 then Some (\<lambda>bs. Inr (Decreased, bs))
        else if kind = 2 then Some (\<lambda>bs. Inr (SelfTransferred, bs))
        else None)"

fun SatTxsByScriptHash_SatActivityType_wf :: "SatTxsByScriptHash_SatActivityType \<Rightarrow> bool" where
  "SatTxsByScriptHash_SatActivityType_wf (Increased) \<longleftrightarrow> True"
| "SatTxsByScriptHash_SatActivityType_wf (Decreased) \<longleftrightarrow> True"
| "SatTxsByScriptHash_SatActivityType_wf (SelfTransferred) \<longleftrightarrow> True"

interpretation stbsh_satactivitytype: codec SatTxsByScriptHash_SatActivityType_encode SatTxsByScriptHash_SatActivityType_decode SatTxsByScriptHash_SatActivityType_wf
proof unfold_locales
  fix x rest
  assume "SatTxsByScriptHash_SatActivityType_wf x"
  then show "SatTxsByScriptHash_SatActivityType_decode (SatTxsByScriptHash_SatActivityType_encode x @ rest) = Inr (x, rest)"
    by (cases x) (simp_all add: SatTxsByScriptHash_SatActivityType_decode_def derived_enum_decode_def derived_enum_encode_def codec_simps)
qed

lemmas SatTxsByScriptHash_SatActivityType_codec [codec_intros] = stbsh_satactivitytype.codec_axioms
lemmas SatTxsByScriptHash_SatActivityType_roundtrip [codec_simps] = stbsh_satactivitytype.dec_enc

record SatTxsByScriptHash_Key =
  stbshk_script_hash :: ScriptHash
  stbshk_height :: Height
  stbshk_activity_tx_index :: TxIndex
  stbshk_tx_hash :: TxHash

definition SatTxsByScriptHash_Key_encode :: "SatTxsByScriptHash_Key \<Rightarrow> bytes" where
  "SatTxsByScriptHash_Key_encode r = derived_struct_encode
     [array_encode (stbshk_script_hash r),
      uint_encode (stbshk_height r),
      uint_encode (stbshk_activity_tx_index r),
      array_encode (stbshk_tx_hash r)]"

definition SatTxsByScriptHash_Key_decode :: "SatTxsByScriptHash_Key decoder" where
  "SatTxsByScriptHash_Key_decode bs =
     and_then (array_decode 20 bs) (\<lambda>script_hash bs.
     and_then (uint_decode bs) (\<lambda>height bs.
     and_then (uint_decode bs) (\<lambda>activity_tx_index bs.
     and_then (array_decode 32 bs) (\<lambda>tx_hash bs.
       Inr (\<lparr>stbshk_script_hash = script_hash,
            stbshk_height = height,
            stbshk_activity_tx_index = activity_tx_index,
            stbshk_tx_hash = tx_hash\<rparr>, bs)))))"

definition SatTxsByScriptHash_Key_wf :: "SatTxsByScriptHash_Key \<Rightarrow> bool" where
  "SatTxsByScriptHash_Key_wf r \<longleftrightarrow> array_wf 20 (stbshk_script_hash r) \<and>
     array_wf 32 (stbshk_tx_hash r)"

interpretation stbsh_key: codec SatTxsByScriptHash_Key_encode SatTxsByScriptHash_Key_decode SatTxsByScriptHash_Key_wf
  by unfold_locales
    (simp add: SatTxsByScriptHash_Key_encode_def SatTxsByScriptHash_Key_decode_def SatTxsByScriptHash_Key_wf_def codec_simps)

lemmas SatTxsByScriptHash_Key_codec [codec_intros] = stbsh_key.codec_axioms
lemmas SatTxsByScriptHash_Key_roundtrip [codec_simps] = stbsh_key.dec_enc

record SatTxsByScriptHash_Value =
  stbshv_amount :: SatoshiQuantity
  stbshv_activity_type :: SatTxsByScriptHash_SatActivityType

definition SatTxsByScriptHash_Value_encode :: "SatTxsByScriptHash_Value \<Rightarrow> bytes" where
  "SatTxsByScriptHash_Value_encode r = derived_struct_encode
     [uint_encode (stbshv_amount r),
      SatTxsByScriptHash_SatActivityType_encode (stbshv_activity_type r)]"

definition SatTxsByScriptHash_Value_decode :: "SatTxsByScriptHash_Value decoder" where
  "SatTxsByScriptHash_Value_decode bs =
     and_then (uint_decode bs) (\<lambda>amount bs.
     and_then (SatTxsByScriptHash_SatActivityType_decode bs) (\<lambda>activity_type bs.
       Inr (\<lparr>stbshv_amount = amount, stbshv_activity_type = activity_type\<rparr>, bs)))"

definition SatTxsByScriptHash_Value_wf :: "SatTxsByScriptHash_Value \<Rightarrow> bool" where
  "SatTxsByScriptHash_Value_wf r \<longleftrightarrow> SatTxsByScriptHash_SatActivityType_wf (stbshv_activity_type r)"

interpretation stbsh_value: codec SatTxsByScriptHash_Value_encode SatTxsByScriptHash_Value_decode SatTxsByScriptHash_Value_wf
  by unfold_locales
    (simp add: SatTxsByScriptHash_Value_encode_def SatTxsByScriptHash_Value_decode_def SatTxsByScriptHash_Value_wf_def codec_simps)

lemmas SatTxsByScriptHash_Value_codec [codec_intros] = stbsh_value.codec_axioms
lemmas SatTxsByScriptHash_Value_roundtrip [codec_simps] = stbsh_value.dec_enc

record SatTxsByScriptHash_Cursor =
  stbshc_height :: Height
  stbshc_activity_tx_index :: TxIndex
  stbshc_tx_hash :: TxHash

definition SatTxsByScriptHash_Cursor_encode :: "SatTxsByScriptHash_Cursor \<Rightarrow> bytes" where
  "SatTxsByScriptHash_Cursor_encode r = derived_struct_encode
     [uint_encode (stbshc_height r),
      uint_encode (stbshc_activity_tx_index r),
      array_encode (stbshc_tx_hash r)]"

definition SatTxsByScriptHash_Cursor_decode :: "SatTxsByScriptHash_Cursor decoder" where
  "SatTxsByScriptHash_Cursor_decode bs =
     and_then (uint_decode bs) (\<lambda>height bs.
     and_then (uint_decode bs) (\<lambda>activity_tx_index bs.
     and_then (array_decode 32 bs) (\<lambda>tx_hash bs.
       Inr (\<lparr>stbshc_height = height, stbshc_activity_tx_index = activity_tx_index, stbshc_tx_hash = tx_hash\<rparr>, bs))))"

definition SatTxsByScriptHash_Cursor_wf :: "SatTxsByScriptHash_Cursor \<Rightarrow> bool" where
  "SatTxsByScriptHash_Cursor_wf r \<longleftrightarrow> array_wf 32 (stbshc_tx_hash r)"

interpretation stbsh_cursor: codec SatTxsByScriptHash_Cursor_encode SatTxsByScriptHash_Cursor_decode SatTxsByScriptHash_Cursor_wf
  by unfold_locales
    (simp add: SatTxsByScriptHash_Cursor_encode_def SatTxsByScriptHash_Cursor_decode_def SatTxsByScriptHash_Cursor_wf_def codec_simps)

lemmas SatTxsByScriptHash_Cursor_codec [codec_intros] = stbsh_cursor.codec_axioms
lemmas SatTxsByScriptHash_Cursor_roundtrip [codec_simps] = stbsh_cursor.dec_enc

subsection \<open>\<open>sats_per_vb_by_block\<close>\<close>

record SatsPerVbByBlock_Key =
  spvbbk_height :: Height

definition SatsPerVbByBlock_Key_encode :: "SatsPerVbByBlock_Key \<Rightarrow> bytes" where
  "SatsPerVbByBlock_Key_encode r = derived_struct_encode
     [uint_encode (spvbbk_height r)]"

definition SatsPerVbByBlock_Key_decode :: "SatsPerVbByBlock_Key decoder" where
  "SatsPerVbByBlock_Key_decode bs =
     and_then (uint_decode bs) (\<lambda>height bs.
       Inr (\<lparr>spvbbk_height = height\<rparr>, bs))"

definition SatsPerVbByBlock_Key_wf :: "SatsPerVbByBlock_Key \<Rightarrow> bool" where
  "SatsPerVbByBlock_Key_wf r \<longleftrightarrow> True"

interpretation spvbb_key: codec SatsPerVbByBlock_Key_encode SatsPerVbByBlock_Key_decode SatsPerVbByBlock_Key_wf
  by unfold_locales
    (simp add: SatsPerVbByBlock_Key_encode_def SatsPerVbByBlock_Key_decode_def SatsPerVbByBlock_Key_wf_def codec_simps)

lemmas SatsPerVbByBlock_Key_codec [codec_intros] = spvbb_key.codec_axioms
lemmas SatsPerVbByBlock_Key_roundtrip [codec_simps] = spvbb_key.dec_enc

record SatsPerVbByBlock_Value =
  spvbbv_min :: u64
  spvbbv_median :: u64
  spvbbv_max :: u64

definition SatsPerVbByBlock_Value_encode :: "SatsPerVbByBlock_Value \<Rightarrow> bytes" where
  "SatsPerVbByBlock_Value_encode r = derived_struct_encode
     [uint_encode (spvbbv_min r),
      uint_encode (spvbbv_median r),
      uint_encode (spvbbv_max r)]"

definition SatsPerVbByBlock_Value_decode :: "SatsPerVbByBlock_Value decoder" where
  "SatsPerVbByBlock_Value_decode bs =
     and_then (uint_decode bs) (\<lambda>min bs.
     and_then (uint_decode bs) (\<lambda>median bs.
     and_then (uint_decode bs) (\<lambda>max bs.
       Inr (\<lparr>spvbbv_min = min, spvbbv_median = median, spvbbv_max = max\<rparr>, bs))))"

definition SatsPerVbByBlock_Value_wf :: "SatsPerVbByBlock_Value \<Rightarrow> bool" where
  "SatsPerVbByBlock_Value_wf r \<longleftrightarrow> True"

interpretation spvbb_value: codec SatsPerVbByBlock_Value_encode SatsPerVbByBlock_Value_decode SatsPerVbByBlock_Value_wf
  by unfold_locales
    (simp add: SatsPerVbByBlock_Value_encode_def SatsPerVbByBlock_Value_decode_def SatsPerVbByBlock_Value_wf_def codec_simps)

lemmas SatsPerVbByBlock_Value_codec [codec_intros] = spvbb_value.codec_axioms
lemmas SatsPerVbByBlock_Value_roundtrip [codec_simps] = spvbb_value.dec_enc

subsection \<open>\<open>script_by_script_hash\<close>\<close>

record ScriptByScriptHash_Key =
  sbshk_script_hash :: ScriptHash

definition ScriptByScriptHash_Key_encode :: "ScriptByScriptHash_Key \<Rightarrow> bytes" where
  "ScriptByScriptHash_Key_encode r = derived_struct_encode
     [array_encode (sbshk_script_hash r)]"

definition ScriptByScriptHash_Key_decode :: "ScriptByScriptHash_Key decoder" where
  "ScriptByScriptHash_Key_decode bs =
     and_then (array_decode 20 bs) (\<lambda>script_hash bs.
       Inr (\<lparr>sbshk_script_hash = script_hash\<rparr>, bs))"

definition ScriptByScriptHash_Key_wf :: "ScriptByScriptHash_Key \<Rightarrow> bool" where
  "ScriptByScriptHash_Key_wf r \<longleftrightarrow> array_wf 20 (sbshk_script_hash r)"

interpretation sbsh_key: codec ScriptByScriptHash_Key_encode ScriptByScriptHash_Key_decode ScriptByScriptHash_Key_wf
  by unfold_locales
    (simp add: ScriptByScriptHash_Key_encode_def ScriptByScriptHash_Key_decode_def ScriptByScriptHash_Key_wf_def codec_simps)

lemmas ScriptByScriptHash_Key_codec [codec_intros] = sbsh_key.codec_axioms
lemmas ScriptByScriptHash_Key_roundtrip [codec_simps] = sbsh_key.dec_enc

record ScriptByScriptHash_Value =
  sbshv_script :: bytes

definition ScriptByScriptHash_Value_encode :: "ScriptByScriptHash_Value \<Rightarrow> bytes" where
  "ScriptByScriptHash_Value_encode r = derived_struct_encode
     [vec_encode u8_encode (sbshv_script r)]"

definition ScriptByScriptHash_Value_decode :: "ScriptByScriptHash_Value decoder" where
  "ScriptByScriptHash_Value_decode bs =
     and_then (vec_decode u8_decode bs) (\<lambda>script bs.
       Inr (\<lparr>sbshv_script = script\<rparr>, bs))"

definition ScriptByScriptHash_Value_wf :: "ScriptByScriptHash_Value \<Rightarrow> bool" where
  "ScriptByScriptHash_Value_wf r \<longleftrightarrow> vec_wf any_wf (sbshv_script r)"

interpretation sbsh_value: codec ScriptByScriptHash_Value_encode ScriptByScriptHash_Value_decode ScriptByScriptHash_Value_wf
  by unfold_locales
    (simp add: ScriptByScriptHash_Value_encode_def ScriptByScriptHash_Value_decode_def ScriptByScriptHash_Value_wf_def codec_simps)

lemmas ScriptByScriptHash_Value_codec [codec_intros] = sbsh_value.codec_axioms
lemmas ScriptByScriptHash_Value_roundtrip [codec_simps] = sbsh_value.dec_enc

subsection \<open>\<open>script_hash_by_address_payload_hash\<close>\<close>

record ScriptHashByAddressPayloadHash_Key =
  shbaphk_payload_hash :: bytes

definition ScriptHashByAddressPayloadHash_Key_encode :: "ScriptHashByAddressPayloadHash_Key \<Rightarrow> bytes" where
  "ScriptHashByAddressPayloadHash_Key_encode r = derived_struct_encode
     [array_encode (shbaphk_payload_hash r)]"

definition ScriptHashByAddressPayloadHash_Key_decode :: "ScriptHashByAddressPayloadHash_Key decoder" where
  "ScriptHashByAddressPayloadHash_Key_decode bs =
     and_then (array_decode 20 bs) (\<lambda>payload_hash bs.
       Inr (\<lparr>shbaphk_payload_hash = payload_hash\<rparr>, bs))"

definition ScriptHashByAddressPayloadHash_Key_wf :: "ScriptHashByAddressPayloadHash_Key \<Rightarrow> bool" where
  "ScriptHashByAddressPayloadHash_Key_wf r \<longleftrightarrow> array_wf 20 (shbaphk_payload_hash r)"

interpretation shbaph_key: codec ScriptHashByAddressPayloadHash_Key_encode ScriptHashByAddressPayloadHash_Key_decode ScriptHashByAddressPayloadHash_Key_wf
  by unfold_locales
    (simp add: ScriptHashByAddressPayloadHash_Key_encode_def ScriptHashByAddressPayloadHash_Key_decode_def ScriptHashByAddressPayloadHash_Key_wf_def codec_simps)

lemmas ScriptHashByAddressPayloadHash_Key_codec [codec_intros] = shbaph_key.codec_axioms
lemmas ScriptHashByAddressPayloadHash_Key_roundtrip [codec_simps] = shbaph_key.dec_enc

record ScriptHashByAddressPayloadHash_Value =
  shbaphv_script_hash :: ScriptHash

definition ScriptHashByAddressPayloadHash_Value_encode :: "ScriptHashByAddressPayloadHash_Value \<Rightarrow> bytes" where
  "ScriptHashByAddressPayloadHash_Value_encode r = derived_struct_encode
     [array_encode (shbaphv_script_hash r)]"

definition ScriptHashByAddressPayloadHash_Value_decode :: "ScriptHashByAddressPayloadHash_Value decoder" where
  "ScriptHashByAddressPayloadHash_Value_decode bs =
     and_then (array_decode 20 bs) (\<lambda>script_hash bs.
       Inr (\<lparr>shbaphv_script_hash = script_hash\<rparr>, bs))"

definition ScriptHashByAddressPayloadHash_Value_wf :: "ScriptHashByAddressPayloadHash_Value \<Rightarrow> bool" where
  "ScriptHashByAddressPayloadHash_Value_wf r \<longleftrightarrow> array_wf 20 (shbaphv_script_hash r)"

interpretation shbaph_value: codec ScriptHashByAddressPayloadHash_Value_encode ScriptHashByAddressPayloadHash_Value_decode ScriptHashByAddressPayloadHash_Value_wf
  by unfold_locales
    (simp add: ScriptHashByAddressPayloadHash_Value_encode_def ScriptHashByAddressPayloadHash_Value_decode_def ScriptHashByAddressPayloadHash_Value_wf_def codec_simps)

lemmas ScriptHashByAddressPayloadHash_Value_codec [codec_intros] = shbaph_value.codec_axioms
lemmas ScriptHashByAddressPayloadHash_Value_roundtrip [codec_simps] = shbaph_value.dec_enc

subsection \<open>\<open>spending_tx_by_txo\<close>\<close>

record SpendingTxByTxo_Key =
  stbtk_utxo_tx_hash :: TxHash
  stbtk_utxo_vout :: TxoIndex

definition SpendingTxByTxo_Key_encode :: "SpendingTxByTxo_Key \<Rightarrow> bytes" where
  "SpendingTxByTxo_Key_encode r = derived_struct_encode
     [array_encode (stbtk_utxo_tx_hash r),
      uint_encode (stbtk_utxo_vout r)]"

definition SpendingTxByTxo_Key_decode :: "SpendingTxByTxo_Key decoder" where
  "SpendingTxByTxo_Key_decode bs =
     and_then (array_decode 32 bs) (\<lambda>utxo_tx_hash bs.
     and_then (uint_decode bs) (\<lambda>utxo_vout bs.
       Inr (\<lparr>stbtk_utxo_tx_hash = utxo_tx_hash, stbtk_utxo_vout = utxo_vout\<rparr>, bs)))"

definition SpendingTxByTxo_Key_wf :: "SpendingTxByTxo_Key \<Rightarrow> bool" where
  "SpendingTxByTxo_Key_wf r \<longleftrightarrow> array_wf 32 (stbtk_utxo_tx_hash r)"

interpretation stbt_key: codec SpendingTxByTxo_Key_encode SpendingTxByTxo_Key_decode SpendingTxByTxo_Key_wf
  by unfold_locales
    (simp add: SpendingTxByTxo_Key_encode_def SpendingTxByTxo_Key_decode_def SpendingTxByTxo_Key_wf_def codec_simps)

lemmas SpendingTxByTxo_Key_codec [codec_intros] = stbt_key.codec_axioms
lemmas SpendingTxByTxo_Key_roundtrip [codec_simps] = stbt_key.dec_enc

record SpendingTxByTxo_Value =
  stbtv_tx_hash :: TxHash

definition SpendingTxByTxo_Value_encode :: "SpendingTxByTxo_Value \<Rightarrow> bytes" where
  "SpendingTxByTxo_Value_encode r = derived_struct_encode
     [array_encode (stbtv_tx_hash r)]"

definition SpendingTxByTxo_Value_decode :: "SpendingTxByTxo_Value decoder" where
  "SpendingTxByTxo_Value_decode bs =
     and_then (array_decode 32 bs) (\<lambda>tx_hash bs.
       Inr (\<lparr>stbtv_tx_hash = tx_hash\<rparr>, bs))"

definition SpendingTxByTxo_Value_wf :: "SpendingTxByTxo_Value \<Rightarrow> bool" where
  "SpendingTxByTxo_Value_wf r \<longleftrightarrow> array_wf 32 (stbtv_tx_hash r)"

interpretation stbt_value: codec SpendingTxByTxo_Value_encode SpendingTxByTxo_Value_decode SpendingTxByTxo_Value_wf
  by unfold_locales
    (simp add: SpendingTxByTxo_Value_encode_def SpendingTxByTxo_Value_decode_def SpendingTxByTxo_Value_wf_def codec_simps)

lemmas SpendingTxByTxo_Value_codec [codec_intros] = stbt_value.codec_axioms
lemmas SpendingTxByTxo_Value_roundtrip [codec_simps] = stbt_value.dec_enc

subsection \<open>\<open>total_inscriptions_by_script_hash\<close>\<close>

record TotalInscriptionsByScriptHash_Key =
  tibshk_script_hash :: ScriptHash

definition TotalInscriptionsByScriptHash_Key_encode :: "TotalInscriptionsByScriptHash_Key \<Rightarrow> bytes" where
  "TotalInscriptionsByScriptHash_Key_encode r = derived_struct_encode
     [array_encode (tibshk_script_hash r)]"

definition TotalInscriptionsByScriptHash_Key_decode :: "TotalInscriptionsByScriptHash_Key decoder" where
  "TotalInscriptionsByScriptHash_Key_decode bs =
     and_then (array_decode 20 bs) (\<lambda>script_hash bs.
       Inr (\<lparr>tibshk_script_hash = script_hash\<rparr>, bs))"

definition TotalInscriptionsByScriptHash_Key_wf :: "TotalInscriptionsByScriptHash_Key \<Rightarrow> bool" where
  "TotalInscriptionsByScriptHash_Key_wf r \<longleftrightarrow> array_wf 20 (tibshk_script_hash r)"

interpretation tibsh_key: codec TotalInscriptionsByScriptHash_Key_encode TotalInscriptionsByScriptHash_Key_decode TotalInscriptionsByScriptHash_Key_wf
  by unfold_locales
    (simp add: TotalInscriptionsByScriptHash_Key_encode_def TotalInscriptionsByScriptHash_Key_decode_def TotalInscriptionsByScriptHash_Key_wf_def codec_simps)

lemmas TotalInscriptionsByScriptHash_Key_codec [codec_intros] = tibsh_key.codec_axioms
lemmas TotalInscriptionsByScriptHash_Key_roundtrip [codec_simps] = tibsh_key.dec_enc

record TotalInscriptionsByScriptHash_Value =
  tibshv_total_inscriptions :: u64

definition TotalInscriptionsByScriptHash_Value_encode :: "TotalInscriptionsByScriptHash_Value \<Rightarrow> bytes" where
  "TotalInscriptionsByScriptHash_Value_encode r = derived_struct_encode
     [uint_encode (tibshv_total_inscriptions r)]"

definition TotalInscriptionsByScriptHash_Value_decode :: "TotalInscriptionsByScriptHash_Value decoder" where
  "TotalInscriptionsByScriptHash_Value_decode bs =
     and_then (uint_decode bs) (\<lambda>total_inscriptions bs.
       Inr (\<lparr>tibshv_total_inscriptions = total_inscriptions\<rparr>, bs))"

definition TotalInscriptionsByScriptHash_Value_wf :: "TotalInscriptionsByScriptHash_Value \<Rightarrow> bool" where
  "TotalInscriptionsByScriptHash_Value_wf r \<longleftrightarrow> True"

interpretation tibsh_value: codec TotalInscriptionsByScriptHash_Value_encode TotalInscriptionsByScriptHash_Value_decode TotalInscriptionsByScriptHash_Value_wf
  by unfold_locales
    (simp add: TotalInscriptionsByScriptHash_Value_encode_def TotalInscriptionsByScriptHash_Value_decode_def TotalInscriptionsByScriptHash_Value_wf_def codec_simps)

lemmas TotalInscriptionsByScriptHash_Value_codec [codec_intros] = tibsh_value.codec_axioms
lemmas TotalInscriptionsByScriptHash_Value_roundtrip [codec_simps] = tibsh_value.dec_enc

subsection \<open>\<open>total_outputs_by_script_hash\<close>\<close>

record TotalOutputsByScriptHash_Key =
  tobshk_script_hash :: ScriptHash

definition TotalOutputsByScriptHash_Key_encode :: "TotalOutputsByScriptHash_Key \<Rightarrow> bytes" where
  "TotalOutputsByScriptHash_Key_encode r = derived_struct_encode
     [array_encode (tobshk_script_hash r)]"

definition TotalOutputsByScriptHash_Key_decode :: "TotalOutputsByScriptHash_Key decoder" where
  "TotalOutputsByScriptHash_Key_decode bs =
     and_then (array_decode 20 bs) (\<lambda>script_hash bs.
       Inr (\<lparr>tobshk_script_hash = script_hash\<rparr>, bs))"

definition TotalOutputsByScriptHash_Key_wf :: "TotalOutputsByScriptHash_Key \<Rightarrow> bool" where
  "TotalOutputsByScriptHash_Key_wf r \<longleftrightarrow> array_wf 20 (tobshk_script_hash r)"

interpretation tobsh_key: codec TotalOutputsByScriptHash_Key_encode TotalOutputsByScriptHash_Key_decode TotalOutputsByScriptHash_Key_wf
  by unfold_locales
    (simp add: TotalOutputsByScriptHash_Key_encode_def TotalOutputsByScriptHash_Key_decode_def TotalOutputsByScriptHash_Key_wf_def codec_simps)

lemmas TotalOutputsByScriptHash_Key_codec [codec_intros] = tobsh_key.codec_axioms
lemmas TotalOutputsByScriptHash_Key_roundtrip [codec_simps] = tobsh_key.dec_enc

record TotalOutputsByScriptHash_Value =
  tobshv_total_outputs :: u64

definition TotalOutputsByScriptHash_Value_encode :: "TotalOutputsByScriptHash_Value \<Rightarrow> bytes" where
  "TotalOutputsByScriptHash_Value_encode r = derived_struct_encode
     [uint_encode (tobshv_total_outputs r)]"

definition TotalOutputsByScriptHash_Value_decode :: "TotalOutputsByScriptHash_Value decoder" where
  "TotalOutputsByScriptHash_Value_decode bs =
     and_then (uint_decode bs) (\<lambda>total_outputs bs.
       Inr (\<lparr>tobshv_total_outputs = total_outputs\<rparr>, bs))"

definition TotalOutputsByScriptHash_Value_wf :: "TotalOutputsByScriptHash_Value \<Rightarrow> bool" where
  "TotalOutputsByScriptHash_Value_wf r \<longleftrightarrow> True"

interpretation tobsh_value: codec TotalOutputsByScriptHash_Value_encode TotalOutputsByScriptHash_Value_decode TotalOutputsByScriptHash_Value_wf
  by unfold_locales
    (simp add: TotalOutputsByScriptHash_Value_encode_def TotalOutputsByScriptHash_Value_decode_def TotalOutputsByScriptHash_Value_wf_def codec_simps)

lemmas TotalOutputsByScriptHash_Value_codec [codec_intros] = tobsh_value.codec_axioms
lemmas TotalOutputsByScriptHash_Value_roundtrip [codec_simps] = tobsh_value.dec_enc

subsection \<open>\<open>total_sat_in_inputs_by_script_hash\<close>\<close>

record TotalSatInInputsByScriptHash_Key =
  tsiibshk_script_hash :: ScriptHash

definition TotalSatInInputsByScriptHash_Key_encode :: "TotalSatInInputsByScriptHash_Key \<Rightarrow> bytes" where
  "TotalSatInInputsByScriptHash_Key_encode r = derived_struct_encode
     [array_encode (tsiibshk_script_hash r)]"

definition TotalSatInInputsByScriptHash_Key_decode :: "TotalSatInInputsByScriptHash_Key decoder" where
  "TotalSatInInputsByScriptHash_Key_decode bs =
     and_then (array_decode 20 bs) (\<lambda>script_hash bs.
       Inr (\<lparr>tsiibshk_script_hash = script_hash\<rparr>, bs))"

definition TotalSatInInputsByScriptHash_Key_wf :: "TotalSatInInputsByScriptHash_Key \<Rightarrow> bool" where
  "TotalSatInInputsByScriptHash_Key_wf r \<longleftrightarrow> array_wf 20 (tsiibshk_script_hash r)"

interpretation tsiibsh_key: codec TotalSatInInputsByScriptHash_Key_encode TotalSatInInputsByScriptHash_Key_decode TotalSatInInputsByScriptHash_Key_wf
  by unfold_locales
    (simp add: TotalSatInInputsByScriptHash_Key_encode_def TotalSatInInputsByScriptHash_Key_decode_def TotalSatInInputsByScriptHash_Key_wf_def codec_simps)

lemmas TotalSatInInputsByScriptHash_Key_codec [codec_intros] = tsiibsh_key.codec_axioms
lemmas TotalSatInInputsByScriptHash_Key_roundtrip [codec_simps] = tsiibsh_key.dec_enc

record TotalSatInInputsByScriptHash_Value =
  tsiibshv_total_sat_in_inputs :: u128

definition TotalSatInInputsByScriptHash_Value_encode :: "TotalSatInInputsByScriptHash_Value \<Rightarrow> bytes" where
  "TotalSatInInputsByScriptHash_Value_encode r = derived_struct_encode
     [uint_encode (tsiibshv_total_sat_in_inputs r)]"

definition TotalSatInInputsByScriptHash_Value_decode :: "TotalSatInInputsByScriptHash_Value decoder" where
  "TotalSatInInputsByScriptHash_Value_decode bs =
     and_then (uint_decode bs) (\<lambda>total_sat_in_inputs bs.
       Inr (\<lparr>tsiibshv_total_sat_in_inputs = total_sat_in_inputs\<rparr>, bs))"

definition TotalSatInInputsByScriptHash_Value_wf :: "TotalSatInInputsByScriptHash_Value \<Rightarrow> bool" where
  "TotalSatInInputsByScriptHash_Value_wf r \<longleftrightarrow> True"

interpretation tsiibsh_value: codec TotalSatInInputsByScriptHash_Value_encode TotalSatInInputsByScriptHash_Value_decode TotalSatInInputsByScriptHash_Value_wf
  by unfold_locales
    (simp add: TotalSatInInputsByScriptHash_Value_encode_def TotalSatInInputsByScriptHash_Value_decode_def TotalSatInInputsByScriptHash_Value_wf_def codec_simps)

lemmas TotalSatInInputsByScriptHash_Value_codec [codec_intros] = tsiibsh_value.codec_axioms
lemmas TotalSatInInputsByScriptHash_Value_roundtrip [codec_simps] = tsiibsh_value.dec_enc

subsection \<open>\<open>total_sat_in_outputs_by_script_hash\<close>\<close>

record TotalSatInOutputsByScriptHash_Key =
  tsiobshk_script_hash :: ScriptHash

definition TotalSatInOutputsByScriptHash_Key_encode :: "TotalSatInOutputsByScriptHash_Key \<Rightarrow> bytes" where
  "TotalSatInOutputsByScriptHash_Key_encode r = derived_struct_encode
     [array_encode (tsiobshk_script_hash r)]"

definition TotalSatInOutputsByScriptHash_Key_decode :: "TotalSatInOutputsByScriptHash_Key decoder" where
  "TotalSatInOutputsByScriptHash_Key_decode bs =
     and_then (array_decode 20 bs) (\<lambda>script_hash bs.
       Inr (\<lparr>tsiobshk_script_hash = script_hash\<rparr>, bs))"

definition TotalSatInOutputsByScriptHash_Key_wf :: "TotalSatInOutputsByScriptHash_Key \<Rightarrow> bool" where
  "TotalSatInOutputsByScriptHash_Key_wf r \<longleftrightarrow> array_wf 20 (tsiobshk_script_hash r)"

interpretation tsiobsh_key: codec TotalSatInOutputsByScriptHash_Key_encode TotalSatInOutputsByScriptHash_Key_decode TotalSatInOutputsByScriptHash_Key_wf
  by unfold_locales
    (simp add: TotalSatInOutputsByScriptHash_Key_encode_def TotalSatInOutputsByScriptHash_Key_decode_def TotalSatInOutputsByScriptHash_Key_wf_def codec_simps)

lemmas TotalSatInOutputsByScriptHash_Key_codec [codec_intros] = tsiobsh_key.codec_axioms
lemmas TotalSatInOutputsByScriptHash_Key_roundtrip [codec_simps] = tsiobsh_key.dec_enc

record TotalSatInOutputsByScriptHash_Value =
  tsiobshv_total_sat_in_outputs :: u128

definition TotalSatInOutputsByScriptHash_Value_encode :: "TotalSatInOutputsByScriptHash_Value \<Rightarrow> bytes" where
  "TotalSatInOutputsByScriptHash_Value_encode r = derived_struct_encode
     [uint_encode (tsiobshv_total_sat_in_outputs r)]"

definition TotalSatInOutputsByScriptHash_Value_decode :: "TotalSatInOutputsByScriptHash_Value decoder" where
  "TotalSatInOutputsByScriptHash_Value_decode bs =
     and_then (uint_decode bs) (\<lambda>total_sat_in_outputs bs.
       Inr (\<lparr>tsiobshv_total_sat_in_outputs = total_sat_in_outputs\<rparr>, bs))"

definition TotalSatInOutputsByScriptHash_Value_wf :: "TotalSatInOutputsByScriptHash_Value \<Rightarrow> bool" where
  "TotalSatInOutputsByScriptHash_Value_wf r \<longleftrightarrow> True"

interpretation tsiobsh_value: codec TotalSatInOutputsByScriptHash_Value_encode TotalSatInOutputsByScriptHash_Value_decode TotalSatInOutputsByScriptHash_Value_wf
  by unfold_locales
    (simp add: TotalSatInOutputsByScriptHash_Value_encode_def TotalSatInOutputsByScriptHash_Value_decode_def TotalSatInOutputsByScriptHash_Value_wf_def codec_simps)

lemmas TotalSatInOutputsByScriptHash_Value_codec [codec_intros] = tsiobsh_value.codec_axioms
lemmas TotalSatInOutputsByScriptHash_Value_roundtrip [codec_simps] = tsiobsh_value.dec_enc

subsection \<open>\<open>total_txs_by_script_hash\<close>\<close>

record TotalTxsByScriptHash_Key =
  ttbshk_script_hash :: ScriptHash

definition TotalTxsByScriptHash_Key_encode :: "TotalTxsByScriptHash_Key \<Rightarrow> bytes" where
  "TotalTxsByScriptHash_Key_encode r = derived_struct_encode
     [array_encode (ttbshk_script_hash r)]"

definition TotalTxsByScriptHash_Key_decode :: "TotalTxsByScriptHash_Key decoder" where
  "TotalTxsByScriptHash_Key_decode bs =
     and_then (array_decode 20 bs) (\<lambda>script_hash bs.
       Inr (\<lparr>ttbshk_script_hash = script_hash\<rparr>, bs))"

definition TotalTxsByScriptHash_Key_wf :: "TotalTxsByScriptHash_Key \<Rightarrow> bool" where
  "TotalTxsByScriptHash_Key_wf r \<longleftrightarrow> array_wf 20 (ttbshk_script_hash r)"

interpretation ttbsh_key: codec TotalTxsByScriptHash_Key_encode TotalTxsByScriptHash_Key_decode TotalTxsByScriptHash_Key_wf
  by unfold_locales
    (simp add: TotalTxsByScriptHash_Key_encode_def TotalTxsByScriptHash_Key_decode_def TotalTxsByScriptHash_Key_wf_def codec_simps)

lemmas TotalTxsByScriptHash_Key_codec [codec_intros] = ttbsh_key.codec_axioms
lemmas TotalTxsByScriptHash_Key_roundtrip [codec_simps] = ttbsh_key.dec_enc

record TotalTxsByScriptHash_Value =
  ttbshv_total_txs :: u64

definition TotalTxsByScriptHash_Value_encode :: "TotalTxsByScriptHash_Value \<Rightarrow> bytes" where
  "TotalTxsByScriptHash_Value_encode r = derived_struct_encode
     [uint_encode (ttbshv_total_txs r)]"

definition TotalTxsByScriptHash_Value_decode :: "TotalTxsByScriptHash_Value decoder" where
  "TotalTxsByScriptHash_Value_decode bs =
     and_then (uint_decode bs) (\<lambda>total_txs bs.
       Inr (\<lparr>ttbshv_total_txs = total_txs\<rparr>, bs))"

definition TotalTxsByScriptHash_Value_wf :: "TotalTxsByScriptHash_Value \<Rightarrow> bool" where
  "TotalTxsByScriptHash_Value_wf r \<longleftrightarrow> True"

interpretation ttbsh_value: codec TotalTxsByScriptHash_Value_encode TotalTxsByScriptHash_Value_decode TotalTxsByScriptHash_Value_wf
  by unfold_locales
    (simp add: TotalTxsByScriptHash_Value_encode_def TotalTxsByScriptHash_Value_decode_def TotalTxsByScriptHash_Value_wf_def codec_simps)

lemmas TotalTxsByScriptHash_Value_codec [codec_intros] = ttbsh_value.codec_axioms
lemmas TotalTxsByScriptHash_Value_roundtrip [codec_simps] = ttbsh_value.dec_enc

subsection \<open>\<open>total_utxos_by_script_hash\<close>\<close>

record TotalUtxosByScriptHash_Key =
  tubshk_script_hash :: ScriptHash

definition TotalUtxosByScriptHash_Key_encode :: "TotalUtxosByScriptHash_Key \<Rightarrow> bytes" where
  "TotalUtxosByScriptHash_Key_encode r = derived_struct_encode
     [array_encode (tubshk_script_hash r)]"

definition TotalUtxosByScriptHash_Key_decode :: "TotalUtxosByScriptHash_Key decoder" where
  "TotalUtxosByScriptHash_Key_decode bs =
     and_then (array_decode 20 bs) (\<lambda>script_hash bs.
       Inr (\<lparr>tubshk_script_hash = script_hash\<rparr>, bs))"

definition TotalUtxosByScriptHash_Key_wf :: "TotalUtxosByScriptHash_Key \<Rightarrow> bool" where
  "TotalUtxosByScriptHash_Key_wf r \<longleftrightarrow> array_wf 20 (tubshk_script_hash r)"

interpretation tubsh_key: codec TotalUtxosByScriptHash_Key_encode TotalUtxosByScriptHash_Key_decode TotalUtxosByScriptHash_Key_wf
  by unfold_locales
    (simp add: TotalUtxosByScriptHash_Key_encode_def TotalUtxosByScriptHash_Key_decode_def TotalUtxosByScriptHash_Key_wf_def codec_simps)

lemmas TotalUtxosByScriptHash_Key_codec [codec_intros] = tubsh_key.codec_axioms
lemmas TotalUtxosByScriptHash_Key_roundtrip [codec_simps] = tubsh_key.dec_enc

record TotalUtxosByScriptHash_Value =
  tubshv_total_utxos :: u64

definition TotalUtxosByScriptHash_Value_encode :: "TotalUtxosByScriptHash_Value \<Rightarrow> bytes" where
  "TotalUtxosByScriptHash_Value_encode r = derived_struct_encode
     [uint_encode (tubshv_total_utxos r)]"

definition TotalUtxosByScriptHash_Value_decode :: "TotalUtxosByScriptHash_Value decoder" where
  "TotalUtxosByScriptHash_Value_decode bs =
     and_then (uint_decode bs) (\<lambda>total_utxos bs.
       Inr (\<lparr>tubshv_total_utxos = total_utxos\<rparr>, bs))"

definition TotalUtxosByScriptHash_Value_wf :: "TotalUtxosByScriptHash_Value \<Rightarrow> bool" where
  "TotalUtxosByScriptHash_Value_wf r \<longleftrightarrow> True"

interpretation tubsh_value: codec TotalUtxosByScriptHash_Value_encode TotalUtxosByScriptHash_Value_decode TotalUtxosByScriptHash_Value_wf
  by unfold_locales
    (simp add: TotalUtxosByScriptHash_Value_encode_def TotalUtxosByScriptHash_Value_decode_def TotalUtxosByScriptHash_Value_wf_def codec_simps)

lemmas TotalUtxosByScriptHash_Value_codec [codec_intros] = tubsh_value.codec_axioms
lemmas TotalUtxosByScriptHash_Value_roundtrip [codec_simps] = tubsh_value.dec_enc

subsection \<open>\<open>tx_first_seen_timestamp\<close>\<close>

record TxFirstSeenTimestamp_Key =
  tfstk_tx_hash :: TxHash

definition TxFirstSeenTimestamp_Key_encode :: "TxFirstSeenTimestamp_Key \<Rightarrow> bytes" where
  "TxFirstSeenTimestamp_Key_encode r = derived_struct_encode
     [array_encode (tfstk_tx_hash r)]"

definition TxFirstSeenTimestamp_Key_decode :: "TxFirstSeenTimestamp_Key decoder" where
  "TxFirstSeenTimestamp_Key_decode bs =
     and_then (array_decode 32 bs) (\<lambda>tx_hash bs.
       Inr (\<lparr>tfstk_tx_hash = tx_hash\<rparr>, bs))"

definition TxFirstSeenTimestamp_Key_wf :: "TxFirstSeenTimestamp_Key \<Rightarrow> bool" where
  "TxFirstSeenTimestamp_Key_wf r \<longleftrightarrow> array_wf 32 (tfstk_tx_hash r)"

interpretation tfst_key: codec TxFirstSeenTimestamp_Key_encode TxFirstSeenTimestamp_Key_decode TxFirstSeenTimestamp_Key_wf
  by unfold_locales
    (simp add: TxFirstSeenTimestamp_Key_encode_def TxFirstSeenTimestamp_Key_decode_def TxFirstSeenTimestamp_Key_wf_def codec_simps)

lemmas TxFirstSeenTimestamp_Key_codec [codec_intros] = tfst_key.codec_axioms
lemmas TxFirstSeenTimestamp_Key_roundtrip [codec_simps] = tfst_key.dec_enc

record TxFirstSeenTimestamp_Value =
  tfstv_timestamp :: u64

definition TxFirstSeenTimestamp_Value_encode :: "TxFirstSeenTimestamp_Value \<Rightarrow> bytes" where
  "TxFirstSeenTimestamp_Value_encode r = derived_struct_encode
     [uint_encode (tfstv_timestamp r)]"

definition TxFirstSeenTimestamp_Value_decode :: "TxFirstSeenTimestamp_Value decoder" where
  "TxFirstSeenTimestamp_Value_decode bs =
     and_then (uint_decode bs) (\<lambda>timestamp bs.
       Inr (\<lparr>tfstv_timestamp = timestamp\<rparr>, bs))"

definition TxFirstSeenTimestamp_Value_wf :: "TxFirstSeenTimestamp_Value \<Rightarrow> bool" where
  "TxFirstSeenTimestamp_Value_wf r \<longleftrightarrow> True"

interpretation tfst_value: codec TxFirstSeenTimestamp_Value_encode TxFirstSeenTimestamp_Value_decode TxFirstSeenTimestamp_Value_wf
  by unfold_locales
    (simp add: TxFirstSeenTimestamp_Value_encode_def TxFirstSeenTimestamp_Value_decode_def TxFirstSeenTimestamp_Value_wf_def codec_simps)

lemmas TxFirstSeenTimestamp_Value_codec [codec_intros] = tfst_value.codec_axioms
lemmas TxFirstSeenTimestamp_Value_roundtrip [codec_simps] = tfst_value.dec_enc

subsection \<open>\<open>tx_info\<close>\<close>

record TxInfo_TxIn =
  titi_utxo_hash :: TxHash
  titi_utxo_vout :: TxoIndex
  titi_script_hash :: ScriptHash
  titi_satoshis :: SatoshiQuantity
  titi_inscriptions :: "(SatoshiOffset \<times> InscriptionId) list"
  titi_runes :: "(RuneId \<times> RuneQuantity) list"

definition TxInfo_TxIn_encode :: "TxInfo_TxIn \<Rightarrow> bytes" where
  "TxInfo_TxIn_encode r = derived_struct_encode
     [array_encode (titi_utxo_hash r),
      uint_encode (titi_utxo_vout r),
      array_encode (titi_script_hash r),
      uint_encode (titi_satoshis r),
      vec_encode (pair_encode uint_encode InscriptionId_encode) (titi_inscriptions r),
      vec_encode (pair_encode RuneId_encode uint_encode) (titi_runes r)]"

definition TxInfo_TxIn_decode :: "TxInfo_TxIn decoder" where
  "TxInfo_TxIn_decode bs =
     and_then (array_decode 32 bs) (\<lambda>utxo_hash bs.
     and_then (uint_decode bs) (\<lambda>utxo_vout bs.
     and_then (array_decode 20 bs) (\<lambda>script_hash bs.
     and_then (uint_decode bs) (\<lambda>satoshis bs.
     and_then (vec_decode (pair_decode uint_decode InscriptionId_decode) bs) (\<lambda>inscriptions bs.
     and_then (vec_decode (pair_decode RuneId_decode uint_decode) bs) (\<lambda>runes bs.
       Inr (\<lparr>titi_utxo_hash = utxo_hash,
            titi_utxo_vout = utxo_vout,
            titi_script_hash = script_hash,
            titi_satoshis = satoshis,
            titi_inscriptions = inscriptions,
            titi_runes = runes\<rparr>, bs)))))))"

definition TxInfo_TxIn_wf :: "TxInfo_TxIn \<Rightarrow> bool" where
  "TxInfo_TxIn_wf r \<longleftrightarrow> array_wf 32 (titi_utxo_hash r) \<and>
     array_wf 20 (titi_script_hash r) \<and>
     vec_wf (pair_wf any_wf InscriptionId_wf) (titi_inscriptions r) \<and>
     vec_wf (pair_wf RuneId_wf any_wf) (titi_runes r)"

lemma TxInfo_TxIn_inscriptions_codec:
  "codec (vec_encode (pair_encode uint_encode InscriptionId_encode) :: (SatoshiOffset \<times> InscriptionId) list \<Rightarrow> bytes)
     (vec_decode (pair_decode uint_decode InscriptionId_decode))
     (vec_wf (pair_wf any_wf InscriptionId_wf))"
  by (intro codec_intros)

lemma TxInfo_TxIn_runes_codec:
  "codec (vec_encode (pair_encode RuneId_encode uint_encode) :: (RuneId \<times> RuneQuantity) list \<Rightarrow> bytes)
     (vec_decode (pair_decode RuneId_decode uint_decode))
     (vec_wf (pair_wf RuneId_wf any_wf))"
  by (intro codec_intros)

lemmas TxInfo_TxIn_roundtrips [codec_simps] =
  TxInfo_TxIn_inscriptions_codec [THEN codec.dec_enc]
  TxInfo_TxIn_runes_codec [THEN codec.dec_enc]

interpretation ti_txin: codec TxInfo_TxIn_encode TxInfo_TxIn_decode TxInfo_TxIn_wf
  by unfold_locales
    (simp add: TxInfo_TxIn_encode_def TxInfo_TxIn_decode_def TxInfo_TxIn_wf_def codec_simps)

lemmas TxInfo_TxIn_codec [codec_intros] = ti_txin.codec_axioms
lemmas TxInfo_TxIn_roundtrip [codec_simps] = ti_txin.dec_enc

record TxInfo_TxOut =
  tito_script_hash :: ScriptHash
  tito_satoshis :: SatoshiQuantity
  tito_inscriptions :: "(SatoshiOffset \<times> InscriptionId) list"
  tito_runes :: "(RuneId \<times> RuneQuantity) list"

definition TxInfo_TxOut_encode :: "TxInfo_TxOut \<Rightarrow> bytes" where
  "TxInfo_TxOut_encode r = derived_struct_encode
     [array_encode (tito_script_hash r),
      uint_encode (tito_satoshis r),
      vec_encode (pair_encode uint_encode InscriptionId_encode) (tito_inscriptions r),
      vec_encode (pair_encode RuneId_encode uint_encode) (tito_runes r)]"

definition TxInfo_TxOut_decode :: "TxInfo_TxOut decoder" where
  "TxInfo_TxOut_decode bs =
     and_then (array_decode 20 bs) (\<lambda>script_hash bs.
     and_then (uint_decode bs) (\<lambda>satoshis bs.
     and_then (vec_decode (pair_decode uint_decode InscriptionId_decode) bs) (\<lambda>inscriptions bs.
     and_then (vec_decode (pair_decode RuneId_decode uint_decode) bs) (\<lambda>runes bs.
       Inr (\<lparr>tito_script_hash = script_hash,
            tito_satoshis = satoshis,
            tito_inscriptions = inscriptions,
            tito_runes = runes\<rparr>, bs)))))"

definition TxInfo_TxOut_wf :: "TxInfo_TxOut \<Rightarrow> bool" where
  "TxInfo_TxOut_wf r \<longleftrightarrow> array_wf 20 (tito_script_hash r) \<and>
     vec_wf (pair_wf any_wf InscriptionId_wf) (tito_inscriptions r) \<and>
     vec_wf (pair_wf RuneId_wf any_wf) (tito_runes r)"

interpretation ti_txout: codec TxInfo_TxOut_encode TxInfo_TxOut_decode TxInfo_TxOut_wf
  by unfold_locales
    (simp add: TxInfo_TxOut_encode_def TxInfo_TxOut_decode_def TxInfo_TxOut_wf_def codec_simps)

lemmas TxInfo_TxOut_codec [codec_intros] = ti_txout.codec_axioms
lemmas TxInfo_TxOut_roundtrip [codec_simps] = ti_txout.dec_enc

record TxInfo_Key =
  tik_tx_hash :: TxHash

definition TxInfo_Key_encode :: "TxInfo_Key \<Rightarrow> bytes" where
  "TxInfo_Key_encode r = derived_struct_encode
     [array_encode (tik_tx_hash r)]"

definition TxInfo_Key_decode :: "TxInfo_Key decoder" where
  "TxInfo_Key_decode bs =
     and_then (array_decode 32 bs) (\<lambda>tx_hash bs.
       Inr (\<lparr>tik_tx_hash = tx_hash\<rparr>, bs))"

definition TxInfo_Key_wf :: "TxInfo_Key \<Rightarrow> bool" where
  "TxInfo_Key_wf r \<longleftrightarrow> array_wf 32 (tik_tx_hash r)"

interpretation ti_key: codec TxInfo_Key_encode TxInfo_Key_decode TxInfo_Key_wf
  by unfold_locales
    (simp add: TxInfo_Key_encode_def TxInfo_Key_decode_def TxInfo_Key_wf_def codec_simps)

lemmas TxInfo_Key_codec [codec_intros] = ti_key.codec_axioms
lemmas TxInfo_Key_roundtrip [codec_simps] = ti_key.dec_enc

record TxInfo_Value =
  tiv_block_height :: Height
  tiv_block_hash :: "BlockHash option"
  tiv_timestamp :: "u32 option"
  tiv_volume :: AggregatedSatoshis
  tiv_fees :: SatoshiQuantity
  tiv_sats_per_vb :: u64
  tiv_involves_inscriptions :: bool
  tiv_involves_runes :: bool
  tiv_involves_brc20 :: bool
  tiv_inputs :: "TxInfo_TxIn list"
  tiv_outputs :: "TxInfo_TxOut list"

definition TxInfo_Value_encode :: "TxInfo_Value \<Rightarrow> bytes" where
  "TxInfo_Value_encode r = derived_struct_encode
     [uint_encode (tiv_block_height r),
      option_encode array_encode (tiv_block_hash r),
      option_encode uint_encode (tiv_timestamp r),
      uint_encode (tiv_volume r),
      uint_encode (tiv_fees r),
      uint_encode (tiv_sats_per_vb r),
      bool_encode (tiv_involves_inscriptions r),
      bool_encode (tiv_involves_runes r),
      bool_encode (tiv_involves_brc20 r),
      vec_encode TxInfo_TxIn_encode (tiv_inputs r),
      vec_encode TxInfo_TxOut_encode (tiv_outputs r)]"

definition TxInfo_Value_decode :: "TxInfo_Value decoder" where
  "TxInfo_Value_decode bs =
     and_then (uint_decode bs) (\<lambda>block_height bs.
     and_then (option_decode (array_decode 32) bs) (\<lambda>block_hash bs.
     and_then (option_decode uint_decode bs) (\<lambda>timestamp bs.
     and_then (uint_decode bs) (\<lambda>volume bs.
     and_then (uint_decode bs) (\<lambda>fees bs.
     and_then (uint_decode bs) (\<lambda>sats_per_vb bs.
     and_then (bool_decode bs) (\<lambda>involves_inscriptions bs.
     and_then (bool_decode bs) (\<lambda>involves_runes bs.
     and_then (bool_decode bs) (\<lambda>involves_brc20 bs.
     and_then (vec_decode TxInfo_TxIn_decode bs) (\<lambda>inputs bs.
     and_then (vec_decode TxInfo_TxOut_decode bs) (\<lambda>outputs bs.
       Inr (\<lparr>tiv_block_height = block_height,
            tiv_block_hash = block_hash,
            tiv_timestamp = timestamp,
            tiv_volume = volume,
            tiv_fees = fees,
            tiv_sats_per_vb = sats_per_vb,
            tiv_involves_inscriptions = involves_inscriptions,
            tiv_involves_runes = involves_runes,
            tiv_involves_brc20 = involves_brc20,
            tiv_inputs = inputs,
            tiv_outputs = outputs\<rparr>, bs))))))))))))"

definition TxInfo_Value_wf :: "TxInfo_Value \<Rightarrow> bool" where
  "TxInfo_Value_wf r \<longleftrightarrow> option_wf (array_wf 32) (tiv_block_hash r) \<and>
     option_wf any_wf (tiv_timestamp r) \<and>
     vec_wf TxInfo_TxIn_wf (tiv_inputs r) \<and>
     vec_wf TxInfo_TxOut_wf (tiv_outputs r)"

lemma TxInfo_Value_inputs_codec:
  "codec (vec_encode TxInfo_TxIn_encode :: TxInfo_TxIn list \<Rightarrow> bytes)
     (vec_decode TxInfo_TxIn_decode)
     (vec_wf TxInfo_TxIn_wf)"
  by (intro codec_intros)

lemma TxInfo_Value_outputs_codec:
  "codec (vec_encode TxInfo_TxOut_encode :: TxInfo_TxOut list \<Rightarrow> bytes)
     (vec_decode TxInfo_TxOut_decode)
     (vec_wf TxInfo_TxOut_wf)"
  by (intro codec_intros)

lemmas TxInfo_Value_roundtrips [codec_simps] =
  TxInfo_Value_inputs_codec [THEN codec.dec_enc]
  TxInfo_Value_outputs_codec [THEN codec.dec_enc]

interpretation ti_value: codec TxInfo_Value_encode TxInfo_Value_decode TxInfo_Value_wf
  by unfold_locales
    (simp add: TxInfo_Value_encode_def TxInfo_Value_decode_def TxInfo_Value_wf_def codec_simps)

lemmas TxInfo_Value_codec [codec_intros] = ti_value.codec_axioms
lemmas TxInfo_Value_roundtrip [codec_simps] = ti_value.dec_enc

subsection \<open>\<open>txs_by_block\<close>\<close>

record TxsByBlock_Key =
  tbbk_height :: Height

definition TxsByBlock_Key_encode :: "TxsByBlock_Key \<Rightarrow> bytes" where
  "TxsByBlock_Key_encode r = derived_struct_encode
     [uint_encode (tbbk_height r)]"

definition TxsByBlock_Key_decode :: "TxsByBlock_Key decoder" where
  "TxsByBlock_Key_decode bs =
     and_then (uint_decode bs) (\<lambda>height bs.
       Inr (\<lparr>tbbk_height = height\<rparr>, bs))"

definition TxsByBlock_Key_wf :: "TxsByBlock_Key \<Rightarrow> bool" where
  "TxsByBlock_Key_wf r \<longleftrightarrow> True"

interpretation tbb_key: codec TxsByBlock_Key_encode TxsByBlock_Key_decode TxsByBlock_Key_wf
  by unfold_locales
    (simp add: TxsByBlock_Key_encode_def TxsByBlock_Key_decode_def TxsByBlock_Key_wf_def codec_simps)

lemmas TxsByBlock_Key_codec [codec_intros] = tbb_key.codec_axioms
lemmas TxsByBlock_Key_roundtrip [codec_simps] = tbb_key.dec_enc

record TxsByBlock_Value =
  tbbv_tx_hashes :: "TxHash list"

definition TxsByBlock_Value_encode :: "TxsByBlock_Value \<Rightarrow> bytes" where
  "TxsByBlock_Value_encode r = derived_struct_encode
     [vec_encode array_encode (tbbv_tx_hashes r)]"

definition TxsByBlock_Value_decode :: "TxsByBlock_Value decoder" where
  "TxsByBlock_Value_decode bs =
     and_then (vec_decode (array_decode 32) bs) (\<lambda>tx_hashes bs.
       Inr (\<lparr>tbbv_tx_hashes = tx_hashes\<rparr>, bs))"

definition TxsByBlock_Value_wf :: "TxsByBlock_Value \<Rightarrow> bool" where
  "TxsByBlock_Value_wf r \<longleftrightarrow> vec_wf (array_wf 32) (tbbv_tx_hashes r)"

lemma TxsByBlock_Value_tx_hashes_codec:
  "codec (vec_encode array_encode :: TxHash list \<Rightarrow> bytes)
     (vec_decode (array_decode 32))
     (vec_wf (array_wf 32))"
  by (intro codec_intros)

lemmas TxsByBlock_Value_roundtrips [codec_simps] =
  TxsByBlock_Value_tx_hashes_codec [THEN codec.dec_enc]

interpretation tbb_value: codec TxsByBlock_Value_encode TxsByBlock_Value_decode TxsByBlock_Value_wf
  by unfold_locales
    (simp add: TxsByBlock_Value_encode_def TxsByBlock_Value_decode_def TxsByBlock_Value_wf_def codec_simps)

lemmas TxsByBlock_Value_codec [codec_intros] = tbb_value.codec_axioms
lemmas TxsByBlock_Value_roundtrip [codec_simps] = tbb_value.dec_enc

record TxsByBlock_Cursor =
  tbbc_tx_index :: TxIndex

definition TxsByBlock_Cursor_encode :: "TxsByBlock_Cursor \<Rightarrow> bytes" where
  "TxsByBlock_Cursor_encode r = derived_struct_encode
     [uint_encode (tbbc_tx_index r)]"

definition TxsByBlock_Cursor_decode :: "TxsByBlock_Cursor decoder" where
  "TxsByBlock_Cursor_decode bs =
     and_then (uint_decode bs) (\<lambda>tx_index bs.
       Inr (\<lparr>tbbc_tx_index = tx_index\<rparr>, bs))"

definition TxsByBlock_Cursor_wf :: "TxsByBlock_Cursor \<Rightarrow> bool" where
  "TxsByBlock_Cursor_wf r \<longleftrightarrow> True"

interpretation tbb_cursor: codec TxsByBlock_Cursor_encode TxsByBlock_Cursor_decode TxsByBlock_Cursor_wf
  by unfold_locales
    (simp add: TxsByBlock_Cursor_encode_def TxsByBlock_Cursor_decode_def TxsByBlock_Cursor_wf_def codec_simps)

lemmas TxsByBlock_Cursor_codec [codec_intros] = tbb_cursor.codec_axioms
lemmas TxsByBlock_Cursor_roundtrip [codec_simps] = tbb_cursor.dec_enc

subsection \<open>\<open>txs_by_script_hash\<close>\<close>

record TxsByScriptHash_Key =
  tbshk_script_hash :: ScriptHash
  tbshk_height :: Height
  tbshk_address_tx_index :: TxIndex
  tbshk_tx_hash :: TxHash

definition TxsByScriptHash_Key_encode :: "TxsByScriptHash_Key \<Rightarrow> bytes" where
  "TxsByScriptHash_Key_encode r = derived_struct_encode
     [array_encode (tbshk_script_hash r),
      uint_encode (tbshk_height r),
      uint_encode (tbshk_address_tx_index r),
      array_encode (tbshk_tx_hash r)]"

definition TxsByScriptHash_Key_decode :: "TxsByScriptHash_Key decoder" where
  "TxsByScriptHash_Key_decode bs =
     and_then (array_decode 20 bs) (\<lambda>script_hash bs.
     and_then (uint_decode bs) (\<lambda>height bs.
     and_then (uint_decode bs) (\<lambda>address_tx_index bs.
     and_then (array_decode 32 bs) (\<lambda>tx_hash bs.
       Inr (\<lparr>tbshk_script_hash = script_hash,
            tbshk_height = height,
            tbshk_address_tx_index = address_tx_index,
            tbshk_tx_hash = tx_hash\<rparr>, bs)))))"

definition TxsByScriptHash_Key_wf :: "TxsByScriptHash_Key \<Rightarrow> bool" where
  "TxsByScriptHash_Key_wf r \<longleftrightarrow> array_wf 20 (tbshk_script_hash r) \<and>
     array_wf 32 (tbshk_tx_hash r)"

interpretation tbsh_key: codec TxsByScriptHash_Key_encode TxsByScriptHash_Key_decode TxsByScriptHash_Key_wf
  by unfold_locales
    (simp add: TxsByScriptHash_Key_encode_def TxsByScriptHash_Key_decode_def TxsByScriptHash_Key_wf_def codec_simps)

lemmas TxsByScriptHash_Key_codec [codec_intros] = tbsh_key.codec_axioms
lemmas TxsByScriptHash_Key_roundtrip [codec_simps] = tbsh_key.dec_enc

record TxsByScriptHash_Value =
  tbshv_input :: bool
  tbshv_output :: bool

definition TxsByScriptHash_Value_encode :: "TxsByScriptHash_Value \<Rightarrow> bytes" where
  "TxsByScriptHash_Value_encode r = derived_struct_encode
     [bool_encode (tbshv_input r),
      bool_encode (tbshv_output r)]"

definition TxsByScriptHash_Value_decode :: "TxsByScriptHash_Value decoder" where
  "TxsByScriptHash_Value_decode bs =
     and_then (bool_decode bs) (\<lambda>input bs.
     and_then (bool_decode bs) (\<lambda>output bs.
       Inr (\<lparr>tbshv_input = input, tbshv_output = output\<rparr>, bs)))"

definition TxsByScriptHash_Value_wf :: "TxsByScriptHash_Value \<Rightarrow> bool" where
  "TxsByScriptHash_Value_wf r \<longleftrightarrow> True"

interpretation tbsh_value: codec TxsByScriptHash_Value_encode TxsByScriptHash_Value_decode TxsByScriptHash_Value_wf
  by unfold_locales
    (simp add: TxsByScriptHash_Value_encode_def TxsByScriptHash_Value_decode_def TxsByScriptHash_Value_wf_def codec_simps)

lemmas TxsByScriptHash_Value_codec [codec_intros] = tbsh_value.codec_axioms
lemmas TxsByScriptHash_Value_roundtrip [codec_simps] = tbsh_value.dec_enc

record TxsByScriptHash_Cursor =
  tbshc_height :: Height
  tbshc_address_tx_index :: TxIndex
  tbshc_tx_hash :: TxHash

definition TxsByScriptHash_Cursor_encode :: "TxsByScriptHash_Cursor \<Rightarrow> bytes" where
  "TxsByScriptHash_Cursor_encode r = derived_struct_encode
     [uint_encode (tbshc_height r),
      uint_encode (tbshc_address_tx_index r),
      array_encode (tbshc_tx_hash r)]"

definition TxsByScriptHash_Cursor_decode :: "TxsByScriptHash_Cursor decoder" where
  "TxsByScriptHash_Cursor_decode bs =
     and_then (uint_decode bs) (\<lambda>height bs.
     and_then (uint_decode bs) (\<lambda>address_tx_index bs.
     and_then (array_decode 32 bs) (\<lambda>tx_hash bs.
       Inr (\<lparr>tbshc_height = height, tbshc_address_tx_index = address_tx_index, tbshc_tx_hash = tx_hash\<rparr>, bs))))"

definition TxsByScriptHash_Cursor_wf :: "TxsByScriptHash_Cursor \<Rightarrow> bool" where
  "TxsByScriptHash_Cursor_wf r \<longleftrightarrow> array_wf 32 (tbshc_tx_hash r)"

interpretation tbsh_cursor: codec TxsByScriptHash_Cursor_encode TxsByScriptHash_Cursor_decode TxsByScriptHash_Cursor_wf
  by unfold_locales
    (simp add: TxsByScriptHash_Cursor_encode_def TxsByScriptHash_Cursor_decode_def TxsByScriptHash_Cursor_wf_def codec_simps)

lemmas TxsByScriptHash_Cursor_codec [codec_intros] = tbsh_cursor.codec_axioms
lemmas TxsByScriptHash_Cursor_roundtrip [codec_simps] = tbsh_cursor.dec_enc

subsection \<open>\<open>utxos_by_script_hash\<close>\<close>

record UtxosByScriptHash_Key =
  ubshk_script_hash :: ScriptHash
  ubshk_height :: Height
  ubshk_utxo_hash :: TxHash
  ubshk_utxo_index :: TxoIndex

definition UtxosByScriptHash_Key_encode :: "UtxosByScriptHash_Key \<Rightarrow> bytes" where
  "UtxosByScriptHash_Key_encode r = derived_struct_encode
     [array_encode (ubshk_script_hash r),
      uint_encode (ubshk_height r),
      array_encode (ubshk_utxo_hash r),
      uint_encode (ubshk_utxo_index r)]"

definition UtxosByScriptHash_Key_decode :: "UtxosByScriptHash_Key decoder" where
  "UtxosByScriptHash_Key_decode bs =
     and_then (array_decode 20 bs) (\<lambda>script_hash bs.
     and_then (uint_decode bs) (\<lambda>height bs.
     and_then (array_decode 32 bs) (\<lambda>utxo_hash bs.
     and_then (uint_decode bs) (\<lambda>utxo_index bs.
       Inr (\<lparr>ubshk_script_hash = script_hash,
            ubshk_height = height,
            ubshk_utxo_hash = utxo_hash,
            ubshk_utxo_index = utxo_index\<rparr>, bs)))))"

definition UtxosByScriptHash_Key_wf :: "UtxosByScriptHash_Key \<Rightarrow> bool" where
  "UtxosByScriptHash_Key_wf r \<longleftrightarrow> array_wf 20 (ubshk_script_hash r) \<and>
     array_wf 32 (ubshk_utxo_hash r)"

interpretation ubsh_key: codec UtxosByScriptHash_Key_encode UtxosByScriptHash_Key_decode UtxosByScriptHash_Key_wf
  by unfold_locales
    (simp add: UtxosByScriptHash_Key_encode_def UtxosByScriptHash_Key_decode_def UtxosByScriptHash_Key_wf_def codec_simps)

lemmas UtxosByScriptHash_Key_codec [codec_intros] = ubsh_key.codec_axioms
lemmas UtxosByScriptHash_Key_roundtrip [codec_simps] = ubsh_key.dec_enc

record UtxosByScriptHash_Value =
  ubshv_satoshis :: SatoshiQuantity

definition UtxosByScriptHash_Value_encode :: "UtxosByScriptHash_Value \<Rightarrow> bytes" where
  "UtxosByScriptHash_Value_encode r = derived_struct_encode
     [uint_encode (ubshv_satoshis r)]"

definition UtxosByScriptHash_Value_decode :: "UtxosByScriptHash_Value decoder" where
  "UtxosByScriptHash_Value_decode bs =
     and_then (uint_decode bs) (\<lambda>satoshis bs.
       Inr (\<lparr>ubshv_satoshis = satoshis\<rparr>, bs))"

definition UtxosByScriptHash_Value_wf :: "UtxosByScriptHash_Value \<Rightarrow> bool" where
  "UtxosByScriptHash_Value_wf r \<longleftrightarrow> True"

interpretation ubsh_value: codec UtxosByScriptHash_Value_encode UtxosByScriptHash_Value_decode UtxosByScriptHash_Value_wf
  by unfold_locales
    (simp add: UtxosByScriptHash_Value_encode_def UtxosByScriptHash_Value_decode_def UtxosByScriptHash_Value_wf_def codec_simps)

lemmas UtxosByScriptHash_Value_codec [codec_intros] = ubsh_value.codec_axioms
lemmas UtxosByScriptHash_Value_roundtrip [codec_simps] = ubsh_value.dec_enc

record UtxosByScriptHash_Cursor =
  ubshc_height :: Height
  ubshc_utxo_hash :: TxHash
  ubshc_utxo_index :: TxoIndex

definition UtxosByScriptHash_Cursor_encode :: "UtxosByScriptHash_Cursor \<Rightarrow> bytes" where
  "UtxosByScriptHash_Cursor_encode r = derived_struct_encode
     [uint_encode (ubshc_height r),
      array_encode (ubshc_utxo_hash r),
      uint_encode (ubshc_utxo_index r)]"

definition UtxosByScriptHash_Cursor_decode :: "UtxosByScriptHash_Cursor decoder" where
  "UtxosByScriptHash_Cursor_decode bs =
     and_then (uint_decode bs) (\<lambda>height bs.
     and_then (array_decode 32 bs) (\<lambda>utxo_hash bs.
     and_then (uint_decode bs) (\<lambda>utxo_index bs.
       Inr (\<lparr>ubshc_height = height, ubshc_utxo_hash = utxo_hash, ubshc_utxo_index = utxo_index\<rparr>, bs))))"

definition UtxosByScriptHash_Cursor_wf :: "UtxosByScriptHash_Cursor \<Rightarrow> bool" where
  "UtxosByScriptHash_Cursor_wf r \<longleftrightarrow> array_wf 32 (ubshc_utxo_hash r)"

interpretation ubsh_cursor: codec UtxosByScriptHash_Cursor_encode UtxosByScriptHash_Cursor_decode UtxosByScriptHash_Cursor_wf
  by unfold_locales
    (simp add: UtxosByScriptHash_Cursor_encode_def UtxosByScriptHash_Cursor_decode_def UtxosByScriptHash_Cursor_wf_def codec_simps)

lemmas UtxosByScriptHash_Cursor_codec [codec_intros] = ubsh_cursor.codec_axioms
lemmas UtxosByScriptHash_Cursor_roundtrip [codec_simps] = ubsh_cursor.dec_enc

section \<open>Properties\<close>

text \<open>
  C30: Every key, value, cursor and nested struct of the reducers about blocks, transactions, scripts and satoshis decodes back from
  its encoding whatever bytes follow it, whenever its arrays have their length and its collections
  fit their length fields.
\<close>

theorem chain_schema_roundtrip:
  "codec BlockByTxHash_Key_encode BlockByTxHash_Key_decode BlockByTxHash_Key_wf \<and>
   codec BlockByTxHash_Value_encode BlockByTxHash_Value_decode BlockByTxHash_Value_wf \<and>
   codec BlockInfo_Key_encode BlockInfo_Key_decode BlockInfo_Key_wf \<and>
   codec BlockInfo_Value_encode BlockInfo_Value_decode BlockInfo_Value_wf \<and>
   codec HeightByBlockHash_Key_encode HeightByBlockHash_Key_decode HeightByBlockHash_Key_wf \<and>
   codec HeightByBlockHash_Value_encode HeightByBlockHash_Value_decode HeightByBlockHash_Value_wf \<and>
   codec HeightByTimestamp_Key_encode HeightByTimestamp_Key_decode HeightByTimestamp_Key_wf \<and>
   codec HeightByTimestamp_Value_encode HeightByTimestamp_Value_decode HeightByTimestamp_Value_wf \<and>
   codec HistoricalSatBalanceByScriptHash_Key_encode HistoricalSatBalanceByScriptHash_Key_decode HistoricalSatBalanceByScriptHash_Key_wf \<and>
   codec SatBalanceByScriptHash_Key_encode SatBalanceByScriptHash_Key_decode SatBalanceByScriptHash_Key_wf \<and>
   codec SatBalanceByScriptHash_Value_encode SatBalanceByScriptHash_Value_decode SatBalanceByScriptHash_Value_wf \<and>
   codec SatTxsByScriptHash_SatActivityType_encode SatTxsByScriptHash_SatActivityType_decode SatTxsByScriptHash_SatActivityType_wf \<and>
   codec SatTxsByScriptHash_Key_encode SatTxsByScriptHash_Key_decode SatTxsByScriptHash_Key_wf \<and>
   codec SatTxsByScriptHash_Value_encode SatTxsByScriptHash_Value_decode SatTxsByScriptHash_Value_wf \<and>
   codec SatTxsByScriptHash_Cursor_encode SatTxsByScriptHash_Cursor_decode SatTxsByScriptHash_Cursor_wf \<and>
   codec SatsPerVbByBlock_Key_encode SatsPerVbByBlock_Key_decode SatsPerVbByBlock_Key_wf \<and>
   codec SatsPerVbByBlock_Value_encode SatsPerVbByBlock_Value_decode SatsPerVbByBlock_Value_wf \<and>
   codec ScriptByScriptHash_Key_encode ScriptByScriptHash_Key_decode ScriptByScriptHash_Key_wf \<and>
   codec ScriptByScriptHash_Value_encode ScriptByScriptHash_Value_decode ScriptByScriptHash_Value_wf \<and>
   codec ScriptHashByAddressPayloadHash_Key_encode ScriptHashByAddressPayloadHash_Key_decode ScriptHashByAddressPayloadHash_Key_wf \<and>
   codec ScriptHashByAddressPayloadHash_Value_encode ScriptHashByAddressPayloadHash_Value_decode ScriptHashByAddressPayloadHash_Value_wf \<and>
   codec SpendingTxByTxo_Key_encode SpendingTxByTxo_Key_decode SpendingTxByTxo_Key_wf \<and>
   codec SpendingTxByTxo_Value_encode SpendingTxByTxo_Value_decode SpendingTxByTxo_Value_wf \<and>
   codec TotalInscriptionsByScriptHash_Key_encode TotalInscriptionsByScriptHash_Key_decode TotalInscriptionsByScriptHash_Key_wf \<and>
   codec TotalInscriptionsByScriptHash_Value_encode TotalInscriptionsByScriptHash_Value_decode TotalInscriptionsByScriptHash_Value_wf \<and>
   codec TotalOutputsByScriptHash_Key_encode TotalOutputsByScriptHash_Key_decode TotalOutputsByScriptHash_Key_wf \<and>
   codec TotalOutputsByScriptHash_Value_encode TotalOutputsByScriptHash_Value_decode TotalOutputsByScriptHash_Value_wf \<and>
   codec TotalSatInInputsByScriptHash_Key_encode TotalSatInInputsByScriptHash_Key_decode TotalSatInInputsByScriptHash_Key_wf \<and>
   codec TotalSatInInputsByScriptHash_Value_encode TotalSatInInputsByScriptHash_Value_decode TotalSatInInputsByScriptHash_Value_wf \<and>
   codec TotalSatInOutputsByScriptHash_Key_encode TotalSatInOutputsByScriptHash_Key_decode TotalSatInOutputsByScriptHash_Key_wf \<and>
   codec TotalSatInOutputsByScriptHash_Value_encode TotalSatInOutputsByScriptHash_Value_decode TotalSatInOutputsByScriptHash_Value_wf \<and>
   codec TotalTxsByScriptHash_Key_encode TotalTxsByScriptHash_Key_decode TotalTxsByScriptHash_Key_wf \<and>
   codec TotalTxsByScriptHash_Value_encode TotalTxsByScriptHash_Value_decode TotalTxsByScriptHash_Value_wf \<and>
   codec TotalUtxosByScriptHash_Key_encode TotalUtxosByScriptHash_Key_decode TotalUtxosByScriptHash_Key_wf \<and>
   codec TotalUtxosByScriptHash_Value_encode TotalUtxosByScriptHash_Value_decode TotalUtxosByScriptHash_Value_wf \<and>
   codec TxFirstSeenTimestamp_Key_encode TxFirstSeenTimestamp_Key_decode TxFirstSeenTimestamp_Key_wf \<and>
   codec TxFirstSeenTimestamp_Value_encode TxFirstSeenTimestamp_Value_decode TxFirstSeenTimestamp_Value_wf \<and>
   codec TxInfo_TxIn_encode TxInfo_TxIn_decode TxInfo_TxIn_wf \<and>
   codec TxInfo_TxOut_encode TxInfo_TxOut_decode TxInfo_TxOut_wf \<and>
   codec TxInfo_Key_encode TxInfo_Key_decode TxInfo_Key_wf \<and>
   codec TxInfo_Value_encode TxInfo_Value_decode TxInfo_Value_wf \<and>
   codec TxsByBlock_Key_encode TxsByBlock_Key_decode TxsByBlock_Key_wf \<and>
   codec TxsByBlock_Value_encode TxsByBlock_Value_decode TxsByBlock_Value_wf \<and>
   codec TxsByBlock_Cursor_encode TxsByBlock_Cursor_decode TxsByBlock_Cursor_wf \<and>
   codec TxsByScriptHash_Key_encode TxsByScriptHash_Key_decode TxsByScriptHash_Key_wf \<and>
   codec TxsByScriptHash_Value_encode TxsByScriptHash_Value_decode TxsByScriptHash_Value_wf \<and>
   codec TxsByScriptHash_Cursor_encode TxsByScriptHash_Cursor_decode TxsByScriptHash_Cursor_wf \<and>
   codec UtxosByScriptHash_Key_encode UtxosByScriptHash_Key_decode UtxosByScriptHash_Key_wf \<and>
   codec UtxosByScriptHash_Value_encode UtxosByScriptHash_Value_decode UtxosByScriptHash_Value_wf \<and>
   codec UtxosByScriptHash_Cursor_encode UtxosByScriptHash_Cursor_decode UtxosByScriptHash_Cursor_wf"
  by (intro conjI codec_intros)

end
