(* ===== verification/Schema_Tokens.thy ===== *)
theory Schema_Tokens
  imports Timbre_Derive
begin

text \<open>
  Keys, values and cursors of the reducers about inscriptions, BRC-20 tokens and runes
  (\<open>crates/timbre-xbt/src/reducers\<close>), in the same form as \<open>Schema_Chain\<close>.
\<close>

subsection \<open>\<open>balances_by_brc20\<close>\<close>

record BalancesByBrc20_Key =
  bbbk_ticker :: ShortByteString
  bbbk_script_hash :: ScriptHash

definition BalancesByBrc20_Key_encode :: "BalancesByBrc20_Key \<Rightarrow> bytes" where
  "BalancesByBrc20_Key_encode r = derived_struct_encode
     [ShortByteString_encode (bbbk_ticker r),
      array_encode (bbbk_script_hash r)]"

definition BalancesByBrc20_Key_decode :: "BalancesByBrc20_Key decoder" where
  "BalancesByBrc20_Key_decode bs =
     and_then (ShortByteString_decode bs) (\<lambda>ticker bs.
     and_then (array_decode 20 bs) (\<lambda>script_hash bs.
       Inr (\<lparr>bbbk_ticker = ticker, bbbk_script_hash = script_hash\<rparr>, bs)))"

definition BalancesByBrc20_Key_wf :: "BalancesByBrc20_Key \<Rightarrow> bool" where
  "BalancesByBrc20_Key_wf r \<longleftrightarrow> short_wf (bbbk_ticker r) \<and>
     array_wf 20 (bbbk_script_hash r)"

interpretation bbb_key: codec BalancesByBrc20_Key_encode BalancesByBrc20_Key_decode BalancesByBrc20_Key_wf
  by unfold_locales
    (simp add: BalancesByBrc20_Key_encode_def BalancesByBrc20_Key_decode_def BalancesByBrc20_Key_wf_def codec_simps)

lemmas BalancesByBrc20_Key_codec [codec_intros] = bbb_key.codec_axioms
lemmas BalancesByBrc20_Key_roundtrip [codec_simps] = bbb_key.dec_enc

subsection \<open>\<open>balances_by_rune_id\<close>\<close>

record BalancesByRuneId_Key =
  bbrik_rune_id :: RuneId
  bbrik_script_hash :: ScriptHash

definition BalancesByRuneId_Key_encode :: "BalancesByRuneId_Key \<Rightarrow> bytes" where
  "BalancesByRuneId_Key_encode r = derived_struct_encode
     [RuneId_encode (bbrik_rune_id r),
      array_encode (bbrik_script_hash r)]"

definition BalancesByRuneId_Key_decode :: "BalancesByRuneId_Key decoder" where
  "BalancesByRuneId_Key_decode bs =
     and_then (RuneId_decode bs) (\<lambda>rune_id bs.
     and_then (array_decode 20 bs) (\<lambda>script_hash bs.
       Inr (\<lparr>bbrik_rune_id = rune_id, bbrik_script_hash = script_hash\<rparr>, bs)))"

definition BalancesByRuneId_Key_wf :: "BalancesByRuneId_Key \<Rightarrow> bool" where
  "BalancesByRuneId_Key_wf r \<longleftrightarrow> RuneId_wf (bbrik_rune_id r) \<and>
     array_wf 20 (bbrik_script_hash r)"

lemma BalancesByRuneId_Key_rune_id_codec:
  "codec (RuneId_encode :: RuneId \<Rightarrow> bytes)
     RuneId_decode
     RuneId_wf"
  by (intro codec_intros)

lemmas BalancesByRuneId_Key_roundtrips [codec_simps] =
  BalancesByRuneId_Key_rune_id_codec [THEN codec.dec_enc]

interpretation bbri_key: codec BalancesByRuneId_Key_encode BalancesByRuneId_Key_decode BalancesByRuneId_Key_wf
  by unfold_locales
    (simp add: BalancesByRuneId_Key_encode_def BalancesByRuneId_Key_decode_def BalancesByRuneId_Key_wf_def codec_simps)

lemmas BalancesByRuneId_Key_codec [codec_intros] = bbri_key.codec_axioms
lemmas BalancesByRuneId_Key_roundtrip [codec_simps] = bbri_key.dec_enc

subsection \<open>\<open>brc20_balances_by_script_hash\<close>\<close>

record Brc20BalancesByScriptHash_Key =
  bbbshk_script_hash :: ScriptHash
  bbbshk_ticker :: ShortByteString

definition Brc20BalancesByScriptHash_Key_encode :: "Brc20BalancesByScriptHash_Key \<Rightarrow> bytes" where
  "Brc20BalancesByScriptHash_Key_encode r = derived_struct_encode
     [array_encode (bbbshk_script_hash r),
      ShortByteString_encode (bbbshk_ticker r)]"

definition Brc20BalancesByScriptHash_Key_decode :: "Brc20BalancesByScriptHash_Key decoder" where
  "Brc20BalancesByScriptHash_Key_decode bs =
     and_then (array_decode 20 bs) (\<lambda>script_hash bs.
     and_then (ShortByteString_decode bs) (\<lambda>ticker bs.
       Inr (\<lparr>bbbshk_script_hash = script_hash, bbbshk_ticker = ticker\<rparr>, bs)))"

definition Brc20BalancesByScriptHash_Key_wf :: "Brc20BalancesByScriptHash_Key \<Rightarrow> bool" where
  "Brc20BalancesByScriptHash_Key_wf r \<longleftrightarrow> array_wf 20 (bbbshk_script_hash r) \<and>
     short_wf (bbbshk_ticker r)"

interpretation bbbsh_key: codec Brc20BalancesByScriptHash_Key_encode Brc20BalancesByScriptHash_Key_decode Brc20BalancesByScriptHash_Key_wf
  by unfold_locales
    (simp add: Brc20BalancesByScriptHash_Key_encode_def Brc20BalancesByScriptHash_Key_decode_def Brc20BalancesByScriptHash_Key_wf_def codec_simps)

lemmas Brc20BalancesByScriptHash_Key_codec [codec_intros] = bbbsh_key.codec_axioms
lemmas Brc20BalancesByScriptHash_Key_roundtrip [codec_simps] = bbbsh_key.dec_enc

subsection \<open>\<open>brc20_terms_by_ticker\<close>\<close>

record Brc20TermsByTicker_Key =
  btbtk_ticker :: ShortByteString

definition Brc20TermsByTicker_Key_encode :: "Brc20TermsByTicker_Key \<Rightarrow> bytes" where
  "Brc20TermsByTicker_Key_encode r = derived_struct_encode
     [ShortByteString_encode (btbtk_ticker r)]"

definition Brc20TermsByTicker_Key_decode :: "Brc20TermsByTicker_Key decoder" where
  "Brc20TermsByTicker_Key_decode bs =
     and_then (ShortByteString_decode bs) (\<lambda>ticker bs.
       Inr (\<lparr>btbtk_ticker = ticker\<rparr>, bs))"

definition Brc20TermsByTicker_Key_wf :: "Brc20TermsByTicker_Key \<Rightarrow> bool" where
  "Brc20TermsByTicker_Key_wf r \<longleftrightarrow> short_wf (btbtk_ticker r)"

interpretation btbt_key: codec Brc20TermsByTicker_Key_encode Brc20TermsByTicker_Key_decode Brc20TermsByTicker_Key_wf
  by unfold_locales
    (simp add: Brc20TermsByTicker_Key_encode_def Brc20TermsByTicker_Key_decode_def Brc20TermsByTicker_Key_wf_def codec_simps)

lemmas Brc20TermsByTicker_Key_codec [codec_intros] = btbt_key.codec_axioms
lemmas Brc20TermsByTicker_Key_roundtrip [codec_simps] = btbt_key.dec_enc

record Brc20TermsByTicker_Value =
  btbtv_max :: Brc20Quantity
  btbtv_limit :: Brc20Quantity
  btbtv_dec :: u8
  btbtv_self_mint :: bool
  btbtv_deploy_id :: InscriptionId

definition Brc20TermsByTicker_Value_encode :: "Brc20TermsByTicker_Value \<Rightarrow> bytes" where
  "Brc20TermsByTicker_Value_encode r = derived_struct_encode
     [uint_encode (btbtv_max r),
      uint_encode (btbtv_limit r),
      u8_encode (btbtv_dec r),
      bool_encode (btbtv_self_mint r),
      InscriptionId_encode (btbtv_deploy_id r)]"

definition Brc20TermsByTicker_Value_decode :: "Brc20TermsByTicker_Value decoder" where
  "Brc20TermsByTicker_Value_decode bs =
     and_then (uint_decode bs) (\<lambda>max bs.
     and_then (uint_decode bs) (\<lambda>limit bs.
     and_then (u8_decode bs) (\<lambda>dec bs.
     and_then (bool_decode bs) (\<lambda>self_mint bs.
     and_then (InscriptionId_decode bs) (\<lambda>deploy_id bs.
       Inr (\<lparr>btbtv_max = max,
            btbtv_limit = limit,
            btbtv_dec = dec,
            btbtv_self_mint = self_mint,
            btbtv_deploy_id = deploy_id\<rparr>, bs))))))"

definition Brc20TermsByTicker_Value_wf :: "Brc20TermsByTicker_Value \<Rightarrow> bool" where
  "Brc20TermsByTicker_Value_wf r \<longleftrightarrow> InscriptionId_wf (btbtv_deploy_id r)"

lemma Brc20TermsByTicker_Value_deploy_id_codec:
  "codec (InscriptionId_encode :: InscriptionId \<Rightarrow> bytes)
     InscriptionId_decode
     InscriptionId_wf"
  by (intro codec_intros)

lemmas Brc20TermsByTicker_Value_roundtrips [codec_simps] =
  Brc20TermsByTicker_Value_deploy_id_codec [THEN codec.dec_enc]

interpretation btbt_value: codec Brc20TermsByTicker_Value_encode Brc20TermsByTicker_Value_decode Brc20TermsByTicker_Value_wf
  by unfold_locales
    (simp add: Brc20TermsByTicker_Value_encode_def Brc20TermsByTicker_Value_decode_def Brc20TermsByTicker_Value_wf_def codec_simps)

lemmas Brc20TermsByTicker_Value_codec [codec_intros] = btbt_value.codec_axioms
lemmas Brc20TermsByTicker_Value_roundtrip [codec_simps] = btbt_value.dec_enc

subsection \<open>\<open>content_by_inscription_id\<close>\<close>

record ContentByInscriptionId_Key =
  cbiik_inscription_id :: InscriptionId

definition ContentByInscriptionId_Key_encode :: "ContentByInscriptionId_Key \<Rightarrow> bytes" where
  "ContentByInscriptionId_Key_encode r = derived_struct_encode
     [InscriptionId_encode (cbiik_inscription_id r)]"

definition ContentByInscriptionId_Key_decode :: "ContentByInscriptionId_Key decoder" where
  "ContentByInscriptionId_Key_decode bs =
     and_then (InscriptionId_decode bs) (\<lambda>inscription_id bs.
       Inr (\<lparr>cbiik_inscription_id = inscription_id\<rparr>, bs))"

definition ContentByInscriptionId_Key_wf :: "ContentByInscriptionId_Key \<Rightarrow> bool" where
  "ContentByInscriptionId_Key_wf r \<longleftrightarrow> InscriptionId_wf (cbiik_inscription_id r)"

interpretation cbii_key: codec ContentByInscriptionId_Key_encode ContentByInscriptionId_Key_decode ContentByInscriptionId_Key_wf
  by unfold_locales
    (simp add: ContentByInscriptionId_Key_encode_def ContentByInscriptionId_Key_decode_def ContentByInscriptionId_Key_wf_def codec_simps)

lemmas ContentByInscriptionId_Key_codec [codec_intros] = cbii_key.codec_axioms
lemmas ContentByInscriptionId_Key_roundtrip [codec_simps] = cbii_key.dec_enc

record ContentByInscriptionId_Value =
  cbiiv_created_at :: Height
  cbiiv_inscription_num :: u64
  cbiiv_content_type :: bytes
  cbiiv_content_body :: bytes

definition ContentByInscriptionId_Value_encode :: "ContentByInscriptionId_Value \<Rightarrow> bytes" where
  "ContentByInscriptionId_Value_encode r = derived_struct_encode
     [uint_encode (cbiiv_created_at r),
      uint_encode (cbiiv_inscription_num r),
      vec_encode u8_encode (cbiiv_content_type r),
      vec_encode u8_encode (cbiiv_content_body r)]"

definition ContentByInscriptionId_Value_decode :: "ContentByInscriptionId_Value decoder" where
  "ContentByInscriptionId_Value_decode bs =
     and_then (uint_decode bs) (\<lambda>created_at bs.
     and_then (uint_decode bs) (\<lambda>inscription_num bs.
     and_then (vec_decode u8_decode bs) (\<lambda>content_type bs.
     and_then (vec_decode u8_decode bs) (\<lambda>content_body bs.
       Inr (\<lparr>cbiiv_created_at = created_at,
            cbiiv_inscription_num = inscription_num,
            cbiiv_content_type = content_type,
            cbiiv_content_body = content_body\<rparr>, bs)))))"

definition ContentByInscriptionId_Value_wf :: "ContentByInscriptionId_Value \<Rightarrow> bool" where
  "ContentByInscriptionId_Value_wf r \<longleftrightarrow> vec_wf any_wf (cbiiv_content_type r) \<and>
     vec_wf any_wf (cbiiv_content_body r)"

lemma ContentByInscriptionId_Value_content_type_codec:
  "codec (vec_encode u8_encode :: bytes \<Rightarrow> bytes)
     (vec_decode u8_decode)
     (vec_wf any_wf)"
  by (intro codec_intros)

lemmas ContentByInscriptionId_Value_roundtrips [codec_simps] =
  ContentByInscriptionId_Value_content_type_codec [THEN codec.dec_enc]

interpretation cbii_value: codec ContentByInscriptionId_Value_encode ContentByInscriptionId_Value_decode ContentByInscriptionId_Value_wf
  by unfold_locales
    (simp add: ContentByInscriptionId_Value_encode_def ContentByInscriptionId_Value_decode_def ContentByInscriptionId_Value_wf_def codec_simps)

lemmas ContentByInscriptionId_Value_codec [codec_intros] = cbii_value.codec_axioms
lemmas ContentByInscriptionId_Value_roundtrip [codec_simps] = cbii_value.dec_enc

record ContentByInscriptionId_Cursor =
  cbiic_offset :: u64

definition ContentByInscriptionId_Cursor_encode :: "ContentByInscriptionId_Cursor \<Rightarrow> bytes" where
  "ContentByInscriptionId_Cursor_encode r = derived_struct_encode
     [uint_encode (cbiic_offset r)]"

definition ContentByInscriptionId_Cursor_decode :: "ContentByInscriptionId_Cursor decoder" where
  "ContentByInscriptionId_Cursor_decode bs =
     and_then (uint_decode bs) (\<lambda>offset bs.
       Inr (\<lparr>cbiic_offset = offset\<rparr>, bs))"

definition ContentByInscriptionId_Cursor_wf :: "ContentByInscriptionId_Cursor \<Rightarrow> bool" where
  "ContentByInscriptionId_Cursor_wf r \<longleftrightarrow> True"

interpretation cbii_cursor: codec ContentByInscriptionId_Cursor_encode ContentByInscriptionId_Cursor_decode ContentByInscriptionId_Cursor_wf
  by unfold_locales
    (simp add: ContentByInscriptionId_Cursor_encode_def ContentByInscriptionId_Cursor_decode_def ContentByInscriptionId_Cursor_wf_def codec_simps)

lemmas ContentByInscriptionId_Cursor_codec [codec_intros] = cbii_cursor.codec_axioms
lemmas ContentByInscriptionId_Cursor_roundtrip [codec_simps] = cbii_cursor.dec_enc

subsection \<open>\<open>etching_by_rune_id\<close>\<close>

record EtchingByRuneId_Key =
  ebrik_rune_id :: RuneId

definition EtchingByRuneId_Key_encode :: "EtchingByRuneId_Key \<Rightarrow> bytes" where
  "EtchingByRuneId_Key_encode r = derived_struct_encode
     [RuneId_encode (ebrik_rune_id r)]"

definition EtchingByRuneId_Key_decode :: "EtchingByRuneId_Key decoder" where
  "EtchingByRuneId_Key_decode bs =
     and_then (RuneId_decode bs) (\<lambda>rune_id bs.
       Inr (\<lparr>ebrik_rune_id = rune_id\<rparr>, bs))"

definition EtchingByRuneId_Key_wf :: "EtchingByRuneId_Key \<Rightarrow> bool" where
  "EtchingByRuneId_Key_wf r \<longleftrightarrow> RuneId_wf (ebrik_rune_id r)"

interpretation ebri_key: codec EtchingByRuneId_Key_encode EtchingByRuneId_Key_decode EtchingByRuneId_Key_wf
  by unfold_locales
    (simp add: EtchingByRuneId_Key_encode_def EtchingByRuneId_Key_decode_def EtchingByRuneId_Key_wf_def codec_simps)

lemmas EtchingByRuneId_Key_codec [codec_intros] = ebri_key.codec_axioms
lemmas EtchingByRuneId_Key_roundtrip [codec_simps] = ebri_key.dec_enc

record EtchingByRuneId_Value =
  ebriv_tx_hash :: TxHash
  ebriv_name :: "u128 option"
  ebriv_spacers :: "u32 option"
  ebriv_symbol :: "u32 option"
  ebriv_divisibility :: "u8 option"
  ebriv_premine :: "u128 option"
  ebriv_max_mint_txs :: "u128 option"
  ebriv_amount_per_mint :: "u128 option"
  ebriv_start_height :: "u64 option"
  ebriv_end_height :: "u64 option"
  ebriv_start_offset :: "u64 option"
  ebriv_end_offset :: "u64 option"
  ebriv_turbo :: bool
  ebriv_cenotaph :: bool

definition EtchingByRuneId_Value_encode :: "EtchingByRuneId_Value \<Rightarrow> bytes" where
  "EtchingByRuneId_Value_encode r = derived_struct_encode
     [array_encode (ebriv_tx_hash r),
      option_encode uint_encode (ebriv_name r),
      option_encode uint_encode (ebriv_spacers r),
      option_encode uint_encode (ebriv_symbol r),
      option_encode u8_encode (ebriv_divisibility r),
      option_encode uint_encode (ebriv_premine r),
      option_encode uint_encode (ebriv_max_mint_txs r),
      option_encode uint_encode (ebriv_amount_per_mint r),
      option_encode uint_encode (ebriv_start_height r),
      option_encode uint_encode (ebriv_end_height r),
      option_encode uint_encode (ebriv_start_offset r),
      option_encode uint_encode (ebriv_end_offset r),
      bool_encode (ebriv_turbo r),
      bool_encode (ebriv_cenotaph r)]"

definition EtchingByRuneId_Value_decode :: "EtchingByRuneId_Value decoder" where
  "EtchingByRuneId_Value_decode bs =
     and_then (array_decode 32 bs) (\<lambda>tx_hash bs.
     and_then (option_decode uint_decode bs) (\<lambda>name bs.
     and_then (option_decode uint_decode bs) (\<lambda>spacers bs.
     and_then (option_decode uint_decode bs) (\<lambda>symbol bs.
     and_then (option_decode u8_decode bs) (\<lambda>divisibility bs.
     and_then (option_decode uint_decode bs) (\<lambda>premine bs.
     and_then (option_decode uint_decode bs) (\<lambda>max_mint_txs bs.
     and_then (option_decode uint_decode bs) (\<lambda>amount_per_mint bs.
     and_then (option_decode uint_decode bs) (\<lambda>start_height bs.
     and_then (option_decode uint_decode bs) (\<lambda>end_height bs.
     and_then (option_decode uint_decode bs) (\<lambda>start_offset bs.
     and_then (option_decode uint_decode bs) (\<lambda>end_offset bs.
     and_then (bool_decode bs) (\<lambda>turbo bs.
     and_then (bool_decode bs) (\<lambda>cenotaph bs.
       Inr (\<lparr>ebriv_tx_hash = tx_hash,
            ebriv_name = name,
            ebriv_spacers = spacers,
            ebriv_symbol = symbol,
            ebriv_divisibility = divisibility,
            ebriv_premine = premine,
            ebriv_max_mint_txs = max_mint_txs,
            ebriv_amount_per_mint = amount_per_mint,
            ebriv_start_height = start_height,
            ebriv_end_height = end_height,
            ebriv_start_offset = start_offset,
            ebriv_end_offset = end_offset,
            ebriv_turbo = turbo,
            ebriv_cenotaph = cenotaph\<rparr>, bs)))))))))))))))"

definition EtchingByRuneId_Value_wf :: "EtchingByRuneId_Value \<Rightarrow> bool" where
  "EtchingByRuneId_Value_wf r \<longleftrightarrow> array_wf 32 (ebriv_tx_hash r) \<and>
     option_wf any_wf (ebriv_name r) \<and>
     option_wf any_wf (ebriv_spacers r) \<and>
     option_wf any_wf (ebriv_symbol r) \<and>
     option_wf any_wf (ebriv_divisibility r) \<and>
     option_wf any_wf (ebriv_premine r) \<and>
     option_wf any_wf (ebriv_max_mint_txs r) \<and>
     option_wf any_wf (ebriv_amount_per_mint r) \<and>
     option_wf any_wf (ebriv_start_height r) \<and>
     option_wf any_wf (ebriv_end_height r) \<and>
     option_wf any_wf (ebriv_start_offset r) \<and>
     option_wf any_wf (ebriv_end_offset r)"

lemma EtchingByRuneId_Value_name_codec:
  "codec (option_encode uint_encode :: u128 option \<Rightarrow> bytes)
     (option_decode uint_decode)
     (option_wf any_wf)"
  by (intro codec_intros)

lemma EtchingByRuneId_Value_spacers_codec:
  "codec (option_encode uint_encode :: u32 option \<Rightarrow> bytes)
     (option_decode uint_decode)
     (option_wf any_wf)"
  by (intro codec_intros)

lemma EtchingByRuneId_Value_divisibility_codec:
  "codec (option_encode u8_encode :: u8 option \<Rightarrow> bytes)
     (option_decode u8_decode)
     (option_wf any_wf)"
  by (intro codec_intros)

lemma EtchingByRuneId_Value_start_height_codec:
  "codec (option_encode uint_encode :: u64 option \<Rightarrow> bytes)
     (option_decode uint_decode)
     (option_wf any_wf)"
  by (intro codec_intros)

lemmas EtchingByRuneId_Value_roundtrips [codec_simps] =
  EtchingByRuneId_Value_name_codec [THEN codec.dec_enc]
  EtchingByRuneId_Value_spacers_codec [THEN codec.dec_enc]
  EtchingByRuneId_Value_divisibility_codec [THEN codec.dec_enc]
  EtchingByRuneId_Value_start_height_codec [THEN codec.dec_enc]

interpretation ebri_value: codec EtchingByRuneId_Value_encode EtchingByRuneId_Value_decode EtchingByRuneId_Value_wf
  by unfold_locales
    (simp add: EtchingByRuneId_Value_encode_def EtchingByRuneId_Value_decode_def EtchingByRuneId_Value_wf_def codec_simps)

lemmas EtchingByRuneId_Value_codec [codec_intros] = ebri_value.codec_axioms
lemmas EtchingByRuneId_Value_roundtrip [codec_simps] = ebri_value.dec_enc

subsection \<open>\<open>inscription_activity_by_script_hash\<close>\<close>

record InscriptionActivityByScriptHash_SelfTransferredInscription =
  iabshsti_inscription_id :: InscriptionId
  iabshsti_input_index :: TxoIndex
  iabshsti_input_sat_offset :: SatoshiOffset
  iabshsti_output_index :: TxoIndex
  iabshsti_output_sat_offset :: SatoshiOffset

definition InscriptionActivityByScriptHash_SelfTransferredInscription_encode :: "InscriptionActivityByScriptHash_SelfTransferredInscription \<Rightarrow> bytes" where
  "InscriptionActivityByScriptHash_SelfTransferredInscription_encode r = derived_struct_encode
     [InscriptionId_encode (iabshsti_inscription_id r),
      uint_encode (iabshsti_input_index r),
      uint_encode (iabshsti_input_sat_offset r),
      uint_encode (iabshsti_output_index r),
      uint_encode (iabshsti_output_sat_offset r)]"

definition InscriptionActivityByScriptHash_SelfTransferredInscription_decode :: "InscriptionActivityByScriptHash_SelfTransferredInscription decoder" where
  "InscriptionActivityByScriptHash_SelfTransferredInscription_decode bs =
     and_then (InscriptionId_decode bs) (\<lambda>inscription_id bs.
     and_then (uint_decode bs) (\<lambda>input_index bs.
     and_then (uint_decode bs) (\<lambda>input_sat_offset bs.
     and_then (uint_decode bs) (\<lambda>output_index bs.
     and_then (uint_decode bs) (\<lambda>output_sat_offset bs.
       Inr (\<lparr>iabshsti_inscription_id = inscription_id,
            iabshsti_input_index = input_index,
            iabshsti_input_sat_offset = input_sat_offset,
            iabshsti_output_index = output_index,
            iabshsti_output_sat_offset = output_sat_offset\<rparr>, bs))))))"

definition InscriptionActivityByScriptHash_SelfTransferredInscription_wf :: "InscriptionActivityByScriptHash_SelfTransferredInscription \<Rightarrow> bool" where
  "InscriptionActivityByScriptHash_SelfTransferredInscription_wf r \<longleftrightarrow> InscriptionId_wf (iabshsti_inscription_id r)"

interpretation iabsh_selftransferredinscription: codec InscriptionActivityByScriptHash_SelfTransferredInscription_encode InscriptionActivityByScriptHash_SelfTransferredInscription_decode InscriptionActivityByScriptHash_SelfTransferredInscription_wf
  by unfold_locales
    (simp add: InscriptionActivityByScriptHash_SelfTransferredInscription_encode_def InscriptionActivityByScriptHash_SelfTransferredInscription_decode_def InscriptionActivityByScriptHash_SelfTransferredInscription_wf_def codec_simps)

lemmas InscriptionActivityByScriptHash_SelfTransferredInscription_codec [codec_intros] = iabsh_selftransferredinscription.codec_axioms
lemmas InscriptionActivityByScriptHash_SelfTransferredInscription_roundtrip [codec_simps] = iabsh_selftransferredinscription.dec_enc

record InscriptionActivityByScriptHash_SentInscription =
  iabshsi_inscription_id :: InscriptionId
  iabshsi_input_index :: TxoIndex
  iabshsi_input_sat_offset :: SatoshiOffset
  iabshsi_output_index :: "TxoIndex option"
  iabshsi_output_sat_offset :: "SatoshiOffset option"
  iabshsi_output_script_hash :: "ScriptHash option"

definition InscriptionActivityByScriptHash_SentInscription_encode :: "InscriptionActivityByScriptHash_SentInscription \<Rightarrow> bytes" where
  "InscriptionActivityByScriptHash_SentInscription_encode r = derived_struct_encode
     [InscriptionId_encode (iabshsi_inscription_id r),
      uint_encode (iabshsi_input_index r),
      uint_encode (iabshsi_input_sat_offset r),
      option_encode uint_encode (iabshsi_output_index r),
      option_encode uint_encode (iabshsi_output_sat_offset r),
      option_encode array_encode (iabshsi_output_script_hash r)]"

definition InscriptionActivityByScriptHash_SentInscription_decode :: "InscriptionActivityByScriptHash_SentInscription decoder" where
  "InscriptionActivityByScriptHash_SentInscription_decode bs =
     and_then (InscriptionId_decode bs) (\<lambda>inscription_id bs.
     and_then (uint_decode bs) (\<lambda>input_index bs.
     and_then (uint_decode bs) (\<lambda>input_sat_offset bs.
     and_then (option_decode uint_decode bs) (\<lambda>output_index bs.
     and_then (option_decode uint_decode bs) (\<lambda>output_sat_offset bs.
     and_then (option_decode (array_decode 20) bs) (\<lambda>output_script_hash bs.
       Inr (\<lparr>iabshsi_inscription_id = inscription_id,
            iabshsi_input_index = input_index,
            iabshsi_input_sat_offset = input_sat_offset,
            iabshsi_output_index = output_index,
            iabshsi_output_sat_offset = output_sat_offset,
            iabshsi_output_script_hash = output_script_hash\<rparr>, bs)))))))"

definition InscriptionActivityByScriptHash_SentInscription_wf :: "InscriptionActivityByScriptHash_SentInscription \<Rightarrow> bool" where
  "InscriptionActivityByScriptHash_SentInscription_wf r \<longleftrightarrow> InscriptionId_wf (iabshsi_inscription_id r) \<and>
     option_wf any_wf (iabshsi_output_index r) \<and>
     option_wf any_wf (iabshsi_output_sat_offset r) \<and>
     option_wf (array_wf 20) (iabshsi_output_script_hash r)"

lemma InscriptionActivityByScriptHash_SentInscription_output_index_codec:
  "codec (option_encode uint_encode :: TxoIndex option \<Rightarrow> bytes)
     (option_decode uint_decode)
     (option_wf any_wf)"
  by (intro codec_intros)

lemma InscriptionActivityByScriptHash_SentInscription_output_sat_offset_codec:
  "codec (option_encode uint_encode :: SatoshiOffset option \<Rightarrow> bytes)
     (option_decode uint_decode)
     (option_wf any_wf)"
  by (intro codec_intros)

lemma InscriptionActivityByScriptHash_SentInscription_output_script_hash_codec:
  "codec (option_encode array_encode :: ScriptHash option \<Rightarrow> bytes)
     (option_decode (array_decode 20))
     (option_wf (array_wf 20))"
  by (intro codec_intros)

lemmas InscriptionActivityByScriptHash_SentInscription_roundtrips [codec_simps] =
  InscriptionActivityByScriptHash_SentInscription_output_index_codec [THEN codec.dec_enc]
  InscriptionActivityByScriptHash_SentInscription_output_sat_offset_codec [THEN codec.dec_enc]
  InscriptionActivityByScriptHash_SentInscription_output_script_hash_codec [THEN codec.dec_enc]

interpretation iabsh_sentinscription: codec InscriptionActivityByScriptHash_SentInscription_encode InscriptionActivityByScriptHash_SentInscription_decode InscriptionActivityByScriptHash_SentInscription_wf
  by unfold_locales
    (simp add: InscriptionActivityByScriptHash_SentInscription_encode_def InscriptionActivityByScriptHash_SentInscription_decode_def InscriptionActivityByScriptHash_SentInscription_wf_def codec_simps)

lemmas InscriptionActivityByScriptHash_SentInscription_codec [codec_intros] = iabsh_sentinscription.codec_axioms
lemmas InscriptionActivityByScriptHash_SentInscription_roundtrip [codec_simps] = iabsh_sentinscription.dec_enc

record InscriptionActivityByScriptHash_ReceivedInscription =
  iabshri_inscription_id :: InscriptionId
  iabshri_input_index :: "TxoIndex option"
  iabshri_input_sat_offset :: "SatoshiOffset option"
  iabshri_input_script_hash :: "ScriptHash option"
  iabshri_output_index :: TxoIndex
  iabshri_output_sat_offset :: SatoshiOffset

definition InscriptionActivityByScriptHash_ReceivedInscription_encode :: "InscriptionActivityByScriptHash_ReceivedInscription \<Rightarrow> bytes" where
  "InscriptionActivityByScriptHash_ReceivedInscription_encode r = derived_struct_encode
     [InscriptionId_encode (iabshri_inscription_id r),
      option_encode uint_encode (iabshri_input_index r),
      option_encode uint_encode (iabshri_input_sat_offset r),
      option_encode array_encode (iabshri_input_script_hash r),
      uint_encode (iabshri_output_index r),
      uint_encode (iabshri_output_sat_offset r)]"

definition InscriptionActivityByScriptHash_ReceivedInscription_decode :: "InscriptionActivityByScriptHash_ReceivedInscription decoder" where
  "InscriptionActivityByScriptHash_ReceivedInscription_decode bs =
     and_then (InscriptionId_decode bs) (\<lambda>inscription_id bs.
     and_then (option_decode uint_decode bs) (\<lambda>input_index bs.
     and_then (option_decode uint_decode bs) (\<lambda>input_sat_offset bs.
     and_then (option_decode (array_decode 20) bs) (\<lambda>input_script_hash bs.
     and_then (uint_decode bs) (\<lambda>output_index bs.
     and_then (uint_decode bs) (\<lambda>output_sat_offset bs.
       Inr (\<lparr>iabshri_inscription_id = inscription_id,
            iabshri_input_index = input_index,
            iabshri_input_sat_offset = input_sat_offset,
            iabshri_input_script_hash = input_script_hash,
            iabshri_output_index = output_index,
            iabshri_output_sat_offset = output_sat_offset\<rparr>, bs)))))))"

definition InscriptionActivityByScriptHash_ReceivedInscription_wf :: "InscriptionActivityByScriptHash_ReceivedInscription \<Rightarrow> bool" where
  "InscriptionActivityByScriptHash_ReceivedInscription_wf r \<longleftrightarrow> InscriptionId_wf (iabshri_inscription_id r) \<and>
     option_wf any_wf (iabshri_input_index r) \<and>
     option_wf any_wf (iabshri_input_sat_offset r) \<and>
     option_wf (array_wf 20) (iabshri_input_script_hash r)"

interpretation iabsh_receivedinscription: codec InscriptionActivityByScriptHash_ReceivedInscription_encode InscriptionActivityByScriptHash_ReceivedInscription_decode InscriptionActivityByScriptHash_ReceivedInscription_wf
  by unfold_locales
    (simp add: InscriptionActivityByScriptHash_ReceivedInscription_encode_def InscriptionActivityByScriptHash_ReceivedInscription_decode_def InscriptionActivityByScriptHash_ReceivedInscription_wf_def codec_simps)

lemmas InscriptionActivityByScriptHash_ReceivedInscription_codec [codec_intros] = iabsh_receivedinscription.codec_axioms
lemmas InscriptionActivityByScriptHash_ReceivedInscription_roundtrip [codec_simps] = iabsh_receivedinscription.dec_enc

record InscriptionActivityByScriptHash_Key =
  iabshk_script_hash :: ScriptHash
  iabshk_height :: Height
  iabshk_activity_tx_index :: TxIndex
  iabshk_tx_hash :: TxHash

definition InscriptionActivityByScriptHash_Key_encode :: "InscriptionActivityByScriptHash_Key \<Rightarrow> bytes" where
  "InscriptionActivityByScriptHash_Key_encode r = derived_struct_encode
     [array_encode (iabshk_script_hash r),
      uint_encode (iabshk_height r),
      uint_encode (iabshk_activity_tx_index r),
      array_encode (iabshk_tx_hash r)]"

definition InscriptionActivityByScriptHash_Key_decode :: "InscriptionActivityByScriptHash_Key decoder" where
  "InscriptionActivityByScriptHash_Key_decode bs =
     and_then (array_decode 20 bs) (\<lambda>script_hash bs.
     and_then (uint_decode bs) (\<lambda>height bs.
     and_then (uint_decode bs) (\<lambda>activity_tx_index bs.
     and_then (array_decode 32 bs) (\<lambda>tx_hash bs.
       Inr (\<lparr>iabshk_script_hash = script_hash,
            iabshk_height = height,
            iabshk_activity_tx_index = activity_tx_index,
            iabshk_tx_hash = tx_hash\<rparr>, bs)))))"

definition InscriptionActivityByScriptHash_Key_wf :: "InscriptionActivityByScriptHash_Key \<Rightarrow> bool" where
  "InscriptionActivityByScriptHash_Key_wf r \<longleftrightarrow> array_wf 20 (iabshk_script_hash r) \<and>
     array_wf 32 (iabshk_tx_hash r)"

interpretation iabsh_key: codec InscriptionActivityByScriptHash_Key_encode InscriptionActivityByScriptHash_Key_decode InscriptionActivityByScriptHash_Key_wf
  by unfold_locales
    (simp add: InscriptionActivityByScriptHash_Key_encode_def InscriptionActivityByScriptHash_Key_decode_def InscriptionActivityByScriptHash_Key_wf_def codec_simps)

lemmas InscriptionActivityByScriptHash_Key_codec [codec_intros] = iabsh_key.codec_axioms
lemmas InscriptionActivityByScriptHash_Key_roundtrip [codec_simps] = iabsh_key.dec_enc

record InscriptionActivityByScriptHash_Value =
  iabshv_self_transfers :: "InscriptionActivityByScriptHash_SelfTransferredInscription list"
  iabshv_sent :: "InscriptionActivityByScriptHash_SentInscription list"
  iabshv_received :: "InscriptionActivityByScriptHash_ReceivedInscription list"

definition InscriptionActivityByScriptHash_Value_encode :: "InscriptionActivityByScriptHash_Value \<Rightarrow> bytes" where
  "InscriptionActivityByScriptHash_Value_encode r = derived_struct_encode
     [vec_encode InscriptionActivityByScriptHash_SelfTransferredInscription_encode (iabshv_self_transfers r),
      vec_encode InscriptionActivityByScriptHash_SentInscription_encode (iabshv_sent r),
      vec_encode InscriptionActivityByScriptHash_ReceivedInscription_encode (iabshv_received r)]"

definition InscriptionActivityByScriptHash_Value_decode :: "InscriptionActivityByScriptHash_Value decoder" where
  "InscriptionActivityByScriptHash_Value_decode bs =
     and_then (vec_decode InscriptionActivityByScriptHash_SelfTransferredInscription_decode bs) (\<lambda>self_transfers bs.
     and_then (vec_decode InscriptionActivityByScriptHash_SentInscription_decode bs) (\<lambda>sent bs.
     and_then (vec_decode InscriptionActivityByScriptHash_ReceivedInscription_decode bs) (\<lambda>received bs.
       Inr (\<lparr>iabshv_self_transfers = self_transfers, iabshv_sent = sent, iabshv_received = received\<rparr>, bs))))"

definition InscriptionActivityByScriptHash_Value_wf :: "InscriptionActivityByScriptHash_Value \<Rightarrow> bool" where
  "InscriptionActivityByScriptHash_Value_wf r \<longleftrightarrow> vec_wf InscriptionActivityByScriptHash_SelfTransferredInscription_wf (iabshv_self_transfers r) \<and>
     vec_wf InscriptionActivityByScriptHash_SentInscription_wf (iabshv_sent r) \<and>
     vec_wf InscriptionActivityByScriptHash_ReceivedInscription_wf (iabshv_received r)"

lemma InscriptionActivityByScriptHash_Value_self_transfers_codec:
  "codec (vec_encode InscriptionActivityByScriptHash_SelfTransferredInscription_encode :: InscriptionActivityByScriptHash_SelfTransferredInscription list \<Rightarrow> bytes)
     (vec_decode InscriptionActivityByScriptHash_SelfTransferredInscription_decode)
     (vec_wf InscriptionActivityByScriptHash_SelfTransferredInscription_wf)"
  by (intro codec_intros)

lemma InscriptionActivityByScriptHash_Value_sent_codec:
  "codec (vec_encode InscriptionActivityByScriptHash_SentInscription_encode :: InscriptionActivityByScriptHash_SentInscription list \<Rightarrow> bytes)
     (vec_decode InscriptionActivityByScriptHash_SentInscription_decode)
     (vec_wf InscriptionActivityByScriptHash_SentInscription_wf)"
  by (intro codec_intros)

lemma InscriptionActivityByScriptHash_Value_received_codec:
  "codec (vec_encode InscriptionActivityByScriptHash_ReceivedInscription_encode :: InscriptionActivityByScriptHash_ReceivedInscription list \<Rightarrow> bytes)
     (vec_decode InscriptionActivityByScriptHash_ReceivedInscription_decode)
     (vec_wf InscriptionActivityByScriptHash_ReceivedInscription_wf)"
  by (intro codec_intros)

lemmas InscriptionActivityByScriptHash_Value_roundtrips [codec_simps] =
  InscriptionActivityByScriptHash_Value_self_transfers_codec [THEN codec.dec_enc]
  InscriptionActivityByScriptHash_Value_sent_codec [THEN codec.dec_enc]
  InscriptionActivityByScriptHash_Value_received_codec [THEN codec.dec_enc]

interpretation iabsh_value: codec InscriptionActivityByScriptHash_Value_encode InscriptionActivityByScriptHash_Value_decode InscriptionActivityByScriptHash_Value_wf
  by unfold_locales
    (simp add: InscriptionActivityByScriptHash_Value_encode_def InscriptionActivityByScriptHash_Value_decode_def InscriptionActivityByScriptHash_Value_wf_def codec_simps)

lemmas InscriptionActivityByScriptHash_Value_codec [codec_intros] = iabsh_value.codec_axioms
lemmas InscriptionActivityByScriptHash_Value_roundtrip [codec_simps] = iabsh_value.dec_enc

record InscriptionActivityByScriptHash_Cursor =
  iabshc_height :: Height
  iabshc_activity_tx_index :: TxIndex
  iabshc_tx_hash :: TxHash

definition InscriptionActivityByScriptHash_Cursor_encode :: "InscriptionActivityByScriptHash_Cursor \<Rightarrow> bytes" where
  "InscriptionActivityByScriptHash_Cursor_encode r = derived_struct_encode
     [uint_encode (iabshc_height r),
      uint_encode (iabshc_activity_tx_index r),
      array_encode (iabshc_tx_hash r)]"

definition InscriptionActivityByScriptHash_Cursor_decode :: "InscriptionActivityByScriptHash_Cursor decoder" where
  "InscriptionActivityByScriptHash_Cursor_decode bs =
     and_then (uint_decode bs) (\<lambda>height bs.
     and_then (uint_decode bs) (\<lambda>activity_tx_index bs.
     and_then (array_decode 32 bs) (\<lambda>tx_hash bs.
       Inr (\<lparr>iabshc_height = height, iabshc_activity_tx_index = activity_tx_index, iabshc_tx_hash = tx_hash\<rparr>, bs))))"

definition InscriptionActivityByScriptHash_Cursor_wf :: "InscriptionActivityByScriptHash_Cursor \<Rightarrow> bool" where
  "InscriptionActivityByScriptHash_Cursor_wf r \<longleftrightarrow> array_wf 32 (iabshc_tx_hash r)"

interpretation iabsh_cursor: codec InscriptionActivityByScriptHash_Cursor_encode InscriptionActivityByScriptHash_Cursor_decode InscriptionActivityByScriptHash_Cursor_wf
  by unfold_locales
    (simp add: InscriptionActivityByScriptHash_Cursor_encode_def InscriptionActivityByScriptHash_Cursor_decode_def InscriptionActivityByScriptHash_Cursor_wf_def codec_simps)

lemmas InscriptionActivityByScriptHash_Cursor_codec [codec_intros] = iabsh_cursor.codec_axioms
lemmas InscriptionActivityByScriptHash_Cursor_roundtrip [codec_simps] = iabsh_cursor.dec_enc

subsection \<open>\<open>inscription_activity_by_tx\<close>\<close>

record InscriptionActivityByTx_Key =
  iabtk_height :: Height
  iabtk_tx_index :: TxIndex

definition InscriptionActivityByTx_Key_encode :: "InscriptionActivityByTx_Key \<Rightarrow> bytes" where
  "InscriptionActivityByTx_Key_encode r = derived_struct_encode
     [uint_encode (iabtk_height r),
      uint_encode (iabtk_tx_index r)]"

definition InscriptionActivityByTx_Key_decode :: "InscriptionActivityByTx_Key decoder" where
  "InscriptionActivityByTx_Key_decode bs =
     and_then (uint_decode bs) (\<lambda>height bs.
     and_then (uint_decode bs) (\<lambda>tx_index bs.
       Inr (\<lparr>iabtk_height = height, iabtk_tx_index = tx_index\<rparr>, bs)))"

definition InscriptionActivityByTx_Key_wf :: "InscriptionActivityByTx_Key \<Rightarrow> bool" where
  "InscriptionActivityByTx_Key_wf r \<longleftrightarrow> True"

interpretation iabt_key: codec InscriptionActivityByTx_Key_encode InscriptionActivityByTx_Key_decode InscriptionActivityByTx_Key_wf
  by unfold_locales
    (simp add: InscriptionActivityByTx_Key_encode_def InscriptionActivityByTx_Key_decode_def InscriptionActivityByTx_Key_wf_def codec_simps)

lemmas InscriptionActivityByTx_Key_codec [codec_intros] = iabt_key.codec_axioms
lemmas InscriptionActivityByTx_Key_roundtrip [codec_simps] = iabt_key.dec_enc

record InscriptionActivityByTx_Value =
  iabtv_tx_hash :: TxHash
  iabtv_inscriptions_activity :: "(InscriptionId \<times> ((ScriptHash \<times> TxoIndex \<times> SatoshiOffset) option \<times> (ScriptHash \<times> TxoIndex \<times> SatoshiOffset))) list"

definition InscriptionActivityByTx_Value_encode :: "InscriptionActivityByTx_Value \<Rightarrow> bytes" where
  "InscriptionActivityByTx_Value_encode r = derived_struct_encode
     [array_encode (iabtv_tx_hash r),
      vec_encode (pair_encode InscriptionId_encode (pair_encode (option_encode (triple_encode array_encode uint_encode uint_encode)) (triple_encode array_encode uint_encode uint_encode))) (iabtv_inscriptions_activity r)]"

definition InscriptionActivityByTx_Value_decode :: "InscriptionActivityByTx_Value decoder" where
  "InscriptionActivityByTx_Value_decode bs =
     and_then (array_decode 32 bs) (\<lambda>tx_hash bs.
     and_then (vec_decode (pair_decode InscriptionId_decode (pair_decode (option_decode (triple_decode (array_decode 20) uint_decode uint_decode)) (triple_decode (array_decode 20) uint_decode uint_decode))) bs) (\<lambda>inscriptions_activity bs.
       Inr (\<lparr>iabtv_tx_hash = tx_hash, iabtv_inscriptions_activity = inscriptions_activity\<rparr>, bs)))"

definition InscriptionActivityByTx_Value_wf :: "InscriptionActivityByTx_Value \<Rightarrow> bool" where
  "InscriptionActivityByTx_Value_wf r \<longleftrightarrow> array_wf 32 (iabtv_tx_hash r) \<and>
     vec_wf (pair_wf InscriptionId_wf (pair_wf (option_wf (triple_wf (array_wf 20) any_wf any_wf)) (triple_wf (array_wf 20) any_wf any_wf))) (iabtv_inscriptions_activity r)"

lemma InscriptionActivityByTx_Value_inscriptions_activity_codec:
  "codec (vec_encode (pair_encode InscriptionId_encode (pair_encode (option_encode (triple_encode array_encode uint_encode uint_encode)) (triple_encode array_encode uint_encode uint_encode))) :: (InscriptionId \<times> ((ScriptHash \<times> TxoIndex \<times> SatoshiOffset) option \<times> (ScriptHash \<times> TxoIndex \<times> SatoshiOffset))) list \<Rightarrow> bytes)
     (vec_decode (pair_decode InscriptionId_decode (pair_decode (option_decode (triple_decode (array_decode 20) uint_decode uint_decode)) (triple_decode (array_decode 20) uint_decode uint_decode))))
     (vec_wf (pair_wf InscriptionId_wf (pair_wf (option_wf (triple_wf (array_wf 20) any_wf any_wf)) (triple_wf (array_wf 20) any_wf any_wf))))"
  by (intro codec_intros)

lemmas InscriptionActivityByTx_Value_roundtrips [codec_simps] =
  InscriptionActivityByTx_Value_inscriptions_activity_codec [THEN codec.dec_enc]

interpretation iabt_value: codec InscriptionActivityByTx_Value_encode InscriptionActivityByTx_Value_decode InscriptionActivityByTx_Value_wf
  by unfold_locales
    (simp add: InscriptionActivityByTx_Value_encode_def InscriptionActivityByTx_Value_decode_def InscriptionActivityByTx_Value_wf_def codec_simps)

lemmas InscriptionActivityByTx_Value_codec [codec_intros] = iabt_value.codec_axioms
lemmas InscriptionActivityByTx_Value_roundtrip [codec_simps] = iabt_value.dec_enc

record InscriptionActivityByTx_Cursor =
  iabtc_tx_index :: TxIndex
  iabtc_activity_index :: u32

definition InscriptionActivityByTx_Cursor_encode :: "InscriptionActivityByTx_Cursor \<Rightarrow> bytes" where
  "InscriptionActivityByTx_Cursor_encode r = derived_struct_encode
     [uint_encode (iabtc_tx_index r),
      uint_encode (iabtc_activity_index r)]"

definition InscriptionActivityByTx_Cursor_decode :: "InscriptionActivityByTx_Cursor decoder" where
  "InscriptionActivityByTx_Cursor_decode bs =
     and_then (uint_decode bs) (\<lambda>tx_index bs.
     and_then (uint_decode bs) (\<lambda>activity_index bs.
       Inr (\<lparr>iabtc_tx_index = tx_index, iabtc_activity_index = activity_index\<rparr>, bs)))"

definition InscriptionActivityByTx_Cursor_wf :: "InscriptionActivityByTx_Cursor \<Rightarrow> bool" where
  "InscriptionActivityByTx_Cursor_wf r \<longleftrightarrow> True"

interpretation iabt_cursor: codec InscriptionActivityByTx_Cursor_encode InscriptionActivityByTx_Cursor_decode InscriptionActivityByTx_Cursor_wf
  by unfold_locales
    (simp add: InscriptionActivityByTx_Cursor_encode_def InscriptionActivityByTx_Cursor_decode_def InscriptionActivityByTx_Cursor_wf_def codec_simps)

lemmas InscriptionActivityByTx_Cursor_codec [codec_intros] = iabt_cursor.codec_axioms
lemmas InscriptionActivityByTx_Cursor_roundtrip [codec_simps] = iabt_cursor.dec_enc

subsection \<open>\<open>inscription_activity_by_tx_v2\<close>\<close>

record InscriptionActivityByTxV2_Key =
  iabtvk_height :: Height
  iabtvk_tx_index :: TxIndex

definition InscriptionActivityByTxV2_Key_encode :: "InscriptionActivityByTxV2_Key \<Rightarrow> bytes" where
  "InscriptionActivityByTxV2_Key_encode r = derived_struct_encode
     [uint_encode (iabtvk_height r),
      uint_encode (iabtvk_tx_index r)]"

definition InscriptionActivityByTxV2_Key_decode :: "InscriptionActivityByTxV2_Key decoder" where
  "InscriptionActivityByTxV2_Key_decode bs =
     and_then (uint_decode bs) (\<lambda>height bs.
     and_then (uint_decode bs) (\<lambda>tx_index bs.
       Inr (\<lparr>iabtvk_height = height, iabtvk_tx_index = tx_index\<rparr>, bs)))"

definition InscriptionActivityByTxV2_Key_wf :: "InscriptionActivityByTxV2_Key \<Rightarrow> bool" where
  "InscriptionActivityByTxV2_Key_wf r \<longleftrightarrow> True"

interpretation iabtv_key: codec InscriptionActivityByTxV2_Key_encode InscriptionActivityByTxV2_Key_decode InscriptionActivityByTxV2_Key_wf
  by unfold_locales
    (simp add: InscriptionActivityByTxV2_Key_encode_def InscriptionActivityByTxV2_Key_decode_def InscriptionActivityByTxV2_Key_wf_def codec_simps)

lemmas InscriptionActivityByTxV2_Key_codec [codec_intros] = iabtv_key.codec_axioms
lemmas InscriptionActivityByTxV2_Key_roundtrip [codec_simps] = iabtv_key.dec_enc

record InscriptionActivityByTxV2_Value =
  iabtvv_tx_hash :: TxHash
  iabtvv_inscriptions_activity :: "(InscriptionId \<times> ((ScriptHash \<times> TxoIndex \<times> SatoshiOffset) option \<times> (ScriptHash \<times> TxoIndex \<times> SatoshiOffset) option)) list"

definition InscriptionActivityByTxV2_Value_encode :: "InscriptionActivityByTxV2_Value \<Rightarrow> bytes" where
  "InscriptionActivityByTxV2_Value_encode r = derived_struct_encode
     [array_encode (iabtvv_tx_hash r),
      vec_encode (pair_encode InscriptionId_encode (pair_encode (option_encode (triple_encode array_encode uint_encode uint_encode)) (option_encode (triple_encode array_encode uint_encode uint_encode)))) (iabtvv_inscriptions_activity r)]"

definition InscriptionActivityByTxV2_Value_decode :: "InscriptionActivityByTxV2_Value decoder" where
  "InscriptionActivityByTxV2_Value_decode bs =
     and_then (array_decode 32 bs) (\<lambda>tx_hash bs.
     and_then (vec_decode (pair_decode InscriptionId_decode (pair_decode (option_decode (triple_decode (array_decode 20) uint_decode uint_decode)) (option_decode (triple_decode (array_decode 20) uint_decode uint_decode)))) bs) (\<lambda>inscriptions_activity bs.
       Inr (\<lparr>iabtvv_tx_hash = tx_hash, iabtvv_inscriptions_activity = inscriptions_activity\<rparr>, bs)))"

definition InscriptionActivityByTxV2_Value_wf :: "InscriptionActivityByTxV2_Value \<Rightarrow> bool" where
  "InscriptionActivityByTxV2_Value_wf r \<longleftrightarrow> array_wf 32 (iabtvv_tx_hash r) \<and>
     vec_wf (pair_wf InscriptionId_wf (pair_wf (option_wf (triple_wf (array_wf 20) any_wf any_wf)) (option_wf (triple_wf (array_wf 20) any_wf any_wf)))) (iabtvv_inscriptions_activity r)"

lemma InscriptionActivityByTxV2_Value_inscriptions_activity_codec:
  "codec (vec_encode (pair_encode InscriptionId_encode (pair_encode (option_encode (triple_encode array_encode uint_encode uint_encode)) (option_encode (triple_encode array_encode uint_encode uint_encode)))) :: (InscriptionId \<times> ((ScriptHash \<times> TxoIndex \<times> SatoshiOffset) option \<times> (ScriptHash \<times> TxoIndex \<times> SatoshiOffset) option)) list \<Rightarrow> bytes)
     (vec_decode (pair_decode InscriptionId_decode (pair_decode (option_decode (triple_decode (array_decode 20) uint_decode uint_decode)) (option_decode (triple_decode (array_decode 20) uint_decode uint_decode)))))
     (vec_wf (pair_wf InscriptionId_wf (pair_wf (option_wf (triple_wf (array_wf 20) any_wf any_wf)) (option_wf (triple_wf (array_wf 20) any_wf any_wf)))))"
  by (intro codec_intros)

lemmas InscriptionActivityByTxV2_Value_roundtrips [codec_simps] =
  InscriptionActivityByTxV2_Value_inscriptions_activity_codec [THEN codec.dec_enc]

interpretation iabtv_value: codec InscriptionActivityByTxV2_Value_encode InscriptionActivityByTxV2_Value_decode InscriptionActivityByTxV2_Value_wf
  by unfold_locales
    (simp add: InscriptionActivityByTxV2_Value_encode_def InscriptionActivityByTxV2_Value_decode_def InscriptionActivityByTxV2_Value_wf_def codec_simps)

lemmas InscriptionActivityByTxV2_Value_codec [codec_intros] = iabtv_value.codec_axioms
lemmas InscriptionActivityByTxV2_Value_roundtrip [codec_simps] = iabtv_value.dec_enc

record InscriptionActivityByTxV2_Cursor =
  iabtvc_tx_index :: TxIndex
  iabtvc_activity_index :: u32

definition InscriptionActivityByTxV2_Cursor_encode :: "InscriptionActivityByTxV2_Cursor \<Rightarrow> bytes" where
  "InscriptionActivityByTxV2_Cursor_encode r = derived_struct_encode
     [uint_encode (iabtvc_tx_index r),
      uint_encode (iabtvc_activity_index r)]"

definition InscriptionActivityByTxV2_Cursor_decode :: "InscriptionActivityByTxV2_Cursor decoder" where
  "InscriptionActivityByTxV2_Cursor_decode bs =
     and_then (uint_decode bs) (\<lambda>tx_index bs.
     and_then (uint_decode bs) (\<lambda>activity_index bs.
       Inr (\<lparr>iabtvc_tx_index = tx_index, iabtvc_activity_index = activity_index\<rparr>, bs)))"

definition InscriptionActivityByTxV2_Cursor_wf :: "InscriptionActivityByTxV2_Cursor \<Rightarrow> bool" where
  "InscriptionActivityByTxV2_Cursor_wf r \<longleftrightarrow> True"

interpretation iabtv_cursor: codec InscriptionActivityByTxV2_Cursor_encode InscriptionActivityByTxV2_Cursor_decode InscriptionActivityByTxV2_Cursor_wf
  by unfold_locales
    (simp add: InscriptionActivityByTxV2_Cursor_encode_def InscriptionActivityByTxV2_Cursor_decode_def InscriptionActivityByTxV2_Cursor_wf_def codec_simps)

lemmas InscriptionActivityByTxV2_Cursor_codec [codec_intros] = iabtv_cursor.codec_axioms
lemmas InscriptionActivityByTxV2_Cursor_roundtrip [codec_simps] = iabtv_cursor.dec_enc

subsection \<open>\<open>inscription_utxos_by_script_hash\<close>\<close>

record InscriptionUtxosByScriptHash_Key =
  iubshk_script_hash :: ScriptHash
  iubshk_height :: Height
  iubshk_utxo_hash :: TxHash
  iubshk_utxo_index :: TxoIndex

definition InscriptionUtxosByScriptHash_Key_encode :: "InscriptionUtxosByScriptHash_Key \<Rightarrow> bytes" where
  "InscriptionUtxosByScriptHash_Key_encode r = derived_struct_encode
     [array_encode (iubshk_script_hash r),
      uint_encode (iubshk_height r),
      array_encode (iubshk_utxo_hash r),
      uint_encode (iubshk_utxo_index r)]"

definition InscriptionUtxosByScriptHash_Key_decode :: "InscriptionUtxosByScriptHash_Key decoder" where
  "InscriptionUtxosByScriptHash_Key_decode bs =
     and_then (array_decode 20 bs) (\<lambda>script_hash bs.
     and_then (uint_decode bs) (\<lambda>height bs.
     and_then (array_decode 32 bs) (\<lambda>utxo_hash bs.
     and_then (uint_decode bs) (\<lambda>utxo_index bs.
       Inr (\<lparr>iubshk_script_hash = script_hash,
            iubshk_height = height,
            iubshk_utxo_hash = utxo_hash,
            iubshk_utxo_index = utxo_index\<rparr>, bs)))))"

definition InscriptionUtxosByScriptHash_Key_wf :: "InscriptionUtxosByScriptHash_Key \<Rightarrow> bool" where
  "InscriptionUtxosByScriptHash_Key_wf r \<longleftrightarrow> array_wf 20 (iubshk_script_hash r) \<and>
     array_wf 32 (iubshk_utxo_hash r)"

interpretation iubsh_key: codec InscriptionUtxosByScriptHash_Key_encode InscriptionUtxosByScriptHash_Key_decode InscriptionUtxosByScriptHash_Key_wf
  by unfold_locales
    (simp add: InscriptionUtxosByScriptHash_Key_encode_def InscriptionUtxosByScriptHash_Key_decode_def InscriptionUtxosByScriptHash_Key_wf_def codec_simps)

lemmas InscriptionUtxosByScriptHash_Key_codec [codec_intros] = iubsh_key.codec_axioms
lemmas InscriptionUtxosByScriptHash_Key_roundtrip [codec_simps] = iubsh_key.dec_enc

record InscriptionUtxosByScriptHash_Value =
  iubshv_satoshis :: SatoshiQuantity
  iubshv_inscriptions :: "(SatoshiOffset \<times> InscriptionId) list"

definition InscriptionUtxosByScriptHash_Value_encode :: "InscriptionUtxosByScriptHash_Value \<Rightarrow> bytes" where
  "InscriptionUtxosByScriptHash_Value_encode r = derived_struct_encode
     [uint_encode (iubshv_satoshis r),
      vec_encode (pair_encode uint_encode InscriptionId_encode) (iubshv_inscriptions r)]"

definition InscriptionUtxosByScriptHash_Value_decode :: "InscriptionUtxosByScriptHash_Value decoder" where
  "InscriptionUtxosByScriptHash_Value_decode bs =
     and_then (uint_decode bs) (\<lambda>satoshis bs.
     and_then (vec_decode (pair_decode uint_decode InscriptionId_decode) bs) (\<lambda>inscriptions bs.
       Inr (\<lparr>iubshv_satoshis = satoshis, iubshv_inscriptions = inscriptions\<rparr>, bs)))"

definition InscriptionUtxosByScriptHash_Value_wf :: "InscriptionUtxosByScriptHash_Value \<Rightarrow> bool" where
  "InscriptionUtxosByScriptHash_Value_wf r \<longleftrightarrow> vec_wf (pair_wf any_wf InscriptionId_wf) (iubshv_inscriptions r)"

lemma InscriptionUtxosByScriptHash_Value_inscriptions_codec:
  "codec (vec_encode (pair_encode uint_encode InscriptionId_encode) :: (SatoshiOffset \<times> InscriptionId) list \<Rightarrow> bytes)
     (vec_decode (pair_decode uint_decode InscriptionId_decode))
     (vec_wf (pair_wf any_wf InscriptionId_wf))"
  by (intro codec_intros)

lemmas InscriptionUtxosByScriptHash_Value_roundtrips [codec_simps] =
  InscriptionUtxosByScriptHash_Value_inscriptions_codec [THEN codec.dec_enc]

interpretation iubsh_value: codec InscriptionUtxosByScriptHash_Value_encode InscriptionUtxosByScriptHash_Value_decode InscriptionUtxosByScriptHash_Value_wf
  by unfold_locales
    (simp add: InscriptionUtxosByScriptHash_Value_encode_def InscriptionUtxosByScriptHash_Value_decode_def InscriptionUtxosByScriptHash_Value_wf_def codec_simps)

lemmas InscriptionUtxosByScriptHash_Value_codec [codec_intros] = iubsh_value.codec_axioms
lemmas InscriptionUtxosByScriptHash_Value_roundtrip [codec_simps] = iubsh_value.dec_enc

record InscriptionUtxosByScriptHash_Cursor =
  iubshc_tx_id :: TxHash
  iubshc_index :: InscriptionIndex

definition InscriptionUtxosByScriptHash_Cursor_encode :: "InscriptionUtxosByScriptHash_Cursor \<Rightarrow> bytes" where
  "InscriptionUtxosByScriptHash_Cursor_encode r = derived_struct_encode
     [array_encode (iubshc_tx_id r),
      uint_encode (iubshc_index r)]"

definition InscriptionUtxosByScriptHash_Cursor_decode :: "InscriptionUtxosByScriptHash_Cursor decoder" where
  "InscriptionUtxosByScriptHash_Cursor_decode bs =
     and_then (array_decode 32 bs) (\<lambda>tx_id bs.
     and_then (uint_decode bs) (\<lambda>index bs.
       Inr (\<lparr>iubshc_tx_id = tx_id, iubshc_index = index\<rparr>, bs)))"

definition InscriptionUtxosByScriptHash_Cursor_wf :: "InscriptionUtxosByScriptHash_Cursor \<Rightarrow> bool" where
  "InscriptionUtxosByScriptHash_Cursor_wf r \<longleftrightarrow> array_wf 32 (iubshc_tx_id r)"

interpretation iubsh_cursor: codec InscriptionUtxosByScriptHash_Cursor_encode InscriptionUtxosByScriptHash_Cursor_decode InscriptionUtxosByScriptHash_Cursor_wf
  by unfold_locales
    (simp add: InscriptionUtxosByScriptHash_Cursor_encode_def InscriptionUtxosByScriptHash_Cursor_decode_def InscriptionUtxosByScriptHash_Cursor_wf_def codec_simps)

lemmas InscriptionUtxosByScriptHash_Cursor_codec [codec_intros] = iubsh_cursor.codec_axioms
lemmas InscriptionUtxosByScriptHash_Cursor_roundtrip [codec_simps] = iubsh_cursor.dec_enc

subsection \<open>\<open>mints_by_rune_id\<close>\<close>

record MintsByRuneId_Key =
  mbrik_rune_id :: RuneId

definition MintsByRuneId_Key_encode :: "MintsByRuneId_Key \<Rightarrow> bytes" where
  "MintsByRuneId_Key_encode r = derived_struct_encode
     [RuneId_encode (mbrik_rune_id r)]"

definition MintsByRuneId_Key_decode :: "MintsByRuneId_Key decoder" where
  "MintsByRuneId_Key_decode bs =
     and_then (RuneId_decode bs) (\<lambda>rune_id bs.
       Inr (\<lparr>mbrik_rune_id = rune_id\<rparr>, bs))"

definition MintsByRuneId_Key_wf :: "MintsByRuneId_Key \<Rightarrow> bool" where
  "MintsByRuneId_Key_wf r \<longleftrightarrow> RuneId_wf (mbrik_rune_id r)"

interpretation mbri_key: codec MintsByRuneId_Key_encode MintsByRuneId_Key_decode MintsByRuneId_Key_wf
  by unfold_locales
    (simp add: MintsByRuneId_Key_encode_def MintsByRuneId_Key_decode_def MintsByRuneId_Key_wf_def codec_simps)

lemmas MintsByRuneId_Key_codec [codec_intros] = mbri_key.codec_axioms
lemmas MintsByRuneId_Key_roundtrip [codec_simps] = mbri_key.dec_enc

subsection \<open>\<open>rune_balances_by_script_hash\<close>\<close>

record RuneBalancesByScriptHash_Key =
  rbbshk_script_hash :: ScriptHash
  rbbshk_rune_id :: RuneId

definition RuneBalancesByScriptHash_Key_encode :: "RuneBalancesByScriptHash_Key \<Rightarrow> bytes" where
  "RuneBalancesByScriptHash_Key_encode r = derived_struct_encode
     [array_encode (rbbshk_script_hash r),
      RuneId_encode (rbbshk_rune_id r)]"

definition RuneBalancesByScriptHash_Key_decode :: "RuneBalancesByScriptHash_Key decoder" where
  "RuneBalancesByScriptHash_Key_decode bs =
     and_then (array_decode 20 bs) (\<lambda>script_hash bs.
     and_then (RuneId_decode bs) (\<lambda>rune_id bs.
       Inr (\<lparr>rbbshk_script_hash = script_hash, rbbshk_rune_id = rune_id\<rparr>, bs)))"

definition RuneBalancesByScriptHash_Key_wf :: "RuneBalancesByScriptHash_Key \<Rightarrow> bool" where
  "RuneBalancesByScriptHash_Key_wf r \<longleftrightarrow> array_wf 20 (rbbshk_script_hash r) \<and>
     RuneId_wf (rbbshk_rune_id r)"

interpretation rbbsh_key: codec RuneBalancesByScriptHash_Key_encode RuneBalancesByScriptHash_Key_decode RuneBalancesByScriptHash_Key_wf
  by unfold_locales
    (simp add: RuneBalancesByScriptHash_Key_encode_def RuneBalancesByScriptHash_Key_decode_def RuneBalancesByScriptHash_Key_wf_def codec_simps)

lemmas RuneBalancesByScriptHash_Key_codec [codec_intros] = rbbsh_key.codec_axioms
lemmas RuneBalancesByScriptHash_Key_roundtrip [codec_simps] = rbbsh_key.dec_enc

subsection \<open>\<open>rune_id_by_rune_name\<close>\<close>

record RuneIdByRuneName_Key =
  ribrnk_rune_name :: u128

definition RuneIdByRuneName_Key_encode :: "RuneIdByRuneName_Key \<Rightarrow> bytes" where
  "RuneIdByRuneName_Key_encode r = derived_struct_encode
     [uint_encode (ribrnk_rune_name r)]"

definition RuneIdByRuneName_Key_decode :: "RuneIdByRuneName_Key decoder" where
  "RuneIdByRuneName_Key_decode bs =
     and_then (uint_decode bs) (\<lambda>rune_name bs.
       Inr (\<lparr>ribrnk_rune_name = rune_name\<rparr>, bs))"

definition RuneIdByRuneName_Key_wf :: "RuneIdByRuneName_Key \<Rightarrow> bool" where
  "RuneIdByRuneName_Key_wf r \<longleftrightarrow> True"

interpretation ribrn_key: codec RuneIdByRuneName_Key_encode RuneIdByRuneName_Key_decode RuneIdByRuneName_Key_wf
  by unfold_locales
    (simp add: RuneIdByRuneName_Key_encode_def RuneIdByRuneName_Key_decode_def RuneIdByRuneName_Key_wf_def codec_simps)

lemmas RuneIdByRuneName_Key_codec [codec_intros] = ribrn_key.codec_axioms
lemmas RuneIdByRuneName_Key_roundtrip [codec_simps] = ribrn_key.dec_enc

record RuneIdByRuneName_Value =
  ribrnv_rune_id :: RuneId

definition RuneIdByRuneName_Value_encode :: "RuneIdByRuneName_Value \<Rightarrow> bytes" where
  "RuneIdByRuneName_Value_encode r = derived_struct_encode
     [RuneId_encode (ribrnv_rune_id r)]"

definition RuneIdByRuneName_Value_decode :: "RuneIdByRuneName_Value decoder" where
  "RuneIdByRuneName_Value_decode bs =
     and_then (RuneId_decode bs) (\<lambda>rune_id bs.
       Inr (\<lparr>ribrnv_rune_id = rune_id\<rparr>, bs))"

definition RuneIdByRuneName_Value_wf :: "RuneIdByRuneName_Value \<Rightarrow> bool" where
  "RuneIdByRuneName_Value_wf r \<longleftrightarrow> RuneId_wf (ribrnv_rune_id r)"

interpretation ribrn_value: codec RuneIdByRuneName_Value_encode RuneIdByRuneName_Value_decode RuneIdByRuneName_Value_wf
  by unfold_locales
    (simp add: RuneIdByRuneName_Value_encode_def RuneIdByRuneName_Value_decode_def RuneIdByRuneName_Value_wf_def codec_simps)

lemmas RuneIdByRuneName_Value_codec [codec_intros] = ribrn_value.codec_axioms
lemmas RuneIdByRuneName_Value_roundtrip [codec_simps] = ribrn_value.dec_enc

subsection \<open>\<open>rune_txs_by_script_hash\<close>\<close>

record RuneTxsByScriptHash_Key =
  rtbshk_script_hash :: ScriptHash
  rtbshk_height :: Height
  rtbshk_activity_tx_index :: TxIndex
  rtbshk_tx_hash :: TxHash

definition RuneTxsByScriptHash_Key_encode :: "RuneTxsByScriptHash_Key \<Rightarrow> bytes" where
  "RuneTxsByScriptHash_Key_encode r = derived_struct_encode
     [array_encode (rtbshk_script_hash r),
      uint_encode (rtbshk_height r),
      uint_encode (rtbshk_activity_tx_index r),
      array_encode (rtbshk_tx_hash r)]"

definition RuneTxsByScriptHash_Key_decode :: "RuneTxsByScriptHash_Key decoder" where
  "RuneTxsByScriptHash_Key_decode bs =
     and_then (array_decode 20 bs) (\<lambda>script_hash bs.
     and_then (uint_decode bs) (\<lambda>height bs.
     and_then (uint_decode bs) (\<lambda>activity_tx_index bs.
     and_then (array_decode 32 bs) (\<lambda>tx_hash bs.
       Inr (\<lparr>rtbshk_script_hash = script_hash,
            rtbshk_height = height,
            rtbshk_activity_tx_index = activity_tx_index,
            rtbshk_tx_hash = tx_hash\<rparr>, bs)))))"

definition RuneTxsByScriptHash_Key_wf :: "RuneTxsByScriptHash_Key \<Rightarrow> bool" where
  "RuneTxsByScriptHash_Key_wf r \<longleftrightarrow> array_wf 20 (rtbshk_script_hash r) \<and>
     array_wf 32 (rtbshk_tx_hash r)"

interpretation rtbsh_key: codec RuneTxsByScriptHash_Key_encode RuneTxsByScriptHash_Key_decode RuneTxsByScriptHash_Key_wf
  by unfold_locales
    (simp add: RuneTxsByScriptHash_Key_encode_def RuneTxsByScriptHash_Key_decode_def RuneTxsByScriptHash_Key_wf_def codec_simps)

lemmas RuneTxsByScriptHash_Key_codec [codec_intros] = rtbsh_key.codec_axioms
lemmas RuneTxsByScriptHash_Key_roundtrip [codec_simps] = rtbsh_key.dec_enc

record RuneTxsByScriptHash_Value =
  rtbshv_etched :: "(RuneId \<times> RuneQuantity option) option"
  rtbshv_minted :: "RuneId option"
  rtbshv_self_transfers :: "(RuneId \<times> RuneQuantity) list"
  rtbshv_increased_balances :: "(RuneId \<times> RuneQuantity) list"
  rtbshv_decreased_balances :: "(RuneId \<times> RuneQuantity) list"

definition RuneTxsByScriptHash_Value_encode :: "RuneTxsByScriptHash_Value \<Rightarrow> bytes" where
  "RuneTxsByScriptHash_Value_encode r = derived_struct_encode
     [option_encode (pair_encode RuneId_encode (option_encode uint_encode)) (rtbshv_etched r),
      option_encode RuneId_encode (rtbshv_minted r),
      vec_encode (pair_encode RuneId_encode uint_encode) (rtbshv_self_transfers r),
      vec_encode (pair_encode RuneId_encode uint_encode) (rtbshv_increased_balances r),
      vec_encode (pair_encode RuneId_encode uint_encode) (rtbshv_decreased_balances r)]"

definition RuneTxsByScriptHash_Value_decode :: "RuneTxsByScriptHash_Value decoder" where
  "RuneTxsByScriptHash_Value_decode bs =
     and_then (option_decode (pair_decode RuneId_decode (option_decode uint_decode)) bs) (\<lambda>etched bs.
     and_then (option_decode RuneId_decode bs) (\<lambda>minted bs.
     and_then (vec_decode (pair_decode RuneId_decode uint_decode) bs) (\<lambda>self_transfers bs.
     and_then (vec_decode (pair_decode RuneId_decode uint_decode) bs) (\<lambda>increased_balances bs.
     and_then (vec_decode (pair_decode RuneId_decode uint_decode) bs) (\<lambda>decreased_balances bs.
       Inr (\<lparr>rtbshv_etched = etched,
            rtbshv_minted = minted,
            rtbshv_self_transfers = self_transfers,
            rtbshv_increased_balances = increased_balances,
            rtbshv_decreased_balances = decreased_balances\<rparr>, bs))))))"

definition RuneTxsByScriptHash_Value_wf :: "RuneTxsByScriptHash_Value \<Rightarrow> bool" where
  "RuneTxsByScriptHash_Value_wf r \<longleftrightarrow> option_wf (pair_wf RuneId_wf (option_wf any_wf)) (rtbshv_etched r) \<and>
     option_wf RuneId_wf (rtbshv_minted r) \<and>
     vec_wf (pair_wf RuneId_wf any_wf) (rtbshv_self_transfers r) \<and>
     vec_wf (pair_wf RuneId_wf any_wf) (rtbshv_increased_balances r) \<and>
     vec_wf (pair_wf RuneId_wf any_wf) (rtbshv_decreased_balances r)"

lemma RuneTxsByScriptHash_Value_etched_codec:
  "codec (option_encode (pair_encode RuneId_encode (option_encode uint_encode)) :: (RuneId \<times> RuneQuantity option) option \<Rightarrow> bytes)
     (option_decode (pair_decode RuneId_decode (option_decode uint_decode)))
     (option_wf (pair_wf RuneId_wf (option_wf any_wf)))"
  by (intro codec_intros)

lemma RuneTxsByScriptHash_Value_minted_codec:
  "codec (option_encode RuneId_encode :: RuneId option \<Rightarrow> bytes)
     (option_decode RuneId_decode)
     (option_wf RuneId_wf)"
  by (intro codec_intros)

lemma RuneTxsByScriptHash_Value_self_transfers_codec:
  "codec (vec_encode (pair_encode RuneId_encode uint_encode) :: (RuneId \<times> RuneQuantity) list \<Rightarrow> bytes)
     (vec_decode (pair_decode RuneId_decode uint_decode))
     (vec_wf (pair_wf RuneId_wf any_wf))"
  by (intro codec_intros)

lemmas RuneTxsByScriptHash_Value_roundtrips [codec_simps] =
  RuneTxsByScriptHash_Value_etched_codec [THEN codec.dec_enc]
  RuneTxsByScriptHash_Value_minted_codec [THEN codec.dec_enc]
  RuneTxsByScriptHash_Value_self_transfers_codec [THEN codec.dec_enc]

interpretation rtbsh_value: codec RuneTxsByScriptHash_Value_encode RuneTxsByScriptHash_Value_decode RuneTxsByScriptHash_Value_wf
  by unfold_locales
    (simp add: RuneTxsByScriptHash_Value_encode_def RuneTxsByScriptHash_Value_decode_def RuneTxsByScriptHash_Value_wf_def codec_simps)

lemmas RuneTxsByScriptHash_Value_codec [codec_intros] = rtbsh_value.codec_axioms
lemmas RuneTxsByScriptHash_Value_roundtrip [codec_simps] = rtbsh_value.dec_enc

record RuneTxsByScriptHash_Cursor =
  rtbshc_height :: Height
  rtbshc_activity_tx_index :: TxIndex
  rtbshc_tx_hash :: TxHash

definition RuneTxsByScriptHash_Cursor_encode :: "RuneTxsByScriptHash_Cursor \<Rightarrow> bytes" where
  "RuneTxsByScriptHash_Cursor_encode r = derived_struct_encode
     [uint_encode (rtbshc_height r),
      uint_encode (rtbshc_activity_tx_index r),
      array_encode (rtbshc_tx_hash r)]"

definition RuneTxsByScriptHash_Cursor_decode :: "RuneTxsByScriptHash_Cursor decoder" where
  "RuneTxsByScriptHash_Cursor_decode bs =
     and_then (uint_decode bs) (\<lambda>height bs.
     and_then (uint_decode bs) (\<lambda>activity_tx_index bs.
     and_then (array_decode 32 bs) (\<lambda>tx_hash bs.
       Inr (\<lparr>rtbshc_height = height, rtbshc_activity_tx_index = activity_tx_index, rtbshc_tx_hash = tx_hash\<rparr>, bs))))"

definition RuneTxsByScriptHash_Cursor_wf :: "RuneTxsByScriptHash_Cursor \<Rightarrow> bool" where
  "RuneTxsByScriptHash_Cursor_wf r \<longleftrightarrow> array_wf 32 (rtbshc_tx_hash r)"

interpretation rtbsh_cursor: codec RuneTxsByScriptHash_Cursor_encode RuneTxsByScriptHash_Cursor_decode RuneTxsByScriptHash_Cursor_wf
  by unfold_locales
    (simp add: RuneTxsByScriptHash_Cursor_encode_def RuneTxsByScriptHash_Cursor_decode_def RuneTxsByScriptHash_Cursor_wf_def codec_simps)

lemmas RuneTxsByScriptHash_Cursor_codec [codec_intros] = rtbsh_cursor.codec_axioms
lemmas RuneTxsByScriptHash_Cursor_roundtrip [codec_simps] = rtbsh_cursor.dec_enc

subsection \<open>\<open>rune_utxos_by_script_hash\<close>\<close>

record RuneUtxosByScriptHash_Key =
  rubshk_script_hash :: ScriptHash
  rubshk_height :: Height
  rubshk_utxo_hash :: TxHash
  rubshk_utxo_index :: TxoIndex

definition RuneUtxosByScriptHash_Key_encode :: "RuneUtxosByScriptHash_Key \<Rightarrow> bytes" where
  "RuneUtxosByScriptHash_Key_encode r = derived_struct_encode
     [array_encode (rubshk_script_hash r),
      uint_encode (rubshk_height r),
      array_encode (rubshk_utxo_hash r),
      uint_encode (rubshk_utxo_index r)]"

definition RuneUtxosByScriptHash_Key_decode :: "RuneUtxosByScriptHash_Key decoder" where
  "RuneUtxosByScriptHash_Key_decode bs =
     and_then (array_decode 20 bs) (\<lambda>script_hash bs.
     and_then (uint_decode bs) (\<lambda>height bs.
     and_then (array_decode 32 bs) (\<lambda>utxo_hash bs.
     and_then (uint_decode bs) (\<lambda>utxo_index bs.
       Inr (\<lparr>rubshk_script_hash = script_hash,
            rubshk_height = height,
            rubshk_utxo_hash = utxo_hash,
            rubshk_utxo_index = utxo_index\<rparr>, bs)))))"

definition RuneUtxosByScriptHash_Key_wf :: "RuneUtxosByScriptHash_Key \<Rightarrow> bool" where
  "RuneUtxosByScriptHash_Key_wf r \<longleftrightarrow> array_wf 20 (rubshk_script_hash r) \<and>
     array_wf 32 (rubshk_utxo_hash r)"

interpretation rubsh_key: codec RuneUtxosByScriptHash_Key_encode RuneUtxosByScriptHash_Key_decode RuneUtxosByScriptHash_Key_wf
  by unfold_locales
    (simp add: RuneUtxosByScriptHash_Key_encode_def RuneUtxosByScriptHash_Key_decode_def RuneUtxosByScriptHash_Key_wf_def codec_simps)

lemmas RuneUtxosByScriptHash_Key_codec [codec_intros] = rubsh_key.codec_axioms
lemmas RuneUtxosByScriptHash_Key_roundtrip [codec_simps] = rubsh_key.dec_enc

record RuneUtxosByScriptHash_Value =
  rubshv_satoshis :: SatoshiQuantity
  rubshv_runes :: "(RuneId \<times> RuneQuantity) list"

definition RuneUtxosByScriptHash_Value_encode :: "RuneUtxosByScriptHash_Value \<Rightarrow> bytes" where
  "RuneUtxosByScriptHash_Value_encode r = derived_struct_encode
     [uint_encode (rubshv_satoshis r),
      vec_encode (pair_encode RuneId_encode uint_encode) (rubshv_runes r)]"

definition RuneUtxosByScriptHash_Value_decode :: "RuneUtxosByScriptHash_Value decoder" where
  "RuneUtxosByScriptHash_Value_decode bs =
     and_then (uint_decode bs) (\<lambda>satoshis bs.
     and_then (vec_decode (pair_decode RuneId_decode uint_decode) bs) (\<lambda>runes bs.
       Inr (\<lparr>rubshv_satoshis = satoshis, rubshv_runes = runes\<rparr>, bs)))"

definition RuneUtxosByScriptHash_Value_wf :: "RuneUtxosByScriptHash_Value \<Rightarrow> bool" where
  "RuneUtxosByScriptHash_Value_wf r \<longleftrightarrow> vec_wf (pair_wf RuneId_wf any_wf) (rubshv_runes r)"

interpretation rubsh_value: codec RuneUtxosByScriptHash_Value_encode RuneUtxosByScriptHash_Value_decode RuneUtxosByScriptHash_Value_wf
  by unfold_locales
    (simp add: RuneUtxosByScriptHash_Value_encode_def RuneUtxosByScriptHash_Value_decode_def RuneUtxosByScriptHash_Value_wf_def codec_simps)

lemmas RuneUtxosByScriptHash_Value_codec [codec_intros] = rubsh_value.codec_axioms
lemmas RuneUtxosByScriptHash_Value_roundtrip [codec_simps] = rubsh_value.dec_enc

datatype RuneUtxosByScriptHash_Cursor =
    ByHeight Height TxHash TxoIndex
  | ByAmount RuneQuantity TxHash TxoIndex

fun RuneUtxosByScriptHash_Cursor_encode :: "RuneUtxosByScriptHash_Cursor \<Rightarrow> bytes" where
  "RuneUtxosByScriptHash_Cursor_encode (ByHeight height utxo_hash utxo_index) = derived_enum_encode 0 [uint_encode height, array_encode utxo_hash, uint_encode utxo_index]"
| "RuneUtxosByScriptHash_Cursor_encode (ByAmount amount utxo_hash utxo_index) = derived_enum_encode 1 [uint_encode amount, array_encode utxo_hash, uint_encode utxo_index]"

definition RuneUtxosByScriptHash_Cursor_decode :: "RuneUtxosByScriptHash_Cursor decoder" where
  "RuneUtxosByScriptHash_Cursor_decode = derived_enum_decode (\<lambda>kind.
        if kind = 0 then Some (\<lambda>bs. and_then (uint_decode bs) (\<lambda>height bs. and_then (array_decode 32 bs) (\<lambda>utxo_hash bs. and_then (uint_decode bs) (\<lambda>utxo_index bs. Inr (ByHeight height utxo_hash utxo_index, bs)))))
        else if kind = 1 then Some (\<lambda>bs. and_then (uint_decode bs) (\<lambda>amount bs. and_then (array_decode 32 bs) (\<lambda>utxo_hash bs. and_then (uint_decode bs) (\<lambda>utxo_index bs. Inr (ByAmount amount utxo_hash utxo_index, bs)))))
        else None)"

fun RuneUtxosByScriptHash_Cursor_wf :: "RuneUtxosByScriptHash_Cursor \<Rightarrow> bool" where
  "RuneUtxosByScriptHash_Cursor_wf (ByHeight height utxo_hash utxo_index) \<longleftrightarrow> array_wf 32 utxo_hash"
| "RuneUtxosByScriptHash_Cursor_wf (ByAmount amount utxo_hash utxo_index) \<longleftrightarrow> array_wf 32 utxo_hash"

interpretation rubsh_cursor: codec RuneUtxosByScriptHash_Cursor_encode RuneUtxosByScriptHash_Cursor_decode RuneUtxosByScriptHash_Cursor_wf
proof unfold_locales
  fix x rest
  assume "RuneUtxosByScriptHash_Cursor_wf x"
  then show "RuneUtxosByScriptHash_Cursor_decode (RuneUtxosByScriptHash_Cursor_encode x @ rest) = Inr (x, rest)"
    by (cases x) (simp_all add: RuneUtxosByScriptHash_Cursor_decode_def derived_enum_decode_def derived_enum_encode_def codec_simps)
qed

lemmas RuneUtxosByScriptHash_Cursor_codec [codec_intros] = rubsh_cursor.codec_axioms
lemmas RuneUtxosByScriptHash_Cursor_roundtrip [codec_simps] = rubsh_cursor.dec_enc

subsection \<open>\<open>transfer_inscriptions_by_script_hash\<close>\<close>

record TransferInscriptionsByScriptHash_Key =
  tibsh2k_script_hash :: ScriptHash
  tibsh2k_ticker :: ShortByteString
  tibsh2k_inscription_id :: InscriptionId

definition TransferInscriptionsByScriptHash_Key_encode :: "TransferInscriptionsByScriptHash_Key \<Rightarrow> bytes" where
  "TransferInscriptionsByScriptHash_Key_encode r = derived_struct_encode
     [array_encode (tibsh2k_script_hash r),
      ShortByteString_encode (tibsh2k_ticker r),
      InscriptionId_encode (tibsh2k_inscription_id r)]"

definition TransferInscriptionsByScriptHash_Key_decode :: "TransferInscriptionsByScriptHash_Key decoder" where
  "TransferInscriptionsByScriptHash_Key_decode bs =
     and_then (array_decode 20 bs) (\<lambda>script_hash bs.
     and_then (ShortByteString_decode bs) (\<lambda>ticker bs.
     and_then (InscriptionId_decode bs) (\<lambda>inscription_id bs.
       Inr (\<lparr>tibsh2k_script_hash = script_hash, tibsh2k_ticker = ticker, tibsh2k_inscription_id = inscription_id\<rparr>, bs))))"

definition TransferInscriptionsByScriptHash_Key_wf :: "TransferInscriptionsByScriptHash_Key \<Rightarrow> bool" where
  "TransferInscriptionsByScriptHash_Key_wf r \<longleftrightarrow> array_wf 20 (tibsh2k_script_hash r) \<and>
     short_wf (tibsh2k_ticker r) \<and>
     InscriptionId_wf (tibsh2k_inscription_id r)"

interpretation tibsh2_key: codec TransferInscriptionsByScriptHash_Key_encode TransferInscriptionsByScriptHash_Key_decode TransferInscriptionsByScriptHash_Key_wf
  by unfold_locales
    (simp add: TransferInscriptionsByScriptHash_Key_encode_def TransferInscriptionsByScriptHash_Key_decode_def TransferInscriptionsByScriptHash_Key_wf_def codec_simps)

lemmas TransferInscriptionsByScriptHash_Key_codec [codec_intros] = tibsh2_key.codec_axioms
lemmas TransferInscriptionsByScriptHash_Key_roundtrip [codec_simps] = tibsh2_key.dec_enc

record TransferInscriptionsByScriptHash_Value =
  tibsh2v_token_amount :: Brc20Quantity
  tibsh2v_sat_amount :: SatoshiQuantity
  tibsh2v_utxo_hash :: TxHash
  tibsh2v_utxo_index :: TxoIndex
  tibsh2v_offset :: SatoshiOffset
  tibsh2v_block_height :: Height

definition TransferInscriptionsByScriptHash_Value_encode :: "TransferInscriptionsByScriptHash_Value \<Rightarrow> bytes" where
  "TransferInscriptionsByScriptHash_Value_encode r = derived_struct_encode
     [uint_encode (tibsh2v_token_amount r),
      uint_encode (tibsh2v_sat_amount r),
      array_encode (tibsh2v_utxo_hash r),
      uint_encode (tibsh2v_utxo_index r),
      uint_encode (tibsh2v_offset r),
      uint_encode (tibsh2v_block_height r)]"

definition TransferInscriptionsByScriptHash_Value_decode :: "TransferInscriptionsByScriptHash_Value decoder" where
  "TransferInscriptionsByScriptHash_Value_decode bs =
     and_then (uint_decode bs) (\<lambda>token_amount bs.
     and_then (uint_decode bs) (\<lambda>sat_amount bs.
     and_then (array_decode 32 bs) (\<lambda>utxo_hash bs.
     and_then (uint_decode bs) (\<lambda>utxo_index bs.
     and_then (uint_decode bs) (\<lambda>offset bs.
     and_then (uint_decode bs) (\<lambda>block_height bs.
       Inr (\<lparr>tibsh2v_token_amount = token_amount,
            tibsh2v_sat_amount = sat_amount,
            tibsh2v_utxo_hash = utxo_hash,
            tibsh2v_utxo_index = utxo_index,
            tibsh2v_offset = offset,
            tibsh2v_block_height = block_height\<rparr>, bs)))))))"

definition TransferInscriptionsByScriptHash_Value_wf :: "TransferInscriptionsByScriptHash_Value \<Rightarrow> bool" where
  "TransferInscriptionsByScriptHash_Value_wf r \<longleftrightarrow> array_wf 32 (tibsh2v_utxo_hash r)"

interpretation tibsh2_value: codec TransferInscriptionsByScriptHash_Value_encode TransferInscriptionsByScriptHash_Value_decode TransferInscriptionsByScriptHash_Value_wf
  by unfold_locales
    (simp add: TransferInscriptionsByScriptHash_Value_encode_def TransferInscriptionsByScriptHash_Value_decode_def TransferInscriptionsByScriptHash_Value_wf_def codec_simps)

lemmas TransferInscriptionsByScriptHash_Value_codec [codec_intros] = tibsh2_value.codec_axioms
lemmas TransferInscriptionsByScriptHash_Value_roundtrip [codec_simps] = tibsh2_value.dec_enc

record TransferInscriptionsByScriptHash_Cursor =
  tibsh2c_ticker :: ShortByteString
  tibsh2c_inscription_id :: InscriptionId

definition TransferInscriptionsByScriptHash_Cursor_encode :: "TransferInscriptionsByScriptHash_Cursor \<Rightarrow> bytes" where
  "TransferInscriptionsByScriptHash_Cursor_encode r = derived_struct_encode
     [ShortByteString_encode (tibsh2c_ticker r),
      InscriptionId_encode (tibsh2c_inscription_id r)]"

definition TransferInscriptionsByScriptHash_Cursor_decode :: "TransferInscriptionsByScriptHash_Cursor decoder" where
  "TransferInscriptionsByScriptHash_Cursor_decode bs =
     and_then (ShortByteString_decode bs) (\<lambda>ticker bs.
     and_then (InscriptionId_decode bs) (\<lambda>inscription_id bs.
       Inr (\<lparr>tibsh2c_ticker = ticker, tibsh2c_inscription_id = inscription_id\<rparr>, bs)))"

definition TransferInscriptionsByScriptHash_Cursor_wf :: "TransferInscriptionsByScriptHash_Cursor \<Rightarrow> bool" where
  "TransferInscriptionsByScriptHash_Cursor_wf r \<longleftrightarrow> short_wf (tibsh2c_ticker r) \<and>
     InscriptionId_wf (tibsh2c_inscription_id r)"

interpretation tibsh2_cursor: codec TransferInscriptionsByScriptHash_Cursor_encode TransferInscriptionsByScriptHash_Cursor_decode TransferInscriptionsByScriptHash_Cursor_wf
  by unfold_locales
    (simp add: TransferInscriptionsByScriptHash_Cursor_encode_def TransferInscriptionsByScriptHash_Cursor_decode_def TransferInscriptionsByScriptHash_Cursor_wf_def codec_simps)

lemmas TransferInscriptionsByScriptHash_Cursor_codec [codec_intros] = tibsh2_cursor.codec_axioms
lemmas TransferInscriptionsByScriptHash_Cursor_roundtrip [codec_simps] = tibsh2_cursor.dec_enc

subsection \<open>\<open>txs_by_inscription\<close>\<close>

record TxsByInscription_Key =
  tbik_bucket_id :: bytes
  tbik_height :: Height

definition TxsByInscription_Key_encode :: "TxsByInscription_Key \<Rightarrow> bytes" where
  "TxsByInscription_Key_encode r = derived_struct_encode
     [array_encode (tbik_bucket_id r),
      uint_encode (tbik_height r)]"

definition TxsByInscription_Key_decode :: "TxsByInscription_Key decoder" where
  "TxsByInscription_Key_decode bs =
     and_then (array_decode 2 bs) (\<lambda>bucket_id bs.
     and_then (uint_decode bs) (\<lambda>height bs.
       Inr (\<lparr>tbik_bucket_id = bucket_id, tbik_height = height\<rparr>, bs)))"

definition TxsByInscription_Key_wf :: "TxsByInscription_Key \<Rightarrow> bool" where
  "TxsByInscription_Key_wf r \<longleftrightarrow> array_wf 2 (tbik_bucket_id r)"

interpretation tbi_key: codec TxsByInscription_Key_encode TxsByInscription_Key_decode TxsByInscription_Key_wf
  by unfold_locales
    (simp add: TxsByInscription_Key_encode_def TxsByInscription_Key_decode_def TxsByInscription_Key_wf_def codec_simps)

lemmas TxsByInscription_Key_codec [codec_intros] = tbi_key.codec_axioms
lemmas TxsByInscription_Key_roundtrip [codec_simps] = tbi_key.dec_enc

record TxsByInscription_Value =
  tbiv_activity :: "((bytes \<times> InscriptionIndex) \<times> (TxIndex \<times> u32) list) list"

definition TxsByInscription_Value_encode :: "TxsByInscription_Value \<Rightarrow> bytes" where
  "TxsByInscription_Value_encode r = derived_struct_encode
     [indexmap_encode (pair_encode array_encode uint_encode) (vec_encode (pair_encode uint_encode uint_encode)) (tbiv_activity r)]"

definition TxsByInscription_Value_decode :: "TxsByInscription_Value decoder" where
  "TxsByInscription_Value_decode bs =
     and_then (indexmap_decode (pair_decode (array_decode 30) uint_decode) (vec_decode (pair_decode uint_decode uint_decode)) bs) (\<lambda>activity bs.
       Inr (\<lparr>tbiv_activity = activity\<rparr>, bs))"

definition TxsByInscription_Value_wf :: "TxsByInscription_Value \<Rightarrow> bool" where
  "TxsByInscription_Value_wf r \<longleftrightarrow> indexmap_wf (pair_wf (array_wf 30) any_wf) (vec_wf (pair_wf any_wf any_wf)) (tbiv_activity r)"

lemma TxsByInscription_Value_activity_codec:
  "codec (indexmap_encode (pair_encode array_encode uint_encode) (vec_encode (pair_encode uint_encode uint_encode)) :: ((bytes \<times> InscriptionIndex) \<times> (TxIndex \<times> u32) list) list \<Rightarrow> bytes)
     (indexmap_decode (pair_decode (array_decode 30) uint_decode) (vec_decode (pair_decode uint_decode uint_decode)))
     (indexmap_wf (pair_wf (array_wf 30) any_wf) (vec_wf (pair_wf any_wf any_wf)))"
  by (intro codec_intros)

lemmas TxsByInscription_Value_roundtrips [codec_simps] =
  TxsByInscription_Value_activity_codec [THEN codec.dec_enc]

interpretation tbi_value: codec TxsByInscription_Value_encode TxsByInscription_Value_decode TxsByInscription_Value_wf
  by unfold_locales
    (simp add: TxsByInscription_Value_encode_def TxsByInscription_Value_decode_def TxsByInscription_Value_wf_def codec_simps)

lemmas TxsByInscription_Value_codec [codec_intros] = tbi_value.codec_axioms
lemmas TxsByInscription_Value_roundtrip [codec_simps] = tbi_value.dec_enc

record TxsByInscription_Cursor =
  tbic_height :: Height
  tbic_tx_index :: TxIndex

definition TxsByInscription_Cursor_encode :: "TxsByInscription_Cursor \<Rightarrow> bytes" where
  "TxsByInscription_Cursor_encode r = derived_struct_encode
     [uint_encode (tbic_height r),
      uint_encode (tbic_tx_index r)]"

definition TxsByInscription_Cursor_decode :: "TxsByInscription_Cursor decoder" where
  "TxsByInscription_Cursor_decode bs =
     and_then (uint_decode bs) (\<lambda>height bs.
     and_then (uint_decode bs) (\<lambda>tx_index bs.
       Inr (\<lparr>tbic_height = height, tbic_tx_index = tx_index\<rparr>, bs)))"

definition TxsByInscription_Cursor_wf :: "TxsByInscription_Cursor \<Rightarrow> bool" where
  "TxsByInscription_Cursor_wf r \<longleftrightarrow> True"

interpretation tbi_cursor: codec TxsByInscription_Cursor_encode TxsByInscription_Cursor_decode TxsByInscription_Cursor_wf
  by unfold_locales
    (simp add: TxsByInscription_Cursor_encode_def TxsByInscription_Cursor_decode_def TxsByInscription_Cursor_wf_def codec_simps)

lemmas TxsByInscription_Cursor_codec [codec_intros] = tbi_cursor.codec_axioms
lemmas TxsByInscription_Cursor_roundtrip [codec_simps] = tbi_cursor.dec_enc

subsection \<open>\<open>txs_by_rune_id\<close>\<close>

record TxsByRuneId_Key =
  tbrik_rune_id :: RuneId
  tbrik_height :: Height
  tbrik_activity_tx_index :: TxIndex
  tbrik_tx_hash :: TxHash

definition TxsByRuneId_Key_encode :: "TxsByRuneId_Key \<Rightarrow> bytes" where
  "TxsByRuneId_Key_encode r = derived_struct_encode
     [RuneId_encode (tbrik_rune_id r),
      uint_encode (tbrik_height r),
      uint_encode (tbrik_activity_tx_index r),
      array_encode (tbrik_tx_hash r)]"

definition TxsByRuneId_Key_decode :: "TxsByRuneId_Key decoder" where
  "TxsByRuneId_Key_decode bs =
     and_then (RuneId_decode bs) (\<lambda>rune_id bs.
     and_then (uint_decode bs) (\<lambda>height bs.
     and_then (uint_decode bs) (\<lambda>activity_tx_index bs.
     and_then (array_decode 32 bs) (\<lambda>tx_hash bs.
       Inr (\<lparr>tbrik_rune_id = rune_id,
            tbrik_height = height,
            tbrik_activity_tx_index = activity_tx_index,
            tbrik_tx_hash = tx_hash\<rparr>, bs)))))"

definition TxsByRuneId_Key_wf :: "TxsByRuneId_Key \<Rightarrow> bool" where
  "TxsByRuneId_Key_wf r \<longleftrightarrow> RuneId_wf (tbrik_rune_id r) \<and>
     array_wf 32 (tbrik_tx_hash r)"

interpretation tbri_key: codec TxsByRuneId_Key_encode TxsByRuneId_Key_decode TxsByRuneId_Key_wf
  by unfold_locales
    (simp add: TxsByRuneId_Key_encode_def TxsByRuneId_Key_decode_def TxsByRuneId_Key_wf_def codec_simps)

lemmas TxsByRuneId_Key_codec [codec_intros] = tbri_key.codec_axioms
lemmas TxsByRuneId_Key_roundtrip [codec_simps] = tbri_key.dec_enc

record TxsByRuneId_Value =
  tbriv_etched :: bool
  tbriv_minted :: bool
  tbriv_self_transfers :: "(ScriptHash \<times> RuneQuantity) list"
  tbriv_senders :: "(ScriptHash \<times> RuneQuantity) list"
  tbriv_receivers :: "(ScriptHash \<times> RuneQuantity) list"

definition TxsByRuneId_Value_encode :: "TxsByRuneId_Value \<Rightarrow> bytes" where
  "TxsByRuneId_Value_encode r = derived_struct_encode
     [bool_encode (tbriv_etched r),
      bool_encode (tbriv_minted r),
      vec_encode (pair_encode array_encode uint_encode) (tbriv_self_transfers r),
      vec_encode (pair_encode array_encode uint_encode) (tbriv_senders r),
      vec_encode (pair_encode array_encode uint_encode) (tbriv_receivers r)]"

definition TxsByRuneId_Value_decode :: "TxsByRuneId_Value decoder" where
  "TxsByRuneId_Value_decode bs =
     and_then (bool_decode bs) (\<lambda>etched bs.
     and_then (bool_decode bs) (\<lambda>minted bs.
     and_then (vec_decode (pair_decode (array_decode 20) uint_decode) bs) (\<lambda>self_transfers bs.
     and_then (vec_decode (pair_decode (array_decode 20) uint_decode) bs) (\<lambda>senders bs.
     and_then (vec_decode (pair_decode (array_decode 20) uint_decode) bs) (\<lambda>receivers bs.
       Inr (\<lparr>tbriv_etched = etched,
            tbriv_minted = minted,
            tbriv_self_transfers = self_transfers,
            tbriv_senders = senders,
            tbriv_receivers = receivers\<rparr>, bs))))))"

definition TxsByRuneId_Value_wf :: "TxsByRuneId_Value \<Rightarrow> bool" where
  "TxsByRuneId_Value_wf r \<longleftrightarrow> vec_wf (pair_wf (array_wf 20) any_wf) (tbriv_self_transfers r) \<and>
     vec_wf (pair_wf (array_wf 20) any_wf) (tbriv_senders r) \<and>
     vec_wf (pair_wf (array_wf 20) any_wf) (tbriv_receivers r)"

lemma TxsByRuneId_Value_self_transfers_codec:
  "codec (vec_encode (pair_encode array_encode uint_encode) :: (ScriptHash \<times> RuneQuantity) list \<Rightarrow> bytes)
     (vec_decode (pair_decode (array_decode 20) uint_decode))
     (vec_wf (pair_wf (array_wf 20) any_wf))"
  by (intro codec_intros)

lemmas TxsByRuneId_Value_roundtrips [codec_simps] =
  TxsByRuneId_Value_self_transfers_codec [THEN codec.dec_enc]

interpretation tbri_value: codec TxsByRuneId_Value_encode TxsByRuneId_Value_decode TxsByRuneId_Value_wf
  by unfold_locales
    (simp add: TxsByRuneId_Value_encode_def TxsByRuneId_Value_decode_def TxsByRuneId_Value_wf_def codec_simps)

lemmas TxsByRuneId_Value_codec [codec_intros] = tbri_value.codec_axioms
lemmas TxsByRuneId_Value_roundtrip [codec_simps] = tbri_value.dec_enc

record TxsByRuneId_Cursor =
  tbric_height :: Height
  tbric_activity_tx_index :: TxIndex
  tbric_tx_hash :: TxHash

definition TxsByRuneId_Cursor_encode :: "TxsByRuneId_Cursor \<Rightarrow> bytes" where
  "TxsByRuneId_Cursor_encode r = derived_struct_encode
     [uint_encode (tbric_height r),
      uint_encode (tbric_activity_tx_index r),
      array_encode (tbric_tx_hash r)]"

definition TxsByRuneId_Cursor_decode :: "TxsByRuneId_Cursor decoder" where
  "TxsByRuneId_Cursor_decode bs =
     and_then (uint_decode bs) (\<lambda>height bs.
     and_then (uint_decode bs) (\<lambda>activity_tx_index bs.
     and_then (array_decode 32 bs) (\<lambda>tx_hash bs.
       Inr (\<lparr>tbric_height = height, tbric_activity_tx_index = activity_tx_index, tbric_tx_hash = tx_hash\<rparr>, bs))))"

definition TxsByRuneId_Cursor_wf :: "TxsByRuneId_Cursor \<Rightarrow> bool" where
  "TxsByRuneId_Cursor_wf r \<longleftrightarrow> array_wf 32 (tbric_tx_hash r)"

interpretation tbri_cursor: codec TxsByRuneId_Cursor_encode TxsByRuneId_Cursor_decode TxsByRuneId_Cursor_wf
  by unfold_locales
    (simp add: TxsByRuneId_Cursor_encode_def TxsByRuneId_Cursor_decode_def TxsByRuneId_Cursor_wf_def codec_simps)

lemmas TxsByRuneId_Cursor_codec [codec_intros] = tbri_cursor.codec_axioms
lemmas TxsByRuneId_Cursor_roundtrip [codec_simps] = tbri_cursor.dec_enc

subsection \<open>\<open>utxos_by_rune_id\<close>\<close>

record UtxosByRuneId_Key =
  ubrik_rune_id :: RuneId
  ubrik_height :: Height
  ubrik_utxo_hash :: TxHash
  ubrik_utxo_index :: TxoIndex

definition UtxosByRuneId_Key_encode :: "UtxosByRuneId_Key \<Rightarrow> bytes" where
  "UtxosByRuneId_Key_encode r = derived_struct_encode
     [RuneId_encode (ubrik_rune_id r),
      uint_encode (ubrik_height r),
      array_encode (ubrik_utxo_hash r),
      uint_encode (ubrik_utxo_index r)]"

definition UtxosByRuneId_Key_decode :: "UtxosByRuneId_Key decoder" where
  "UtxosByRuneId_Key_decode bs =
     and_then (RuneId_decode bs) (\<lambda>rune_id bs.
     and_then (uint_decode bs) (\<lambda>height bs.
     and_then (array_decode 32 bs) (\<lambda>utxo_hash bs.
     and_then (uint_decode bs) (\<lambda>utxo_index bs.
       Inr (\<lparr>ubrik_rune_id = rune_id,
            ubrik_height = height,
            ubrik_utxo_hash = utxo_hash,
            ubrik_utxo_index = utxo_index\<rparr>, bs)))))"

definition UtxosByRuneId_Key_wf :: "UtxosByRuneId_Key \<Rightarrow> bool" where
  "UtxosByRuneId_Key_wf r \<longleftrightarrow> RuneId_wf (ubrik_rune_id r) \<and>
     array_wf 32 (ubrik_utxo_hash r)"

interpretation ubri_key: codec UtxosByRuneId_Key_encode UtxosByRuneId_Key_decode UtxosByRuneId_Key_wf
  by unfold_locales
    (simp add: UtxosByRuneId_Key_encode_def UtxosByRuneId_Key_decode_def UtxosByRuneId_Key_wf_def codec_simps)

lemmas UtxosByRuneId_Key_codec [codec_intros] = ubri_key.codec_axioms
lemmas UtxosByRuneId_Key_roundtrip [codec_simps] = ubri_key.dec_enc

record UtxosByRuneId_Value =
  ubriv_script_hash :: ScriptHash
  ubriv_rune_quantity :: RuneQuantity
  ubriv_satoshis :: SatoshiQuantity

definition UtxosByRuneId_Value_encode :: "UtxosByRuneId_Value \<Rightarrow> bytes" where
  "UtxosByRuneId_Value_encode r = derived_struct_encode
     [array_encode (ubriv_script_hash r),
      uint_encode (ubriv_rune_quantity r),
      uint_encode (ubriv_satoshis r)]"

definition UtxosByRuneId_Value_decode :: "UtxosByRuneId_Value decoder" where
  "UtxosByRuneId_Value_decode bs =
     and_then (array_decode 20 bs) (\<lambda>script_hash bs.
     and_then (uint_decode bs) (\<lambda>rune_quantity bs.
     and_then (uint_decode bs) (\<lambda>satoshis bs.
       Inr (\<lparr>ubriv_script_hash = script_hash, ubriv_rune_quantity = rune_quantity, ubriv_satoshis = satoshis\<rparr>, bs))))"

definition UtxosByRuneId_Value_wf :: "UtxosByRuneId_Value \<Rightarrow> bool" where
  "UtxosByRuneId_Value_wf r \<longleftrightarrow> array_wf 20 (ubriv_script_hash r)"

interpretation ubri_value: codec UtxosByRuneId_Value_encode UtxosByRuneId_Value_decode UtxosByRuneId_Value_wf
  by unfold_locales
    (simp add: UtxosByRuneId_Value_encode_def UtxosByRuneId_Value_decode_def UtxosByRuneId_Value_wf_def codec_simps)

lemmas UtxosByRuneId_Value_codec [codec_intros] = ubri_value.codec_axioms
lemmas UtxosByRuneId_Value_roundtrip [codec_simps] = ubri_value.dec_enc

record UtxosByRuneId_Cursor =
  ubric_height :: Height
  ubric_utxo_hash :: TxHash
  ubric_utxo_index :: TxoIndex

definition UtxosByRuneId_Cursor_encode :: "UtxosByRuneId_Cursor \<Rightarrow> bytes" where
  "UtxosByRuneId_Cursor_encode r = derived_struct_encode
     [uint_encode (ubric_height r),
      array_encode (ubric_utxo_hash r),
      uint_encode (ubric_utxo_index r)]"

definition UtxosByRuneId_Cursor_decode :: "UtxosByRuneId_Cursor decoder" where
  "UtxosByRuneId_Cursor_decode bs =
     and_then (uint_decode bs) (\<lambda>height bs.
     and_then (array_decode 32 bs) (\<lambda>utxo_hash bs.
     and_then (uint_decode bs) (\<lambda>utxo_index bs.
       Inr (\<lparr>ubric_height = height, ubric_utxo_hash = utxo_hash, ubric_utxo_index = utxo_index\<rparr>, bs))))"

definition UtxosByRuneId_Cursor_wf :: "UtxosByRuneId_Cursor \<Rightarrow> bool" where
  "UtxosByRuneId_Cursor_wf r \<longleftrightarrow> array_wf 32 (ubric_utxo_hash r)"

interpretation ubri_cursor: codec UtxosByRuneId_Cursor_encode UtxosByRuneId_Cursor_decode UtxosByRuneId_Cursor_wf
  by unfold_locales
    (simp add: UtxosByRuneId_Cursor_encode_def UtxosByRuneId_Cursor_decode_def UtxosByRuneId_Cursor_wf_def codec_simps)

lemmas UtxosByRuneId_Cursor_codec [codec_intros] = ubri_cursor.codec_axioms
lemmas UtxosByRuneId_Cursor_roundtrip [codec_simps] = ubri_cursor.dec_enc

section \<open>Properties\<close>

text \<open>
  C31: Every key, value, cursor and nested struct of the reducers about inscriptions, runes and BRC20 tokens decodes back from
  its encoding whatever bytes follow it, whenever its arrays have their length and its collections
  fit their length fields.
\<close>

theorem token_schema_roundtrip:
  "codec BalancesByBrc20_Key_encode BalancesByBrc20_Key_decode BalancesByBrc20_Key_wf \<and>
   codec BalancesByRuneId_Key_encode BalancesByRuneId_Key_decode BalancesByRuneId_Key_wf \<and>
   codec Brc20BalancesByScriptHash_Key_encode Brc20BalancesByScriptHash_Key_decode Brc20BalancesByScriptHash_Key_wf \<and>
   codec Brc20TermsByTicker_Key_encode Brc20TermsByTicker_Key_decode Brc20TermsByTicker_Key_wf \<and>
   codec Brc20TermsByTicker_Value_encode Brc20TermsByTicker_Value_decode Brc20TermsByTicker_Value_wf \<and>
   codec ContentByInscriptionId_Key_encode ContentByInscriptionId_Key_decode ContentByInscriptionId_Key_wf \<and>
   codec ContentByInscriptionId_Value_encode ContentByInscriptionId_Value_decode ContentByInscriptionId_Value_wf \<and>
   codec ContentByInscriptionId_Cursor_encode ContentByInscriptionId_Cursor_decode ContentByInscriptionId_Cursor_wf \<and>
   codec EtchingByRuneId_Key_encode EtchingByRuneId_Key_decode EtchingByRuneId_Key_wf \<and>
   codec EtchingByRuneId_Value_encode EtchingByRuneId_Value_decode EtchingByRuneId_Value_wf \<and>
   codec InscriptionActivityByScriptHash_SelfTransferredInscription_encode InscriptionActivityByScriptHash_SelfTransferredInscription_decode InscriptionActivityByScriptHash_SelfTransferredInscription_wf \<and>
   codec InscriptionActivityByScriptHash_SentInscription_encode InscriptionActivityByScriptHash_SentInscription_decode InscriptionActivityByScriptHash_SentInscription_wf \<and>
   codec InscriptionActivityByScriptHash_ReceivedInscription_encode InscriptionActivityByScriptHash_ReceivedInscription_decode InscriptionActivityByScriptHash_ReceivedInscription_wf \<and>
   codec InscriptionActivityByScriptHash_Key_encode InscriptionActivityByScriptHash_Key_decode InscriptionActivityByScriptHash_Key_wf \<and>
   codec InscriptionActivityByScriptHash_Value_encode InscriptionActivityByScriptHash_Value_decode InscriptionActivityByScriptHash_Value_wf \<and>
   codec InscriptionActivityByScriptHash_Cursor_encode InscriptionActivityByScriptHash_Cursor_decode InscriptionActivityByScriptHash_Cursor_wf \<and>
   codec InscriptionActivityByTx_Key_encode InscriptionActivityByTx_Key_decode InscriptionActivityByTx_Key_wf \<and>
   codec InscriptionActivityByTx_Value_encode InscriptionActivityByTx_Value_decode InscriptionActivityByTx_Value_wf \<and>
   codec InscriptionActivityByTx_Cursor_encode InscriptionActivityByTx_Cursor_decode InscriptionActivityByTx_Cursor_wf \<and>
   codec InscriptionActivityByTxV2_Key_encode InscriptionActivityByTxV2_Key_decode InscriptionActivityByTxV2_Key_wf \<and>
   codec InscriptionActivityByTxV2_Value_encode InscriptionActivityByTxV2_Value_decode InscriptionActivityByTxV2_Value_wf \<and>
   codec InscriptionActivityByTxV2_Cursor_encode InscriptionActivityByTxV2_Cursor_decode InscriptionActivityByTxV2_Cursor_wf \<and>
   codec InscriptionUtxosByScriptHash_Key_encode InscriptionUtxosByScriptHash_Key_decode InscriptionUtxosByScriptHash_Key_wf \<and>
   codec InscriptionUtxosByScriptHash_Value_encode InscriptionUtxosByScriptHash_Value_decode InscriptionUtxosByScriptHash_Value_wf \<and>
   codec InscriptionUtxosByScriptHash_Cursor_encode InscriptionUtxosByScriptHash_Cursor_decode InscriptionUtxosByScriptHash_Cursor_wf \<and>
   codec MintsByRuneId_Key_encode MintsByRuneId_Key_decode MintsByRuneId_Key_wf \<and>
   codec RuneBalancesByScriptHash_Key_encode RuneBalancesByScriptHash_Key_decode RuneBalancesByScriptHash_Key_wf \<and>
   codec RuneIdByRuneName_Key_encode RuneIdByRuneName_Key_decode RuneIdByRuneName_Key_wf \<and>
   codec RuneIdByRuneName_Value_encode RuneIdByRuneName_Value_decode RuneIdByRuneName_Value_wf \<and>
   codec RuneTxsByScriptHash_Key_encode RuneTxsByScriptHash_Key_decode RuneTxsByScriptHash_Key_wf \<and>
   codec RuneTxsByScriptHash_Value_encode RuneTxsByScriptHash_Value_decode RuneTxsByScriptHash_Value_wf \<and>
   codec RuneTxsByScriptHash_Cursor_encode RuneTxsByScriptHash_Cursor_decode RuneTxsByScriptHash_Cursor_wf \<and>
   codec RuneUtxosByScriptHash_Key_encode RuneUtxosByScriptHash_Key_decode RuneUtxosByScriptHash_Key_wf \<and>
   codec RuneUtxosByScriptHash_Value_encode RuneUtxosByScriptHash_Value_decode RuneUtxosByScriptHash_Value_wf \<and>
   codec RuneUtxosByScriptHash_Cursor_encode RuneUtxosByScriptHash_Cursor_decode RuneUtxosByScriptHash_Cursor_wf \<and>
   codec TransferInscriptionsByScriptHash_Key_encode TransferInscriptionsByScriptHash_Key_decode TransferInscriptionsByScriptHash_Key_wf \<and>
   codec TransferInscriptionsByScriptHash_Value_encode TransferInscriptionsByScriptHash_Value_decode TransferInscriptionsByScriptHash_Value_wf \<and>
   codec TransferInscriptionsByScriptHash_Cursor_encode TransferInscriptionsByScriptHash_Cursor_decode TransferInscriptionsByScriptHash_Cursor_wf \<and>
   codec TxsByInscription_Key_encode TxsByInscription_Key_decode TxsByInscription_Key_wf \<and>
   codec TxsByInscription_Value_encode TxsByInscription_Value_decode TxsByInscription_Value_wf \<and>
   codec TxsByInscription_Cursor_encode TxsByInscription_Cursor_decode TxsByInscription_Cursor_wf \<and>
   codec TxsByRuneId_Key_encode TxsByRuneId_Key_decode TxsByRuneId_Key_wf \<and>
   codec TxsByRuneId_Value_encode TxsByRuneId_Value_decode TxsByRuneId_Value_wf \<and>
   codec TxsByRuneId_Cursor_encode TxsByRuneId_Cursor_decode TxsByRuneId_Cursor_wf \<and>
   codec UtxosByRuneId_Key_encode UtxosByRuneId_Key_decode UtxosByRuneId_Key_wf \<and>
   codec UtxosByRuneId_Value_encode UtxosByRuneId_Value_decode UtxosByRuneId_Value_wf \<and>
   codec UtxosByRuneId_Cursor_encode UtxosByRuneId_Cursor_decode UtxosByRuneId_Cursor_wf"
  by (intro conjI codec_intros)

end
