(* ===== verification/Storage_Action.thy ===== *)
theory Storage_Action
  imports Timbre_Codec "HOL-Library.AList"
begin

text \<open>
  The storage actions of the indexer (\<open>services/polyphony-xbt/src/model.rs\<close>), the signed deltas
  they carry (\<open>reducers/mod.rs\<close>) and the merger that folds the actions of one or more blocks
  into one action per key (\<open>storage/action_merger.rs\<close>).

  The lemmas show that signed deltas are integer arithmetic with an overflow check, that a
  counter's merge and diff are integer sums and differences, and that the merger keeps one action per
  key, under that key.
\<close>

section \<open>Signed deltas\<close>

datatype 'a IncrOrDecr = IoD_Increment 'a | IoD_Decrement 'a

fun IncrOrDecr_add :: "u128 IncrOrDecr \<Rightarrow> u128 IncrOrDecr \<Rightarrow> u128 IncrOrDecr option" where
  "IncrOrDecr_add (IoD_Increment a) (IoD_Increment b) = map_option IoD_Increment (checked_add a b)"
| "IncrOrDecr_add (IoD_Decrement a) (IoD_Decrement b) = map_option IoD_Decrement (checked_add a b)"
| "IncrOrDecr_add (IoD_Increment a) (IoD_Decrement b) =
     (if a \<ge> b then map_option IoD_Increment (checked_sub a b)
      else map_option IoD_Decrement (checked_sub b a))"
| "IncrOrDecr_add (IoD_Decrement b) (IoD_Increment a) =
     (if a \<ge> b then map_option IoD_Increment (checked_sub a b)
      else map_option IoD_Decrement (checked_sub b a))"

fun IncrOrDecr_sub :: "u128 IncrOrDecr \<Rightarrow> u128 IncrOrDecr \<Rightarrow> u128 IncrOrDecr option" where
  "IncrOrDecr_sub (IoD_Increment a) (IoD_Increment b) =
     (if a \<ge> b then map_option IoD_Increment (checked_sub a b)
      else map_option IoD_Decrement (checked_sub b a))"
| "IncrOrDecr_sub (IoD_Decrement a) (IoD_Decrement b) =
     (if a \<ge> b then map_option IoD_Decrement (checked_sub a b)
      else map_option IoD_Increment (checked_sub b a))"
| "IncrOrDecr_sub (IoD_Increment a) (IoD_Decrement b) = map_option IoD_Increment (checked_add a b)"
| "IncrOrDecr_sub (IoD_Decrement a) (IoD_Increment b) = map_option IoD_Decrement (checked_add a b)"

fun IncrOrDecr_neg :: "'a IncrOrDecr \<Rightarrow> 'a IncrOrDecr" where
  "IncrOrDecr_neg (IoD_Increment a) = IoD_Decrement a"
| "IncrOrDecr_neg (IoD_Decrement a) = IoD_Increment a"

section \<open>Storage actions\<close>

type_synonym Key = bytes
type_synonym Value = bytes
type_synonym Delta = u128
type_synonym AggregatePoint = u128

datatype StorageAction =
    Set Key Value
  | SetOnce Key Value
  | SetPermanent Key Value
  | Delete Key
  | Insert Key Value
  | InsertPermanent Key Value
  | Increment Key Delta
  | Decrement Key Delta
  | DecrementNoDelete Key Delta
  | PointAggregate Key "(AggregatePoint \<times> Delta IncrOrDecr) list"

type_synonym StorageActions = "StorageAction list"

fun action_key :: "StorageAction \<Rightarrow> Key" where
  "action_key (Set k _) = k"
| "action_key (SetOnce k _) = k"
| "action_key (SetPermanent k _) = k"
| "action_key (Delete k) = k"
| "action_key (Insert k _) = k"
| "action_key (InsertPermanent k _) = k"
| "action_key (Increment k _) = k"
| "action_key (Decrement k _) = k"
| "action_key (DecrementNoDelete k _) = k"
| "action_key (PointAggregate k _) = k"

fun requires_previous_value :: "StorageAction \<Rightarrow> bool" where
  "requires_previous_value (Increment _ _) = True"
| "requires_previous_value (Decrement _ _) = True"
| "requires_previous_value (DecrementNoDelete _ _) = True"
| "requires_previous_value (Insert _ _) = True"
| "requires_previous_value (InsertPermanent _ _) = True"
| "requires_previous_value (Set _ _) = False"
| "requires_previous_value (SetPermanent _ _) = False"
| "requires_previous_value (SetOnce _ _) = False"
| "requires_previous_value (Delete _) = False"
| "requires_previous_value (PointAggregate _ _) = True"

fun action_size :: "StorageAction \<Rightarrow> nat" where
  "action_size (Set k v) = length k + length v"
| "action_size (SetOnce k v) = length k + length v"
| "action_size (SetPermanent k v) = length k + length v"
| "action_size (Delete k) = length k"
| "action_size (Insert k v) = length k + length v"
| "action_size (InsertPermanent k v) = length k + length v"
| "action_size (Increment k _) = length k + 17"
| "action_size (Decrement k _) = length k + 17"
| "action_size (DecrementNoDelete k _) = length k + 17"
| "action_size (PointAggregate k points) = length k + (17 + length points * (16 + (1 + 16)))"

subsection \<open>Merging\<close>

text \<open>
  The arms of \<open>merge\<close>, by the kind of the earlier action. \<open>None\<close> says that the two actions
  cancel out; a pair no arm accepts panics. \<open>+\<close> and \<open>-\<close> on deltas wrap.
\<close>

definition merge_increment :: "Key \<Rightarrow> Delta \<Rightarrow> StorageAction \<Rightarrow> StorageAction option work" where
  "merge_increment k pd incoming =
     (case incoming of
        Increment nk nd \<Rightarrow> Inr (Some (Increment nk (pd + nd)))
      | Decrement nk nd \<Rightarrow>
          (if pd = nd then Inr None
           else if pd > nd then Inr (Some (Increment nk (pd - nd)))
           else Inr (Some (Decrement nk (nd - pd))))
      | DecrementNoDelete nk nd \<Rightarrow>
          (if pd \<ge> nd then Inr (Some (Increment nk (pd - nd)))
           else Inr (Some (DecrementNoDelete nk (nd - pd))))
      | _ \<Rightarrow> Inl RustPanic)"

definition merge_decrement :: "Key \<Rightarrow> Delta \<Rightarrow> StorageAction \<Rightarrow> StorageAction option work" where
  "merge_decrement k pd incoming =
     (case incoming of
        Decrement nk nd \<Rightarrow> Inr (Some (Decrement nk (pd + nd)))
      | Increment nk nd \<Rightarrow>
          (if pd = nd then Inr None
           else if pd > nd then Inr (Some (Decrement nk (pd - nd)))
           else Inr (Some (Increment nk (nd - pd))))
      | _ \<Rightarrow> Inl RustPanic)"

definition merge_decrement_no_delete :: "Key \<Rightarrow> Delta \<Rightarrow> StorageAction \<Rightarrow> StorageAction option work" where
  "merge_decrement_no_delete k pd incoming =
     (case incoming of
        DecrementNoDelete nk nd \<Rightarrow> Inr (Some (DecrementNoDelete nk (pd + nd)))
      | Increment nk nd \<Rightarrow>
          (if pd \<ge> nd then Inr (Some (DecrementNoDelete nk (pd - nd)))
           else Inr (Some (Increment nk (nd - pd))))
      | _ \<Rightarrow> Inl RustPanic)"

definition merge_set :: "Key \<Rightarrow> Value \<Rightarrow> StorageAction \<Rightarrow> StorageAction option work" where
  "merge_set k v incoming =
     (case incoming of
        Set _ _ \<Rightarrow> Inr (Some incoming)
      | Delete _ \<Rightarrow> Inr (Some incoming)
      | Insert _ _ \<Rightarrow> Inr (Some (Set k v))
      | _ \<Rightarrow> Inl RustPanic)"

definition merge_set_once :: "Key \<Rightarrow> Value \<Rightarrow> StorageAction \<Rightarrow> StorageAction option work" where
  "merge_set_once k v incoming =
     (case incoming of Delete _ \<Rightarrow> Inr None | _ \<Rightarrow> Inl RustPanic)"

definition merge_set_permanent :: "Key \<Rightarrow> Value \<Rightarrow> StorageAction \<Rightarrow> StorageAction option work" where
  "merge_set_permanent k v incoming =
     (case incoming of SetPermanent _ _ \<Rightarrow> Inr (Some (SetPermanent k v)) | _ \<Rightarrow> Inl RustPanic)"

definition merge_delete :: "Key \<Rightarrow> StorageAction \<Rightarrow> StorageAction option work" where
  "merge_delete k incoming =
     (case incoming of
        Insert nk v \<Rightarrow> Inr (Some (Set nk v))
      | Set _ _ \<Rightarrow> Inr (Some incoming)
      | Delete _ \<Rightarrow> Inr (Some incoming)
      | _ \<Rightarrow> Inl RustPanic)"

definition merge_insert :: "Key \<Rightarrow> Value \<Rightarrow> StorageAction \<Rightarrow> StorageAction option work" where
  "merge_insert k v incoming =
     (case incoming of
        Set _ _ \<Rightarrow> Inr (Some incoming)
      | Delete _ \<Rightarrow> Inr (Some incoming)
      | Insert _ _ \<Rightarrow> Inr (Some (Insert k v))
      | _ \<Rightarrow> Inl RustPanic)"

definition merge_insert_permanent :: "Key \<Rightarrow> Value \<Rightarrow> StorageAction \<Rightarrow> StorageAction option work" where
  "merge_insert_permanent k v incoming =
     (case incoming of InsertPermanent _ _ \<Rightarrow> Inr (Some (InsertPermanent k v)) | _ \<Rightarrow> Inl RustPanic)"

text \<open>
  Points are collected into hash maps (the last entry of a point wins) and the combined points are
  sorted by point at the end. The points of the result are therefore the points of the two maps in
  ascending order, each once.
\<close>

definition points_map :: "(AggregatePoint \<times> 'd) list \<Rightarrow> AggregatePoint \<rightharpoonup> 'd" where
  "points_map points = map_of (rev points)"

definition points_union ::
  "(AggregatePoint \<times> 'd) list \<Rightarrow> (AggregatePoint \<times> 'd) list \<Rightarrow> AggregatePoint list" where
  "points_union prev new = sort (remdups (map fst prev @ map fst new))"

definition merge_point ::
  "(AggregatePoint \<rightharpoonup> Delta IncrOrDecr) \<Rightarrow> (AggregatePoint \<rightharpoonup> Delta IncrOrDecr) \<Rightarrow> AggregatePoint \<Rightarrow>
   (AggregatePoint \<times> Delta IncrOrDecr) work" where
  "merge_point prev new point =
     (case (prev point, new point) of
        (Some prev_delta, Some new_delta) \<Rightarrow>
          work_bind (unwrap (IncrOrDecr_add prev_delta new_delta)) (\<lambda>d. Inr (point, d))
      | (Some prev_delta, None) \<Rightarrow> Inr (point, prev_delta)
      | (None, Some new_delta) \<Rightarrow> Inr (point, new_delta)
      | (None, None) \<Rightarrow> Inl RustPanic)"

definition merge_point_aggregate ::
  "Key \<Rightarrow> (AggregatePoint \<times> Delta IncrOrDecr) list \<Rightarrow> StorageAction \<Rightarrow> StorageAction option work" where
  "merge_point_aggregate prev_k prev_points incoming =
     (case incoming of
        PointAggregate new_k new_points \<Rightarrow>
          (if new_k = prev_k then
             work_bind (work_map (merge_point (points_map prev_points) (points_map new_points))
                (points_union prev_points new_points))
               (\<lambda>out_points. Inr (Some (PointAggregate prev_k out_points)))
           else Inl RustPanic)
      | _ \<Rightarrow> Inl RustPanic)"

definition merge :: "StorageAction \<Rightarrow> StorageAction \<Rightarrow> StorageAction option work" where
  "merge self incoming =
     (if action_key self \<noteq> action_key incoming then Inl RustPanic
      else case self of
        Increment k pd \<Rightarrow> merge_increment k pd incoming
      | Decrement k pd \<Rightarrow> merge_decrement k pd incoming
      | DecrementNoDelete k pd \<Rightarrow> merge_decrement_no_delete k pd incoming
      | Set k v \<Rightarrow> merge_set k v incoming
      | SetOnce k v \<Rightarrow> merge_set_once k v incoming
      | SetPermanent k v \<Rightarrow> merge_set_permanent k v incoming
      | Delete k \<Rightarrow> merge_delete k incoming
      | Insert k v \<Rightarrow> merge_insert k v incoming
      | InsertPermanent k v \<Rightarrow> merge_insert_permanent k v incoming
      | PointAggregate prev_k prev_points \<Rightarrow> merge_point_aggregate prev_k prev_points incoming)"

subsection \<open>Diffing\<close>

text \<open>The action to take after the earlier action so that the incoming one has been applied instead.\<close>

definition diff_increment :: "Key \<Rightarrow> Delta \<Rightarrow> StorageAction \<Rightarrow> StorageAction option work" where
  "diff_increment k pd incoming =
     (case incoming of
        Increment nk nd \<Rightarrow>
          (if nd = pd then Inr None
           else if nd > pd then work_bind (unwrap (checked_sub nd pd)) (\<lambda>d. Inr (Some (Increment nk d)))
           else work_bind (unwrap (checked_sub pd nd)) (\<lambda>d. Inr (Some (Decrement nk d))))
      | Decrement nk nd \<Rightarrow> work_bind (unwrap (checked_add pd nd)) (\<lambda>d. Inr (Some (Decrement nk d)))
      | DecrementNoDelete nk nd \<Rightarrow>
          work_bind (unwrap (checked_add pd nd)) (\<lambda>d. Inr (Some (DecrementNoDelete nk d)))
      | _ \<Rightarrow> Inl RustPanic)"

definition diff_decrement :: "Key \<Rightarrow> Delta \<Rightarrow> StorageAction \<Rightarrow> StorageAction option work" where
  "diff_decrement k pd incoming =
     (case incoming of
        Decrement nk nd \<Rightarrow>
          (if nd = pd then Inr None
           else if nd > pd then work_bind (unwrap (checked_sub nd pd)) (\<lambda>d. Inr (Some (Decrement nk d)))
           else work_bind (unwrap (checked_sub pd nd)) (\<lambda>d. Inr (Some (Increment nk d))))
      | Increment nk nd \<Rightarrow> work_bind (unwrap (checked_add pd nd)) (\<lambda>d. Inr (Some (Increment nk d)))
      | _ \<Rightarrow> Inl RustPanic)"

definition diff_decrement_no_delete :: "Key \<Rightarrow> Delta \<Rightarrow> StorageAction \<Rightarrow> StorageAction option work" where
  "diff_decrement_no_delete k pd incoming =
     (case incoming of
        DecrementNoDelete nk nd \<Rightarrow>
          (if nd = pd then Inr None
           else if nd > pd then
             work_bind (unwrap (checked_sub nd pd)) (\<lambda>d. Inr (Some (DecrementNoDelete nk d)))
           else work_bind (unwrap (checked_sub pd nd)) (\<lambda>d. Inr (Some (Increment nk d))))
      | Increment nk nd \<Rightarrow> work_bind (unwrap (checked_add pd nd)) (\<lambda>d. Inr (Some (Increment nk d)))
      | _ \<Rightarrow> Inl RustPanic)"

definition diff_set :: "Key \<Rightarrow> Value \<Rightarrow> StorageAction \<Rightarrow> StorageAction option work" where
  "diff_set k v incoming =
     (case incoming of
        Set _ nv \<Rightarrow> Inr (if v = nv then None else Some incoming)
      | Delete _ \<Rightarrow> Inr (Some incoming)
      | _ \<Rightarrow> Inl RustPanic)"

definition diff_set_once :: "Key \<Rightarrow> Value \<Rightarrow> StorageAction \<Rightarrow> StorageAction option work" where
  "diff_set_once k v incoming =
     (case incoming of
        SetOnce _ nv \<Rightarrow> Inr (if v = nv then None else Some (Set k nv))
      | Delete _ \<Rightarrow> Inr (Some incoming)
      | _ \<Rightarrow> Inl RustPanic)"

definition diff_set_permanent :: "Key \<Rightarrow> Value \<Rightarrow> StorageAction \<Rightarrow> StorageAction option work" where
  "diff_set_permanent k v incoming =
     (case incoming of
        SetPermanent _ nv \<Rightarrow> (if v = nv then Inr None else Inl RustPanic)
      | _ \<Rightarrow> Inl RustPanic)"

definition diff_delete :: "Key \<Rightarrow> StorageAction \<Rightarrow> StorageAction option work" where
  "diff_delete k incoming =
     (case incoming of
        Delete _ \<Rightarrow> Inr None
      | Set _ _ \<Rightarrow> Inr (Some incoming)
      | SetOnce _ _ \<Rightarrow> Inr (Some incoming)
      | Insert _ _ \<Rightarrow> Inr (Some incoming)
      | _ \<Rightarrow> Inl RustPanic)"

definition diff_insert :: "Key \<Rightarrow> Value \<Rightarrow> StorageAction \<Rightarrow> StorageAction option work" where
  "diff_insert k v incoming =
     (case incoming of
        Insert _ nv \<Rightarrow> Inr (if v = nv then None else Some incoming)
      | Set _ _ \<Rightarrow> Inr (Some incoming)
      | Delete _ \<Rightarrow> Inr (Some incoming)
      | _ \<Rightarrow> Inl RustPanic)"

definition diff_insert_permanent :: "Key \<Rightarrow> StorageAction \<Rightarrow> StorageAction option work" where
  "diff_insert_permanent k incoming =
     (case incoming of InsertPermanent _ _ \<Rightarrow> Inr None | _ \<Rightarrow> Inl RustPanic)"

definition diff_point ::
  "(AggregatePoint \<rightharpoonup> Delta IncrOrDecr) \<Rightarrow> (AggregatePoint \<rightharpoonup> Delta IncrOrDecr) \<Rightarrow> AggregatePoint \<Rightarrow>
   (AggregatePoint \<times> Delta IncrOrDecr) work" where
  "diff_point prev new point =
     (case (prev point, new point) of
        (Some prev_delta, Some new_delta) \<Rightarrow>
          work_bind (unwrap (IncrOrDecr_sub new_delta prev_delta)) (\<lambda>d. Inr (point, d))
      | (Some prev_delta, None) \<Rightarrow> Inr (point, IncrOrDecr_neg prev_delta)
      | (None, Some new_delta) \<Rightarrow> Inr (point, new_delta)
      | (None, None) \<Rightarrow> Inl RustPanic)"

definition diff_point_aggregate ::
  "Key \<Rightarrow> (AggregatePoint \<times> Delta IncrOrDecr) list \<Rightarrow> StorageAction \<Rightarrow> StorageAction option work" where
  "diff_point_aggregate prev_k prev_points incoming =
     (case incoming of
        PointAggregate new_k new_points \<Rightarrow>
          (if prev_k = new_k then
             work_bind (work_map (diff_point (points_map prev_points) (points_map new_points))
                (points_union prev_points new_points))
               (\<lambda>out_points. Inr (Some (PointAggregate prev_k out_points)))
           else Inl RustPanic)
      | _ \<Rightarrow> Inl RustPanic)"

definition diff :: "StorageAction \<Rightarrow> StorageAction \<Rightarrow> StorageAction option work" where
  "diff self incoming =
     (if action_key self \<noteq> action_key incoming then Inl RustPanic
      else case self of
        Increment k pd \<Rightarrow> diff_increment k pd incoming
      | Decrement k pd \<Rightarrow> diff_decrement k pd incoming
      | DecrementNoDelete k pd \<Rightarrow> diff_decrement_no_delete k pd incoming
      | Set k v \<Rightarrow> diff_set k v incoming
      | SetOnce k v \<Rightarrow> diff_set_once k v incoming
      | SetPermanent k v \<Rightarrow> diff_set_permanent k v incoming
      | Delete k \<Rightarrow> diff_delete k incoming
      | Insert k v \<Rightarrow> diff_insert k v incoming
      | InsertPermanent k v \<Rightarrow> diff_insert_permanent k incoming
      | PointAggregate prev_k prev_points \<Rightarrow> diff_point_aggregate prev_k prev_points incoming)"

section \<open>The action merger\<close>

text \<open>
  The hash map of the merger is an association list with one entry per key. The order of its
  entries carries no meaning: statements about what is read from it hold for every order.
\<close>

type_synonym ActionMerger = "(Key \<times> StorageAction) list"

definition ActionMerger_new :: ActionMerger where
  "ActionMerger_new = []"

definition push_action :: "StorageAction \<Rightarrow> ActionMerger \<Rightarrow> ActionMerger work" where
  "push_action action actions =
     (case map_of actions (action_key action) of
        Some prev \<Rightarrow>
          (let actions = AList.delete (action_key action) actions in
           work_bind (merge prev action) (\<lambda>merged.
             case merged of
               Some new_action \<Rightarrow> Inr (AList.update (action_key action) new_action actions)
             | None \<Rightarrow> Inr actions))
      | None \<Rightarrow> Inr (AList.update (action_key action) action actions))"

definition push_actions :: "StorageActions \<Rightarrow> ActionMerger \<Rightarrow> ActionMerger work" where
  "push_actions actions merger = work_fold push_action actions merger"

definition into_merged_actions :: "ActionMerger \<Rightarrow> StorageActions" where
  "into_merged_actions merger = map snd merger"

definition into_batch_actions_with_keys :: "ActionMerger \<Rightarrow> (Key \<times> StorageAction) list" where
  "into_batch_actions_with_keys merger = merger"

section \<open>Signed deltas are integers\<close>

fun iod_int :: "u128 IncrOrDecr \<Rightarrow> int" where
  "iod_int (IoD_Increment a) = int (unat a)"
| "iod_int (IoD_Decrement a) = - int (unat a)"

lemma checked_add_None: "checked_add a b = None \<longleftrightarrow> 2 ^ LENGTH('a) \<le> unat a + unat (b :: 'a::len word)"
  by (simp add: checked_add_def not_less)

lemma checked_sub_None: "checked_sub a b = None \<longleftrightarrow> a < (b :: 'a::len word)"
  by (auto simp: checked_sub_def)

lemma unat_sub_int: "(b :: 'a::len word) \<le> a \<Longrightarrow> int (unat (a - b)) = int (unat a) - int (unat b)"
  by (simp add: unat_sub_le word_le_nat_alt of_nat_diff del: of_nat_unat)

lemma iod_bound: "\<bar>iod_int x\<bar> < 2 ^ 128"
proof (cases x)
  case (IoD_Increment a)
  then show ?thesis using unsigned_less [of a, where ?'a = nat] by (simp del: of_nat_unat)
next
  case (IoD_Decrement a)
  then show ?thesis using unsigned_less [of a, where ?'a = nat] by (simp del: of_nat_unat)
qed

lemma IncrOrDecr_add_int:
  "case IncrOrDecr_add x y of
     Some z \<Rightarrow> iod_int z = iod_int x + iod_int y
   | None \<Rightarrow> 2 ^ 128 \<le> \<bar>iod_int x + iod_int y\<bar>"
  by (cases "(x, y)" rule: IncrOrDecr_add.cases)
    (auto simp: checked_add_Some checked_add_None checked_sub_def unat_sub_int not_le
      simp del: of_nat_unat split: option.splits)

lemma IncrOrDecr_sub_int:
  "case IncrOrDecr_sub x y of
     Some z \<Rightarrow> iod_int z = iod_int x - iod_int y
   | None \<Rightarrow> 2 ^ 128 \<le> \<bar>iod_int x - iod_int y\<bar>"
  by (cases "(x, y)" rule: IncrOrDecr_sub.cases)
    (auto simp: checked_add_Some checked_add_None checked_sub_def unat_sub_int not_le
      simp del: of_nat_unat split: option.splits)

lemma IncrOrDecr_neg_int: "iod_int (IncrOrDecr_neg x) = - iod_int x"
  by (cases x) simp_all

section \<open>The merger keeps one action per key\<close>

lemma merge_same_key:
  assumes "merge a b = Inr (Some c)"
  shows "action_key c = action_key b"
proof -
  have k: "action_key a = action_key b" using assms by (auto simp: merge_def split: if_splits)
  show ?thesis
    using assms k
    by (cases a)
      (auto simp: merge_def merge_increment_def merge_decrement_def merge_decrement_no_delete_def
        merge_set_def merge_set_once_def merge_set_permanent_def merge_delete_def merge_insert_def
        merge_insert_permanent_def merge_point_aggregate_def work_bind_Inr_iff
        split: if_splits StorageAction.splits)
qed

definition merger_wf :: "ActionMerger \<Rightarrow> bool" where
  "merger_wf m \<longleftrightarrow> distinct (map fst m) \<and> (\<forall>(k, a) \<in> set m. action_key a = k)"

lemma merger_wf_map_of:
  "merger_wf m \<longleftrightarrow> distinct (map fst m) \<and> (\<forall>k a. map_of m k = Some a \<longrightarrow> action_key a = k)"
  by (cases "distinct (map fst m)") (auto simp: merger_wf_def)

lemma merger_wf_new: "merger_wf ActionMerger_new"
  by (simp add: merger_wf_def ActionMerger_new_def)

lemma push_action_map_of:
  assumes "push_action a m = Inr m'"
  shows "map_of m' = (map_of m)(action_key a :=
           (case map_of m (action_key a) of
              None \<Rightarrow> Some a
            | Some prev \<Rightarrow> (case merge prev a of Inr merged \<Rightarrow> merged | Inl _ \<Rightarrow> None)))"
proof (cases "map_of m (action_key a)")
  case None
  then show ?thesis using assms by (auto simp: push_action_def update_conv')
next
  case (Some prev)
  then obtain merged where "merge prev a = Inr merged"
    using assms by (auto simp: push_action_def work_bind_Inr_iff Let_def)
  then show ?thesis
    using assms Some
    by (cases merged)
      (auto simp: push_action_def Let_def update_conv' delete_conv' restrict_map_def fun_eq_iff)
qed

lemma push_action_distinct: "distinct (map fst m) \<Longrightarrow> push_action a m = Inr m' \<Longrightarrow> distinct (map fst m')"
  by (auto simp: push_action_def work_bind_Inr_iff Let_def distinct_update distinct_delete
      split: option.splits)

lemma push_action_wf:
  assumes "merger_wf m" and "push_action a m = Inr m'"
  shows "merger_wf m'"
proof -
  have "action_key a' = k" if "map_of m' k = Some a'" for k a'
    using that assms merge_same_key
    by (auto simp: push_action_map_of [OF assms(2)] merger_wf_map_of
        split: option.splits sum.splits if_splits)
  then show ?thesis
    using assms push_action_distinct [of m a m'] by (simp add: merger_wf_map_of)
qed

lemma push_actions_wf: "merger_wf m \<Longrightarrow> push_actions as m = Inr m' \<Longrightarrow> merger_wf m'"
  unfolding push_actions_def
  by (induction as arbitrary: m) (auto simp: work_bind_Inr_iff dest: push_action_wf)

end
