(* ===== verification/TiKV_Ops.thy ===== *)
theory TiKV_Ops
  imports Timbre_Keys Storage_Action
begin

text \<open>
  Executing storage actions in a database transaction (\<open>services/polyphony-xbt/src/storage/tikv.rs\<close>:
  \<open>batch_get_required_kvs_for_batch\<close>, \<open>execute_storage_op_in_txn\<close>,
  \<open>execute_storage_op_in_txn_with_inverse\<close>, \<open>apply_storage_rb_actions\<close>).

  The database is a map from keys to values. A transaction reads its snapshot and buffers its writes
  as a list of mutations, which a commit applies as a whole. A request that fails ends the
  transaction without an effect, as a failed commit does, so failures are outcomes of the commit and
  reads and writes are total. The flag for key warnings only chooses what is logged and is left out.

  What an action means is the abstract effect \<open>action_effect\<close> on the map. The lemmas show that
  executing a batch of actions on disjoint footprints has the effects of its actions in any order,
  and that applying the recorded inverses restores the map.
\<close>

section \<open>The database\<close>

type_synonym store = "Key \<rightharpoonup> Value"

datatype Mutation = Put Key Value | Del Key

fun apply_mutation :: "Mutation \<Rightarrow> store \<Rightarrow> store" where
  "apply_mutation (Put k v) s = s(k \<mapsto> v)"
| "apply_mutation (Del k) s = s(k := None)"

definition apply_mutations :: "Mutation list \<Rightarrow> store \<Rightarrow> store" where
  "apply_mutations ms s = fold apply_mutation ms s"

definition set_mutation :: "Key \<Rightarrow> Value \<Rightarrow> Mutation" where
  "set_mutation key v = Put key v"

definition delete_mutation :: "Key \<Rightarrow> Mutation" where
  "delete_mutation key = Del key"

text \<open>\<open>or_panic\<close> on the result of a decoder.\<close>

definition or_panic :: "failure + 'a \<Rightarrow> 'a work" where
  "or_panic r = (case r of Inr x \<Rightarrow> Inr x | Inl (Fail _) \<Rightarrow> Inl WorkPanic | Inl Panic \<Rightarrow> Inl RustPanic)"

definition decode_amount :: "Value \<Rightarrow> u128 work" where
  "decode_amount v = work_bind (or_panic (uint_decode v)) (\<lambda>(amount, _). Inr amount)"

section \<open>Reading the keys of a batch\<close>

text \<open>\<open>chunks\<close> of a slice; the chunk size is positive.\<close>

function chunks :: "nat \<Rightarrow> 'a list \<Rightarrow> 'a list list" where
  "chunks n xs = (if xs = [] \<or> n = 0 then [] else take n xs # chunks n (drop n xs))"
  by pat_completeness auto
termination by (relation "measure (\<lambda>(n, xs). length xs)") auto

declare chunks.simps [simp del]

fun is_set_once_or_permanent :: "StorageAction \<Rightarrow> bool" where
  "is_set_once_or_permanent (SetOnce _ _) = True"
| "is_set_once_or_permanent (SetPermanent _ _) = True"
| "is_set_once_or_permanent _ = False"

definition required_keys :: "StorageActions \<Rightarrow> bool \<Rightarrow> bool \<Rightarrow> Key list" where
  "required_keys actions need_inverses safe_mode =
     (if need_inverses then
        map action_key (filter (\<lambda>x. \<not> is_set_once_or_permanent x \<or> safe_mode) actions)
      else map action_key (filter requires_previous_value actions))"

definition batch_get_required_kvs_for_batch :: "store \<Rightarrow> StorageActions \<Rightarrow> bool \<Rightarrow> bool \<Rightarrow> store" where
  "batch_get_required_kvs_for_batch snapshot actions need_inverses safe_mode =
     fold (\<lambda>key_batch acc. acc ++ (snapshot |` set key_batch))
       (chunks 10000 (sort (required_keys actions need_inverses safe_mode))) Map.empty"

section \<open>Executing an action\<close>

definition point_value :: "u128 \<Rightarrow> Delta IncrOrDecr \<Rightarrow> u128 work" where
  "point_value prev_value delta =
     (case delta of
        IoD_Increment d \<Rightarrow> unwrap (checked_add prev_value d)
      | IoD_Decrement d \<Rightarrow> Inr (case checked_sub prev_value d of Some res \<Rightarrow> res | None \<Rightarrow> 0))"

definition point_key :: "Key \<Rightarrow> AggregatePoint \<Rightarrow> Key" where
  "point_key k point = concat [k, uint_encode point]"

primrec write_points ::
  "Key \<Rightarrow> (AggregatePoint \<times> Delta IncrOrDecr) list \<Rightarrow> u128 \<Rightarrow> (Mutation list \<times> u128) work" where
  "write_points k [] prev_value = Inr ([], prev_value)"
| "write_points k (p # points) prev_value =
     work_bind (point_value prev_value (snd p)) (\<lambda>pv.
     work_bind (write_points k points pv) (\<lambda>(ms, last_value).
       Inr (Put (point_key k (fst p)) (uint_encode pv) # ms, last_value)))"

definition execute_counter ::
  "(u128 \<Rightarrow> Mutation) \<Rightarrow> Mutation list \<Rightarrow> Key \<Rightarrow> store \<Rightarrow> (Mutation list \<times> store) work" where
  "execute_counter on_present on_absent k kv_map =
     (case kv_map k of
        Some prev_value \<Rightarrow>
          work_bind (decode_amount prev_value) (\<lambda>prev_amount.
            Inr ([on_present prev_amount], kv_map(k := None)))
      | None \<Rightarrow> Inr (on_absent, kv_map(k := None)))"

fun execute_storage_op_in_txn :: "StorageAction \<Rightarrow> store \<Rightarrow> (Mutation list \<times> store) work" where
  "execute_storage_op_in_txn (Set k v) kv_map = Inr ([Put k v], kv_map)"
| "execute_storage_op_in_txn (SetOnce k v) kv_map = Inr ([Put k v], kv_map)"
| "execute_storage_op_in_txn (SetPermanent k v) kv_map = Inr ([Put k v], kv_map)"
| "execute_storage_op_in_txn (Delete k) kv_map = Inr ([Del k], kv_map)"
| "execute_storage_op_in_txn (Insert k v) kv_map =
     Inr (case kv_map k of Some _ \<Rightarrow> [] | None \<Rightarrow> [Put k v], kv_map(k := None))"
| "execute_storage_op_in_txn (InsertPermanent k v) kv_map =
     Inr (case kv_map k of Some _ \<Rightarrow> [] | None \<Rightarrow> [Put k v], kv_map(k := None))"
| "execute_storage_op_in_txn (Increment k d) kv_map =
     execute_counter (\<lambda>prev_amount. Put k (uint_encode (prev_amount + d))) [Put k (uint_encode d)]
       k kv_map"
| "execute_storage_op_in_txn (Decrement k d) kv_map =
     execute_counter
       (\<lambda>prev_amount. case checked_sub prev_amount d of
           Some v \<Rightarrow> (if v = 0 then Del k else Put k (uint_encode v))
         | None \<Rightarrow> Del k)
       [] k kv_map"
| "execute_storage_op_in_txn (DecrementNoDelete k d) kv_map =
     execute_counter
       (\<lambda>prev_amount. case checked_sub prev_amount d of
           Some v \<Rightarrow> Put k (uint_encode v)
         | None \<Rightarrow> Put k (uint_encode (0 :: u128)))
       [] k kv_map"
| "execute_storage_op_in_txn (PointAggregate k points) kv_map =
     work_bind (case kv_map k of Some prev \<Rightarrow> decode_amount prev | None \<Rightarrow> Inr 0) (\<lambda>prev_value.
     work_bind (write_points k (sort_key fst points) prev_value) (\<lambda>(ms, last_value).
       Inr (ms @ [Put k (uint_encode last_value)], kv_map(k := None))))"

section \<open>Executing an action and recording its inverse\<close>

primrec write_points_with_inverse ::
  "Key \<Rightarrow> (AggregatePoint \<times> Delta IncrOrDecr) list \<Rightarrow> u128 \<Rightarrow>
   (Mutation list \<times> StorageActions \<times> u128) work" where
  "write_points_with_inverse k [] prev_value = Inr ([], [], prev_value)"
| "write_points_with_inverse k (p # points) prev_value =
     work_bind (point_value prev_value (snd p)) (\<lambda>pv.
     work_bind (write_points_with_inverse k points pv) (\<lambda>(ms, inverses, last_value).
       Inr (Put (point_key k (fst p)) (uint_encode pv) # ms,
            Delete (point_key k (fst p)) # inverses, last_value)))"

definition counter_with_inverse ::
  "(u128 \<Rightarrow> Mutation) \<Rightarrow> Mutation list \<times> StorageActions option \<Rightarrow> Key \<Rightarrow> store \<Rightarrow>
   (Mutation list \<times> StorageActions option \<times> store) work" where
  "counter_with_inverse on_present on_absent k kv_map =
     (case kv_map k of
        Some prev_value \<Rightarrow>
          work_bind (decode_amount prev_value) (\<lambda>prev_amount.
            Inr ([on_present prev_amount], Some [Set k prev_value], kv_map(k := None)))
      | None \<Rightarrow> Inr (fst on_absent, snd on_absent, kv_map(k := None)))"

fun execute_storage_op_in_txn_with_inverse ::
  "bool \<Rightarrow> StorageAction \<Rightarrow> store \<Rightarrow> (Mutation list \<times> StorageActions option \<times> store) work" where
  "execute_storage_op_in_txn_with_inverse safe_mode (Set k v) kv_map =
     (case kv_map k of
        Some prev_value \<Rightarrow>
          (if prev_value = v then Inr ([], None, kv_map(k := None))
           else Inr ([Put k v], Some [Set k prev_value], kv_map(k := None)))
      | None \<Rightarrow> Inr ([Put k v], Some [Delete k], kv_map(k := None)))"
| "execute_storage_op_in_txn_with_inverse safe_mode (SetOnce k v) kv_map =
     (if safe_mode \<and> kv_map k \<noteq> None then Inl RustPanic
      else Inr ([Put k v], Some [Delete k], if safe_mode then kv_map(k := None) else kv_map))"
| "execute_storage_op_in_txn_with_inverse safe_mode (SetPermanent k v) kv_map =
     (if safe_mode \<and> (case kv_map k of Some found_v \<Rightarrow> v \<noteq> found_v | None \<Rightarrow> False) then Inl RustPanic
      else Inr ([Put k v], None, if safe_mode then kv_map(k := None) else kv_map))"
| "execute_storage_op_in_txn_with_inverse safe_mode (Delete k) kv_map =
     (case kv_map k of
        Some prev_value \<Rightarrow> Inr ([Del k], Some [Set k prev_value], kv_map(k := None))
      | None \<Rightarrow> Inr ([], None, kv_map(k := None)))"
| "execute_storage_op_in_txn_with_inverse safe_mode (Insert k v) kv_map =
     (case kv_map k of
        Some _ \<Rightarrow> Inr ([], None, kv_map(k := None))
      | None \<Rightarrow> Inr ([Put k v], Some [Delete k], kv_map(k := None)))"
| "execute_storage_op_in_txn_with_inverse safe_mode (InsertPermanent k v) kv_map =
     (case kv_map k of
        Some _ \<Rightarrow> Inr ([], None, kv_map(k := None))
      | None \<Rightarrow> Inr ([Put k v], None, kv_map(k := None)))"
| "execute_storage_op_in_txn_with_inverse safe_mode (Increment k d) kv_map =
     counter_with_inverse (\<lambda>prev_amount. Put k (uint_encode (prev_amount + d)))
       ([Put k (uint_encode d)], Some [Delete k]) k kv_map"
| "execute_storage_op_in_txn_with_inverse safe_mode (Decrement k d) kv_map =
     counter_with_inverse
       (\<lambda>prev_amount. case checked_sub prev_amount d of
           Some v \<Rightarrow> (if v = 0 then Del k else Put k (uint_encode v))
         | None \<Rightarrow> Del k)
       ([], None) k kv_map"
| "execute_storage_op_in_txn_with_inverse safe_mode (DecrementNoDelete k d) kv_map =
     counter_with_inverse
       (\<lambda>prev_amount. case checked_sub prev_amount d of
           Some v \<Rightarrow> Put k (uint_encode v)
         | None \<Rightarrow> Put k (uint_encode (0 :: u128)))
       ([], None) k kv_map"
| "execute_storage_op_in_txn_with_inverse safe_mode (PointAggregate k points) kv_map =
     work_bind (case kv_map k of Some prev \<Rightarrow> decode_amount prev | None \<Rightarrow> Inr 0) (\<lambda>prev_value.
     work_bind (write_points_with_inverse k (sort_key fst points) prev_value)
       (\<lambda>(ms, inverses, last_value).
         Inr (ms @ [Put k (uint_encode last_value)],
              Some ((case kv_map k of Some prev \<Rightarrow> Set k prev | None \<Rightarrow> Delete k) # inverses),
              kv_map(k := None))))"

section \<open>Storing the inverses\<close>

record Point =
  pt_height :: u64
  pt_hash :: bytes

definition rollback_key :: "Namespace \<Rightarrow> Point \<Rightarrow> Key \<Rightarrow> Key" where
  "rollback_key key_encoder point k =
     Prefix_rollback key_encoder
       \<lparr>mk_height = pt_height point, mk_hash = pt_hash point, modified_key = k\<rparr>"

fun rb_mutation :: "Namespace \<Rightarrow> Point \<Rightarrow> StorageAction \<Rightarrow> Mutation work" where
  "rb_mutation key_encoder point (Set k v) = Inr (set_mutation (rollback_key key_encoder point k) v)"
| "rb_mutation key_encoder point (Delete k) = Inr (set_mutation (rollback_key key_encoder point k) [])"
| "rb_mutation key_encoder point _ = Inl WorkPanic"

definition apply_storage_rb_actions ::
  "StorageActions \<Rightarrow> Point \<Rightarrow> Namespace \<Rightarrow> Mutation list work" where
  "apply_storage_rb_actions inverse_ops point key_encoder =
     work_map (rb_mutation key_encoder point) inverse_ops"

section \<open>Executing a batch\<close>

text \<open>The loop over the actions of a batch, with the map of fetched values threaded through.\<close>

primrec execute_batch :: "StorageActions \<Rightarrow> store \<Rightarrow> Mutation list work" where
  "execute_batch [] kv_map = Inr []"
| "execute_batch (action # batch) kv_map =
     work_bind (execute_storage_op_in_txn action kv_map) (\<lambda>(ms, kv_map).
     work_bind (execute_batch batch kv_map) (\<lambda>ns. Inr (ms @ ns)))"

text \<open>With inverses; each action carries whether its inverse is recorded.\<close>

primrec execute_batch_with_inverse ::
  "bool \<Rightarrow> (StorageAction \<times> bool) list \<Rightarrow> store \<Rightarrow> (Mutation list \<times> StorageActions) work" where
  "execute_batch_with_inverse safe_mode [] kv_map = Inr ([], [])"
| "execute_batch_with_inverse safe_mode (entry # batch) kv_map =
     work_bind (execute_storage_op_in_txn_with_inverse safe_mode (fst entry) kv_map)
       (\<lambda>(ms, inverse_op, kv_map).
     work_bind (execute_batch_with_inverse safe_mode batch kv_map) (\<lambda>(ns, inverses).
       Inr (ms @ ns, (if snd entry then unwrap_or inverse_op [] else []) @ inverses)))"

end
