(* ===== verification/Action_Semantics.thy ===== *)
theory Action_Semantics
  imports TiKV_Ops "HOL-Library.Multiset"
begin

text \<open>
  What a storage action means: the specification \<open>action_effect\<close> on the database, independent of
  how the transaction code computes it, and the keys it may write, its footprint. The executable
  operations of \<open>TiKV_Ops\<close> refine it. Actions on disjoint footprints do not interfere, so a batch
  has one result whatever the order, and the inverses recorded with it restore the database in any
  order.
\<close>

section \<open>The effect of an action\<close>

text \<open>The new value at the key of an action that writes no other key, from the previous value.\<close>

fun value_after :: "StorageAction \<Rightarrow> Value option \<Rightarrow> Value option work" where
  "value_after (Set k v) x = Inr (Some v)"
| "value_after (SetOnce k v) x = Inr (Some v)"
| "value_after (SetPermanent k v) x = Inr (Some v)"
| "value_after (Delete k) x = Inr None"
| "value_after (Insert k v) x = Inr (Some (case x of None \<Rightarrow> v | Some y \<Rightarrow> y))"
| "value_after (InsertPermanent k v) x = Inr (Some (case x of None \<Rightarrow> v | Some y \<Rightarrow> y))"
| "value_after (Increment k d) x =
     (case x of
        None \<Rightarrow> Inr (Some (uint_encode d))
      | Some y \<Rightarrow> work_bind (decode_amount y) (\<lambda>n. Inr (Some (uint_encode (n + d)))))"
| "value_after (Decrement k d) x =
     (case x of
        None \<Rightarrow> Inr None
      | Some y \<Rightarrow> work_bind (decode_amount y) (\<lambda>n.
          Inr (if n \<le> d then None else Some (uint_encode (n - d)))))"
| "value_after (DecrementNoDelete k d) x =
     (case x of
        None \<Rightarrow> Inr None
      | Some y \<Rightarrow> work_bind (decode_amount y) (\<lambda>n. Inr (Some (uint_encode (saturating_sub n d)))))"
| "value_after (PointAggregate k points) x = Inl RustPanic"

text \<open>The running totals of a point aggregate from the previous total.\<close>

primrec running_totals ::
  "(AggregatePoint \<times> Delta IncrOrDecr) list \<Rightarrow> u128 \<Rightarrow> ((AggregatePoint \<times> u128) list \<times> u128) work" where
  "running_totals [] n = Inr ([], n)"
| "running_totals (p # points) n =
     work_bind (point_value n (snd p)) (\<lambda>m.
     work_bind (running_totals points m) (\<lambda>(ts, tot). Inr ((fst p, m) # ts, tot)))"

definition write_totals :: "Key \<Rightarrow> (AggregatePoint \<times> u128) list \<Rightarrow> store \<Rightarrow> store" where
  "write_totals k ts s = fold (\<lambda>(p, m) s. s(point_key k p \<mapsto> uint_encode m)) ts s"

definition action_effect :: "StorageAction \<Rightarrow> store \<Rightarrow> store work" where
  "action_effect a s =
     (case a of
        PointAggregate k points \<Rightarrow>
          work_bind (case s k of None \<Rightarrow> Inr 0 | Some y \<Rightarrow> decode_amount y) (\<lambda>n.
          work_bind (running_totals (sort_key fst points) n) (\<lambda>(ts, tot).
            Inr ((write_totals k ts s)(k \<mapsto> uint_encode tot))))
      | _ \<Rightarrow> work_bind (value_after a (s (action_key a))) (\<lambda>v. Inr (s(action_key a := v))))"

fun footprint :: "StorageAction \<Rightarrow> Key set" where
  "footprint (PointAggregate k points) = insert k (point_key k ` fst ` set points)"
| "footprint a = {action_key a}"

definition mutation_key :: "Mutation \<Rightarrow> Key" where
  "mutation_key m = (case m of Put k _ \<Rightarrow> k | Del k \<Rightarrow> k)"

lemma mutation_key_simps [simp]: "mutation_key (Put k v) = k" "mutation_key (Del k) = k"
  by (simp_all add: mutation_key_def)

lemma apply_mutations_simps [simp]:
  "apply_mutations [] s = s"
  "apply_mutations (m # ms) s = apply_mutations ms (apply_mutation m s)"
  by (simp_all add: apply_mutations_def)

lemma apply_mutations_append [simp]:
  "apply_mutations (ms @ ns) s = apply_mutations ns (apply_mutations ms s)"
  by (simp add: apply_mutations_def)

lemma apply_mutations_other:
  "k \<notin> mutation_key ` set ms \<Longrightarrow> apply_mutations ms s k = s k"
proof (induction ms arbitrary: s)
  case Nil
  then show ?case by simp
next
  case (Cons m ms)
  then show ?case by (cases m) auto
qed

lemma action_key_in_footprint [simp]: "action_key a \<in> footprint a"
  by (cases a) auto

lemma finite_footprint [simp]: "finite (footprint a)"
  by (cases a) auto

section \<open>The transaction code refines the effect\<close>

lemma write_points_running:
  "write_points k points n =
     work_bind (running_totals points n) (\<lambda>(ts, tot).
       Inr (map (\<lambda>(p, m). Put (point_key k p) (uint_encode m)) ts, tot))"
proof (induction points arbitrary: n)
  case Nil
  then show ?case by simp
next
  case (Cons p points)
  then show ?case
    by (auto simp: work_bind_def split: sum.splits prod.splits)
qed

lemma apply_point_puts:
  "apply_mutations (map (\<lambda>(p, m). Put (point_key k p) (uint_encode m)) ts) s = write_totals k ts s"
  by (induction ts arbitrary: s) (auto simp: write_totals_def)

lemma running_totals_points: "running_totals points n = Inr (ts, tot) \<Longrightarrow> map fst ts = map fst points"
proof (induction points arbitrary: n ts tot)
  case Nil
  then show ?case by simp
next
  case (Cons p points)
  then show ?case by (fastforce simp: work_bind_Inr_iff)
qed

text \<open>
  One action: what the transaction code buffers is the effect of the action, whenever the map of
  fetched values agrees with the database on the action's key where the code looks it up.
\<close>

definition op_refines :: "StorageAction \<Rightarrow> store \<Rightarrow> store \<Rightarrow> (Mutation list \<times> store) work \<Rightarrow> bool" where
  "op_refines a kv s r \<longleftrightarrow>
     (case r of
        Inl e \<Rightarrow> action_effect a s = Inl e
      | Inr (ms, kv') \<Rightarrow>
          action_effect a s = Inr (apply_mutations ms s) \<and>
          mutation_key ` set ms \<subseteq> footprint a \<and> (\<forall>k. k \<noteq> action_key a \<longrightarrow> kv' k = kv k))"

lemma checked_sub_cases:
  "(case checked_sub n d of Some v \<Rightarrow> (if v = 0 then D else P v) | None \<Rightarrow> D) =
     (if n \<le> d then D else P (n - (d :: 'a::len word)))"
  by (cases "n \<le> d"; cases "d \<le> n") (auto simp: checked_sub_def dest: order_antisym)

lemma checked_sub_saturating:
  "(case checked_sub n d of Some v \<Rightarrow> Put k (uint_encode v) | None \<Rightarrow> Put k (uint_encode (0 :: u128))) =
     Put k (uint_encode (saturating_sub n (d :: u128)))"
  by (simp add: checked_sub_def saturating_sub_def)

lemma execute_storage_op_refines:
  assumes "requires_previous_value a \<Longrightarrow> kv (action_key a) = s (action_key a)"
  shows "op_refines a kv s (execute_storage_op_in_txn a kv)"
proof (cases a)
  case (PointAggregate k points)
  have kv: "kv k = s k" using assms PointAggregate by simp
  let ?prev = "case s k of None \<Rightarrow> Inr 0 | Some y \<Rightarrow> decode_amount y"
  show ?thesis
  proof (cases ?prev)
    case (Inl e)
    then show ?thesis
      by (simp add: PointAggregate kv op_refines_def action_effect_def split: option.splits)
  next
    case prev: (Inr n)
    show ?thesis
    proof (cases "running_totals (sort_key fst points) n")
      case (Inl e)
      then show ?thesis
        using prev by (simp add: PointAggregate kv op_refines_def action_effect_def
            write_points_running split: option.splits)
    next
      case (Inr r)
      obtain ts tot where r: "r = (ts, tot)" by (cases r)
      have "fst ` set ts = fst ` set points"
        using running_totals_points [OF Inr [unfolded r]] by (metis list.set_map set_sort)
      then show ?thesis
        using prev Inr by (force simp: PointAggregate kv r op_refines_def action_effect_def
            write_points_running apply_point_puts split: option.splits)
    qed
  qed
qed (use assms in \<open>auto simp: op_refines_def action_effect_def execute_counter_def work_bind_def
      checked_sub_cases checked_sub_saturating split: option.splits sum.splits if_splits\<close>)

section \<open>Effects are local\<close>

text \<open>
  The effect of an action depends on the value at its own key only and changes its footprint only.
\<close>

lemma write_totals_other: "x \<notin> point_key k ` fst ` set ts \<Longrightarrow> write_totals k ts s x = s x"
  by (induction ts arbitrary: s) (auto simp: write_totals_def)

lemma write_totals_cong:
  "x \<in> point_key k ` fst ` set ts \<Longrightarrow> write_totals k ts s x = write_totals k ts t x"
proof (induction ts rule: rev_induct)
  case Nil
  then show ?case by simp
next
  case (snoc e ts)
  then show ?case by (cases e) (auto simp: write_totals_def)
qed

lemma action_effect_other:
  assumes "action_effect a s = Inr s'" and "x \<notin> footprint a"
  shows "s' x = s x"
proof (cases a)
  case (PointAggregate k points)
  then obtain n ts tot where r: "running_totals (sort_key fst points) n = Inr (ts, tot)"
    and s': "s' = (write_totals k ts s)(k \<mapsto> uint_encode tot)"
    using assms(1) by (auto simp: action_effect_def work_bind_Inr_iff)
  have "fst ` set ts = fst ` set points"
    using running_totals_points [OF r] by (metis list.set_map set_sort)
  then show ?thesis using assms(2) PointAggregate by (simp add: s' write_totals_other)
qed (use assms in \<open>auto simp: action_effect_def work_bind_Inr_iff\<close>)

lemma override_on_single: "override_on t (s(k := v)) {k} = t(k := v)"
  by (auto simp: override_on_def)

lemma action_effect_cong:
  assumes "action_effect a s = Inr s'" and "t (action_key a) = s (action_key a)"
  shows "action_effect a t = Inr (override_on t s' (footprint a))"
proof (cases a)
  case (PointAggregate k points)
  then obtain n ts tot where n: "(case s k of None \<Rightarrow> Inr 0 | Some y \<Rightarrow> decode_amount y) = Inr n"
    and r: "running_totals (sort_key fst points) n = Inr (ts, tot)"
    and s': "s' = (write_totals k ts s)(k \<mapsto> uint_encode tot)"
    using assms(1) by (auto simp: action_effect_def work_bind_Inr_iff)
  have f: "fst ` set ts = fst ` set points"
    using running_totals_points [OF r] by (metis list.set_map set_sort)
  have "(write_totals k ts t)(k \<mapsto> uint_encode tot) = override_on t s' (footprint a)"
  proof
    fix x
    show "((write_totals k ts t)(k \<mapsto> uint_encode tot)) x = override_on t s' (footprint a) x"
      using write_totals_other [of x k ts t] write_totals_cong [of x k ts t s]
      by (auto simp: PointAggregate s' f override_on_def)
  qed
  moreover have "t k = s k" using assms(2) PointAggregate by simp
  ultimately show ?thesis using n r by (simp add: PointAggregate action_effect_def)
qed (use assms in \<open>auto simp: action_effect_def work_bind_Inr_iff override_on_single\<close>)

lemma action_effect_error:
  assumes "action_effect a s = Inl e" and "t (action_key a) = s (action_key a)"
  shows "action_effect a t = Inl e"
  using assms by (cases a) (auto simp: action_effect_def work_bind_def split: sum.splits)

section \<open>Batches\<close>

text \<open>A batch is well formed when no two of its actions may write the same key.\<close>

definition disjoint_footprints :: "StorageActions \<Rightarrow> bool" where
  "disjoint_footprints as \<longleftrightarrow> distinct as \<and> pairwise (\<lambda>a b. disjnt (footprint a) (footprint b)) (set as)"

definition footprints :: "StorageActions \<Rightarrow> Key set" where
  "footprints as = (\<Union>a \<in> set as. footprint a)"

definition actions_effect :: "StorageActions \<Rightarrow> store \<Rightarrow> store work" where
  "actions_effect as s = work_fold action_effect as s"

lemma footprints_simps [simp]:
  "footprints [] = {}" "footprints (a # as) = footprint a \<union> footprints as"
  "footprints (as @ bs) = footprints as \<union> footprints bs"
  by (auto simp: footprints_def)

lemma disjoint_footprints_Nil [simp]: "disjoint_footprints []"
  by (simp add: disjoint_footprints_def)

lemma footprint_not_empty: "footprint a \<noteq> {}"
  by (cases a) auto

lemma disjoint_footprints_Cons [simp]:
  "disjoint_footprints (a # as) \<longleftrightarrow> disjnt (footprint a) (footprints as) \<and> disjoint_footprints as"
proof -
  have "a \<notin> set as" if "disjnt (footprint a) (footprints as)"
    using that footprint_not_empty [of a] by (auto simp: disjnt_def footprints_def)
  then show ?thesis
    by (auto simp: disjoint_footprints_def pairwise_insert footprints_def disjnt_def)
qed

lemma key_in_footprints: "a \<in> set as \<Longrightarrow> action_key a \<in> footprints as"
  by (metis UN_I action_key_in_footprint footprints_def)

lemma key_not_in_disjoint:
  "a \<in> set as \<Longrightarrow> disjnt (footprint b) (footprints as) \<Longrightarrow> action_key a \<notin> footprint b"
  by (metis UN_I action_key_in_footprint disjnt_iff footprints_def)

lemma disjoint_footprints_append:
  "disjoint_footprints (as @ bs) \<longleftrightarrow>
     disjoint_footprints as \<and> disjoint_footprints bs \<and> disjnt (footprints as) (footprints bs)"
  by (induction as) (auto simp: disjnt_def)

lemma disjoint_footprints_perm:
  "mset as = mset bs \<Longrightarrow> disjoint_footprints as \<longleftrightarrow> disjoint_footprints bs"
  by (metis disjoint_footprints_def distinct_count_atmost_1 mset_eq_setD)

lemma actions_effect_simps [simp]:
  "actions_effect [] s = Inr s"
  "actions_effect (a # as) s = work_bind (action_effect a s) (actions_effect as)"
  by (auto simp: actions_effect_def fun_eq_iff intro: arg_cong2 [where f = work_bind])

lemma actions_effect_append:
  "actions_effect (as @ bs) s = work_bind (actions_effect as s) (actions_effect bs)"
  by (induction as arbitrary: s) (auto simp: work_bind_def split: sum.splits)

lemma actions_effect_other:
  "actions_effect as s = Inr s' \<Longrightarrow> x \<notin> footprints as \<Longrightarrow> s' x = s x"
  by (induction as arbitrary: s) (auto simp: work_bind_Inr_iff dest: action_effect_other)

text \<open>Every action of a batch sees the database as it was before the batch.\<close>

lemma actions_effect_pointwise:
  assumes "disjoint_footprints as" and "actions_effect as s = Inr s'" and "a \<in> set as"
  shows "\<exists>t. action_effect a s = Inr t \<and> (\<forall>x \<in> footprint a. s' x = t x)"
  using assms
proof (induction as arbitrary: s)
  case Nil
  then show ?case by simp
next
  case (Cons b as)
  then obtain s1 where b: "action_effect b s = Inr s1" and rest: "actions_effect as s1 = Inr s'"
    by (auto simp: work_bind_Inr_iff)
  show ?case
  proof (cases "a = b")
    case True
    have "s' x = s1 x" if "x \<in> footprint b" for x
      using that Cons.prems(1) by (intro actions_effect_other [OF rest]) (auto simp: disjnt_def)
    then show ?thesis using True b by blast
  next
    case False
    then have a: "a \<in> set as" using Cons.prems(3) by simp
    then obtain t where t: "action_effect a s1 = Inr t" "\<forall>x \<in> footprint a. s' x = t x"
      using Cons.IH [OF _ rest] Cons.prems(1) by auto
    have "action_key a \<notin> footprint b"
      using a Cons.prems(1) key_not_in_disjoint by simp
    then have "s (action_key a) = s1 (action_key a)"
      using action_effect_other [OF b] by simp
    then have "action_effect a s = Inr (override_on s t (footprint a))"
      using action_effect_cong [OF t(1)] by simp
    then show ?thesis using t(2) by (auto simp: override_on_def)
  qed
qed

lemma actions_effect_defined:
  assumes "disjoint_footprints as" and "\<forall>a \<in> set as. \<exists>t. action_effect a s = Inr t"
  shows "\<exists>s'. actions_effect as s = Inr s'"
  using assms
proof (induction as arbitrary: s)
  case Nil
  then show ?case by simp
next
  case (Cons b as)
  then obtain s1 where b: "action_effect b s = Inr s1" by auto
  have "\<exists>t. action_effect a s1 = Inr t" if a: "a \<in> set as" for a
  proof -
    have "action_key a \<notin> footprint b"
      using a Cons.prems(1) key_not_in_disjoint by simp
    then have "s1 (action_key a) = s (action_key a)" using action_effect_other [OF b] by simp
    moreover obtain t where "action_effect a s = Inr t"
      using Cons.prems(2) a by (meson list.set_intros(2))
    ultimately show ?thesis using action_effect_cong by blast
  qed
  then show ?case using Cons.IH [of s1] Cons.prems(1) b by simp
qed

lemma actions_effect_eqI:
  assumes "disjoint_footprints as" and "actions_effect as s = Inr s'"
    and "disjoint_footprints bs" and "actions_effect bs s = Inr s''" and "set as = set bs"
  shows "s' = s''"
proof
  fix x
  have eq: "footprints as = footprints bs" using assms(5) by (simp add: footprints_def)
  show "s' x = s'' x"
  proof (cases "x \<in> footprints as")
    case True
    then obtain a where a: "a \<in> set as" "x \<in> footprint a" by (auto simp: footprints_def)
    then show ?thesis
      using actions_effect_pointwise [OF assms(1,2)] actions_effect_pointwise [OF assms(3,4)] assms(5)
      by fastforce
  next
    case False
    then show ?thesis
      using actions_effect_other [OF assms(2)] actions_effect_other [OF assms(4)] eq by simp
  qed
qed

lemma actions_effect_perm:
  assumes "mset as = mset bs" and "disjoint_footprints as" and "actions_effect as s = Inr s'"
  shows "actions_effect bs s = Inr s'"
proof -
  have bs: "disjoint_footprints bs" "set as = set bs"
    using assms(1,2) disjoint_footprints_perm mset_eq_setD by blast+
  have "\<forall>b \<in> set bs. \<exists>t. action_effect b s = Inr t"
    using actions_effect_pointwise [OF assms(2,3)] bs(2) by blast
  then obtain s'' where "actions_effect bs s = Inr s''" using actions_effect_defined [OF bs(1)] by blast
  then show ?thesis using actions_effect_eqI [OF assms(2,3) bs(1) _ bs(2)] by simp
qed

subsection \<open>The batch loop refines the effects of its actions\<close>

lemma execute_batch_refines:
  assumes "disjoint_footprints as"
    and "\<forall>a \<in> set as. requires_previous_value a \<longrightarrow> kv (action_key a) = s (action_key a)"
  shows "case execute_batch as kv of
           Inl e \<Rightarrow> actions_effect as s = Inl e
         | Inr ms \<Rightarrow> actions_effect as s = Inr (apply_mutations ms s) \<and>
                     mutation_key ` set ms \<subseteq> footprints as"
  using assms
proof (induction as arbitrary: kv s)
  case Nil
  then show ?case by simp
next
  case (Cons a as)
  have ref: "op_refines a kv s (execute_storage_op_in_txn a kv)"
    by (rule execute_storage_op_refines) (use Cons.prems(2) in simp)
  show ?case
  proof (cases "execute_storage_op_in_txn a kv")
    case (Inl e)
    then show ?thesis using ref by (simp add: op_refines_def)
  next
    case (Inr r)
    obtain ms kv' where r: "r = (ms, kv')" by (cases r)
    let ?s = "apply_mutations ms s"
    have eff: "action_effect a s = Inr ?s" and ms: "mutation_key ` set ms \<subseteq> footprint a"
      and kv': "\<forall>k. k \<noteq> action_key a \<longrightarrow> kv' k = kv k"
      using ref Inr r by (auto simp: op_refines_def)
    have "kv' (action_key b) = ?s (action_key b)" if "b \<in> set as" "requires_previous_value b" for b
    proof -
      have "action_key b \<notin> footprint a"
        using that Cons.prems(1) key_not_in_disjoint by simp
      then have "?s (action_key b) = s (action_key b)" "action_key b \<noteq> action_key a"
        using action_effect_other [OF eff] action_key_in_footprint [of a] by metis+
      then show ?thesis using that Cons.prems(2) kv' by simp
    qed
    then show ?thesis
      using Cons.IH [of kv' ?s] Cons.prems(1) eff ms Inr r
      by (auto split: sum.splits)
  qed
qed

section \<open>Inverses\<close>

text \<open>
  An inverse is a \<open>Set\<close> or a \<open>Delete\<close>. A list of inverses undoes a change when there is
  at most one per key, each holds the value its key had before, and a key without one has not
  changed. Keys written by the permanent actions, the set \<open>X\<close>, are kept on purpose.
\<close>

fun inverse_value :: "StorageAction \<Rightarrow> Value option option" where
  "inverse_value (Set k v) = Some (Some v)"
| "inverse_value (Delete k) = Some None"
| "inverse_value _ = None"

definition undoes :: "Key set \<Rightarrow> StorageActions \<Rightarrow> store \<Rightarrow> store \<Rightarrow> bool" where
  "undoes X inverses s s' \<longleftrightarrow>
     distinct (map action_key inverses) \<and>
     (\<forall>a \<in> set inverses. inverse_value a = Some (s (action_key a))) \<and>
     (\<forall>k. k \<notin> action_key ` set inverses \<longrightarrow> k \<notin> X \<longrightarrow> s' k = s k)"

fun permanent_keys :: "StorageAction \<Rightarrow> Key set" where
  "permanent_keys (SetPermanent k v) = {k}"
| "permanent_keys (InsertPermanent k v) = {k}"
| "permanent_keys _ = {}"

definition all_permanent_keys :: "StorageActions \<Rightarrow> Key set" where
  "all_permanent_keys as = (\<Union>a \<in> set as. permanent_keys a)"

text \<open>
  What the recorded inverse relies on: a \<open>SetOnce\<close> is for a key without a value, the points of an
  aggregate are distinct and new.
\<close>

fun invertible :: "StorageAction \<Rightarrow> store \<Rightarrow> bool" where
  "invertible (SetOnce k v) s \<longleftrightarrow> s k = None"
| "invertible (PointAggregate k points) s \<longleftrightarrow>
     distinct (map fst points) \<and> (\<forall>p \<in> set points. s (point_key k (fst p)) = None)"
| "invertible _ s \<longleftrightarrow> True"

lemma point_key_eq_iff [simp]: "point_key k p = point_key k q \<longleftrightarrow> p = q"
  using u128.enc_inj by (auto simp: point_key_def)

lemma point_key_neq [simp]: "point_key k p \<noteq> k" "k \<noteq> point_key k p"
  by (auto simp: point_key_def)

lemma write_points_with_inverse_running:
  "write_points_with_inverse k points n =
     work_bind (running_totals points n) (\<lambda>(ts, tot).
       Inr (map (\<lambda>(p, m). Put (point_key k p) (uint_encode m)) ts,
            map (\<lambda>p. Delete (point_key k (fst p))) points, tot))"
proof (induction points arbitrary: n)
  case Nil
  then show ?case by simp
next
  case (Cons p points)
  then show ?case
    by (auto simp: work_bind_def split: sum.splits prod.splits)
qed

definition inverse_ok ::
  "StorageAction \<Rightarrow> store \<Rightarrow> store \<Rightarrow> (Mutation list \<times> StorageActions option \<times> store) work \<Rightarrow> bool" where
  "inverse_ok a kv s r \<longleftrightarrow>
     (case r of
        Inl e \<Rightarrow> True
      | Inr (ms, inverse_op, kv') \<Rightarrow>
          action_effect a s = Inr (apply_mutations ms s) \<and>
          mutation_key ` set ms \<subseteq> footprint a \<and>
          (\<forall>k. k \<noteq> action_key a \<longrightarrow> kv' k = kv k) \<and>
          action_key ` set (unwrap_or inverse_op []) \<subseteq> footprint a \<and>
          (invertible a s \<longrightarrow>
             undoes (permanent_keys a) (unwrap_or inverse_op []) s (apply_mutations ms s)))"

lemma point_aggregate_inverse_ok:
  assumes "kv k = s k"
  shows "inverse_ok (PointAggregate k points) kv s
           (execute_storage_op_in_txn_with_inverse safe_mode (PointAggregate k points) kv)"
proof (cases "case s k of None \<Rightarrow> Inr 0 | Some y \<Rightarrow> decode_amount y")
  case (Inl e)
  then show ?thesis using assms by (simp add: inverse_ok_def split: option.splits)
next
  case prev: (Inr n)
  show ?thesis
  proof (cases "running_totals (sort_key fst points) n")
    case (Inl e)
    then show ?thesis
      using assms prev
      by (simp add: inverse_ok_def write_points_with_inverse_running split: option.splits)
  next
    case (Inr r)
    obtain ts tot where r: "r = (ts, tot)" by (cases r)
    let ?main = "case kv k of Some prev \<Rightarrow> Set k prev | None \<Rightarrow> Delete k"
    let ?inv = "?main # map (\<lambda>p. Delete (point_key k (fst p))) (sort_key fst points)"
    let ?ms = "map (\<lambda>(p, m). Put (point_key k p) (uint_encode m)) ts @ [Put k (uint_encode tot)]"
    have exec: "execute_storage_op_in_txn_with_inverse safe_mode (PointAggregate k points) kv =
        Inr (?ms, Some ?inv, kv(k := None))"
      using assms prev Inr by (simp add: r write_points_with_inverse_running split: option.splits)
    have pts: "fst ` set ts = fst ` set points"
      using running_totals_points [OF Inr [unfolded r]] by (metis list.set_map set_sort)
    have eff: "action_effect (PointAggregate k points) s = Inr (apply_mutations ?ms s)"
      using assms prev Inr by (simp add: r action_effect_def apply_point_puts)
    have keys: "action_key ` set ?inv = footprint (PointAggregate k points)"
      using assms by (force split: option.splits)
    have "undoes {} ?inv s (apply_mutations ?ms s)" if "invertible (PointAggregate k points) s"
    proof -
      have "mset (map fst (sort_key fst points)) = mset (map fst points)" by simp
      then have "distinct (map fst (sort_key fst points))"
        using that mset_eq_imp_distinct_iff by fastforce
      then have "distinct (map action_key ?inv)"
        using assms by (auto simp: distinct_map inj_on_def comp_def split: option.splits)
      moreover have "\<forall>a \<in> set ?inv. inverse_value a = Some (s (action_key a))"
        using that assms by (auto split: option.splits)
      moreover have "apply_mutations ?ms s x = s x" if "x \<notin> action_key ` set ?inv" for x
        by (rule action_effect_other [OF eff]) (use that keys in blast)
      ultimately show ?thesis unfolding undoes_def by blast
    qed
    moreover have "mutation_key ` set ?ms \<subseteq> footprint (PointAggregate k points)"
      using pts by force
    ultimately show ?thesis using exec eff keys by (simp add: inverse_ok_def)
  qed
qed

lemma execute_with_inverse_ok:
  assumes "\<not> is_set_once_or_permanent a \<or> safe_mode \<Longrightarrow> kv (action_key a) = s (action_key a)"
  shows "inverse_ok a kv s (execute_storage_op_in_txn_with_inverse safe_mode a kv)"
proof (cases a)
  case (PointAggregate k points)
  then show ?thesis using assms point_aggregate_inverse_ok by simp
qed (use assms in \<open>auto simp: inverse_ok_def undoes_def action_effect_def counter_with_inverse_def
      work_bind_def checked_sub_cases checked_sub_saturating split: option.splits sum.splits if_splits\<close>)

subsection \<open>The inverses of a batch\<close>

lemma invertible_cong:
  "(\<forall>x \<in> footprint a. s x = t x) \<Longrightarrow> invertible a s \<longleftrightarrow> invertible a t"
  by (cases a) auto

lemma undoes_append:
  assumes "undoes X i1 s s1" and "undoes Y i2 s1 s2"
    and "action_key ` set i1 \<inter> action_key ` set i2 = {}"
    and "\<forall>k \<in> action_key ` set i2. s1 k = s k"
  shows "undoes (X \<union> Y) (i1 @ i2) s s2"
  using assms unfolding undoes_def by (auto simp: image_iff)

lemma execute_batch_with_inverse_ok:
  assumes "disjoint_footprints (map fst es)" and "\<forall>e \<in> set es. snd e"
    and "\<forall>a \<in> fst ` set es. \<not> is_set_once_or_permanent a \<or> safe_mode \<longrightarrow>
           kv (action_key a) = s (action_key a)"
    and "execute_batch_with_inverse safe_mode es kv = Inr (ms, inverses)"
    and "\<forall>a \<in> fst ` set es. invertible a s"
  shows "actions_effect (map fst es) s = Inr (apply_mutations ms s) \<and>
         mutation_key ` set ms \<subseteq> footprints (map fst es) \<and>
         action_key ` set inverses \<subseteq> footprints (map fst es) \<and>
         undoes (all_permanent_keys (map fst es)) inverses s (apply_mutations ms s)"
  using assms
proof (induction es arbitrary: kv s ms inverses)
  case Nil
  then show ?case by (simp add: undoes_def)
next
  case (Cons e es)
  let ?a = "fst e"
  obtain ms1 op kv1 ms2 inv2 where
    one: "execute_storage_op_in_txn_with_inverse safe_mode ?a kv = Inr (ms1, op, kv1)"
    and two: "execute_batch_with_inverse safe_mode es kv1 = Inr (ms2, inv2)"
    and ms: "ms = ms1 @ ms2" and inverses: "inverses = unwrap_or op [] @ inv2"
    using Cons.prems(2,4) by (auto simp: work_bind_Inr_iff)
  let ?s1 = "apply_mutations ms1 s"
  have "inverse_ok ?a kv s (Inr (ms1, op, kv1))"
    unfolding one [symmetric] by (rule execute_with_inverse_ok) (use Cons.prems(3) in auto)
  then have eff: "action_effect ?a s = Inr ?s1" and m1: "mutation_key ` set ms1 \<subseteq> footprint ?a"
    and kv1: "\<forall>k. k \<noteq> action_key ?a \<longrightarrow> kv1 k = kv k"
    and i1: "action_key ` set (unwrap_or op []) \<subseteq> footprint ?a"
    and u1: "undoes (permanent_keys ?a) (unwrap_or op []) s ?s1"
    using Cons.prems(5) by (simp_all add: inverse_ok_def)
  have dis: "disjnt (footprint ?a) (footprints (map fst es))" using Cons.prems(1) by simp
  have same: "?s1 x = s x" if "x \<in> footprints (map fst es)" for x
    using that dis by (intro action_effect_other [OF eff]) (auto simp: disjnt_def)
  have kv: "kv1 (action_key b) = ?s1 (action_key b)"
    if "b \<in> fst ` set es" "\<not> is_set_once_or_permanent b \<or> safe_mode" for b
  proof -
    have "action_key b \<notin> footprint ?a" using that(1) key_not_in_disjoint [OF _ dis] by simp
    then have "action_key b \<noteq> action_key ?a" using action_key_in_footprint [of ?a] by metis
    moreover have "action_key b \<in> footprints (map fst es)"
      using that(1) key_in_footprints [of b "map fst es"] by simp
    ultimately show ?thesis using that Cons.prems(3) kv1 same by auto
  qed
  have "invertible b ?s1" if "b \<in> fst ` set es" for b
    using that Cons.prems(5) same invertible_cong [of b ?s1 s] by (auto simp: footprints_def)
  then have IH: "actions_effect (map fst es) ?s1 = Inr (apply_mutations ms2 ?s1)"
    "mutation_key ` set ms2 \<subseteq> footprints (map fst es)"
    "action_key ` set inv2 \<subseteq> footprints (map fst es)"
    "undoes (all_permanent_keys (map fst es)) inv2 ?s1 (apply_mutations ms2 ?s1)"
    using Cons.IH [OF _ _ _ two, of ?s1] Cons.prems(1,2) kv by auto
  have "undoes (permanent_keys ?a \<union> all_permanent_keys (map fst es)) inverses s (apply_mutations ms s)"
    unfolding inverses ms apply_mutations_append
    by (rule undoes_append [OF u1 IH(4)]) (use i1 IH(3) dis same in \<open>auto simp: disjnt_def\<close>)
  then show ?case
    using eff IH m1 i1 by (auto simp: ms inverses all_permanent_keys_def)
qed

text \<open>Applying the inverses, in any order, gives back the database.\<close>

fun inverse_mutation :: "StorageAction \<Rightarrow> Mutation" where
  "inverse_mutation (Set k v) = set_mutation k v"
| "inverse_mutation a = delete_mutation (action_key a)"

lemma mutation_key_inverse [simp]: "mutation_key (inverse_mutation a) = action_key a"
  by (cases a) (simp_all add: set_mutation_def delete_mutation_def)

lemma apply_inverse_pointwise:
  assumes "distinct (map action_key inverses)" and "a \<in> set inverses" and "inverse_value a = Some v"
  shows "apply_mutations (map inverse_mutation inverses) s (action_key a) = v"
  using assms
proof (induction inverses arbitrary: s)
  case Nil
  then show ?case by simp
next
  case (Cons b inverses)
  show ?case
  proof (cases "a = b")
    case True
    have "action_key b \<notin> mutation_key ` set (map inverse_mutation inverses)"
      using Cons.prems(1) by (auto simp: image_image)
    then show ?thesis
      using True Cons.prems(3)
      by (cases b) (simp_all add: apply_mutations_other set_mutation_def delete_mutation_def)
  next
    case False
    then show ?thesis using Cons by simp
  qed
qed

lemma undoes_perm: "mset i1 = mset i2 \<Longrightarrow> undoes X i1 s s' \<longleftrightarrow> undoes X i2 s s'"
  unfolding undoes_def
  by (metis mset_eq_imp_distinct_iff mset_eq_setD mset_map)

lemma undo_restores:
  assumes "undoes X inverses s s'" and "mset inverses' = mset inverses"
    and "k \<in> action_key ` set inverses \<or> k \<notin> X"
  shows "apply_mutations (map inverse_mutation inverses') s' k = s k"
proof (cases "k \<in> action_key ` set inverses'")
  case True
  then obtain a where a: "a \<in> set inverses'" "k = action_key a" by auto
  have "undoes X inverses' s s'" using assms(1) undoes_perm [OF assms(2)] by simp
  then show ?thesis using a apply_inverse_pointwise by (simp add: undoes_def)
next
  case False
  then have "k \<notin> mutation_key ` set (map inverse_mutation inverses')" by (simp add: image_image)
  then show ?thesis
    using False assms mset_eq_setD [OF assms(2)] by (simp add: apply_mutations_other undoes_def)
qed

section \<open>Properties\<close>

lemma concat_chunks: "n > 0 \<Longrightarrow> concat (chunks n xs) = xs"
proof (induction n xs rule: chunks.induct)
  case (1 n xs)
  then show ?case by (subst chunks.simps) auto
qed

lemma fold_restrict:
  "fold (\<lambda>b acc. acc ++ (s |` set b)) bs (s |` A) = s |` (A \<union> set (concat bs))"
proof (induction bs arbitrary: A)
  case Nil
  then show ?case by simp
next
  case (Cons b bs)
  have "s |` A ++ s |` set b = s |` (A \<union> set b)"
    by (auto simp: map_add_def restrict_map_def split: option.splits)
  then show ?case using Cons.IH [of "A \<union> set b"] by (simp add: Un_assoc)
qed

lemma batch_get_required_kvs_restrict:
  "batch_get_required_kvs_for_batch s as need_inverses safe_mode =
     s |` set (required_keys as need_inverses safe_mode)"
proof -
  have "set (concat (chunks 10000 (sort ks))) = set ks" for ks :: "Key list"
    by (subst concat_chunks) simp_all
  then show ?thesis
    using fold_restrict [of s _ "{}"] by (simp add: batch_get_required_kvs_for_batch_def)
qed

lemma batch_get_previous_value:
  "a \<in> set as \<Longrightarrow> requires_previous_value a \<Longrightarrow>
   batch_get_required_kvs_for_batch s as False safe_mode (action_key a) = s (action_key a)"
  by (simp add: batch_get_required_kvs_restrict required_keys_def)

lemma batch_get_inverse_value:
  "a \<in> set as \<Longrightarrow> \<not> is_set_once_or_permanent a \<or> safe_mode \<Longrightarrow>
   batch_get_required_kvs_for_batch s as True safe_mode (action_key a) = s (action_key a)"
  by (simp add: batch_get_required_kvs_restrict required_keys_def)

lemma execute_batch_fetched:
  assumes "disjoint_footprints as"
  shows "case execute_batch as (batch_get_required_kvs_for_batch s as False safe_mode) of
           Inl e \<Rightarrow> actions_effect as s = Inl e
         | Inr ms \<Rightarrow> actions_effect as s = Inr (apply_mutations ms s)"
proof -
  have "\<forall>a \<in> set as. requires_previous_value a \<longrightarrow>
      batch_get_required_kvs_for_batch s as False safe_mode (action_key a) = s (action_key a)"
    using batch_get_previous_value by blast
  from execute_batch_refines [OF assms this] show ?thesis by (simp split: sum.splits)
qed

text \<open>
  C19: A batch of actions on disjoint footprints has one result. Fetching the values the batch needs
  and executing it has the effect of the actions one by one, or fails as they do, and any other order
  of the batch, for instance another iteration order of the hash map it came from, gives the same
  database.
\<close>

theorem batch_effect_any_order:
  assumes "disjoint_footprints as" and "mset bs = mset as"
  shows "case execute_batch as (batch_get_required_kvs_for_batch s as False safe_mode) of
           Inl e \<Rightarrow> actions_effect as s = Inl e
         | Inr ms \<Rightarrow>
             actions_effect as s = Inr (apply_mutations ms s) \<and>
             (\<exists>ns. execute_batch bs (batch_get_required_kvs_for_batch s bs False safe_mode) = Inr ns \<and>
                   apply_mutations ns s = apply_mutations ms s)"
proof -
  have bs: "disjoint_footprints bs" using assms disjoint_footprints_perm by blast
  note refines = execute_batch_fetched [OF assms(1), of s safe_mode] execute_batch_fetched [OF bs, of s safe_mode]
  show ?thesis
  proof (cases "execute_batch as (batch_get_required_kvs_for_batch s as False safe_mode)")
    case (Inl e)
    then show ?thesis using refines(1) by simp
  next
    case (Inr ms)
    then have ms: "actions_effect as s = Inr (apply_mutations ms s)" using refines(1) by simp
    have "actions_effect bs s = Inr (apply_mutations ms s)"
      by (rule actions_effect_perm [OF assms(2) [symmetric] assms(1) ms])
    then show ?thesis using Inr ms refines(2) by (simp split: sum.splits)
  qed
qed

definition sample_batch :: StorageActions where
  "sample_batch = [Increment [1] 5, Set [2] [7], Decrement [3] 4]"

theorem batch_effect_any_order_witness:
  "case execute_batch sample_batch (batch_get_required_kvs_for_batch Map.empty sample_batch False False) of
     Inl e \<Rightarrow> actions_effect sample_batch Map.empty = Inl e
   | Inr ms \<Rightarrow>
       actions_effect sample_batch Map.empty = Inr (apply_mutations ms Map.empty) \<and>
       (\<exists>ns. execute_batch (rev sample_batch)
               (batch_get_required_kvs_for_batch Map.empty (rev sample_batch) False False) = Inr ns \<and>
             apply_mutations ns Map.empty = apply_mutations ms Map.empty)"
  by (rule batch_effect_any_order) (simp_all add: sample_batch_def disjnt_def)

text \<open>
  C18: The inverses recorded with a batch undo it. When set-once keys are new and aggregated points
  are new, applying the recorded inverses in any order to the database after the batch restores every
  key the batch wrote, except the keys of the permanent actions, which are kept on purpose.
\<close>

theorem recorded_inverses_restore:
  assumes "disjoint_footprints as" and "\<forall>a \<in> set as. invertible a s"
    and "execute_batch_with_inverse safe_mode (map (\<lambda>a. (a, True)) as)
           (batch_get_required_kvs_for_batch s as True safe_mode) = Inr (ms, inverses)"
    and "mset inverses' = mset inverses" and "k \<notin> all_permanent_keys as"
  shows "actions_effect as s = Inr (apply_mutations ms s) \<and>
         apply_mutations (map inverse_mutation inverses') (apply_mutations ms s) k = s k"
proof -
  have es: "map fst (map (\<lambda>a. (a, True)) as) = as" by (simp add: comp_def)
  have "actions_effect as s = Inr (apply_mutations ms s)"
    and un: "undoes (all_permanent_keys as) inverses s (apply_mutations ms s)"
    using execute_batch_with_inverse_ok [of "map (\<lambda>a. (a, True)) as" safe_mode
        "batch_get_required_kvs_for_batch s as True safe_mode" s ms inverses] assms(1-3)
      batch_get_inverse_value [of _ as safe_mode s] by (auto simp: comp_def)
  then show ?thesis using undo_restores [OF un assms(4)] assms(5) by blast
qed

theorem recorded_inverses_restore_witness:
  "apply_mutations (map inverse_mutation [Delete [2], Set [1] (uint_encode (9 :: u128))])
     (apply_mutations [Put [1] (uint_encode (14 :: u128)), Put [2] [7]] [[1] \<mapsto> uint_encode (9 :: u128)]) [1]
   = Some (uint_encode (9 :: u128))"
proof -
  let ?s = "[[1] \<mapsto> uint_encode (9 :: u128)] :: store"
  have "decode_amount (uint_encode (9 :: u128)) = Inr 9"
    using u128.dec_enc_exact [of 9] by (simp add: decode_amount_def or_panic_def)
  then have exec: "execute_batch_with_inverse False (map (\<lambda>a. (a, True)) [Increment [1] 5, SetOnce [2] [7]])
      (batch_get_required_kvs_for_batch ?s [Increment [1] 5, SetOnce [2] [7]] True False) =
      Inr ([Put [1] (uint_encode (14 :: u128)), Put [2] [7]], [Set [1] (uint_encode (9 :: u128)), Delete [2]])"
    by (simp add: batch_get_required_kvs_restrict required_keys_def counter_with_inverse_def)
  from recorded_inverses_restore [OF _ _ exec, of "[Delete [2], Set [1] (uint_encode (9 :: u128))]" "[1]"]
  show ?thesis by (simp add: disjnt_def all_permanent_keys_def)
qed

end
