(* ===== verification/Merge_Soundness.thy ===== *)
theory Merge_Soundness
  imports Action_Semantics
begin

text \<open>
  The merger replaces the actions of one or more blocks on a key by one action. This theory shows
  that, as long as the actions stay within the contract of their kinds (a \<open>SetOnce\<close> key is new, a
  counter holds a canonical number and is not decremented below zero, aggregated points come in
  ascending order), the merged actions have the effect of the original sequence, in whatever order
  they are taken from the hash map.
\<close>

section \<open>Clean application\<close>

definition canonical_amount :: "Value \<Rightarrow> u128 option" where
  "canonical_amount y =
     (case decode_amount y of Inr n \<Rightarrow> (if uint_encode n = y then Some n else None) | Inl _ \<Rightarrow> None)"

lemma decode_amount_encode [simp]: "decode_amount (uint_encode n) = Inr n"
  using u128.dec_enc_exact [of n] by (simp add: decode_amount_def or_panic_def)

lemma canonical_amount_Some [simp]: "canonical_amount y = Some n \<longleftrightarrow> y = uint_encode n"
  by (auto simp: canonical_amount_def split: sum.splits if_splits)

lemma canonical_amount_encode [simp]: "canonical_amount (uint_encode n) = Some n"
  by simp

definition in_u128 :: "int \<Rightarrow> bool" where
  "in_u128 i \<longleftrightarrow> 0 \<le> i \<and> i < 2 ^ 128"

primrec clean_points :: "(AggregatePoint \<times> Delta IncrOrDecr) list \<Rightarrow> int \<Rightarrow> bool" where
  "clean_points [] n \<longleftrightarrow> True"
| "clean_points (p # points) n \<longleftrightarrow>
     in_u128 (n + iod_int (snd p)) \<and> clean_points points (n + iod_int (snd p))"

text \<open>The number held at a key, 0 when there is none; \<open>None\<close> when the value is not a number.\<close>

definition amount_or_zero :: "Value option \<Rightarrow> u128 option" where
  "amount_or_zero x = (case x of None \<Rightarrow> Some 0 | Some y \<Rightarrow> canonical_amount y)"

fun clean :: "StorageAction \<Rightarrow> store \<Rightarrow> bool" where
  "clean (SetOnce k v) s \<longleftrightarrow> s k = None"
| "clean (SetPermanent k v) s \<longleftrightarrow> s k = None \<or> s k = Some v"
| "clean (Increment k d) s \<longleftrightarrow>
     (case amount_or_zero (s k) of Some n \<Rightarrow> unat n + unat d < 2 ^ 128 | None \<Rightarrow> False)"
| "clean (Decrement k d) s \<longleftrightarrow>
     (case amount_or_zero (s k) of Some n \<Rightarrow> d \<le> n \<and> n \<noteq> 0 | None \<Rightarrow> False)"
| "clean (DecrementNoDelete k d) s \<longleftrightarrow>
     s k \<noteq> None \<and> (case amount_or_zero (s k) of Some n \<Rightarrow> d \<le> n | None \<Rightarrow> False)"
| "clean (PointAggregate k points) s \<longleftrightarrow>
     sorted_wrt (<) (map fst points) \<and>
     (case amount_or_zero (s k) of Some n \<Rightarrow> clean_points points (int (unat n)) | None \<Rightarrow> False)"
| "clean _ s \<longleftrightarrow> True"

primrec clean_run :: "StorageActions \<Rightarrow> store \<Rightarrow> bool" where
  "clean_run [] s \<longleftrightarrow> True"
| "clean_run (a # as) s \<longleftrightarrow>
     clean a s \<and> (case action_effect a s of Inr t \<Rightarrow> clean_run as t | Inl _ \<Rightarrow> False)"

lemma clean_cong: "s (action_key a) = t (action_key a) \<Longrightarrow> clean a s \<longleftrightarrow> clean a t"
  by (cases a) auto

lemma amount_or_zero_Some:
  "amount_or_zero x = Some n \<longleftrightarrow> (x = None \<and> n = 0) \<or> x = Some (uint_encode n)"
  by (auto simp: amount_or_zero_def split: option.splits)

lemma uint_encode_u128_eq [simp]: "uint_encode n = uint_encode m \<longleftrightarrow> n = (m :: u128)"
  using u128.enc_inj by auto

section \<open>Merging two actions\<close>

text \<open>What the merge of two actions on a key promises about the database.\<close>

definition merge_ok :: "StorageAction \<Rightarrow> StorageAction \<Rightarrow> StorageAction option \<Rightarrow> store \<Rightarrow> store \<Rightarrow> bool" where
  "merge_ok p a r s u \<longleftrightarrow>
     (\<exists>u'. action_effect a u = Inr u' \<and>
        (case r of
           None \<Rightarrow> u' = s
         | Some c \<Rightarrow> clean c s \<and> action_effect c s = Inr u' \<and> footprint c = footprint p \<union> footprint a))"

text \<open>Counters on the number they hold.\<close>

definition inc :: "u128 \<Rightarrow> u128 option \<Rightarrow> u128 option" where
  "inc d y = Some (case y of None \<Rightarrow> d | Some n \<Rightarrow> n + d)"

definition dec :: "u128 \<Rightarrow> u128 option \<Rightarrow> u128 option" where
  "dec d y = (case y of None \<Rightarrow> None | Some n \<Rightarrow> (if n \<le> d then None else Some (n - d)))"

definition dec_no_delete :: "u128 \<Rightarrow> u128 option \<Rightarrow> u128 option" where
  "dec_no_delete d y = map_option (\<lambda>n. saturating_sub n d) y"

definition can_inc :: "u128 \<Rightarrow> u128 option \<Rightarrow> bool" where
  "can_inc d y \<longleftrightarrow> (case y of None \<Rightarrow> True | Some n \<Rightarrow> unat n + unat d < 2 ^ 128)"

definition can_dec :: "u128 \<Rightarrow> u128 option \<Rightarrow> bool" where
  "can_dec d y \<longleftrightarrow> (case y of None \<Rightarrow> False | Some n \<Rightarrow> d \<le> n \<and> n \<noteq> 0)"

definition can_dec_no_delete :: "u128 \<Rightarrow> u128 option \<Rightarrow> bool" where
  "can_dec_no_delete d y \<longleftrightarrow> (case y of None \<Rightarrow> False | Some n \<Rightarrow> d \<le> n)"

lemmas counter_defs = inc_def dec_def dec_no_delete_def can_inc_def can_dec_def can_dec_no_delete_def
  saturating_sub_def

lemma unat_plus_u128: "unat (n :: u128) + unat d < 2 ^ 128 \<Longrightarrow> unat (n + d) = unat n + unat d"
  by (rule unat_add_no_overflow) simp

lemmas to_nat = word_unat_eq_iff word_le_nat_alt word_less_nat_alt unat_plus_u128 unat_sub_le
  unat_sub_if'

lemma unat_plus_below: "unat (a :: u128) + unat b \<le> unat (c :: u128) \<Longrightarrow> unat (a + b) = unat a + unat b"
  using unsigned_less [of c, where 'a = nat] by (intro unat_plus_u128) simp

lemma inc_inc:
  assumes "can_inc pd y" and "can_inc nd (inc pd y)"
  shows "inc nd (inc pd y) = inc (pd + nd) y \<and> can_inc (pd + nd) y"
  using assms by (cases y) (auto simp: counter_defs to_nat add.assoc)

lemma inc_dec:
  assumes "can_inc pd y" and "can_dec nd (inc pd y)" and "y \<noteq> Some 0"
  shows "pd = nd \<Longrightarrow> dec nd (inc pd y) = y"
    and "pd > nd \<Longrightarrow> dec nd (inc pd y) = inc (pd - nd) y \<and> can_inc (pd - nd) y"
    and "pd < nd \<Longrightarrow> dec nd (inc pd y) = dec (nd - pd) y \<and> can_dec (nd - pd) y"
  using assms by (cases y; auto simp: counter_defs to_nat)+

lemma inc_dec_no_delete:
  assumes "can_inc pd y" and "can_dec_no_delete nd (inc pd y)"
  shows "pd \<ge> nd \<Longrightarrow> dec_no_delete nd (inc pd y) = inc (pd - nd) y \<and> can_inc (pd - nd) y"
    and "pd < nd \<Longrightarrow> dec_no_delete nd (inc pd y) = dec_no_delete (nd - pd) y \<and> can_dec_no_delete (nd - pd) y"
  using assms by (cases y; auto simp: counter_defs to_nat)+

lemma dec_dec:
  assumes "can_dec pd y" and "can_dec nd (dec pd y)"
  shows "dec nd (dec pd y) = dec (pd + nd) y \<and> can_dec (pd + nd) y"
proof (cases y)
  case (Some n)
  then have "unat pd + unat nd \<le> unat n"
    using assms by (auto simp: counter_defs to_nat split: if_splits)
  then show ?thesis
    using assms Some unat_plus_below [of pd nd n]
    by (auto simp: counter_defs word_unat_eq_iff word_le_nat_alt unat_sub_if' split: if_splits)
qed (use assms in \<open>simp add: counter_defs\<close>)

lemma dec_inc:
  assumes "can_dec pd y" and "can_inc nd (dec pd y)" and "nd \<noteq> 0"
  shows "pd = nd \<Longrightarrow> inc nd (dec pd y) = y"
    and "pd > nd \<Longrightarrow> inc nd (dec pd y) = dec (pd - nd) y \<and> can_dec (pd - nd) y"
    and "pd < nd \<Longrightarrow> inc nd (dec pd y) = inc (nd - pd) y \<and> can_inc (nd - pd) y"
proof -
  obtain n where y: "y = Some n" and le: "unat pd \<le> unat n" and n: "unat n \<noteq> 0"
    using assms(1) by (cases y) (auto simp: counter_defs word_le_nat_alt unat_eq_zero)
  have nd: "unat nd \<noteq> 0" using assms(3) by (simp add: unat_eq_zero)
  have small: "unat n - unat pd + unat nd < 2 ^ 128" if "unat pd < unat n"
    using assms(2) that by (simp add: y counter_defs word_le_nat_alt unat_sub_if')
  have sub: "unat (n - pd) = unat n - unat pd" using le by (simp add: unat_sub_if')
  have eq: "n = pd" if "n \<le> pd" using le that by (simp add: word_le_nat_alt word_unat_eq_iff)
  show "inc nd (dec pd y) = y" if "pd = nd"
    using that eq by (auto simp: y inc_def dec_def)
  show "inc nd (dec pd y) = dec (pd - nd) y \<and> can_dec (pd - nd) y" if "pd > nd"
    using that eq le n nd
    by (auto simp: y inc_def dec_def can_dec_def word_le_nat_alt word_less_nat_alt unat_sub_if')
  have "unat n + unat (nd - pd) < 2 ^ 128" if "pd < nd"
    using that small le unsigned_less [of nd, where 'a = nat]
    by (cases "unat pd < unat n") (auto simp: word_less_nat_alt unat_sub_if')
  then show "inc nd (dec pd y) = inc (nd - pd) y \<and> can_inc (nd - pd) y" if "pd < nd"
    using that eq by (auto simp: y inc_def dec_def can_inc_def)
qed

lemma dec_no_delete_twice:
  assumes "can_dec_no_delete pd y" and "can_dec_no_delete nd (dec_no_delete pd y)"
  shows "dec_no_delete nd (dec_no_delete pd y) = dec_no_delete (pd + nd) y \<and> can_dec_no_delete (pd + nd) y"
proof (cases y)
  case (Some n)
  then have "unat pd + unat nd \<le> unat n"
    using assms by (auto simp: counter_defs to_nat split: if_splits)
  then show ?thesis
    using assms Some unat_plus_below [of pd nd n]
    by (auto simp: counter_defs word_unat_eq_iff word_le_nat_alt unat_sub_if' split: if_splits)
qed (use assms in \<open>simp add: counter_defs\<close>)

lemma dec_no_delete_inc:
  assumes "can_dec_no_delete pd y" and "can_inc nd (dec_no_delete pd y)"
  shows "pd \<ge> nd \<Longrightarrow> inc nd (dec_no_delete pd y) = dec_no_delete (pd - nd) y \<and> can_dec_no_delete (pd - nd) y"
    and "pd < nd \<Longrightarrow> inc nd (dec_no_delete pd y) = inc (nd - pd) y \<and> can_inc (nd - pd) y"
  using assms by (cases y; auto simp: counter_defs to_nat split: if_splits)+

subsection \<open>Counters in the store\<close>

definition holds :: "store \<Rightarrow> Key \<Rightarrow> u128 option \<Rightarrow> bool" where
  "holds s k y \<longleftrightarrow> s k = map_option uint_encode y"

lemma counter_effects:
  assumes "holds s k y"
  shows "action_effect (Increment k d) s = Inr (s(k := map_option uint_encode (inc d y)))"
    and "action_effect (Decrement k d) s = Inr (s(k := map_option uint_encode (dec d y)))"
    and "action_effect (DecrementNoDelete k d) s = Inr (s(k := map_option uint_encode (dec_no_delete d y)))"
  using assms by (cases y; simp add: holds_def action_effect_def counter_defs)+

lemma counter_clean:
  assumes "holds s k y"
  shows "clean (Increment k d) s \<longleftrightarrow> can_inc d y"
    and "clean (Decrement k d) s \<longleftrightarrow> can_dec d y"
    and "clean (DecrementNoDelete k d) s \<longleftrightarrow> can_dec_no_delete d y"
proof -
  have none: "amount_or_zero None = Some 0" by (simp add: amount_or_zero_Some)
  have some: "amount_or_zero (Some (uint_encode n)) = Some n" for n by (simp add: amount_or_zero_Some)
  show "clean (Increment k d) s \<longleftrightarrow> can_inc d y"
    using assms unsigned_less [of d, where 'a = nat] by (cases y) (simp_all add: holds_def none some can_inc_def)
  show "clean (Decrement k d) s \<longleftrightarrow> can_dec d y"
    using assms by (cases y) (simp_all add: holds_def none some can_dec_def)
  show "clean (DecrementNoDelete k d) s \<longleftrightarrow> can_dec_no_delete d y"
    using assms by (cases y) (simp_all add: holds_def some can_dec_no_delete_def)
qed

lemma clean_holds:
  assumes "clean a s" and "a \<in> {Increment k d, Decrement k d, DecrementNoDelete k d}"
  shows "\<exists>y. holds s k y"
proof -
  obtain n where "amount_or_zero (s k) = Some n" using assms by (auto split: option.splits)
  then have "holds s k None \<or> holds s k (Some n)" by (auto simp: amount_or_zero_Some holds_def)
  then show ?thesis by blast
qed

text \<open>The condition under which a cancelled pair of counter actions may be forgotten.\<close>

definition zero_free :: "StorageAction \<Rightarrow> StorageAction \<Rightarrow> store \<Rightarrow> bool" where
  "zero_free p a s \<longleftrightarrow>
     (\<forall>k d. a = Decrement k d \<longrightarrow> s k \<noteq> Some (uint_encode (0 :: u128))) \<and>
     (\<forall>k d. p = Decrement k d \<longrightarrow> a \<noteq> Increment k 0)"

lemma merge_counter_ok:
  assumes p: "p \<in> {Increment k pd, Decrement k pd, DecrementNoDelete k pd}"
    and r: "merge p a = Inr r" and "clean p s" and u: "action_effect p s = Inr u" and "clean a u"
    and zf: "zero_free p a s"
  shows "merge_ok p a r s u"
proof -
  obtain y where y: "holds s k y" using clean_holds [OF assms(3) p] by blast
  note facts = counter_effects [OF y] counter_clean [OF y]
  have same: "s(k := map_option uint_encode y) = s" using y by (auto simp: holds_def)
  obtain nd where a: "a \<in> {Increment k nd, Decrement k nd, DecrementNoDelete k nd}"
    using p r by (cases a) (auto simp: merge_def merge_increment_def merge_decrement_def
        merge_decrement_no_delete_def split: if_splits)
  obtain z where u_eq: "u = s(k := map_option uint_encode z)" and z: "holds u k z"
    and ps: "p = Increment k pd \<Longrightarrow> z = inc pd y \<and> can_inc pd y"
      "p = Decrement k pd \<Longrightarrow> z = dec pd y \<and> can_dec pd y"
      "p = DecrementNoDelete k pd \<Longrightarrow> z = dec_no_delete pd y \<and> can_dec_no_delete pd y"
    using p u \<open>clean p s\<close> facts by (auto simp: holds_def)
  have upd: "u(k := x) = s(k := x)" for x by (simp add: u_eq)
  note more = counter_effects [OF z] counter_clean [OF z]
  have y0: "y \<noteq> Some 0" if "a = Decrement k nd"
    using zf that y by (auto simp: zero_free_def holds_def)
  have nd0: "nd \<noteq> 0" if "p = Decrement k pd" "a = Increment k nd"
    using zf that by (auto simp: zero_free_def)
  consider
      "p = Increment k pd" "a = Increment k nd" | "p = Increment k pd" "a = Decrement k nd"
    | "p = Increment k pd" "a = DecrementNoDelete k nd" | "p = Decrement k pd" "a = Increment k nd"
    | "p = Decrement k pd" "a = Decrement k nd" | "p = DecrementNoDelete k pd" "a = Increment k nd"
    | "p = DecrementNoDelete k pd" "a = DecrementNoDelete k nd"
    using p a r by (auto simp: merge_def merge_decrement_def merge_decrement_no_delete_def)
  then show ?thesis
    by cases
      (use r ps \<open>clean a u\<close> inc_inc [of pd y nd] inc_dec [of pd y nd] y0 inc_dec_no_delete [of pd y nd]
         dec_inc [of pd y nd] nd0 dec_dec [of pd y nd] dec_no_delete_inc [of pd y nd]
         dec_no_delete_twice [of pd y nd] in
       \<open>auto simp: more facts upd same merge_def merge_increment_def merge_decrement_def
          merge_decrement_no_delete_def merge_ok_def simp del: clean.simps split: if_splits\<close>)
qed

lemma merge_value_ok:
  assumes p: "p \<in> {Set k v, SetOnce k v, SetPermanent k v, Delete k, Insert k v, InsertPermanent k v}"
    and r: "merge p a = Inr r" and "clean p s" and u: "action_effect p s = Inr u" and "clean a u"
  shows "merge_ok p a r s u"
  using assms
  by (auto simp: merge_ok_def merge_def merge_set_def merge_set_once_def merge_set_permanent_def
      merge_delete_def merge_insert_def merge_insert_permanent_def action_effect_def
      split: if_splits StorageAction.splits option.splits)

subsection \<open>Point aggregates\<close>

text \<open>
  The points of an aggregate as changes of a number at points in time. The value written at a point
  is the previous total and the changes up to the point.
\<close>

definition change :: "(AggregatePoint \<times> Delta IncrOrDecr) list \<Rightarrow> AggregatePoint \<Rightarrow> int" where
  "change points q = (case map_of points q of None \<Rightarrow> 0 | Some d \<Rightarrow> iod_int d)"

definition change_upto :: "(AggregatePoint \<times> Delta IncrOrDecr) list \<Rightarrow> AggregatePoint \<Rightarrow> int" where
  "change_upto points p = sum (change points) {..p}"

abbreviation whole_change :: "(AggregatePoint \<times> Delta IncrOrDecr) list \<Rightarrow> int" where
  "whole_change points \<equiv> sum (change points) UNIV"

lemma change_Nil [simp]: "change [] q = 0"
  by (simp add: change_def)

lemma change_Cons:
  "q \<notin> fst ` set points \<Longrightarrow> change ((q, d) # points) r = (if r = q then iod_int d else 0) + change points r"
  by (auto simp: change_def map_of_eq_None_iff [symmetric] split: option.splits)

lemma change_zero: "q \<notin> fst ` set points \<Longrightarrow> change points q = 0"
  by (auto simp: change_def map_of_eq_None_iff [symmetric])

lemma sum_change_Cons:
  assumes "q \<notin> fst ` set points"
  shows "sum (change ((q, d) # points)) A = (if q \<in> A then iod_int d else 0) + sum (change points) A"
  by (simp add: change_Cons [OF assms] sum.distrib sum.delta)

lemma sum_change_within: "fst ` set points \<subseteq> A \<Longrightarrow> sum (change points) A = whole_change points"
  by (rule sum.mono_neutral_left) (auto simp: subset_iff intro: change_zero)

lemma change_upto_Cons:
  assumes "sorted_wrt (<) (q # map fst points)"
  shows "change_upto ((q, d) # points) q = iod_int d"
    and "p \<in> fst ` set points \<Longrightarrow> change_upto ((q, d) # points) p = iod_int d + change_upto points p"
    and "whole_change ((q, d) # points) = iod_int d + whole_change points"
proof -
  have later: "q < p" if "p \<in> fst ` set points" for p using assms that by auto
  then have q: "q \<notin> fst ` set points" by blast
  have "change points r = 0" if "r \<le> q" for r
    using later [of r] that by (intro change_zero) force
  then show "change_upto ((q, d) # points) q = iod_int d"
    by (simp add: change_upto_def sum_change_Cons [OF q])
  show "change_upto ((q, d) # points) p = iod_int d + change_upto points p" if "p \<in> fst ` set points"
    using less_imp_le [OF later [OF that]] by (simp add: change_upto_def sum_change_Cons [OF q])
  show "whole_change ((q, d) # points) = iod_int d + whole_change points"
    by (simp add: sum_change_Cons [OF q])
qed

lemma clean_points_iff:
  assumes "sorted_wrt (<) (map fst points)"
  shows "clean_points points n \<longleftrightarrow> (\<forall>p \<in> fst ` set points. in_u128 (n + change_upto points p))"
  using assms
proof (induction points arbitrary: n)
  case Nil
  then show ?case by simp
next
  case (Cons x points)
  obtain q d where x: "x = (q, d)" by (cases x)
  have "sorted_wrt (<) (q # map fst points)" using Cons.prems by (simp add: x)
  note step = change_upto_Cons [OF this]
  show ?case
    using Cons.IH [of "n + iod_int d"] Cons.prems step(1,2) by (auto simp: x ac_simps)
qed

definition u128_of :: "int \<Rightarrow> u128" where
  "u128_of i = word_of_int i"

lemma u128_of_in: "in_u128 i \<Longrightarrow> int (unat (u128_of i)) = i"
  by (simp add: u128_of_def in_u128_def uint_word_of_int)

lemma u128_of_uint [simp]: "u128_of (uint n) = n"
  by (simp add: u128_of_def)

lemma point_value_int:
  assumes "in_u128 (int (unat n) + iod_int d)"
  shows "point_value n d = Inr (u128_of (int (unat n) + iod_int d))"
proof (cases d)
  case (IoD_Increment c)
  then have "unat n + unat c < 2 ^ 128" using assms by (simp add: in_u128_def del: of_nat_unat)
  then show ?thesis by (simp add: IoD_Increment point_value_def checked_add_def unwrap_def u128_of_def)
next
  case (IoD_Decrement c)
  then have "c \<le> n" using assms by (simp add: in_u128_def word_le_nat_alt del: of_nat_unat)
  then show ?thesis by (simp add: IoD_Decrement point_value_def checked_sub_def u128_of_def)
qed

lemma running_totals_change:
  assumes "sorted_wrt (<) (map fst points)" and "clean_points points (int (unat n))"
  shows "running_totals points n =
           Inr (map (\<lambda>p. (p, u128_of (int (unat n) + change_upto points p))) (map fst points),
                u128_of (int (unat n) + whole_change points))"
  using assms
proof (induction points arbitrary: n)
  case Nil
  then show ?case by simp
next
  case (Cons x points)
  obtain q d where x: "x = (q, d)" by (cases x)
  let ?m = "u128_of (int (unat n) + iod_int d)"
  have in_range: "in_u128 (int (unat n) + iod_int d)" using Cons.prems(2) by (simp add: x)
  note m = u128_of_in [OF in_range]
  have "sorted_wrt (<) (q # map fst points)" using Cons.prems by (simp add: x)
  note step = change_upto_Cons [OF this]
  have "running_totals points ?m =
      Inr (map (\<lambda>p. (p, u128_of (int (unat n) + change_upto (x # points) p))) (map fst points),
           u128_of (int (unat n) + whole_change (x # points)))"
    using Cons.IH [of ?m] Cons.prems m step by (simp add: x add.assoc del: of_nat_unat)
  then show ?case using point_value_int [OF in_range] step(1) by (simp add: x)
qed

lemma write_totals_map:
  "distinct ps \<Longrightarrow> p \<in> set ps \<Longrightarrow>
   write_totals k (map (\<lambda>p. (p, f p)) ps) s (point_key k p) = Some (uint_encode (f p))"
proof (induction ps rule: rev_induct)
  case Nil
  then show ?case by simp
next
  case (snoc q ps)
  then show ?case by (auto simp: write_totals_def)
qed

text \<open>The effect of a clean aggregate, key by key.\<close>

definition aggregate_effect ::
  "Key \<Rightarrow> AggregatePoint set \<Rightarrow> (AggregatePoint \<Rightarrow> int) \<Rightarrow> int \<Rightarrow> store \<Rightarrow> store \<Rightarrow> bool" where
  "aggregate_effect k P f m s u \<longleftrightarrow>
     u k = Some (uint_encode (u128_of m)) \<and>
     (\<forall>p \<in> P. u (point_key k p) = Some (uint_encode (u128_of (f p)))) \<and>
     (\<forall>x. x \<notin> insert k (point_key k ` P) \<longrightarrow> u x = s x)"

lemma aggregate_effect_unique:
  assumes "aggregate_effect k P f m s u" and "aggregate_effect k P f m s v"
  shows "u = v"
proof
  fix x
  show "u x = v x" using assms by (cases "x \<in> insert k (point_key k ` P)") (auto simp: aggregate_effect_def)
qed

lemma aggregate_effect_compose:
  assumes "aggregate_effect k P f m s u" and "aggregate_effect k Q g m' u v"
    and "\<forall>p \<in> P \<union> Q. h p = (if p \<in> Q then g p else f p)"
  shows "aggregate_effect k (P \<union> Q) h m' s v"
proof -
  have "v (point_key k p) = Some (uint_encode (u128_of (h p)))" if p: "p \<in> P \<union> Q" for p
  proof (cases "p \<in> Q")
    case True
    then show ?thesis using assms by (auto simp: aggregate_effect_def)
  next
    case False
    then have "point_key k p \<notin> insert k (point_key k ` Q)" by auto
    then show ?thesis using assms p False by (auto simp: aggregate_effect_def)
  qed
  then show ?thesis using assms(1,2) by (simp add: aggregate_effect_def image_Un)
qed

lemma clean_aggregate_effect:
  assumes "clean (PointAggregate k points) s" and n: "amount_or_zero (s k) = Some n"
  shows "\<exists>u. action_effect (PointAggregate k points) s = Inr u \<and>
           aggregate_effect k (fst ` set points) (\<lambda>p. int (unat n) + change_upto points p)
             (int (unat n) + whole_change points) s u"
proof -
  let ?ps = "map fst points"
  let ?ts = "map (\<lambda>p. (p, u128_of (int (unat n) + change_upto points p))) ?ps"
  let ?tot = "u128_of (int (unat n) + whole_change points)"
  have sorted: "sorted_wrt (<) ?ps" and cl: "clean_points points (int (unat n))"
    using assms by (simp_all del: of_nat_unat)
  have dist: "distinct ?ps" and "sorted ?ps" using sorted strict_sorted_iff by blast+
  then have "sort_key fst points = points" by (simp add: sort_key_id_if_sorted)
  moreover have "(case s k of None \<Rightarrow> Inr 0 | Some y \<Rightarrow> decode_amount y) = Inr n"
    using n by (auto simp: amount_or_zero_Some)
  ultimately have "action_effect (PointAggregate k points) s =
      Inr ((write_totals k ?ts s)(k \<mapsto> uint_encode ?tot))"
    using running_totals_change [OF sorted cl] by (simp add: action_effect_def del: of_nat_unat)
  moreover have "aggregate_effect k (fst ` set points) (\<lambda>p. int (unat n) + change_upto points p)
      (int (unat n) + whole_change points) s ((write_totals k ?ts s)(k \<mapsto> uint_encode ?tot))"
    unfolding aggregate_effect_def
    using write_totals_map [OF dist] write_totals_other [of _ k ?ts s] by (auto simp: image_image)
  ultimately show ?thesis by blast
qed

lemma points_map_distinct: "distinct (map fst points) \<Longrightarrow> points_map points = map_of points"
  by (simp add: points_map_def map_of_inject_set rev_map [symmetric])

lemma points_union_facts:
  "sorted_wrt (<) (points_union ps as)" "set (points_union ps as) = fst ` set ps \<union> fst ` set as"
  by (auto simp: points_union_def strict_sorted_iff)

lemma merge_point_change:
  assumes "merge_point (map_of ps) (map_of as) p = Inr e"
  shows "fst e = p \<and> iod_int (snd e) = change ps p + change as p"
proof -
  have add: "iod_int z = iod_int x + iod_int y" if "IncrOrDecr_add x y = Some z" for x y z
    using IncrOrDecr_add_int [of x y] that by simp
  show ?thesis
    using assms by (auto simp: merge_point_def change_def work_bind_Inr_iff unwrap_Inr_iff
        intro: add split: option.splits)
qed

lemma merge_points_change:
  assumes "merge (PointAggregate k ps) (PointAggregate k as) = Inr r"
    and "distinct (map fst ps)" and "distinct (map fst as)"
  shows "\<exists>out. r = Some (PointAggregate k out) \<and> map fst out = points_union ps as \<and>
           change out = (\<lambda>q. change ps q + change as q)"
proof -
  obtain out where r: "r = Some (PointAggregate k out)"
    and out: "list_all2 (\<lambda>p e. merge_point (map_of ps) (map_of as) p = Inr e) (points_union ps as) out"
    using assms by (auto simp: merge_def merge_point_aggregate_def work_bind_Inr_iff work_map_Inr_iff
        points_map_distinct)
  have "list_all2 (\<lambda>p e. fst e = p \<and> iod_int (snd e) = change ps p + change as p)
      (points_union ps as) out"
    using out by (rule list_all2_mono) (rule merge_point_change)
  then have fsts: "map fst out = points_union ps as"
    and vals: "\<forall>e \<in> set out. iod_int (snd e) = change ps (fst e) + change as (fst e)"
    by (induction rule: list_all2_induct) auto
  have "change out q = change ps q + change as q" for q
  proof (cases "q \<in> fst ` set out")
    case True
    then obtain d where d: "map_of out q = Some d" by (metis map_of_eq_None_iff not_None_eq)
    then show ?thesis using vals map_of_SomeD [OF d] by (force simp: change_def [of out])
  next
    case False
    then have "q \<notin> fst ` set ps" "q \<notin> fst ` set as"
      using fsts points_union_facts(2) [of ps as] by (metis Un_iff image_set)+
    then show ?thesis using False by (simp add: change_zero)
  qed
  then show ?thesis using r fsts by blast
qed

lemma in_u128_unat: "in_u128 (int (unat (n :: u128)))"
  using unsigned_less [of n, where 'a = nat] by (simp add: in_u128_def del: of_nat_unat)

lemma whole_change_in:
  assumes "sorted_wrt (<) (map fst points)" and "clean_points points n" and "in_u128 n"
  shows "in_u128 (n + whole_change points)"
  using assms
proof (induction points arbitrary: n)
  case Nil
  then show ?case by simp
next
  case (Cons x points)
  obtain q d where x: "x = (q, d)" by (cases x)
  have "sorted_wrt (<) (q # map fst points)" using Cons.prems by (simp add: x)
  from change_upto_Cons(3) [OF this] show ?case
    using Cons.IH [of "n + iod_int d"] Cons.prems by (simp add: x add.assoc)
qed

lemma merge_aggregate_ok:
  assumes r: "merge (PointAggregate k ps) (PointAggregate k as) = Inr r"
    and p: "clean (PointAggregate k ps) s" and u: "action_effect (PointAggregate k ps) s = Inr u"
    and a: "clean (PointAggregate k as) u"
    and later: "\<forall>p \<in> fst ` set ps. \<forall>q \<in> fst ` set as. p \<le> q"
  shows "merge_ok (PointAggregate k ps) (PointAggregate k as) r s u"
proof -
  obtain n where n: "amount_or_zero (s k) = Some n" using p by (auto split: option.splits)
  let ?n = "int (unat n)"
  let ?m = "?n + whole_change ps"
  have ps: "sorted_wrt (<) (map fst ps)" "clean_points ps ?n" using p n by (simp_all del: of_nat_unat)
  have e1: "aggregate_effect k (fst ` set ps) (\<lambda>p. ?n + change_upto ps p) ?m s u"
    using clean_aggregate_effect [OF p n] u by auto
  then have m: "amount_or_zero (u k) = Some (u128_of ?m)"
    by (simp add: aggregate_effect_def amount_or_zero_Some)
  have um: "int (unat (u128_of ?m)) = ?m" by (intro u128_of_in whole_change_in ps in_u128_unat)
  have as: "sorted_wrt (<) (map fst as)" "clean_points as ?m"
    using a m um by (simp_all del: of_nat_unat)
  obtain u' where u': "action_effect (PointAggregate k as) u = Inr u'"
    and e2: "aggregate_effect k (fst ` set as) (\<lambda>p. ?m + change_upto as p) (?m + whole_change as) u u'"
    using clean_aggregate_effect [OF a m] um by auto
  obtain out where out: "r = Some (PointAggregate k out)" "map fst out = points_union ps as"
    "change out = (\<lambda>q. change ps q + change as q)"
    using merge_points_change [OF r] ps(1) as(1) strict_sorted_iff by blast
  have fsts: "fst ` set out = fst ` set ps \<union> fst ` set as"
    using out(2) points_union_facts(2) by (metis image_set)
  have upto: "change_upto out p = change_upto ps p + change_upto as p" for p
    by (simp add: change_upto_def out(3) sum.distrib)
  have at_as: "change_upto ps p = whole_change ps" if "p \<in> fst ` set as" for p
    unfolding change_upto_def using later that by (intro sum_change_within) auto
  have at_ps: "change_upto as p = 0" if "p \<in> fst ` set ps" "p \<notin> fst ` set as" for p
    unfolding change_upto_def using later that by (intro sum.neutral ballI change_zero) force
  have sorted: "sorted_wrt (<) (map fst out)" using out(2) points_union_facts(1) by metis
  have "in_u128 (?n + change_upto out p)" if "p \<in> fst ` set out" for p
    using that ps as clean_points_iff [OF ps(1)] clean_points_iff [OF as(1)] fsts
    by (cases "p \<in> fst ` set as") (auto simp: upto at_as at_ps add.assoc simp del: of_nat_unat)
  then have cl: "clean (PointAggregate k out) s"
    using sorted n clean_points_iff [OF sorted] by (simp del: of_nat_unat)
  obtain v where v: "action_effect (PointAggregate k out) s = Inr v"
    and e3: "aggregate_effect k (fst ` set out) (\<lambda>p. ?n + change_upto out p) (?n + whole_change out) s v"
    using clean_aggregate_effect [OF cl n] by blast
  have "\<forall>p \<in> fst ` set ps \<union> fst ` set as. ?n + change_upto out p =
      (if p \<in> fst ` set as then ?m + change_upto as p else ?n + change_upto ps p)"
    using at_as at_ps by (auto simp: upto)
  from aggregate_effect_compose [OF e1 e2 this]
  have "aggregate_effect k (fst ` set out) (\<lambda>p. ?n + change_upto out p) (?n + whole_change out) s u'"
    by (simp add: fsts out(3) sum.distrib add.assoc)
  then have "v = u'" using aggregate_effect_unique [OF e3] by simp
  then show ?thesis using u' v cl fsts by (auto simp: merge_ok_def out(1))
qed

section \<open>The merger\<close>

text \<open>
  The conditions on a sequence of actions under which the merger may replace it: every action is
  applied cleanly; a key that is decremented does not hold a zero and is not incremented by zero;
  aggregated points of a key come in ascending order; different keys have disjoint footprints.
\<close>

definition later_points :: "StorageAction \<Rightarrow> StorageAction \<Rightarrow> bool" where
  "later_points a b \<longleftrightarrow>
     (case (a, b) of
        (PointAggregate k ps, PointAggregate k' qs) \<Rightarrow>
          k = k' \<longrightarrow> (\<forall>p \<in> fst ` set ps. \<forall>q \<in> fst ` set qs. p \<le> q)
      | _ \<Rightarrow> True)"

definition no_zero_counters :: "StorageActions \<Rightarrow> store \<Rightarrow> bool" where
  "no_zero_counters as s \<longleftrightarrow>
     (\<forall>a \<in> set as. case a of
        Decrement k d \<Rightarrow> s k \<noteq> Some (uint_encode (0 :: u128)) \<and> Increment k 0 \<notin> set as
      | _ \<Rightarrow> True)"

definition separate_keys :: "StorageActions \<Rightarrow> bool" where
  "separate_keys as \<longleftrightarrow>
     (\<forall>a \<in> set as. \<forall>b \<in> set as. action_key a = action_key b \<or> disjnt (footprint a) (footprint b))"

definition mergeable :: "StorageActions \<Rightarrow> store \<Rightarrow> bool" where
  "mergeable as s \<longleftrightarrow>
     clean_run as s \<and> no_zero_counters as s \<and> sorted_wrt later_points as \<and> separate_keys as"

text \<open>How a merged action stands for the actions so far on its key.\<close>

definition comes_from :: "StorageAction \<Rightarrow> StorageActions \<Rightarrow> bool" where
  "comes_from p as \<longleftrightarrow>
     (\<forall>k d. p = Decrement k d \<longrightarrow> (\<exists>d'. Decrement k d' \<in> set as)) \<and>
     (\<forall>k ps. p = PointAggregate k ps \<longrightarrow>
        (\<forall>q \<in> fst ` set ps. \<exists>qs. PointAggregate k qs \<in> set as \<and> q \<in> fst ` set qs)) \<and>
     (\<exists>a \<in> set as. action_key a = action_key p)"

definition stands_for :: "StorageAction \<Rightarrow> store \<Rightarrow> store \<Rightarrow> bool" where
  "stands_for p s t \<longleftrightarrow>
     clean p s \<and> (\<exists>u. action_effect p s = Inr u \<and> (\<forall>x \<in> footprint p. t x = u x))"

definition merged_state :: "ActionMerger \<Rightarrow> StorageActions \<Rightarrow> store \<Rightarrow> store \<Rightarrow> bool" where
  "merged_state m as s t \<longleftrightarrow>
     merger_wf m \<and> (\<forall>p \<in> ran (map_of m). stands_for p s t \<and> comes_from p as) \<and>
     (\<forall>x. (\<forall>p \<in> ran (map_of m). x \<notin> footprint p) \<longrightarrow> t x = s x)"

lemma comes_from_footprint:
  assumes "comes_from p as" and "x \<in> footprint p"
  shows "\<exists>a \<in> set as. action_key a = action_key p \<and> x \<in> footprint a"
proof (cases p)
  case (PointAggregate k ps)
  then consider "x = k" | q where "q \<in> fst ` set ps" "x = point_key k q" using assms(2) by auto
  then show ?thesis
  proof cases
    case 1
    then show ?thesis using assms(1) PointAggregate action_key_in_footprint by (fastforce simp: comes_from_def)
  next
    case 2
    then obtain qs where "PointAggregate k qs \<in> set as" "q \<in> fst ` set qs"
      using assms(1) PointAggregate unfolding comes_from_def by blast
    then show ?thesis using 2 PointAggregate by force
  qed
qed (use assms action_key_in_footprint in \<open>fastforce simp: comes_from_def\<close>)+

lemma separate_keys_comes_from:
  assumes "separate_keys as" and "comes_from p bs" and "set bs \<subseteq> set as"
    and "a \<in> set as" and "action_key a \<noteq> action_key p"
  shows "disjnt (footprint a) (footprint p)"
proof -
  have "x \<notin> footprint a" if x: "x \<in> footprint p" for x
  proof -
    obtain b where "b \<in> set as" "action_key b = action_key p" "x \<in> footprint b"
      using comes_from_footprint [OF assms(2) x] assms(3) by blast
    then show ?thesis using assms(1,4,5) unfolding separate_keys_def disjnt_iff by metis
  qed
  then show ?thesis by (auto simp: disjnt_iff)
qed

lemma comes_from_mono: "comes_from p as \<Longrightarrow> set as \<subseteq> set bs \<Longrightarrow> comes_from p bs"
  unfolding comes_from_def by blast

lemma stands_for_cong: "stands_for p s t \<Longrightarrow> \<forall>x \<in> footprint p. t' x = t x \<Longrightarrow> stands_for p s t'"
  by (auto simp: stands_for_def)

text \<open>Merging by cases, from the three groups of kinds.\<close>

lemma merge_cases_ok:
  assumes "merge p a = Inr r" and "clean p s" and "action_effect p s = Inr u" and "clean a u"
    and "zero_free p a s" and "later_points p a"
  shows "merge_ok p a r s u"
proof (cases p)
  case (PointAggregate k ps)
  then obtain as where "a = PointAggregate k as"
    using assms(1) by (auto simp: merge_def merge_point_aggregate_def split: if_splits StorageAction.splits)
  then show ?thesis using merge_aggregate_ok assms by (auto simp: PointAggregate later_points_def)
next
  case (Set k v)
  then show ?thesis by (intro merge_value_ok [OF _ assms(1-4), of k v]) simp
next
  case (SetOnce k v)
  then show ?thesis by (intro merge_value_ok [OF _ assms(1-4), of k v]) simp
next
  case (SetPermanent k v)
  then show ?thesis by (intro merge_value_ok [OF _ assms(1-4), of k v]) simp
next
  case (Delete k)
  then show ?thesis by (intro merge_value_ok [OF _ assms(1-4), of k]) simp
next
  case (Insert k v)
  then show ?thesis by (intro merge_value_ok [OF _ assms(1-4), of k v]) simp
next
  case (InsertPermanent k v)
  then show ?thesis by (intro merge_value_ok [OF _ assms(1-4), of k v]) simp
next
  case (Increment k v)
  then show ?thesis by (intro merge_counter_ok [OF _ assms(1-5), of k v]) simp
next
  case (Decrement k v)
  then show ?thesis by (intro merge_counter_ok [OF _ assms(1-5), of k v]) simp
next
  case (DecrementNoDelete k v)
  then show ?thesis by (intro merge_counter_ok [OF _ assms(1-5), of k v]) simp
qed

text \<open>One more action on a state that the merger stands for.\<close>

lemma fresh_stands_for:
  assumes "clean a t" and "action_effect a t = Inr t'" and "t (action_key a) = s (action_key a)"
  shows "stands_for a s t'"
proof -
  have "clean a s" using assms(1,3) clean_cong by metis
  moreover have "action_effect a s = Inr (override_on s t' (footprint a))"
    using action_effect_cong [OF assms(2)] assms(3) by simp
  ultimately show ?thesis by (simp add: stands_for_def)
qed

lemma zero_free_pushed:
  assumes "no_zero_counters (as @ [a]) s" and "comes_from p as"
  shows "zero_free p a s"
proof -
  have "a \<noteq> Increment k 0" if p: "p = Decrement k d" for k d
  proof -
    obtain d' where "Decrement k d' \<in> set as" using assms(2) p unfolding comes_from_def by blast
    then show ?thesis using assms(1) by (fastforce simp: no_zero_counters_def)
  qed
  then show ?thesis using assms(1) by (auto simp: zero_free_def no_zero_counters_def)
qed

lemma later_points_pushed:
  assumes "\<forall>b \<in> set as. later_points b a" and "comes_from p as"
  shows "later_points p a"
proof (cases p)
  case p: (PointAggregate k ps)
  show ?thesis
  proof (cases a)
    case a: (PointAggregate k' qs)
    have "q \<le> q'" if "k = k'" "q \<in> fst ` set ps" "q' \<in> fst ` set qs" for q q'
    proof -
      obtain rs where "PointAggregate k rs \<in> set as" "q \<in> fst ` set rs"
        using assms(2) p \<open>q \<in> fst ` set ps\<close> unfolding comes_from_def by blast
      then show ?thesis using assms(1) a that by (fastforce simp: later_points_def)
    qed
    then show ?thesis by (auto simp: p a later_points_def)
  qed (simp_all add: p later_points_def)
qed (simp_all add: later_points_def)

text \<open>The merged action keeps coming from the actions pushed so far.\<close>

lemma merge_comes_from:
  assumes "merge p a = Inr (Some c)" and "comes_from p as"
    and pa: "\<forall>k ps. p = PointAggregate k ps \<longrightarrow> distinct (map fst ps)"
    and aa: "\<forall>k ps. a = PointAggregate k ps \<longrightarrow> distinct (map fst ps)"
  shows "comes_from c (as @ [a])"
proof -
  have key: "action_key c = action_key a" by (rule merge_same_key [OF assms(1)])
  have dec: "(\<exists>d. p = Decrement k d) \<or> (\<exists>d. a = Decrement k d)" if "c = Decrement k e" for k e
    using assms(1) that
    by (cases p) (auto simp: merge_def merge_increment_def merge_decrement_def merge_decrement_no_delete_def
        merge_set_def merge_set_once_def merge_set_permanent_def merge_delete_def merge_insert_def
        merge_insert_permanent_def merge_point_aggregate_def work_bind_Inr_iff
        split: if_splits StorageAction.splits)
  have agg: "\<exists>ps as. p = PointAggregate k ps \<and> a = PointAggregate k as \<and>
      fst ` set cs = fst ` set ps \<union> fst ` set as" if c: "c = PointAggregate k cs" for k cs
  proof -
    obtain k' ps as where p: "p = PointAggregate k' ps" and a: "a = PointAggregate k' as"
      using assms(1) c
      by (cases p) (auto simp: merge_def merge_increment_def merge_decrement_def merge_decrement_no_delete_def
          merge_set_def merge_set_once_def merge_set_permanent_def merge_delete_def merge_insert_def
          merge_insert_permanent_def merge_point_aggregate_def
          split: if_splits StorageAction.splits)
    have "k' = k" "map fst cs = points_union ps as"
      using merge_points_change [OF assms(1) [unfolded p a]] pa aa p a c by auto
    then show ?thesis using p a points_union_facts(2) by (metis image_set)
  qed
  have "\<exists>d'. Decrement k d' \<in> set (as @ [a])" if "c = Decrement k e" for k e
    using dec [OF that] assms(2) unfolding comes_from_def by (metis in_set_conv_decomp append_assoc append_Cons)
  moreover have "\<exists>qs. PointAggregate k qs \<in> set (as @ [a]) \<and> q \<in> fst ` set qs"
    if c: "c = PointAggregate k cs" and q: "q \<in> fst ` set cs" for k cs q
  proof -
    obtain ps qs where p: "p = PointAggregate k ps" and a: "a = PointAggregate k qs"
      and "q \<in> fst ` set ps \<or> q \<in> fst ` set qs"
      using agg [OF c] q by blast
    then show ?thesis using assms(2) unfolding comes_from_def by auto
  qed
  ultimately show ?thesis using key unfolding comes_from_def by auto
qed

lemma clean_distinct_points: "clean (PointAggregate k ps) s \<Longrightarrow> distinct (map fst ps)"
  by (simp add: strict_sorted_iff)

text \<open>The action pushed on a key that has a merged action already.\<close>

lemma merged_stands_for:
  assumes p: "stands_for p s t" "comes_from p as" and r: "merge p a = Inr r"
    and a: "clean a t" "action_effect a t = Inr t'"
    and side: "zero_free p a s" "later_points p a"
  shows "case r of
           None \<Rightarrow> \<forall>x \<in> footprint p \<union> footprint a. t' x = s x
         | Some c \<Rightarrow> stands_for c s t' \<and> comes_from c (as @ [a]) \<and> footprint c = footprint p \<union> footprint a"
proof -
  obtain u where u: "clean p s" "action_effect p s = Inr u" "\<forall>x \<in> footprint p. t x = u x"
    using p(1) by (auto simp: stands_for_def)
  have key: "action_key p = action_key a" using r by (auto simp: merge_def split: if_splits)
  then have tk: "u (action_key a) = t (action_key a)" using u(3) action_key_in_footprint by metis
  have cu: "clean a u" using a(1) tk clean_cong by metis
  obtain u' where u': "action_effect a u = Inr u'"
    and ok: "case r of None \<Rightarrow> u' = s
      | Some c \<Rightarrow> clean c s \<and> action_effect c s = Inr u' \<and> footprint c = footprint p \<union> footprint a"
    using merge_cases_ok [OF r u(1,2) cu side] by (auto simp: merge_ok_def)
  have on_a: "t' x = u' x" if "x \<in> footprint a" for x
    using action_effect_cong [OF a(2), of u] tk u' that by auto
  have on_p: "t' x = u' x" if "x \<in> footprint p" "x \<notin> footprint a" for x
    using action_effect_other [OF a(2) that(2)] action_effect_other [OF u' that(2)] u(3) that(1) by simp
  have eq: "\<forall>x \<in> footprint p \<union> footprint a. t' x = u' x" using on_a on_p by blast
  show ?thesis
  proof (cases r)
    case (Some c)
    have "comes_from c (as @ [a])"
      using merge_comes_from [OF r [unfolded Some] p(2)] u(1) a(1) clean_distinct_points by blast
    then show ?thesis using ok eq by (simp add: Some stands_for_def)
  qed (use ok eq in simp)
qed

lemma merged_state_others:
  assumes "merged_state m as s t" and "action_effect a t = Inr t'" and "separate_keys (as @ [a])"
    and "p \<in> ran (map_of m)" and "action_key p \<noteq> action_key a"
  shows "stands_for p s t'" and "comes_from p (as @ [a])" and "disjnt (footprint a) (footprint p)"
proof -
  have p: "stands_for p s t" "comes_from p as" using assms(1,4) by (auto simp: merged_state_def)
  show d: "disjnt (footprint a) (footprint p)"
    using separate_keys_comes_from [OF assms(3) p(2), of a] assms(5) by auto
  show "comes_from p (as @ [a])" by (rule comes_from_mono [OF p(2)]) auto
  have "t' x = t x" if "x \<in> footprint p" for x
    using action_effect_other [OF assms(2)] d that by (auto simp: disjnt_iff)
  then show "stands_for p s t'" using stands_for_cong [OF p(1)] by blast
qed

lemma merger_key_ran:
  assumes "merger_wf m" and "p \<in> ran (map_of m)"
  shows "map_of m (action_key p) = Some p"
  using assms by (auto simp: merger_wf_map_of ran_def)

lemma merged_state_push:
  assumes m: "merged_state m as s t" and push: "push_action a m = Inr m'"
    and a: "clean a t" "action_effect a t = Inr t'"
    and side: "no_zero_counters (as @ [a]) s" "\<forall>b \<in> set as. later_points b a" "separate_keys (as @ [a])"
  shows "merged_state m' (as @ [a]) s t'"
proof -
  let ?k = "action_key a"
  have wf: "merger_wf m" and wf': "merger_wf m'"
    using m push push_action_wf by (auto simp: merged_state_def)
  note others = merged_state_others [OF m a(2) side(3)]
  note m' = push_action_map_of [OF push]
  show ?thesis
  proof (cases "map_of m ?k")
    case None
    then have m'_eq: "map_of m' = (map_of m)(?k \<mapsto> a)" by (simp add: m')
    have ne: "action_key p \<noteq> ?k" if "p \<in> ran (map_of m)" for p
      using merger_key_ran [OF wf that] None by auto
    have off: "t x = s x" if "\<forall>p \<in> ran (map_of m). x \<notin> footprint p" for x
      using m that by (simp add: merged_state_def)
    have "t ?k = s ?k"
      using others(3) ne action_key_in_footprint by (intro off) (auto simp: disjnt_iff)
    then have "stands_for a s t'" by (rule fresh_stands_for [OF a])
    moreover have "comes_from a (as @ [a])" by (auto simp: comes_from_def)
    moreover have "ran (map_of m') = insert a (ran (map_of m))" using None by (simp add: m'_eq)
    ultimately show ?thesis
      using wf' others(1,2) ne off action_effect_other [OF a(2)] by (auto simp: merged_state_def)
  next
    case (Some p)
    then obtain r where r: "merge p a = Inr r"
      using push by (auto simp: push_action_def work_bind_Inr_iff Let_def)
    have m'_eq: "map_of m' = (map_of m)(?k := r)" by (simp add: m' Some r)
    have p: "stands_for p s t" "comes_from p as"
      using m Some by (auto simp: merged_state_def ran_def)
    note new = merged_stands_for [OF p r a zero_free_pushed [OF side(1) p(2)]
        later_points_pushed [OF side(2) p(2)]]
    have rest: "q \<in> ran (map_of m) \<and> action_key q \<noteq> ?k" if "q \<in> ran (map_of m')" "Some q \<noteq> r" for q
      using merger_key_ran [OF wf' that(1)] that(2) by (auto simp: m'_eq ran_def split: if_splits)
    have ran_r: "c \<in> ran (map_of m')" if "r = Some c" for c
      using that by (intro ranI [where a = ?k]) (simp add: m'_eq)
    have off: "t' x = s x" if x: "\<forall>q \<in> ran (map_of m'). x \<notin> footprint q" for x
    proof (cases "x \<in> footprint p \<union> footprint a")
      case True
      then show ?thesis using new x ran_r by (cases r) auto
    next
      case False
      have "x \<notin> footprint q" if q: "q \<in> ran (map_of m)" for q
      proof (cases "action_key q = ?k")
        case True
        then show ?thesis using merger_key_ran [OF wf q] Some False by simp
      next
        case ne: False
        then have "map_of m' (action_key q) = Some q" using merger_key_ran [OF wf q] by (simp add: m'_eq)
        then show ?thesis using x ranI by metis
      qed
      then show ?thesis using m False action_effect_other [OF a(2)] by (auto simp: merged_state_def)
    qed
    have "stands_for q s t' \<and> comes_from q (as @ [a])" if "q \<in> ran (map_of m')" for q
      using rest [OF that] others(1,2) new by (cases "Some q = r") auto
    then show ?thesis using wf' off by (simp add: merged_state_def)
  qed
qed

lemma clean_run_append: "clean_run (as @ bs) s \<longleftrightarrow>
   clean_run as s \<and> (\<exists>t. actions_effect as s = Inr t \<and> clean_run bs t)"
  by (induction as arbitrary: s) (auto simp: work_bind_def split: sum.splits)

lemma mergeable_snoc:
  assumes "mergeable (as @ [a]) s"
  shows "mergeable as s" "no_zero_counters (as @ [a]) s" "\<forall>b \<in> set as. later_points b a"
    "separate_keys (as @ [a])" "clean_run (as @ [a]) s"
proof -
  have "no_zero_counters as s" if "no_zero_counters (as @ [a]) s"
    using that unfolding no_zero_counters_def by (auto split: StorageAction.splits)
  then show "mergeable as s"
    using assms by (auto simp: mergeable_def clean_run_append sorted_wrt_append separate_keys_def)
qed (use assms in \<open>auto simp: mergeable_def sorted_wrt_append\<close>)

lemma push_actions_merged_state:
  assumes "mergeable as s" and "push_actions as ActionMerger_new = Inr m"
  shows "\<exists>t. actions_effect as s = Inr t \<and> merged_state m as s t"
  using assms
proof (induction as arbitrary: m rule: rev_induct)
  case Nil
  then show ?case by (simp add: push_actions_def ActionMerger_new_def merged_state_def merger_wf_def)
next
  case (snoc a as)
  note side = mergeable_snoc [OF snoc.prems(1)]
  obtain m1 where m1: "push_actions as ActionMerger_new = Inr m1" and push: "push_action a m1 = Inr m"
    using snoc.prems(2) by (auto simp: push_actions_def work_fold_append work_bind_Inr_iff)
  obtain t where t: "actions_effect as s = Inr t" "merged_state m1 as s t"
    using snoc.IH [OF side(1) m1] by blast
  then obtain t' where a: "clean a t" "action_effect a t = Inr t'"
    using side(5) by (auto simp: clean_run_append split: sum.splits)
  have "merged_state m (as @ [a]) s t'" by (rule merged_state_push [OF t(2) push a side(2-4)])
  then show ?case using t(1) a(2) by (simp add: actions_effect_append)
qed

lemma merged_state_effect:
  assumes m: "merged_state m as s t" and sep: "separate_keys as"
  shows "disjoint_footprints (into_merged_actions m)" "actions_effect (into_merged_actions m) s = Inr t"
proof -
  let ?bs = "into_merged_actions m"
  have wf: "merger_wf m" using m by (simp add: merged_state_def)
  have bs: "set ?bs = ran (map_of m)"
    using wf by (simp add: into_merged_actions_def merger_wf_def ran_distinct)
  have keys: "distinct (map action_key ?bs)"
  proof -
    have "map action_key ?bs = map fst m"
      using wf by (auto simp: into_merged_actions_def merger_wf_def)
    then show ?thesis using wf by (simp add: merger_wf_def)
  qed
  have cf: "stands_for b s t" "comes_from b as" if "b \<in> set ?bs" for b
    using m that bs by (auto simp: merged_state_def)
  have "disjnt (footprint b) (footprint c)" if "b \<in> set ?bs" "c \<in> set ?bs" "b \<noteq> c" for b c
  proof -
    have "action_key b \<noteq> action_key c" using keys that by (auto simp: distinct_map inj_on_def)
    then have "x \<notin> footprint c" if "x \<in> footprint b" for x
      using comes_from_footprint [OF cf(2) that] comes_from_footprint [OF cf(2), of c x]
        \<open>b \<in> set ?bs\<close> \<open>c \<in> set ?bs\<close> sep unfolding separate_keys_def disjnt_iff by metis
    then show ?thesis by (auto simp: disjnt_iff)
  qed
  then show disj: "disjoint_footprints ?bs"
    using keys by (auto simp: disjoint_footprints_def distinct_map pairwise_def)
  obtain t' where t': "actions_effect ?bs s = Inr t'"
    using actions_effect_defined [OF disj, of s] cf(1) unfolding stands_for_def by blast
  have "t' x = t x" for x
  proof (cases "x \<in> footprints ?bs")
    case True
    then obtain b where b: "b \<in> set ?bs" "x \<in> footprint b" by (auto simp: footprints_def)
    then show ?thesis
      using actions_effect_pointwise [OF disj t' b(1)] cf(1) [OF b(1)] by (auto simp: stands_for_def)
  next
    case False
    then show ?thesis
      using actions_effect_other [OF t' False] m bs by (auto simp: merged_state_def footprints_def)
  qed
  then show "actions_effect ?bs s = Inr t" using t' by (simp add: fun_eq_iff)
qed

lemma merger_sound_any_order:
  assumes "mergeable as s" and "push_actions as ActionMerger_new = Inr m"
    and "mset bs = mset (into_merged_actions m)"
  shows "disjoint_footprints bs \<and> (\<exists>t. actions_effect as s = Inr t \<and> actions_effect bs s = Inr t)"
proof -
  obtain t where t: "actions_effect as s = Inr t" "merged_state m as s t"
    using push_actions_merged_state [OF assms(1,2)] by blast
  have "separate_keys as" using assms(1) by (simp add: mergeable_def)
  note eff = merged_state_effect [OF t(2) this]
  show ?thesis
    using t(1) eff actions_effect_perm [OF assms(3) [symmetric] eff] disjoint_footprints_perm [OF assms(3)]
    by simp
qed

section \<open>Diffing two actions\<close>














section \<open>Properties\<close>

definition sample_actions :: StorageActions where
  "sample_actions =
     [Increment [1] 5, SetOnce [2] [7], PointAggregate [3] [(100, IoD_Increment 9)],
      Decrement [1] 2, Delete [2], PointAggregate [3] [(101, IoD_Decrement 4)]]"

definition sample_merged_actions :: StorageActions where
  "sample_merged_actions =
     [Increment [1] 3, PointAggregate [3] [(100, IoD_Increment 9), (101, IoD_Decrement 4)]]"

lemma sample_push_actions:
  "push_actions sample_actions ActionMerger_new =
     Inr [([1], Increment [1] 3),
          ([3], PointAggregate [3] [(100, IoD_Increment 9), (101, IoD_Decrement 4)])]"
  by code_simp

lemma sample_clean: "clean_run sample_actions Map.empty"
  by (simp add: sample_actions_def amount_or_zero_def action_effect_def in_u128_def point_value_def
      unwrap_def checked_add_def checked_sub_def write_totals_def point_key_def)

lemma sample_mergeable: "mergeable sample_actions Map.empty"
proof -
  have "no_zero_counters sample_actions Map.empty" "sorted_wrt later_points sample_actions"
    by (simp_all add: sample_actions_def no_zero_counters_def later_points_def)
  moreover have "separate_keys sample_actions"
    by (simp add: sample_actions_def separate_keys_def disjnt_def point_key_def)
  ultimately show ?thesis using sample_clean by (simp add: mergeable_def)
qed

text \<open>
  C17: Merging is sound. When the actions of a batch are applied cleanly, the action merger returns
  actions whose execution by the transaction code, in whatever order they leave the hash map, gives
  the database that applying the original actions one after the other gives. Counters may grow,
  shrink and cancel out, set-once keys may be deleted again, and point aggregates may be extended.
\<close>

theorem merged_batch_sound:
  assumes "mergeable as s" and "push_actions as ActionMerger_new = Inr m"
    and "mset bs = mset (into_merged_actions m)"
    and "\<forall>b \<in> set bs. requires_previous_value b \<longrightarrow> kv (action_key b) = s (action_key b)"
  shows "\<exists>ms. execute_batch bs kv = Inr ms \<and> actions_effect as s = Inr (apply_mutations ms s)"
proof -
  obtain t where t: "actions_effect as s = Inr t" "actions_effect bs s = Inr t" "disjoint_footprints bs"
    using merger_sound_any_order [OF assms(1-3)] by blast
  show ?thesis
    using execute_batch_refines [OF t(3) assms(4)] t(1,2) by (auto split: sum.splits)
qed

theorem merged_batch_sound_witness:
  "\<exists>ms. execute_batch sample_merged_actions Map.empty = Inr ms \<and>
     actions_effect sample_actions Map.empty = Inr (apply_mutations ms Map.empty)"
  by (rule merged_batch_sound [OF sample_mergeable sample_push_actions])
    (simp_all add: into_merged_actions_def sample_merged_actions_def)



definition aggregate_A :: StorageAction where
  "aggregate_A = PointAggregate [7] [(1, IoD_Increment 10), (2, IoD_Decrement 2)]"

definition aggregate_B :: StorageAction where
  "aggregate_B = PointAggregate [7] [(1, IoD_Increment 1), (3, IoD_Increment 6)]"

definition aggregate_diff :: StorageAction where
  "aggregate_diff = PointAggregate [7] [(1, IoD_Decrement 9), (2, IoD_Increment 2), (3, IoD_Increment 6)]"

definition amount_at :: "Key \<Rightarrow> store work \<Rightarrow> u128 work" where
  "amount_at k r = work_bind r (\<lambda>s. case s k of Some y \<Rightarrow> decode_amount y | None \<Rightarrow> Inl RustPanic)"

text \<open>
  C21: The contract fails on the example in the comment of \<open>diff\<close> for point aggregates and on two
  different inserts. After \<open>A\<close> the key holds 8; the diff first takes 9 away, which stops at 0, so the
  key ends at 8, while \<open>B\<close> applied directly gives 7. The diff of two inserts on a new key is an insert,
  which leaves the earlier value in place.
\<close>

theorem diff_documented_example_fails:
  "diff aggregate_A aggregate_B = Inr (Some aggregate_diff) \<and>
   amount_at [7] (actions_effect [aggregate_A, aggregate_diff] Map.empty) = Inr 8 \<and>
   amount_at [7] (action_effect aggregate_B Map.empty) = Inr 7 \<and>
   diff (Insert k [1]) (Insert k [2]) = Inr (Some (Insert k [2])) \<and>
   actions_effect [Insert k [1], Insert k [2]] Map.empty = Inr [k \<mapsto> [1]] \<and>
   action_effect (Insert k [2]) Map.empty = Inr [k \<mapsto> [2]]"
proof (intro conjI)
  show "diff aggregate_A aggregate_B = Inr (Some aggregate_diff)" by code_simp
  have "action_effect aggregate_A Map.empty =
      Inr [point_key [7] 1 \<mapsto> uint_encode (10 :: u128), point_key [7] 2 \<mapsto> uint_encode (8 :: u128),
           [7] \<mapsto> uint_encode (8 :: u128)]"
    by (simp add: aggregate_A_def action_effect_def point_value_def unwrap_def checked_add_def
        checked_sub_def write_totals_def)
  then show "amount_at [7] (actions_effect [aggregate_A, aggregate_diff] Map.empty) = Inr 8"
    by (simp add: aggregate_diff_def amount_at_def action_effect_def point_value_def unwrap_def
        checked_add_def checked_sub_def)
  show "amount_at [7] (action_effect aggregate_B Map.empty) = Inr 7"
    by (simp add: aggregate_B_def amount_at_def action_effect_def point_value_def unwrap_def checked_add_def)
qed (simp_all add: diff_def diff_insert_def action_effect_def)

end
