(* ===== verification/Rollback_Buffer.thy ===== *)
theory Rollback_Buffer
  imports Action_Semantics
begin

text \<open>
  The in-memory rollback buffer (\<open>services/polyphony-xbt/src/rollback/buffer.rs\<close>): recent points with
  the inverse actions that undo them, the most recent first, bounded by a capacity. The locale
  \<open>undo_log\<close> is the contract that the storage worker relies on; the buffer meets it, and what the worker
  needs of it is proved from the contract: as long as no more points are rolled back than the capacity
  allows, the buffer answers as an unbounded log does.
\<close>

section \<open>The buffer\<close>

definition MAX_BUFFER_LEN :: nat where
  "MAX_BUFFER_LEN = 16"

record PointWithResult =
  pwr_point :: Point
  pwr_result :: StorageActions

record RollbackBuffer =
  rb_blocks :: "PointWithResult list"
  rb_size :: nat
  rb_safe_mode :: bool

definition RollbackBuffer_new :: "nat \<Rightarrow> bool \<Rightarrow> RollbackBuffer" where
  "RollbackBuffer_new sz safe_mode = \<lparr>rb_blocks = [], rb_size = sz, rb_safe_mode = safe_mode\<rparr>"

definition rb_capacity :: "RollbackBuffer \<Rightarrow> nat" where
  "rb_capacity buf = rb_size buf"

primrec point_index :: "Point \<Rightarrow> PointWithResult list \<Rightarrow> nat option" where
  "point_index point [] = None"
| "point_index point (b # blocks) =
     (if pwr_point b = point then Some 0 else map_option Suc (point_index point blocks))"

definition rb_position :: "RollbackBuffer \<Rightarrow> Point \<Rightarrow> nat option" where
  "rb_position buf point = point_index point (rb_blocks buf)"

definition rb_len :: "RollbackBuffer \<Rightarrow> nat" where
  "rb_len buf = length (rb_blocks buf)"

definition rb_is_empty :: "RollbackBuffer \<Rightarrow> bool" where
  "rb_is_empty buf \<longleftrightarrow> rb_blocks buf = []"

definition rb_latest :: "RollbackBuffer \<Rightarrow> PointWithResult option" where
  "rb_latest buf = (case rb_blocks buf of [] \<Rightarrow> None | b # _ \<Rightarrow> Some b)"

definition rb_oldest :: "RollbackBuffer \<Rightarrow> PointWithResult option" where
  "rb_oldest buf = (if rb_blocks buf = [] then None else Some (last (rb_blocks buf)))"

definition rb_add_block ::
  "Point \<Rightarrow> StorageActions \<Rightarrow> RollbackBuffer \<Rightarrow> PointWithResult option \<times> RollbackBuffer" where
  "rb_add_block point result buf =
     (let blocks = \<lparr>pwr_point = point, pwr_result = result\<rparr> # rb_blocks buf in
      if length blocks > rb_size buf then (Some (last blocks), buf\<lparr>rb_blocks := butlast blocks\<rparr>)
      else (None, buf\<lparr>rb_blocks := blocks\<rparr>))"

definition rb_rollback_to_point ::
  "Point \<Rightarrow> RollbackBuffer \<Rightarrow> (Point + PointWithResult list) \<times> RollbackBuffer" where
  "rb_rollback_to_point point buf =
     (case rb_position buf point of
        Some p \<Rightarrow> (Inr (take p (rb_blocks buf)), buf\<lparr>rb_blocks := drop p (rb_blocks buf)\<rparr>)
      | None \<Rightarrow> (Inl point, buf))"

definition rb_points_since :: "Point \<Rightarrow> RollbackBuffer \<Rightarrow> Point + PointWithResult list" where
  "rb_points_since point buf =
     (case rb_position buf point of
        Some p \<Rightarrow> Inr (take p (rb_blocks buf))
      | None \<Rightarrow> Inl point)"

definition rb_insert_actions_for_point ::
  "Point \<Rightarrow> StorageActions \<Rightarrow> RollbackBuffer \<Rightarrow> RollbackBuffer work" where
  "rb_insert_actions_for_point point new_actions buf =
     (case rb_position buf point of
        Some p \<Rightarrow>
          (let entry = rb_blocks buf ! p in
           if rb_safe_mode buf \<and>
              (\<exists>action \<in> set new_actions. \<exists>x \<in> set (pwr_result entry). action_key x = action_key action)
           then Inl RustPanic
           else Inr (buf\<lparr>rb_blocks := (rb_blocks buf)
                  [p := entry\<lparr>pwr_result := pwr_result entry @ new_actions\<rparr>]\<rparr>))
      | None \<Rightarrow> Inl RustPanic)"

definition remove_nth :: "nat \<Rightarrow> 'a list \<Rightarrow> 'a list" where
  "remove_nth p xs = take p xs @ drop (Suc p) xs"

definition rb_remove_actions_for_point ::
  "Point \<Rightarrow> StorageActions \<Rightarrow> RollbackBuffer \<Rightarrow> RollbackBuffer work" where
  "rb_remove_actions_for_point point remove_actions buf =
     (case rb_position buf point of
        Some p \<Rightarrow>
          (let entry = rb_blocks buf ! p in
           if rb_safe_mode buf \<and> (\<exists>action \<in> set remove_actions. action \<notin> set (pwr_result entry))
           then Inl RustPanic
           else
             (let result = filter (\<lambda>x. x \<notin> set remove_actions) (pwr_result entry) in
              if result = [] then Inr (buf\<lparr>rb_blocks := remove_nth p (rb_blocks buf)\<rparr>)
              else Inr (buf\<lparr>rb_blocks := (rb_blocks buf)[p := entry\<lparr>pwr_result := result\<rparr>]\<rparr>)))
      | None \<Rightarrow> Inr buf)"

section \<open>The contract\<close>

text \<open>Points at distinct positions, and no more of them than the capacity.\<close>

definition rb_wf :: "RollbackBuffer \<Rightarrow> bool" where
  "rb_wf buf \<longleftrightarrow> distinct (map pwr_point (rb_blocks buf)) \<and> length (rb_blocks buf) \<le> rb_size buf"

text \<open>What a log of undo entries answers, on its entries newest first.\<close>

definition entries_since :: "Point \<Rightarrow> PointWithResult list \<Rightarrow> PointWithResult list" where
  "entries_since point es = takeWhile (\<lambda>e. pwr_point e \<noteq> point) es"

definition entries_from :: "Point \<Rightarrow> PointWithResult list \<Rightarrow> PointWithResult list" where
  "entries_from point es = dropWhile (\<lambda>e. pwr_point e \<noteq> point) es"

lemma disjoint_insert_subset: "B \<subseteq> insert a C \<Longrightarrow> a \<notin> A \<Longrightarrow> A \<inter> C = {} \<Longrightarrow> A \<inter> B = {}"
  by blast

lemma take_append_take: "take n (xs @ take n ys) = take n (xs @ ys)"
  by (simp add: min_def)

lemma entries_split:
  "p \<notin> pwr_point ` set xs \<Longrightarrow> pwr_point e = p \<Longrightarrow>
   entries_since p (xs @ e # ys) = xs \<and> entries_from p (xs @ e # ys) = e # ys"
  by (induction xs) (auto simp: entries_since_def entries_from_def)

locale undo_log =
  fixes entries :: "'b \<Rightarrow> PointWithResult list"
    and capacity :: "'b \<Rightarrow> nat"
    and push :: "Point \<Rightarrow> StorageActions \<Rightarrow> 'b \<Rightarrow> 'b"
    and since :: "Point \<Rightarrow> 'b \<Rightarrow> Point + PointWithResult list"
    and unwind :: "Point \<Rightarrow> 'b \<Rightarrow> 'b"
    and ok :: "'b \<Rightarrow> bool"
  assumes entries_bounded: "ok b \<Longrightarrow> length (entries b) \<le> capacity b"
    and push_entries: "ok b \<Longrightarrow>
      entries (push p r b) = take (capacity b) (\<lparr>pwr_point = p, pwr_result = r\<rparr> # entries b)"
    and push_capacity: "capacity (push p r b) = capacity b"
    and push_ok: "ok b \<Longrightarrow> p \<notin> pwr_point ` set (entries b) \<Longrightarrow> ok (push p r b)"
    and since_entries: "since p b =
      (if p \<in> pwr_point ` set (entries b) then Inr (entries_since p (entries b)) else Inl p)"
    and unwind_entries: "p \<in> pwr_point ` set (entries b) \<Longrightarrow>
      entries (unwind p b) = entries_from p (entries b)"
    and unwind_ok: "ok b \<Longrightarrow> ok (unwind p b)"
begin

text \<open>Pushing a sequence of entries, oldest first.\<close>

definition push_all :: "PointWithResult list \<Rightarrow> 'b \<Rightarrow> 'b" where
  "push_all es b = fold (\<lambda>e. push (pwr_point e) (pwr_result e)) es b"

lemma push_all_simps [simp]:
  "push_all [] b = b"
  "push_all (e # es) b = push_all es (push (pwr_point e) (pwr_result e) b)"
  by (simp_all add: push_all_def)

lemma push_all_capacity [simp]: "capacity (push_all es b) = capacity b"
  by (induction es arbitrary: b) (simp_all add: push_capacity)

lemma push_entry: "ok b \<Longrightarrow> entries (push (pwr_point e) (pwr_result e) b) = take (capacity b) (e # entries b)"
  by (cases e) (simp add: push_entries)

lemma push_all_ok_entries:
  assumes "ok b" and "distinct (map pwr_point es)"
    and "pwr_point ` set es \<inter> pwr_point ` set (entries b) = {}"
  shows "ok (push_all es b) \<and> entries (push_all es b) = take (capacity b) (rev es @ entries b)"
  using assms
proof (induction es arbitrary: b)
  case Nil
  then show ?case using entries_bounded by simp
next
  case (Cons e es)
  let ?b = "push (pwr_point e) (pwr_result e) b"
  have ok: "ok ?b" using Cons.prems(1,3) by (intro push_ok) auto
  have sub: "set (entries ?b) \<subseteq> insert e (set (entries b))"
    using push_entry [OF Cons.prems(1), of e] set_take_subset [of "capacity b" "e # entries b"] by simp
  have "pwr_point ` set es \<inter> pwr_point ` set (entries ?b) = {}"
  proof (rule disjoint_insert_subset)
    show "pwr_point ` set (entries ?b) \<subseteq> insert (pwr_point e) (pwr_point ` set (entries b))"
      using image_mono [OF sub, of pwr_point] by simp
  qed (use Cons.prems(2,3) in auto)
  then have IH: "ok (push_all es ?b)" "entries (push_all es ?b) = take (capacity b) (rev es @ entries ?b)"
    using Cons.IH [OF ok] Cons.prems(2) by (simp_all add: push_capacity)
  have "entries (push_all es ?b) = take (capacity b) (rev es @ e # entries b)"
    unfolding IH(2) push_entry [OF Cons.prems(1)] by (rule take_append_take)
  then show ?case using IH(1) by simp
qed

text \<open>
  Rolling back to the point at the top of a log after \<open>n\<close> more points returns exactly these, the newest
  first, and leaves the log as it was, as long as the capacity exceeds \<open>n\<close>. What is lost are the oldest
  entries, which the pushes have evicted.
\<close>

lemma since_after_push_all:
  assumes "ok b" and "entries b = e # rest" and "distinct (map pwr_point es)"
    and "pwr_point ` set es \<inter> pwr_point ` set (entries b) = {}" and "length es < capacity b"
  shows "since (pwr_point e) (push_all es b) = Inr (rev es)"
    and "entries (unwind (pwr_point e) (push_all es b)) = take (capacity b - length es) (entries b)"
proof -
  have ents: "entries (push_all es b) = rev es @ take (capacity b - length es) (e # rest)"
    using push_all_ok_entries [OF assms(1,3,4)] assms(2,5) by simp
  have cap: "capacity b - length es = Suc (capacity b - length es - 1)" using assms(5) by simp
  have ents': "entries (push_all es b) = rev es @ e # take (capacity b - length es - 1) rest"
    unfolding ents by (subst cap) simp
  have "pwr_point e \<notin> pwr_point ` set (rev es)" using assms(2,4) by auto
  note split = entries_split [OF this refl, of "take (capacity b - length es - 1) rest"]
  show "since (pwr_point e) (push_all es b) = Inr (rev es)"
    using split by (simp add: since_entries ents')
  have "entries (unwind (pwr_point e) (push_all es b)) = e # take (capacity b - length es - 1) rest"
    using split unwind_entries [of "pwr_point e" "push_all es b"] by (simp add: ents')
  also have "\<dots> = take (capacity b - length es) (entries b)"
    unfolding assms(2) by (subst cap) simp
  finally show "entries (unwind (pwr_point e) (push_all es b)) = take (capacity b - length es) (entries b)" .
qed

end

section \<open>The buffer meets the contract\<close>

lemma point_index_Some:
  "point_index p bs = Some i \<Longrightarrow>
   i < length bs \<and> take i bs = entries_since p bs \<and> drop i bs = entries_from p bs \<and> pwr_point (bs ! i) = p"
proof (induction bs arbitrary: i)
  case Nil
  then show ?case by simp
next
  case (Cons b bs)
  then show ?case
    by (auto simp: entries_since_def entries_from_def split: if_splits)
qed

lemma point_index_None: "point_index p bs = None \<longleftrightarrow> p \<notin> pwr_point ` set bs"
  by (induction bs) auto

lemma entries_from_suffix: "entries_since p es @ entries_from p es = es"
  by (simp add: entries_since_def entries_from_def)

lemma rb_rollback_blocks:
  "p \<in> pwr_point ` set (rb_blocks b) \<Longrightarrow>
   rb_blocks (snd (rb_rollback_to_point p b)) = entries_from p (rb_blocks b)"
  using point_index_None [of p "rb_blocks b"] point_index_Some [of p "rb_blocks b"]
  by (auto simp: rb_rollback_to_point_def rb_position_def split: option.splits)

lemma rb_add_block_blocks:
  "rb_wf b \<Longrightarrow> rb_blocks (snd (rb_add_block p r b)) =
     take (rb_size b) (\<lparr>pwr_point = p, pwr_result = r\<rparr> # rb_blocks b)"
  by (auto simp: rb_add_block_def Let_def rb_wf_def butlast_conv_take le_Suc_eq take_Cons
      split: nat.splits)

lemma rb_add_block_size [simp]: "rb_size (snd (rb_add_block p r b)) = rb_size b"
  by (simp add: rb_add_block_def Let_def)

lemma rb_add_block_wf:
  assumes "rb_wf b" and "p \<notin> pwr_point ` set (rb_blocks b)"
  shows "rb_wf (snd (rb_add_block p r b))"
proof -
  have "distinct (take (rb_size b) (map pwr_point (\<lparr>pwr_point = p, pwr_result = r\<rparr> # rb_blocks b)))"
    using assms by (intro distinct_take) (auto simp: rb_wf_def)
  then show ?thesis
    unfolding rb_wf_def rb_add_block_blocks [OF assms(1)] take_map by simp
qed

lemma rb_unwind_wf:
  assumes "rb_wf b"
  shows "rb_wf (snd (rb_rollback_to_point p b))"
  using assms
  by (auto simp: rb_wf_def rb_rollback_to_point_def drop_map [symmetric] split: option.splits)

interpretation rb_log: undo_log rb_blocks rb_size "\<lambda>p r b. snd (rb_add_block p r b)" rb_points_since
  "\<lambda>p b. snd (rb_rollback_to_point p b)" rb_wf
proof
  fix b :: RollbackBuffer and p r
  show "length (rb_blocks b) \<le> rb_size b" if "rb_wf b" using that by (simp add: rb_wf_def)
  show "rb_blocks (snd (rb_add_block p r b)) = take (rb_size b) (\<lparr>pwr_point = p, pwr_result = r\<rparr> # rb_blocks b)"
    if "rb_wf b" using that by (rule rb_add_block_blocks)
  show "rb_size (snd (rb_add_block p r b)) = rb_size b" by simp
  show "rb_wf (snd (rb_add_block p r b))" if "rb_wf b" "p \<notin> pwr_point ` set (rb_blocks b)"
    using that by (rule rb_add_block_wf)
  show "rb_points_since p b =
      (if p \<in> pwr_point ` set (rb_blocks b) then Inr (entries_since p (rb_blocks b)) else Inl p)"
    using point_index_None [of p "rb_blocks b"] point_index_Some [of p "rb_blocks b"]
    by (auto simp: rb_points_since_def rb_position_def split: option.splits)
  show "rb_blocks (snd (rb_rollback_to_point p b)) = entries_from p (rb_blocks b)"
    if "p \<in> pwr_point ` set (rb_blocks b)" using that by (rule rb_rollback_blocks)
  show "rb_wf (snd (rb_rollback_to_point p b))" if "rb_wf b" using that by (rule rb_unwind_wf)
qed

end
