(* ===== verification/Reducer_Outputs.thy ===== *)
theory Reducer_Outputs
  imports Schema_Chain Schema_Tokens TiKV_Ops
begin

text \<open>
  From the outputs of the reducers to storage actions
  (\<open>services/polyphony-xbt/src/storage/tikv.rs\<close>, \<open>reducer_output_to_storage_ops\<close>): one constructor
  per output struct, its fields in the order the storage code takes them apart, and one definition per
  branch. A ticker that does not fit a short byte string panics.
\<close>

section \<open>Outputs\<close>

datatype 'a UtxoAction = Consumed | Produced 'a

record EtchingInfo =
  ei_name :: "u128 option"
  ei_spacers :: "u32 option"
  ei_symbol :: "u32 option"
  ei_divisibility :: "u8 option"
  ei_premine :: "u128 option"
  ei_max_mint_txs :: "u128 option"
  ei_amount_per_mint :: "u128 option"
  ei_start_height :: "u64 option"
  ei_end_height :: "u64 option"
  ei_start_offset :: "u64 option"
  ei_end_offset :: "u64 option"
  ei_turbo :: bool

datatype (plugins only: code) ReducerOutput =
    Out_BalancesByBrc20 bytes bytes "u128 IncrOrDecr"
  | Out_BalancesByRuneId RuneId ScriptHash "u128 IncrOrDecr"
  | Out_BlockByTxHash TxHash Height
  | Out_BlockInfo Height "BlockHash option" u64 u64 "u32 option" AggregatedSatoshis AggregatedSatoshis TxIndex bool bool bool bytes
  | Out_Brc20BalancesByScriptHash bytes bytes "u128 IncrOrDecr" "u128 IncrOrDecr"
  | Out_Brc20TermsByTicker bytes Brc20Quantity Brc20Quantity u8 bool InscriptionId
  | Out_ContentByInscriptionId InscriptionId Height u64 bytes bytes
  | Out_EtchingByRuneId RuneId bytes EtchingInfo bool bool
  | Out_HeightByTimestamp Timestamp Height
  | Out_HeightByBlockHash BlockHash Height
  | Out_HistoricalSatBalanceByScriptHash bytes u64 "u128 IncrOrDecr"
  | Out_InscriptionActivityByScriptHash ScriptHash Height TxIndex TxHash "(InscriptionId \<times> (u32 \<times> u64) \<times> (u32 \<times> u64)) list" "(InscriptionId \<times> (u32 \<times> u64) \<times> (u32 \<times> u64 \<times> bytes) option) list" "(InscriptionId \<times> (u32 \<times> u64 \<times> bytes) option \<times> (u32 \<times> u64)) list"
  | Out_InscriptionActivityByTx Height TxIndex TxHash "(InscriptionId \<times> ((ScriptHash \<times> TxoIndex \<times> SatoshiOffset) option \<times> (ScriptHash \<times> TxoIndex \<times> SatoshiOffset))) list"
  | Out_InscriptionActivityByTxV2 Height TxIndex TxHash "(InscriptionId \<times> ((ScriptHash \<times> TxoIndex \<times> SatoshiOffset) option \<times> (ScriptHash \<times> TxoIndex \<times> SatoshiOffset) option)) list"
  | Out_InscriptionUtxosByScriptHash ScriptHash Height TxHash TxoIndex "(SatoshiQuantity \<times> (SatoshiOffset \<times> InscriptionId) list) UtxoAction"
  | Out_MintsByRuneId RuneId
  | Out_RuneUtxosByScriptHash ScriptHash Height TxHash TxoIndex "(SatoshiQuantity \<times> (RuneId \<times> RuneQuantity) list) UtxoAction"
  | Out_RuneTxsByScriptHash ScriptHash Height TxIndex TxHash "(RuneId \<times> RuneQuantity option) option" "RuneId option" "(RuneId \<times> RuneQuantity) list" "(RuneId \<times> RuneQuantity) list" "(RuneId \<times> RuneQuantity) list"
  | Out_RuneIdByRuneName RuneId u128 bool
  | Out_SatBalanceByScriptHash ScriptHash "u128 IncrOrDecr"
  | Out_SatTxsByScriptHash ScriptHash Height TxIndex TxHash SatoshiQuantity SatTxsByScriptHash_SatActivityType
  | Out_SatsPerVbByBlock u64 u64 u64 u64
  | Out_ScriptByScriptHash ScriptHash bytes
  | Out_ScriptHashByAddressPayloadHash bytes ScriptHash
  | Out_SpendingTxByTxo TxHash TxoIndex TxHash
  | Out_TotalInscriptionsByScriptHash ScriptHash "u128 IncrOrDecr"
  | Out_TotalOutputsByScriptHash ScriptHash u64
  | Out_TotalSatInInputsByScriptHash ScriptHash u64
  | Out_TotalSatInOutputsByScriptHash ScriptHash u64
  | Out_TotalTxsByScriptHash ScriptHash
  | Out_TotalUtxosByScriptHash ScriptHash bool
  | Out_TransferInscriptionsByScriptHash bytes bytes InscriptionId "(u128 \<times> u64 \<times> (bytes \<times> u32) \<times> u64 \<times> u64) UtxoAction"
  | Out_TxFirstSeenTimestamp TxHash u64
  | Out_TxInfo TxHash Height "BlockHash option" "u32 option" AggregatedSatoshis SatoshiQuantity u64 bool bool bool "(bytes \<times> u32 \<times> bytes \<times> u64 \<times> (SatoshiOffset \<times> InscriptionId) list \<times> (RuneId \<times> RuneQuantity) list) list" "(bytes \<times> u64 \<times> (SatoshiOffset \<times> InscriptionId) list \<times> (RuneId \<times> RuneQuantity) list) list"
  | Out_TxsByBlock Height "TxHash list"
  | Out_TxsByInscription bytes Height "((bytes \<times> InscriptionIndex) \<times> (TxIndex \<times> u32) list) list"
  | Out_TxsByRuneId RuneId Height TxIndex TxHash bool bool "(ScriptHash \<times> RuneQuantity) list" "(ScriptHash \<times> RuneQuantity) list" "(ScriptHash \<times> RuneQuantity) list"
  | Out_TxsByScriptHash ScriptHash Height TxIndex TxHash bool bool
  | Out_UtxosByRuneId RuneId Height TxHash TxoIndex "(ScriptHash \<times> RuneQuantity \<times> SatoshiQuantity) UtxoAction"
  | Out_UtxosByScriptHash ScriptHash Height TxHash TxoIndex "(SatoshiQuantity) UtxoAction"
  | Out_Cursor Point bool u64 "((u64 \<times> bytes) \<times> u64) option"

section \<open>Storage actions of each output\<close>

definition data_key :: "Namespace \<Rightarrow> Reducer \<Rightarrow> ('k \<Rightarrow> bytes) \<Rightarrow> 'k \<Rightarrow> Key" where
  "data_key ns kind encode key = Prefix_data ns kind encode key"

definition short_ticker :: "bytes \<Rightarrow> ShortByteString work" where
  "short_ticker bs = (case ShortByteString_try_from bs of Inr s \<Rightarrow> Inr s | Inl _ \<Rightarrow> Inl RustPanic)"

fun self_transferred ::
  "InscriptionId \<times> (u32 \<times> u64) \<times> (u32 \<times> u64) \<Rightarrow> InscriptionActivityByScriptHash_SelfTransferredInscription" where
  "self_transferred (inscription_id, (input_index, input_sat_offset), (output_index, output_sat_offset)) =
     \<lparr>iabshsti_inscription_id = inscription_id, iabshsti_input_index = input_index,
      iabshsti_input_sat_offset = input_sat_offset, iabshsti_output_index = output_index,
      iabshsti_output_sat_offset = output_sat_offset\<rparr>"

fun sent_inscription ::
  "InscriptionId \<times> (u32 \<times> u64) \<times> (u32 \<times> u64 \<times> bytes) option \<Rightarrow> InscriptionActivityByScriptHash_SentInscription" where
  "sent_inscription (inscription_id, (input_index, input_sat_offset), output_info) =
     \<lparr>iabshsi_inscription_id = inscription_id, iabshsi_input_index = input_index,
      iabshsi_input_sat_offset = input_sat_offset,
      iabshsi_output_index = map_option (\<lambda>(output_index, _, _). output_index) output_info,
      iabshsi_output_sat_offset = map_option (\<lambda>(_, output_sat_offset, _). output_sat_offset) output_info,
      iabshsi_output_script_hash = map_option (\<lambda>(_, _, output_script_hash). output_script_hash) output_info\<rparr>"

fun received_inscription ::
  "InscriptionId \<times> (u32 \<times> u64 \<times> bytes) option \<times> (u32 \<times> u64) \<Rightarrow> InscriptionActivityByScriptHash_ReceivedInscription" where
  "received_inscription (inscription_id, input_data, (output_index, output_sat_offset)) =
     \<lparr>iabshri_inscription_id = inscription_id,
      iabshri_input_index = map_option (\<lambda>(input_index, _, _). input_index) input_data,
      iabshri_input_sat_offset = map_option (\<lambda>(_, input_sat_offset, _). input_sat_offset) input_data,
      iabshri_input_script_hash = map_option (\<lambda>(_, _, input_script_hash). input_script_hash) input_data,
      iabshri_output_index = output_index, iabshri_output_sat_offset = output_sat_offset\<rparr>"

fun tx_in ::
  "bytes \<times> u32 \<times> bytes \<times> u64 \<times> (SatoshiOffset \<times> InscriptionId) list \<times> (RuneId \<times> RuneQuantity) list \<Rightarrow> TxInfo_TxIn" where
  "tx_in (utxo_hash, utxo_vout, script_hash, satoshis, inscriptions, runes) =
     \<lparr>titi_utxo_hash = utxo_hash, titi_utxo_vout = utxo_vout, titi_script_hash = script_hash,
      titi_satoshis = satoshis, titi_inscriptions = inscriptions, titi_runes = runes\<rparr>"

fun tx_out ::
  "bytes \<times> u64 \<times> (SatoshiOffset \<times> InscriptionId) list \<times> (RuneId \<times> RuneQuantity) list \<Rightarrow> TxInfo_TxOut" where
  "tx_out (script_hash, satoshis, inscriptions, runes) =
     \<lparr>tito_script_hash = script_hash, tito_satoshis = satoshis, tito_inscriptions = inscriptions,
      tito_runes = runes\<rparr>"

definition ops_BalancesByBrc20 ::
  "Namespace \<Rightarrow> bytes \<Rightarrow> bytes \<Rightarrow> u128 IncrOrDecr \<Rightarrow>
   StorageActions work" where
  "ops_BalancesByBrc20 ns brc_ticker script_hash total_delta =
     work_bind (short_ticker brc_ticker) (\<lambda>ticker.
     (let total_balance_key = data_key ns Reducer_BalancesByBrc20 BalancesByBrc20_Key_encode
       \<lparr>bbbk_ticker = ticker, bbbk_script_hash = script_hash\<rparr> in
      Inr (case total_delta of
          IoD_Increment x \<Rightarrow> [Increment total_balance_key x]
        | IoD_Decrement x \<Rightarrow> [Decrement total_balance_key x])))"

definition ops_BalancesByRuneId ::
  "Namespace \<Rightarrow> RuneId \<Rightarrow> ScriptHash \<Rightarrow> u128 IncrOrDecr \<Rightarrow>
   StorageActions work" where
  "ops_BalancesByRuneId ns rune_id script_hash action =
     (let encoded_key = data_key ns Reducer_BalancesByRuneId BalancesByRuneId_Key_encode
       \<lparr>bbrik_rune_id = rune_id, bbrik_script_hash = script_hash\<rparr> in
      Inr (case action of
          IoD_Increment x \<Rightarrow> [Increment encoded_key x]
        | IoD_Decrement x \<Rightarrow> [Decrement encoded_key x]))"

definition ops_BlockByTxHash ::
  "Namespace \<Rightarrow> TxHash \<Rightarrow> Height \<Rightarrow>
   StorageActions work" where
  "ops_BlockByTxHash ns tx_hash height =
     Inr [SetOnce (data_key ns Reducer_BlockByTxHash BlockByTxHash_Key_encode
         \<lparr>bbthk_tx_hash = tx_hash\<rparr>)
       (BlockByTxHash_Value_encode \<lparr>bbthv_height = height\<rparr>)]"

definition ops_BlockInfo ::
  "Namespace \<Rightarrow> Height \<Rightarrow> BlockHash option \<Rightarrow> u64 \<Rightarrow> u64 \<Rightarrow> u32 option \<Rightarrow> AggregatedSatoshis \<Rightarrow> AggregatedSatoshis \<Rightarrow> TxIndex \<Rightarrow> bool \<Rightarrow> bool \<Rightarrow> bool \<Rightarrow> bytes \<Rightarrow>
   StorageActions work" where
  "ops_BlockInfo ns height block_hash block_size block_weight_units timestamp total_fees total_volume total_txs involves_inscriptions involves_runes involves_brc20 coinbase_script_sig =
     Inr [SetOnce (data_key ns Reducer_BlockInfo BlockInfo_Key_encode
         \<lparr>bik_height = height\<rparr>)
       (BlockInfo_Value_encode \<lparr>biv_block_hash = block_hash, biv_block_size = block_size,
         biv_block_weight_units = block_weight_units, biv_timestamp = timestamp,
           biv_total_fees = total_fees, biv_total_volume = total_volume, biv_total_txs = total_txs,
             biv_involves_inscriptions = involves_inscriptions, biv_involves_runes = involves_runes,
               biv_involves_brc20 = involves_brc20, biv_coinbase_script_sig = coinbase_script_sig\<rparr>)]"

definition ops_Brc20BalancesByScriptHash ::
  "Namespace \<Rightarrow> bytes \<Rightarrow> bytes \<Rightarrow> u128 IncrOrDecr \<Rightarrow> u128 IncrOrDecr \<Rightarrow>
   StorageActions work" where
  "ops_Brc20BalancesByScriptHash ns script_hash brc_ticker total_delta available_delta =
     work_bind (short_ticker brc_ticker) (\<lambda>ticker.
     (let key = \<lparr>bbbshk_script_hash = script_hash, bbbshk_ticker = ticker\<rparr>;
          total_balance_key = data_key ns Reducer_Brc20TotalBalanceByScriptHash
            Brc20BalancesByScriptHash_Key_encode key;
          available_balance_key = data_key ns Reducer_Brc20AvailableBalanceByScriptHash
            Brc20BalancesByScriptHash_Key_encode key in
      Inr [case total_delta of
             IoD_Increment x \<Rightarrow> Increment total_balance_key x
           | IoD_Decrement x \<Rightarrow> DecrementNoDelete total_balance_key x,
           case available_delta of
             IoD_Increment x \<Rightarrow> Increment available_balance_key x
           | IoD_Decrement x \<Rightarrow> DecrementNoDelete available_balance_key x]))"

definition ops_Brc20TermsByTicker ::
  "Namespace \<Rightarrow> bytes \<Rightarrow> Brc20Quantity \<Rightarrow> Brc20Quantity \<Rightarrow> u8 \<Rightarrow> bool \<Rightarrow> InscriptionId \<Rightarrow>
   StorageActions work" where
  "ops_Brc20TermsByTicker ns brc_ticker max_supply limit dec self_mint deploy_id =
     work_bind (short_ticker brc_ticker) (\<lambda>ticker.
     Inr [SetOnce (data_key ns Reducer_Brc20TermsByTicker Brc20TermsByTicker_Key_encode
       \<lparr>btbtk_ticker = ticker\<rparr>)
       (Brc20TermsByTicker_Value_encode \<lparr>btbtv_max = max_supply, btbtv_limit = limit,
         btbtv_dec = dec, btbtv_self_mint = self_mint, btbtv_deploy_id = deploy_id\<rparr>)])"

definition ops_ContentByInscriptionId ::
  "Namespace \<Rightarrow> InscriptionId \<Rightarrow> Height \<Rightarrow> u64 \<Rightarrow> bytes \<Rightarrow> bytes \<Rightarrow>
   StorageActions work" where
  "ops_ContentByInscriptionId ns inscription_id created_at inscription_num content_type content_body =
     Inr [SetOnce (data_key ns Reducer_ContentByInscriptionId ContentByInscriptionId_Key_encode
         \<lparr>cbiik_inscription_id = inscription_id\<rparr>)
       (ContentByInscriptionId_Value_encode \<lparr>cbiiv_created_at = created_at,
         cbiiv_inscription_num = inscription_num, cbiiv_content_type = content_type,
           cbiiv_content_body = content_body\<rparr>)]"

definition ops_EtchingByRuneId ::
  "Namespace \<Rightarrow> string \<Rightarrow> RuneId \<Rightarrow> bytes \<Rightarrow> EtchingInfo \<Rightarrow> bool \<Rightarrow> bool \<Rightarrow>
   StorageActions work" where
  "ops_EtchingByRuneId ns network rune_id tx_hash etching cenotaph is_bootstrap =
     (let encoded_key = data_key ns Reducer_EtchingByRuneId EtchingByRuneId_Key_encode
       \<lparr>ebrik_rune_id = rune_id\<rparr>;
          value = \<lparr>ebriv_tx_hash = tx_hash, ebriv_name = ei_name etching,
            ebriv_spacers = ei_spacers etching, ebriv_symbol = ei_symbol etching,
              ebriv_divisibility = ei_divisibility etching, ebriv_premine = ei_premine etching,
                ebriv_max_mint_txs = ei_max_mint_txs etching,
                  ebriv_amount_per_mint = ei_amount_per_mint etching,
                    ebriv_start_height = ei_start_height etching,
                      ebriv_end_height = ei_end_height etching,
                        ebriv_start_offset = ei_start_offset etching,
                          ebriv_end_offset = ei_end_offset etching, ebriv_turbo = ei_turbo etching,
                            ebriv_cenotaph = cenotaph\<rparr> in
      Inr (if is_bootstrap \<and> network = ''bitcoin'' then [SetPermanent encoded_key (EtchingByRuneId_Value_encode value)]
           else if is_bootstrap then []
           else [SetOnce encoded_key (EtchingByRuneId_Value_encode value)]))"

definition ops_HeightByTimestamp ::
  "Namespace \<Rightarrow> Timestamp \<Rightarrow> Height \<Rightarrow>
   StorageActions work" where
  "ops_HeightByTimestamp ns timestamp height =
     Inr [Insert (data_key ns Reducer_HeightByTimestamp HeightByTimestamp_Key_encode
         \<lparr>hbtk_timestamp = timestamp\<rparr>)
       (HeightByTimestamp_Value_encode \<lparr>hbtv_height = height\<rparr>)]"

definition ops_HeightByBlockHash ::
  "Namespace \<Rightarrow> BlockHash \<Rightarrow> Height \<Rightarrow>
   StorageActions work" where
  "ops_HeightByBlockHash ns block_hash block_height =
     Inr [SetOnce (data_key ns Reducer_HeightByBlockHash HeightByBlockHash_Key_encode
         \<lparr>hbbhk_block_hash = block_hash\<rparr>)
       (HeightByBlockHash_Value_encode \<lparr>hbbhv_block_height = block_height\<rparr>)]"

definition ops_HistoricalSatBalanceByScriptHash ::
  "Namespace \<Rightarrow> bytes \<Rightarrow> u64 \<Rightarrow> u128 IncrOrDecr \<Rightarrow>
   StorageActions work" where
  "ops_HistoricalSatBalanceByScriptHash ns script_hash height satoshi_delta =
     Inr [PointAggregate (data_key ns Reducer_HistoricalSatBalanceByScriptHash array_encode script_hash)
       [(ucast height, satoshi_delta)]]"

definition ops_InscriptionActivityByScriptHash ::
  "Namespace \<Rightarrow> ScriptHash \<Rightarrow> Height \<Rightarrow> TxIndex \<Rightarrow> TxHash \<Rightarrow> (InscriptionId \<times> (u32 \<times> u64) \<times> (u32 \<times> u64)) list \<Rightarrow> (InscriptionId \<times> (u32 \<times> u64) \<times> (u32 \<times> u64 \<times> bytes) option) list \<Rightarrow> (InscriptionId \<times> (u32 \<times> u64 \<times> bytes) option \<times> (u32 \<times> u64)) list \<Rightarrow>
   StorageActions work" where
  "ops_InscriptionActivityByScriptHash ns script_hash height activity_tx_index tx_hash self_transfers sent received =
     Inr [SetOnce (data_key ns Reducer_InscriptionActivityByScriptHash InscriptionActivityByScriptHash_Key_encode
       \<lparr>iabshk_script_hash = script_hash, iabshk_height = height,
         iabshk_activity_tx_index = activity_tx_index, iabshk_tx_hash = tx_hash\<rparr>)
       (InscriptionActivityByScriptHash_Value_encode
         \<lparr>iabshv_self_transfers = map self_transferred self_transfers,
          iabshv_sent = map sent_inscription sent,
          iabshv_received = map received_inscription received\<rparr>)]"

definition ops_InscriptionActivityByTx ::
  "Namespace \<Rightarrow> Height \<Rightarrow> TxIndex \<Rightarrow> TxHash \<Rightarrow> (InscriptionId \<times> ((ScriptHash \<times> TxoIndex \<times> SatoshiOffset) option \<times> (ScriptHash \<times> TxoIndex \<times> SatoshiOffset))) list \<Rightarrow>
   StorageActions work" where
  "ops_InscriptionActivityByTx ns height tx_index tx_hash inscriptions_activity =
     Inr [SetOnce (data_key ns Reducer_InscriptionActivityByTx InscriptionActivityByTx_Key_encode
         \<lparr>iabtk_height = height, iabtk_tx_index = tx_index\<rparr>)
       (InscriptionActivityByTx_Value_encode \<lparr>iabtv_tx_hash = tx_hash,
         iabtv_inscriptions_activity = inscriptions_activity\<rparr>)]"

definition ops_InscriptionActivityByTxV2 ::
  "Namespace \<Rightarrow> Height \<Rightarrow> TxIndex \<Rightarrow> TxHash \<Rightarrow> (InscriptionId \<times> ((ScriptHash \<times> TxoIndex \<times> SatoshiOffset) option \<times> (ScriptHash \<times> TxoIndex \<times> SatoshiOffset) option)) list \<Rightarrow>
   StorageActions work" where
  "ops_InscriptionActivityByTxV2 ns height tx_index tx_hash inscriptions_activity =
     Inr [SetOnce (data_key ns Reducer_InscriptionActivityByTxV2 InscriptionActivityByTxV2_Key_encode
         \<lparr>iabtvk_height = height, iabtvk_tx_index = tx_index\<rparr>)
       (InscriptionActivityByTxV2_Value_encode \<lparr>iabtvv_tx_hash = tx_hash,
         iabtvv_inscriptions_activity = inscriptions_activity\<rparr>)]"

definition ops_InscriptionUtxosByScriptHash ::
  "Namespace \<Rightarrow> ScriptHash \<Rightarrow> Height \<Rightarrow> TxHash \<Rightarrow> TxoIndex \<Rightarrow> (SatoshiQuantity \<times> (SatoshiOffset \<times> InscriptionId) list) UtxoAction \<Rightarrow>
   StorageActions work" where
  "ops_InscriptionUtxosByScriptHash ns script_hash height utxo_hash utxo_index action =
     (let encoded_key = data_key ns Reducer_InscriptionUtxosByScriptHash InscriptionUtxosByScriptHash_Key_encode
       \<lparr>iubshk_script_hash = script_hash, iubshk_height = height, iubshk_utxo_hash = utxo_hash,
         iubshk_utxo_index = utxo_index\<rparr> in
      Inr (case action of
          Consumed \<Rightarrow> [Delete encoded_key]
        | Produced (satoshis, inscriptions) \<Rightarrow> [SetOnce encoded_key
            (InscriptionUtxosByScriptHash_Value_encode \<lparr>iubshv_satoshis = satoshis,
              iubshv_inscriptions = inscriptions\<rparr>)]))"

definition ops_MintsByRuneId ::
  "Namespace \<Rightarrow> RuneId \<Rightarrow>
   StorageActions work" where
  "ops_MintsByRuneId ns rune_id =
     Inr [Increment (data_key ns Reducer_MintsByRuneId MintsByRuneId_Key_encode
       \<lparr>mbrik_rune_id = rune_id\<rparr>) 1]"

definition ops_RuneUtxosByScriptHash ::
  "Namespace \<Rightarrow> ScriptHash \<Rightarrow> Height \<Rightarrow> TxHash \<Rightarrow> TxoIndex \<Rightarrow> (SatoshiQuantity \<times> (RuneId \<times> RuneQuantity) list) UtxoAction \<Rightarrow>
   StorageActions work" where
  "ops_RuneUtxosByScriptHash ns script_hash height utxo_hash utxo_index action =
     (let encoded_key = data_key ns Reducer_RuneUtxosByScriptHash RuneUtxosByScriptHash_Key_encode
       \<lparr>rubshk_script_hash = script_hash, rubshk_height = height, rubshk_utxo_hash = utxo_hash,
         rubshk_utxo_index = utxo_index\<rparr> in
      Inr (case action of
          Consumed \<Rightarrow> [Delete encoded_key]
        | Produced (satoshis, runes) \<Rightarrow> [SetOnce encoded_key
            (RuneUtxosByScriptHash_Value_encode \<lparr>rubshv_satoshis = satoshis,
              rubshv_runes = runes\<rparr>)]))"

definition ops_RuneTxsByScriptHash ::
  "Namespace \<Rightarrow> ScriptHash \<Rightarrow> Height \<Rightarrow> TxIndex \<Rightarrow> TxHash \<Rightarrow> (RuneId \<times> RuneQuantity option) option \<Rightarrow> RuneId option \<Rightarrow> (RuneId \<times> RuneQuantity) list \<Rightarrow> (RuneId \<times> RuneQuantity) list \<Rightarrow> (RuneId \<times> RuneQuantity) list \<Rightarrow>
   StorageActions work" where
  "ops_RuneTxsByScriptHash ns script_hash height activity_tx_index tx_hash etched minted self_transfers increased_balances decreased_balances =
     Inr [SetOnce (data_key ns Reducer_RuneTxsByScriptHash RuneTxsByScriptHash_Key_encode
         \<lparr>rtbshk_script_hash = script_hash, rtbshk_height = height,
           rtbshk_activity_tx_index = activity_tx_index, rtbshk_tx_hash = tx_hash\<rparr>)
       (RuneTxsByScriptHash_Value_encode \<lparr>rtbshv_etched = etched, rtbshv_minted = minted,
         rtbshv_self_transfers = self_transfers, rtbshv_increased_balances = increased_balances,
           rtbshv_decreased_balances = decreased_balances\<rparr>)]"

definition ops_RuneIdByRuneName ::
  "Namespace \<Rightarrow> string \<Rightarrow> RuneId \<Rightarrow> u128 \<Rightarrow> bool \<Rightarrow>
   StorageActions work" where
  "ops_RuneIdByRuneName ns network rune_id rune_name is_bootstrap =
     (let encoded_key = data_key ns Reducer_RuneIdByRuneName RuneIdByRuneName_Key_encode
       \<lparr>ribrnk_rune_name = rune_name\<rparr>;
          value = \<lparr>ribrnv_rune_id = rune_id\<rparr> in
      Inr (if is_bootstrap \<and> network = ''bitcoin'' then [SetPermanent encoded_key (RuneIdByRuneName_Value_encode value)]
           else if is_bootstrap then []
           else [SetOnce encoded_key (RuneIdByRuneName_Value_encode value)]))"

definition ops_SatBalanceByScriptHash ::
  "Namespace \<Rightarrow> ScriptHash \<Rightarrow> u128 IncrOrDecr \<Rightarrow>
   StorageActions work" where
  "ops_SatBalanceByScriptHash ns script_hash delta =
     (let encoded_key = data_key ns Reducer_SatBalanceByScriptHash SatBalanceByScriptHash_Key_encode
       \<lparr>sbbshk_script_hash = script_hash\<rparr> in
      Inr (case delta of
          IoD_Increment x \<Rightarrow> [Increment encoded_key x]
        | IoD_Decrement x \<Rightarrow> [Decrement encoded_key x]))"

definition ops_SatTxsByScriptHash ::
  "Namespace \<Rightarrow> ScriptHash \<Rightarrow> Height \<Rightarrow> TxIndex \<Rightarrow> TxHash \<Rightarrow> SatoshiQuantity \<Rightarrow> SatTxsByScriptHash_SatActivityType \<Rightarrow>
   StorageActions work" where
  "ops_SatTxsByScriptHash ns script_hash height activity_tx_index tx_hash amount activity_type =
     Inr [SetOnce (data_key ns Reducer_SatTxsByScriptHash SatTxsByScriptHash_Key_encode
         \<lparr>stbshk_script_hash = script_hash, stbshk_height = height,
           stbshk_activity_tx_index = activity_tx_index, stbshk_tx_hash = tx_hash\<rparr>)
       (SatTxsByScriptHash_Value_encode \<lparr>stbshv_amount = amount,
         stbshv_activity_type = activity_type\<rparr>)]"

definition ops_SatsPerVbByBlock ::
  "Namespace \<Rightarrow> u64 \<Rightarrow> u64 \<Rightarrow> u64 \<Rightarrow> u64 \<Rightarrow>
   StorageActions work" where
  "ops_SatsPerVbByBlock ns height min_rate median_rate max_rate =
     Inr [SetOnce (data_key ns Reducer_SatsPerVbByBlock SatsPerVbByBlock_Key_encode
       \<lparr>spvbbk_height = height\<rparr>)
       (SatsPerVbByBlock_Value_encode \<lparr>spvbbv_min = min_rate, spvbbv_median = median_rate,
         spvbbv_max = max_rate\<rparr>)]"

definition ops_ScriptByScriptHash ::
  "Namespace \<Rightarrow> ScriptHash \<Rightarrow> bytes \<Rightarrow>
   StorageActions work" where
  "ops_ScriptByScriptHash ns script_hash script =
     Inr [SetPermanent (data_key ns Reducer_ScriptByScriptHash ScriptByScriptHash_Key_encode
         \<lparr>sbshk_script_hash = script_hash\<rparr>)
       (ScriptByScriptHash_Value_encode \<lparr>sbshv_script = script\<rparr>)]"

definition ops_ScriptHashByAddressPayloadHash ::
  "Namespace \<Rightarrow> bytes \<Rightarrow> ScriptHash \<Rightarrow>
   StorageActions work" where
  "ops_ScriptHashByAddressPayloadHash ns payload_hash script_hash =
     Inr [SetPermanent (data_key ns Reducer_ScriptHashByAddressPayloadHash ScriptHashByAddressPayloadHash_Key_encode
         \<lparr>shbaphk_payload_hash = payload_hash\<rparr>)
       (ScriptHashByAddressPayloadHash_Value_encode \<lparr>shbaphv_script_hash = script_hash\<rparr>)]"

definition ops_SpendingTxByTxo ::
  "Namespace \<Rightarrow> TxHash \<Rightarrow> TxoIndex \<Rightarrow> TxHash \<Rightarrow>
   StorageActions work" where
  "ops_SpendingTxByTxo ns utxo_tx_hash utxo_vout tx_hash =
     Inr [SetOnce (data_key ns Reducer_SpendingTxByTxo SpendingTxByTxo_Key_encode
         \<lparr>stbtk_utxo_tx_hash = utxo_tx_hash, stbtk_utxo_vout = utxo_vout\<rparr>)
       (SpendingTxByTxo_Value_encode \<lparr>stbtv_tx_hash = tx_hash\<rparr>)]"

definition ops_TotalInscriptionsByScriptHash ::
  "Namespace \<Rightarrow> ScriptHash \<Rightarrow> u128 IncrOrDecr \<Rightarrow>
   StorageActions work" where
  "ops_TotalInscriptionsByScriptHash ns script_hash delta =
     (let encoded_key = data_key ns Reducer_TotalInscriptionsByScriptHash TotalInscriptionsByScriptHash_Key_encode
       \<lparr>tibshk_script_hash = script_hash\<rparr> in
      Inr (case delta of
          IoD_Increment x \<Rightarrow> [Increment encoded_key x]
        | IoD_Decrement x \<Rightarrow> [Decrement encoded_key x]))"

definition ops_TotalOutputsByScriptHash ::
  "Namespace \<Rightarrow> ScriptHash \<Rightarrow> u64 \<Rightarrow>
   StorageActions work" where
  "ops_TotalOutputsByScriptHash ns script_hash new_outputs =
     Inr [Increment (data_key ns Reducer_TotalOutputsByScriptHash TotalOutputsByScriptHash_Key_encode
       \<lparr>tobshk_script_hash = script_hash\<rparr>) (ucast new_outputs)]"

definition ops_TotalSatInInputsByScriptHash ::
  "Namespace \<Rightarrow> ScriptHash \<Rightarrow> u64 \<Rightarrow>
   StorageActions work" where
  "ops_TotalSatInInputsByScriptHash ns script_hash new_sats =
     Inr [Increment (data_key ns Reducer_TotalSatInInputsByScriptHash TotalSatInInputsByScriptHash_Key_encode
       \<lparr>tsiibshk_script_hash = script_hash\<rparr>) (ucast new_sats)]"

definition ops_TotalSatInOutputsByScriptHash ::
  "Namespace \<Rightarrow> ScriptHash \<Rightarrow> u64 \<Rightarrow>
   StorageActions work" where
  "ops_TotalSatInOutputsByScriptHash ns script_hash new_sats =
     Inr [Increment (data_key ns Reducer_TotalSatInOutputsByScriptHash TotalSatInOutputsByScriptHash_Key_encode
       \<lparr>tsiobshk_script_hash = script_hash\<rparr>) (ucast new_sats)]"

definition ops_TotalTxsByScriptHash ::
  "Namespace \<Rightarrow> ScriptHash \<Rightarrow>
   StorageActions work" where
  "ops_TotalTxsByScriptHash ns script_hash =
     Inr [Increment (data_key ns Reducer_TotalTxsByScriptHash TotalTxsByScriptHash_Key_encode
       \<lparr>ttbshk_script_hash = script_hash\<rparr>) 1]"

definition ops_TotalUtxosByScriptHash ::
  "Namespace \<Rightarrow> ScriptHash \<Rightarrow> bool \<Rightarrow>
   StorageActions work" where
  "ops_TotalUtxosByScriptHash ns script_hash is_new =
     (let encoded_key = data_key ns Reducer_TotalUtxosByScriptHash TotalUtxosByScriptHash_Key_encode
       \<lparr>tubshk_script_hash = script_hash\<rparr> in
      Inr (if is_new then [Increment encoded_key 1] else [Decrement encoded_key 1]))"

definition ops_TransferInscriptionsByScriptHash ::
  "Namespace \<Rightarrow> bytes \<Rightarrow> bytes \<Rightarrow> InscriptionId \<Rightarrow> (u128 \<times> u64 \<times> (bytes \<times> u32) \<times> u64 \<times> u64) UtxoAction \<Rightarrow>
   StorageActions work" where
  "ops_TransferInscriptionsByScriptHash ns script_hash ticker inscription_id action =
     (let encoded_key = data_key ns Reducer_TransferInscriptionsByScriptHash TransferInscriptionsByScriptHash_Key_encode
       \<lparr>tibsh2k_script_hash = script_hash, tibsh2k_ticker = ShortByteString ticker,
         tibsh2k_inscription_id = inscription_id\<rparr> in
      Inr (case action of
          Consumed \<Rightarrow> [Delete encoded_key]
        | Produced (token_amount, sat_amount, (utxo_hash, utxo_index), offset, block_height) \<Rightarrow>
            [SetOnce encoded_key (TransferInscriptionsByScriptHash_Value_encode
               \<lparr>tibsh2v_token_amount = token_amount, tibsh2v_sat_amount = sat_amount,
                 tibsh2v_utxo_hash = utxo_hash, tibsh2v_utxo_index = utxo_index,
                   tibsh2v_offset = offset, tibsh2v_block_height = block_height\<rparr>)]))"

definition ops_TxFirstSeenTimestamp ::
  "Namespace \<Rightarrow> TxHash \<Rightarrow> u64 \<Rightarrow>
   StorageActions work" where
  "ops_TxFirstSeenTimestamp ns tx_hash timestamp =
     Inr [InsertPermanent (data_key ns Reducer_TxFirstSeenTimestamp TxFirstSeenTimestamp_Key_encode
         \<lparr>tfstk_tx_hash = tx_hash\<rparr>)
       (TxFirstSeenTimestamp_Value_encode \<lparr>tfstv_timestamp = timestamp\<rparr>)]"

definition ops_TxInfo ::
  "Namespace \<Rightarrow> TxHash \<Rightarrow> Height \<Rightarrow> BlockHash option \<Rightarrow> u32 option \<Rightarrow> AggregatedSatoshis \<Rightarrow> SatoshiQuantity \<Rightarrow> u64 \<Rightarrow> bool \<Rightarrow> bool \<Rightarrow> bool \<Rightarrow> (bytes \<times> u32 \<times> bytes \<times> u64 \<times> (SatoshiOffset \<times> InscriptionId) list \<times> (RuneId \<times> RuneQuantity) list) list \<Rightarrow> (bytes \<times> u64 \<times> (SatoshiOffset \<times> InscriptionId) list \<times> (RuneId \<times> RuneQuantity) list) list \<Rightarrow>
   StorageActions work" where
  "ops_TxInfo ns tx_hash block_height block_hash timestamp volume fees sats_per_vb involves_inscriptions involves_runes involves_brc20 ins outs =
     Inr [SetOnce (data_key ns Reducer_TxInfo TxInfo_Key_encode
       \<lparr>tik_tx_hash = tx_hash\<rparr>)
       (TxInfo_Value_encode \<lparr>tiv_block_height = block_height, tiv_block_hash = block_hash,
         tiv_timestamp = timestamp, tiv_volume = volume, tiv_fees = fees,
           tiv_sats_per_vb = sats_per_vb, tiv_involves_inscriptions = involves_inscriptions,
             tiv_involves_runes = involves_runes, tiv_involves_brc20 = involves_brc20,
               tiv_inputs = map tx_in ins, tiv_outputs = map tx_out outs\<rparr>)]"

definition ops_TxsByBlock ::
  "Namespace \<Rightarrow> Height \<Rightarrow> TxHash list \<Rightarrow>
   StorageActions work" where
  "ops_TxsByBlock ns height tx_hashes =
     Inr [SetOnce (data_key ns Reducer_TxsByBlock TxsByBlock_Key_encode
         \<lparr>tbbk_height = height\<rparr>)
       (TxsByBlock_Value_encode \<lparr>tbbv_tx_hashes = tx_hashes\<rparr>)]"

definition ops_TxsByInscription ::
  "Namespace \<Rightarrow> bytes \<Rightarrow> Height \<Rightarrow> ((bytes \<times> InscriptionIndex) \<times> (TxIndex \<times> u32) list) list \<Rightarrow>
   StorageActions work" where
  "ops_TxsByInscription ns bucket_id height activity =
     Inr [SetOnce (data_key ns Reducer_TxsByInscription TxsByInscription_Key_encode
         \<lparr>tbik_bucket_id = bucket_id, tbik_height = height\<rparr>)
       (TxsByInscription_Value_encode \<lparr>tbiv_activity = activity\<rparr>)]"

definition ops_TxsByRuneId ::
  "Namespace \<Rightarrow> RuneId \<Rightarrow> Height \<Rightarrow> TxIndex \<Rightarrow> TxHash \<Rightarrow> bool \<Rightarrow> bool \<Rightarrow> (ScriptHash \<times> RuneQuantity) list \<Rightarrow> (ScriptHash \<times> RuneQuantity) list \<Rightarrow> (ScriptHash \<times> RuneQuantity) list \<Rightarrow>
   StorageActions work" where
  "ops_TxsByRuneId ns rune_id height activity_tx_index tx_hash etched minted self_transfers senders receivers =
     Inr [SetOnce (data_key ns Reducer_TxsByRuneId TxsByRuneId_Key_encode
         \<lparr>tbrik_rune_id = rune_id, tbrik_height = height,
           tbrik_activity_tx_index = activity_tx_index, tbrik_tx_hash = tx_hash\<rparr>)
       (TxsByRuneId_Value_encode \<lparr>tbriv_etched = etched, tbriv_minted = minted,
         tbriv_self_transfers = self_transfers, tbriv_senders = senders,
           tbriv_receivers = receivers\<rparr>)]"

definition ops_TxsByScriptHash ::
  "Namespace \<Rightarrow> ScriptHash \<Rightarrow> Height \<Rightarrow> TxIndex \<Rightarrow> TxHash \<Rightarrow> bool \<Rightarrow> bool \<Rightarrow>
   StorageActions work" where
  "ops_TxsByScriptHash ns script_hash height address_tx_index tx_hash input output =
     Inr [SetOnce (data_key ns Reducer_TxsByScriptHash TxsByScriptHash_Key_encode
         \<lparr>tbshk_script_hash = script_hash, tbshk_height = height,
           tbshk_address_tx_index = address_tx_index, tbshk_tx_hash = tx_hash\<rparr>)
       (TxsByScriptHash_Value_encode \<lparr>tbshv_input = input, tbshv_output = output\<rparr>)]"

definition ops_UtxosByRuneId ::
  "Namespace \<Rightarrow> RuneId \<Rightarrow> Height \<Rightarrow> TxHash \<Rightarrow> TxoIndex \<Rightarrow> (ScriptHash \<times> RuneQuantity \<times> SatoshiQuantity) UtxoAction \<Rightarrow>
   StorageActions work" where
  "ops_UtxosByRuneId ns rune_id height utxo_hash utxo_index action =
     (let encoded_key = data_key ns Reducer_UtxosByRuneId UtxosByRuneId_Key_encode
       \<lparr>ubrik_rune_id = rune_id, ubrik_height = height, ubrik_utxo_hash = utxo_hash,
         ubrik_utxo_index = utxo_index\<rparr> in
      Inr (case action of
          Consumed \<Rightarrow> [Delete encoded_key]
        | Produced (script_hash, rune_quantity, satoshis) \<Rightarrow> [SetOnce encoded_key
            (UtxosByRuneId_Value_encode \<lparr>ubriv_script_hash = script_hash,
              ubriv_rune_quantity = rune_quantity, ubriv_satoshis = satoshis\<rparr>)]))"

definition ops_UtxosByScriptHash ::
  "Namespace \<Rightarrow> ScriptHash \<Rightarrow> Height \<Rightarrow> TxHash \<Rightarrow> TxoIndex \<Rightarrow> (SatoshiQuantity) UtxoAction \<Rightarrow>
   StorageActions work" where
  "ops_UtxosByScriptHash ns script_hash height utxo_hash utxo_index action =
     (let encoded_key = data_key ns Reducer_UtxosByScriptHash UtxosByScriptHash_Key_encode
       \<lparr>ubshk_script_hash = script_hash, ubshk_height = height, ubshk_utxo_hash = utxo_hash,
         ubshk_utxo_index = utxo_index\<rparr> in
      Inr (case action of
          Consumed \<Rightarrow> [Delete encoded_key]
        | Produced satoshis \<Rightarrow> [SetOnce encoded_key
            (UtxosByScriptHash_Value_encode \<lparr>ubshv_satoshis = satoshis\<rparr>)]))"

definition ops_Cursor ::
  "Namespace \<Rightarrow> Point \<Rightarrow> bool \<Rightarrow> u64 \<Rightarrow> ((u64 \<times> bytes) \<times> u64) option \<Rightarrow> StorageActions work" where
  "ops_Cursor ns point was_mempool timestamp mempool_info =
     (let value = \<lparr>cv_height = pt_height point, cv_hash = pt_hash point, cv_was_mempool = was_mempool,
                   cv_timestamp = timestamp, cv_mempool_info = mempool_info\<rparr> in
      Inr [Set (Prefix_cursor ns) (CursorValue_encode value), Set (Prefix_info ns) (CursorValue_encode value)])"

definition reducer_output_to_storage_ops :: "Namespace \<Rightarrow> string \<Rightarrow> ReducerOutput \<Rightarrow> StorageActions work" where
  "reducer_output_to_storage_ops ns network output =
     (case output of
        Out_BalancesByBrc20 x1 x2 x3 \<Rightarrow> ops_BalancesByBrc20 ns x1 x2 x3
      | Out_BalancesByRuneId x1 x2 x3 \<Rightarrow> ops_BalancesByRuneId ns x1 x2 x3
      | Out_BlockByTxHash x1 x2 \<Rightarrow> ops_BlockByTxHash ns x1 x2
      | Out_BlockInfo x1 x2 x3 x4 x5 x6 x7 x8 x9 x10 x11 x12 \<Rightarrow> ops_BlockInfo ns x1 x2 x3 x4 x5 x6 x7 x8 x9 x10 x11 x12
      | Out_Brc20BalancesByScriptHash x1 x2 x3 x4 \<Rightarrow> ops_Brc20BalancesByScriptHash ns x1 x2 x3 x4
      | Out_Brc20TermsByTicker x1 x2 x3 x4 x5 x6 \<Rightarrow> ops_Brc20TermsByTicker ns x1 x2 x3 x4 x5 x6
      | Out_ContentByInscriptionId x1 x2 x3 x4 x5 \<Rightarrow> ops_ContentByInscriptionId ns x1 x2 x3 x4 x5
      | Out_EtchingByRuneId x1 x2 x3 x4 x5 \<Rightarrow> ops_EtchingByRuneId ns network x1 x2 x3 x4 x5
      | Out_HeightByTimestamp x1 x2 \<Rightarrow> ops_HeightByTimestamp ns x1 x2
      | Out_HeightByBlockHash x1 x2 \<Rightarrow> ops_HeightByBlockHash ns x1 x2
      | Out_HistoricalSatBalanceByScriptHash x1 x2 x3 \<Rightarrow> ops_HistoricalSatBalanceByScriptHash ns x1 x2 x3
      | Out_InscriptionActivityByScriptHash x1 x2 x3 x4 x5 x6 x7 \<Rightarrow> ops_InscriptionActivityByScriptHash ns x1 x2 x3 x4 x5 x6 x7
      | Out_InscriptionActivityByTx x1 x2 x3 x4 \<Rightarrow> ops_InscriptionActivityByTx ns x1 x2 x3 x4
      | Out_InscriptionActivityByTxV2 x1 x2 x3 x4 \<Rightarrow> ops_InscriptionActivityByTxV2 ns x1 x2 x3 x4
      | Out_InscriptionUtxosByScriptHash x1 x2 x3 x4 x5 \<Rightarrow> ops_InscriptionUtxosByScriptHash ns x1 x2 x3 x4 x5
      | Out_MintsByRuneId x1 \<Rightarrow> ops_MintsByRuneId ns x1
      | Out_RuneUtxosByScriptHash x1 x2 x3 x4 x5 \<Rightarrow> ops_RuneUtxosByScriptHash ns x1 x2 x3 x4 x5
      | Out_RuneTxsByScriptHash x1 x2 x3 x4 x5 x6 x7 x8 x9 \<Rightarrow> ops_RuneTxsByScriptHash ns x1 x2 x3 x4 x5 x6 x7 x8 x9
      | Out_RuneIdByRuneName x1 x2 x3 \<Rightarrow> ops_RuneIdByRuneName ns network x1 x2 x3
      | Out_SatBalanceByScriptHash x1 x2 \<Rightarrow> ops_SatBalanceByScriptHash ns x1 x2
      | Out_SatTxsByScriptHash x1 x2 x3 x4 x5 x6 \<Rightarrow> ops_SatTxsByScriptHash ns x1 x2 x3 x4 x5 x6
      | Out_SatsPerVbByBlock x1 x2 x3 x4 \<Rightarrow> ops_SatsPerVbByBlock ns x1 x2 x3 x4
      | Out_ScriptByScriptHash x1 x2 \<Rightarrow> ops_ScriptByScriptHash ns x1 x2
      | Out_ScriptHashByAddressPayloadHash x1 x2 \<Rightarrow> ops_ScriptHashByAddressPayloadHash ns x1 x2
      | Out_SpendingTxByTxo x1 x2 x3 \<Rightarrow> ops_SpendingTxByTxo ns x1 x2 x3
      | Out_TotalInscriptionsByScriptHash x1 x2 \<Rightarrow> ops_TotalInscriptionsByScriptHash ns x1 x2
      | Out_TotalOutputsByScriptHash x1 x2 \<Rightarrow> ops_TotalOutputsByScriptHash ns x1 x2
      | Out_TotalSatInInputsByScriptHash x1 x2 \<Rightarrow> ops_TotalSatInInputsByScriptHash ns x1 x2
      | Out_TotalSatInOutputsByScriptHash x1 x2 \<Rightarrow> ops_TotalSatInOutputsByScriptHash ns x1 x2
      | Out_TotalTxsByScriptHash x1 \<Rightarrow> ops_TotalTxsByScriptHash ns x1
      | Out_TotalUtxosByScriptHash x1 x2 \<Rightarrow> ops_TotalUtxosByScriptHash ns x1 x2
      | Out_TransferInscriptionsByScriptHash x1 x2 x3 x4 \<Rightarrow> ops_TransferInscriptionsByScriptHash ns x1 x2 x3 x4
      | Out_TxFirstSeenTimestamp x1 x2 \<Rightarrow> ops_TxFirstSeenTimestamp ns x1 x2
      | Out_TxInfo x1 x2 x3 x4 x5 x6 x7 x8 x9 x10 x11 x12 \<Rightarrow> ops_TxInfo ns x1 x2 x3 x4 x5 x6 x7 x8 x9 x10 x11 x12
      | Out_TxsByBlock x1 x2 \<Rightarrow> ops_TxsByBlock ns x1 x2
      | Out_TxsByInscription x1 x2 x3 \<Rightarrow> ops_TxsByInscription ns x1 x2 x3
      | Out_TxsByRuneId x1 x2 x3 x4 x5 x6 x7 x8 x9 \<Rightarrow> ops_TxsByRuneId ns x1 x2 x3 x4 x5 x6 x7 x8 x9
      | Out_TxsByScriptHash x1 x2 x3 x4 x5 x6 \<Rightarrow> ops_TxsByScriptHash ns x1 x2 x3 x4 x5 x6
      | Out_UtxosByRuneId x1 x2 x3 x4 x5 \<Rightarrow> ops_UtxosByRuneId ns x1 x2 x3 x4 x5
      | Out_UtxosByScriptHash x1 x2 x3 x4 x5 \<Rightarrow> ops_UtxosByScriptHash ns x1 x2 x3 x4 x5
      | Out_Cursor point was_mempool timestamp mempool_info \<Rightarrow> ops_Cursor ns point was_mempool timestamp mempool_info)"

end
