(* ===== verification/Redis_Entry.thy ===== *)
theory Redis_Entry
  imports Maestro_Prelude
begin

text \<open>
  The timestamp entries that the storage worker writes to Redis for every commit and that the API and
  the garbage collector read back (\<open>services/polyphony-xbt/src/storage/redis_entry.rs\<close>): a line of
  comma separated fields. Decimal printing and parsing, hexadecimal encoding and splitting are those of
  the standard library, on ASCII strings. The two arms of the reader parse the same fields.
\<close>

section \<open>Decimal numbers\<close>

definition digit_char :: "nat \<Rightarrow> char" where
  "digit_char d = char_of (48 + d)"

function show_nat :: "nat \<Rightarrow> string" where
  "show_nat n = (if n < 10 then [digit_char n] else show_nat (n div 10) @ [digit_char (n mod 10)])"
  by pat_completeness auto
termination by (relation "measure id") auto

declare show_nat.simps [simp del]

definition digit_value :: "char \<Rightarrow> nat option" where
  "digit_value c = (if 48 \<le> (of_char c :: nat) \<and> (of_char c :: nat) \<le> 57 then Some (of_char c - 48) else None)"

primrec digits_value :: "string \<Rightarrow> nat \<Rightarrow> nat option" where
  "digits_value [] acc = Some acc"
| "digits_value (c # cs) acc =
     (case digit_value c of Some d \<Rightarrow> digits_value cs (10 * acc + d) | None \<Rightarrow> None)"

text \<open>\<open>str::parse\<close> for unsigned integers: an optional plus sign, at least one digit, no overflow.\<close>

definition parse_u64 :: "string \<Rightarrow> u64 option" where
  "parse_u64 s =
     (let ds = (case s of c # cs \<Rightarrow> (if c = CHR ''+'' then cs else s) | [] \<Rightarrow> []) in
      if ds = [] then None
      else case digits_value ds 0 of
             Some n \<Rightarrow> (if n < 2 ^ 64 then Some (of_nat n) else None)
           | None \<Rightarrow> None)"

definition show_bool :: "bool \<Rightarrow> string" where
  "show_bool b = (if b then ''true'' else ''false'')"

definition parse_bool :: "string \<Rightarrow> bool option" where
  "parse_bool s = (if s = ''true'' then Some True else if s = ''false'' then Some False else None)"

section \<open>Hexadecimal\<close>

definition hex_digit :: "nat \<Rightarrow> char" where
  "hex_digit d = (if d < 10 then char_of (48 + d) else char_of (87 + d))"

definition hex_encode :: "bytes \<Rightarrow> string" where
  "hex_encode bs = concat (map (\<lambda>b. [hex_digit (unat b div 16), hex_digit (unat b mod 16)]) bs)"

definition hex_value :: "char \<Rightarrow> nat option" where
  "hex_value c =
     (let n = of_char c :: nat in
      if 48 \<le> n \<and> n \<le> 57 then Some (n - 48)
      else if 97 \<le> n \<and> n \<le> 102 then Some (n - 87)
      else if 65 \<le> n \<and> n \<le> 70 then Some (n - 55)
      else None)"

fun hex_decode :: "string \<Rightarrow> bytes option" where
  "hex_decode [] = Some []"
| "hex_decode [c] = None"
| "hex_decode (c # d # cs) =
     (case (hex_value c, hex_value d, hex_decode cs) of
        (Some x, Some y, Some bs) \<Rightarrow> Some (of_nat (16 * x + y) # bs)
      | _ \<Rightarrow> None)"

text \<open>\<open>try_into\<close> a fixed-size array.\<close>

definition try_into_array :: "nat \<Rightarrow> bytes \<Rightarrow> bytes option" where
  "try_into_array n bs = (if length bs = n then Some bs else None)"

section \<open>Lines\<close>

primrec split_comma :: "string \<Rightarrow> string list" where
  "split_comma [] = [[]]"
| "split_comma (c # cs) =
     (if c = CHR '','' then [] # split_comma cs
      else case split_comma cs of p # ps \<Rightarrow> (c # p) # ps | [] \<Rightarrow> [[c]])"

fun join_comma :: "string list \<Rightarrow> string" where
  "join_comma [] = []"
| "join_comma [p] = p"
| "join_comma (p # ps) = p @ CHR '','' # join_comma ps"

definition lower_char :: "char \<Rightarrow> char" where
  "lower_char c = (if 65 \<le> (of_char c :: nat) \<and> (of_char c :: nat) \<le> 90 then char_of ((of_char c :: nat) + 32) else c)"

definition to_lowercase :: "string \<Rightarrow> string" where
  "to_lowercase s = map lower_char s"

section \<open>Entries\<close>

record RedisEntry =
  re_height :: u64
  re_block_hash :: bytes
  re_was_mempool :: bool
  re_commit_ts :: u64
  re_network :: string
  re_chain_tip_height :: u64
  re_chain_tip_hash :: bytes
  re_mempool_view_ts :: u64

definition show_u64 :: "u64 \<Rightarrow> string" where
  "show_u64 n = show_nat (unat n)"

definition RedisEntry_to_string :: "RedisEntry \<Rightarrow> string" where
  "RedisEntry_to_string e =
     join_comma
       [show_u64 (re_height e), hex_encode (re_block_hash e), show_bool (re_was_mempool e),
        show_u64 (re_commit_ts e), to_lowercase (re_network e), show_u64 (re_chain_tip_height e),
        hex_encode (re_chain_tip_hash e), show_u64 (re_mempool_view_ts e)]"

text \<open>The next field of the iterator, and the fields after it.\<close>

definition next_field :: "string list \<Rightarrow> string option \<times> string list" where
  "next_field fs = (case fs of [] \<Rightarrow> (None, []) | f # rest \<Rightarrow> (Some f, rest))"

definition hash_field :: "string \<Rightarrow> bytes work" where
  "hash_field f = work_bind (unwrap (hex_decode f)) (\<lambda>bs. unwrap (try_into_array 32 bs))"

definition RedisEntry_from_redis_value :: "string \<Rightarrow> RedisEntry work" where
  "RedisEntry_from_redis_value line =
     (let fs = split_comma line; (f1, fs) = next_field fs; (f2, fs) = next_field fs;
          (f3, fs) = next_field fs; (f4, fs) = next_field fs; (f5, fs) = next_field fs;
          (f6, fs) = next_field fs; (f7, fs) = next_field fs; (f8, fs) = next_field fs in
      work_bind (work_bind (unwrap f1) (\<lambda>f. unwrap (parse_u64 f))) (\<lambda>height.
      work_bind (work_bind (unwrap f2) hash_field) (\<lambda>block_hash.
      work_bind (work_bind (unwrap f3) (\<lambda>f. unwrap (parse_bool f))) (\<lambda>was_mempool.
      work_bind (work_bind (unwrap f4) (\<lambda>f. unwrap (parse_u64 f))) (\<lambda>commit_ts.
      work_bind (case f6 of Some f \<Rightarrow> unwrap (parse_u64 f) | None \<Rightarrow> Inr 0) (\<lambda>chain_tip_height.
      work_bind (case f7 of Some f \<Rightarrow> hash_field f | None \<Rightarrow> Inr (replicate 32 0)) (\<lambda>chain_tip_hash.
      work_bind (case f8 of Some f \<Rightarrow> unwrap (parse_u64 f) | None \<Rightarrow> Inr 0) (\<lambda>mempool_view_ts.
        Inr \<lparr>re_height = height, re_block_hash = block_hash, re_was_mempool = was_mempool,
             re_commit_ts = commit_ts, re_network = to_lowercase (case f5 of Some f \<Rightarrow> f | None \<Rightarrow> []),
             re_chain_tip_height = chain_tip_height, re_chain_tip_hash = chain_tip_hash,
             re_mempool_view_ts = mempool_view_ts\<rparr>))))))))"

section \<open>Printing and parsing\<close>

lemma digit_value_digit_char: "d < 10 \<Longrightarrow> digit_value (digit_char d) = Some d"
  by (simp add: digit_value_def digit_char_def)

lemma digits_value_snoc:
  "digits_value (cs @ [c]) acc =
     (case digits_value cs acc of Some n \<Rightarrow> map_option (\<lambda>d. 10 * n + d) (digit_value c) | None \<Rightarrow> None)"
  by (induction cs arbitrary: acc) (auto split: option.splits)

lemma digits_value_show_nat: "digits_value (show_nat n) 0 = Some n"
proof (induction n rule: show_nat.induct)
  case (1 n)
  show ?case
  proof (cases "n < 10")
    case True
    then show ?thesis by (simp add: show_nat.simps [of n] digit_value_digit_char)
  next
    case False
    then show ?thesis
      using 1 by (simp add: show_nat.simps [of n] digits_value_snoc digit_value_digit_char)
  qed
qed

lemma show_nat_digits: "set (show_nat n) \<subseteq> digit_char ` {..<10}"
proof (induction n rule: show_nat.induct)
  case (1 n)
  then show ?case by (cases "n < 10") (auto simp: show_nat.simps [of n])
qed

lemma show_nat_not_Nil [simp]: "show_nat n \<noteq> []"
  by (simp add: show_nat.simps [of n])

lemma digit_char_neq: "d < 10 \<Longrightarrow> digit_char d \<noteq> CHR ''+''" "d < 10 \<Longrightarrow> digit_char d \<noteq> CHR '',''"
  using digit_value_digit_char [of d] by (auto simp: digit_value_def)

lemma show_nat_no_comma: "CHR '','' \<notin> set (show_nat n)"
  using show_nat_digits [of n] digit_char_neq(2) by fastforce

lemma parse_u64_show [simp]: "parse_u64 (show_u64 n) = Some n"
proof -
  obtain c cs where s: "show_nat (unat n) = c # cs" by (cases "show_nat (unat n)") auto
  then obtain d where "d < 10" "c = digit_char d" using show_nat_digits [of "unat n"] by auto
  then have "c \<noteq> CHR ''+''" using digit_char_neq(1) by simp
  moreover have "unat n < 2 ^ 64" using unsigned_less [of n, where 'a = nat] by simp
  ultimately show ?thesis
    using digits_value_show_nat [of "unat n"] by (simp add: parse_u64_def show_u64_def s)
qed

lemma parse_bool_show [simp]: "parse_bool (show_bool b) = Some b"
  by (simp add: parse_bool_def show_bool_def)

lemma hex_value_hex_digit: "d < 16 \<Longrightarrow> hex_value (hex_digit d) = Some d"
  by (auto simp: hex_value_def hex_digit_def Let_def)

lemma hex_decode_encode [simp]: "hex_decode (hex_encode bs) = Some bs"
proof (induction bs)
  case Nil
  then show ?case by (simp add: hex_encode_def)
next
  case (Cons b bs)
  have b: "unat b < 256" using unsigned_less [of b, where 'a = nat] by simp
  then have "unat b div 16 < 16" "unat b mod 16 < 16" by (auto simp: less_mult_imp_div_less)
  moreover have "of_nat (16 * (unat b div 16) + unat b mod 16) = b" by simp
  ultimately show ?case
    using Cons by (simp add: hex_encode_def hex_value_hex_digit del: of_nat_add of_nat_mult)
qed

lemma hex_digit_no_comma: "d < 16 \<Longrightarrow> hex_digit d \<noteq> CHR '',''"
  using hex_value_hex_digit [of d] by (auto simp: hex_value_def)

lemma hex_encode_no_comma: "CHR '','' \<notin> set (hex_encode bs)"
proof -
  have "hex_digit (unat b div 16) \<noteq> CHR '',''" "hex_digit (unat b mod 16) \<noteq> CHR '',''" for b :: u8
    using hex_digit_no_comma unsigned_less [of b, where 'a = nat] by (auto simp: less_mult_imp_div_less)
  then show ?thesis by (auto simp: hex_encode_def dest: sym)
qed

lemma lower_char_lower [simp]: "lower_char (lower_char c) = lower_char c"
  by (auto simp: lower_char_def)

lemma lower_char_comma [simp]: "lower_char c = CHR '','' \<longleftrightarrow> c = CHR '',''"
proof -
  have "char_of n \<noteq> CHR '',''" if "97 \<le> n" "n \<le> 122" for n :: nat
  proof
    assume "char_of n = CHR '',''"
    then have "of_char (char_of n) = (of_char CHR '','' :: nat)" by simp
    then show False using that by simp
  qed
  from this [of "of_char c + 32"] show ?thesis by (auto simp: lower_char_def)
qed

lemma to_lowercase_idem [simp]: "to_lowercase (to_lowercase s) = to_lowercase s"
  by (simp add: to_lowercase_def)

lemma to_lowercase_no_comma: "CHR '','' \<notin> set s \<Longrightarrow> CHR '','' \<notin> set (to_lowercase s)"
  by (auto simp: to_lowercase_def dest: sym)

lemma split_comma_not_Nil: "split_comma s \<noteq> []"
  by (induction s) (auto split: list.splits)

lemma split_comma_field: "CHR '','' \<notin> set p \<Longrightarrow> split_comma p = [p]"
  by (induction p) auto

lemma split_comma_append: "CHR '','' \<notin> set p \<Longrightarrow> split_comma (p @ CHR '','' # s) = p # split_comma s"
  by (induction p) auto

lemma split_join: "ps \<noteq> [] \<Longrightarrow> \<forall>p \<in> set ps. CHR '','' \<notin> set p \<Longrightarrow> split_comma (join_comma ps) = ps"
  by (induction ps rule: join_comma.induct) (auto simp: split_comma_field split_comma_append)

lemma hash_field_encode [simp]: "length h = 32 \<Longrightarrow> hash_field (hex_encode h) = Inr h"
  by (simp add: hash_field_def unwrap_def try_into_array_def)

lemma show_fields_no_comma: "CHR '','' \<notin> set (show_u64 n)" "CHR '','' \<notin> set (show_bool b)"
  using show_nat_no_comma by (auto simp: show_u64_def show_bool_def)

definition redis_entry_wf :: "RedisEntry \<Rightarrow> bool" where
  "redis_entry_wf e \<longleftrightarrow>
     length (re_block_hash e) = 32 \<and> length (re_chain_tip_hash e) = 32 \<and> CHR '','' \<notin> set (re_network e)"

lemma split_entry:
  assumes "redis_entry_wf e"
  shows "split_comma (RedisEntry_to_string e) =
           [show_u64 (re_height e), hex_encode (re_block_hash e), show_bool (re_was_mempool e),
            show_u64 (re_commit_ts e), to_lowercase (re_network e), show_u64 (re_chain_tip_height e),
            hex_encode (re_chain_tip_hash e), show_u64 (re_mempool_view_ts e)]"
  unfolding RedisEntry_to_string_def
  by (rule split_join)
    (use assms show_fields_no_comma hex_encode_no_comma to_lowercase_no_comma in
      \<open>auto simp: redis_entry_wf_def\<close>)

lemma from_to_redis:
  assumes "redis_entry_wf e"
  shows "RedisEntry_from_redis_value (RedisEntry_to_string e) = Inr (e\<lparr>re_network := to_lowercase (re_network e)\<rparr>)"
  using assms
  by (simp add: RedisEntry_from_redis_value_def split_entry next_field_def unwrap_def redis_entry_wf_def)

section \<open>Properties\<close>

text \<open>
  C22: An entry written to Redis is read back unchanged, up to the case of the network name, and entries
  that an older version wrote without the last three fields are read with zeroes in their place.
\<close>

theorem redis_entry_roundtrip:
  assumes "redis_entry_wf e"
  shows "RedisEntry_from_redis_value (RedisEntry_to_string e) = Inr (e\<lparr>re_network := to_lowercase (re_network e)\<rparr>)
       \<and> RedisEntry_from_redis_value
           (join_comma [show_u64 (re_height e), hex_encode (re_block_hash e), show_bool (re_was_mempool e),
              show_u64 (re_commit_ts e), to_lowercase (re_network e)])
         = Inr (e\<lparr>re_network := to_lowercase (re_network e), re_chain_tip_height := 0,
                   re_chain_tip_hash := replicate 32 0, re_mempool_view_ts := 0\<rparr>)"
proof
  have "split_comma (join_comma [show_u64 (re_height e), hex_encode (re_block_hash e),
      show_bool (re_was_mempool e), show_u64 (re_commit_ts e), to_lowercase (re_network e)]) =
    [show_u64 (re_height e), hex_encode (re_block_hash e), show_bool (re_was_mempool e),
     show_u64 (re_commit_ts e), to_lowercase (re_network e)]"
    by (rule split_join)
      (use assms show_fields_no_comma hex_encode_no_comma to_lowercase_no_comma in
        \<open>auto simp: redis_entry_wf_def\<close>)
  then show "RedisEntry_from_redis_value
      (join_comma [show_u64 (re_height e), hex_encode (re_block_hash e), show_bool (re_was_mempool e),
         show_u64 (re_commit_ts e), to_lowercase (re_network e)])
    = Inr (e\<lparr>re_network := to_lowercase (re_network e), re_chain_tip_height := 0,
              re_chain_tip_hash := replicate 32 0, re_mempool_view_ts := 0\<rparr>)"
    using assms
    by (simp add: RedisEntry_from_redis_value_def next_field_def unwrap_def redis_entry_wf_def
        del: join_comma.simps)
qed (rule from_to_redis [OF assms])

definition sample_entry :: RedisEntry where
  "sample_entry =
     \<lparr>re_height = 123, re_block_hash = replicate 32 171, re_was_mempool = True, re_commit_ts = 456,
      re_network = ''Mainnet'', re_chain_tip_height = 789, re_chain_tip_hash = replicate 32 7,
      re_mempool_view_ts = 123456789\<rparr>"

theorem redis_entry_roundtrip_witness:
  "RedisEntry_from_redis_value (RedisEntry_to_string sample_entry) = Inr (sample_entry\<lparr>re_network := ''mainnet''\<rparr>)"
proof -
  have "redis_entry_wf sample_entry" by (simp add: redis_entry_wf_def sample_entry_def)
  moreover have "to_lowercase (re_network sample_entry) = ''mainnet''" by code_simp
  ultimately show ?thesis using redis_entry_roundtrip [of sample_entry] by simp
qed

end
