(* ===== verification/Split_Commit.thy ===== *)
theory Split_Commit
  imports Rollback_Buffer Reducer_Outputs Redis_Entry
begin

text \<open>
  The split commit of the storage worker (\<open>services/polyphony-xbt/src/storage/tikv.rs\<close>): a lock is
  written, the actions are committed in batches, and the lock is removed.

  The state of the database and of the worker is passed explicitly. Every commit consumes one outcome
  chosen by the environment: it takes effect, it does not, or it takes effect and its reply is lost.
  A task whose transaction cannot be started does nothing, as one whose commit does not take effect.
  The tasks of a group read the database as it is when the group starts and commit one after the other;
  all of them are waited for before their results are looked at. Timings and logging are left out.
\<close>

section \<open>The worker and its environment\<close>

text \<open>A timestamp is its version number.\<close>

type_synonym TiKVTimestamp = u64

datatype outcome = Committed "TiKVTimestamp option" | NotCommitted | ReplyLost

record SplitCommitInfo =
  sc_lock :: SplitCommitLockValue
  batches_complete :: "u32 list"

definition DEFAULT_SPLIT_COMMIT_BATCH_SIZE :: nat where
  "DEFAULT_SPLIT_COMMIT_BATCH_SIZE = 500"

definition DEFAULT_SPLIT_COMMIT_MAX_CONCURRENT :: nat where
  "DEFAULT_SPLIT_COMMIT_MAX_CONCURRENT = 100"

record MempoolInfo =
  mi_chain_tip :: "u64 \<times> bytes"
  mempool_view_ts :: u64

datatype StorageActionPayload =
    RollForward Point "ReducerOutput list" bool
  | RollBack Point bool
  | MempoolRefresh MempoolInfo "(Point \<times> ReducerOutput list) list" u128 u128

record Config =
  network :: string
  cfg_dataplane_id :: u8
  cfg_instance_id :: u16
  split_commit_batch_size :: "nat option"
  split_commit_max_concurrent :: "nat option"
  tikv_cleanup_locks :: "bool option"
  advertise_immediately :: "bool option"
  buffer_size :: nat

text \<open>The fields of the worker; connections, ports, metrics and transaction options are left out.\<close>

record Worker =
  config :: Config
  rollback_buffer :: RollbackBuffer
  wk_mutable :: bool
  work_unit_2pc :: "StorageActionPayload list"
  last_processed :: "Point option"
  partial_split_commit :: "SplitCommitInfo option"
  safe_mode :: bool
  mempool_refresh_cache :: "(Point \<times> (Key \<times> StorageAction) list) option"
  reducer_names :: "string list"
  registered :: bool

definition key_encoder :: "Worker \<Rightarrow> Namespace" where
  "key_encoder wk = \<lparr>dataplane_id = cfg_dataplane_id (config wk), instance_id = cfg_instance_id (config wk)\<rparr>"

text \<open>Redis holds sorted sets: for a key, members with their scores.\<close>

record world =
  db :: store
  redis :: "string \<Rightarrow> bytes \<rightharpoonup> int"
  worker :: Worker
  outcomes :: "outcome list"

type_synonym 'a io = "world \<Rightarrow> 'a work \<times> world"

definition io_return :: "'a \<Rightarrow> 'a io" where
  "io_return x w = (Inr x, w)"

definition io_fail :: "work_error \<Rightarrow> 'a io" where
  "io_fail e w = (Inl e, w)"

definition io_bind :: "'a io \<Rightarrow> ('a \<Rightarrow> 'b io) \<Rightarrow> 'b io" where
  "io_bind m f w = (case m w of (Inl e, w') \<Rightarrow> (Inl e, w') | (Inr x, w') \<Rightarrow> f x w')"

definition io_lift :: "'a work \<Rightarrow> 'a io" where
  "io_lift r w = (r, w)"

definition io_get :: "(world \<Rightarrow> 'a) \<Rightarrow> 'a io" where
  "io_get f w = (Inr (f w), w)"

definition io_worker :: "(Worker \<Rightarrow> Worker) \<Rightarrow> unit io" where
  "io_worker f w = (Inr (), w\<lparr>worker := f (worker w)\<rparr>)"

definition io_guard :: "bool \<Rightarrow> unit io" where
  "io_guard b = (if b then io_return () else io_fail RustPanic)"

text \<open>\<open>or_restart\<close>: every error becomes a restart of the stage; a panic is not an error value.\<close>

definition or_restart :: "'a work \<Rightarrow> 'a work" where
  "or_restart r = (case r of Inl WorkPanic \<Rightarrow> Inl ShouldRestart | _ \<Rightarrow> r)"

definition io_or_restart :: "'a io \<Rightarrow> 'a io" where
  "io_or_restart m w = (case m w of (r, w') \<Rightarrow> (or_restart r, w'))"

primrec io_mapM :: "('a \<Rightarrow> 'b io) \<Rightarrow> 'a list \<Rightarrow> 'b list io" where
  "io_mapM f [] = io_return []"
| "io_mapM f (x # xs) = io_bind (f x) (\<lambda>y. io_bind (io_mapM f xs) (\<lambda>ys. io_return (y # ys)))"

definition next_outcome :: "world \<Rightarrow> outcome \<times> world" where
  "next_outcome w =
     (case outcomes w of [] \<Rightarrow> (Committed None, w) | out # rest \<Rightarrow> (out, w\<lparr>outcomes := rest\<rparr>))"

text \<open>Committing the buffered mutations; every failure is turned into a restart by the callers.\<close>

definition commit_txn_or_rollback :: "Mutation list \<Rightarrow> TiKVTimestamp option io" where
  "commit_txn_or_rollback ms w =
     (case next_outcome w of
        (Committed ts, w') \<Rightarrow> (Inr ts, w'\<lparr>db := apply_mutations ms (db w')\<rparr>)
      | (NotCommitted, w') \<Rightarrow> (Inl ShouldRestart, w')
      | (ReplyLost, w') \<Rightarrow> (Inl ShouldRestart, w'\<lparr>db := apply_mutations ms (db w')\<rparr>))"

text \<open>A request whose effect is outside of this model, such as cleaning up locks.\<close>

definition request :: "unit io" where
  "request w =
     (case next_outcome w of (Committed _, w') \<Rightarrow> (Inr (), w') | (_, w') \<Rightarrow> (Inl ShouldRestart, w'))"

definition zadd :: "string \<Rightarrow> bytes \<Rightarrow> int \<Rightarrow> unit io" where
  "zadd key member score w =
     (let added = \<lambda>w. w\<lparr>redis := (redis w)(key := (redis w key)(member \<mapsto> score))\<rparr> in
      case next_outcome w of
        (Committed _, w') \<Rightarrow> (Inr (), added w')
      | (NotCommitted, w') \<Rightarrow> (Inl ShouldRestart, w')
      | (ReplyLost, w') \<Rightarrow> (Inl ShouldRestart, added w'))"

section \<open>Groups of parallel tasks\<close>

text \<open>
  A task computes the mutations of its batch from its snapshot and commits them. A panic of a task is
  a join error.
\<close>

definition run_task :: "(store \<Rightarrow> (Mutation list \<times> 'r) work) \<Rightarrow> store \<Rightarrow> 'r work io" where
  "run_task task snapshot w =
     (case task snapshot of
        Inl RustPanic \<Rightarrow> (Inr (Inl ShouldRestart), w)
      | Inl e \<Rightarrow> (Inr (Inl e), w)
      | Inr (ms, result) \<Rightarrow>
          (case commit_txn_or_rollback ms w of
             (Inl e, w') \<Rightarrow> (Inr (Inl e), w')
           | (Inr _, w') \<Rightarrow> (Inr (Inr result), w')))"

definition run_group :: "(store \<Rightarrow> (Mutation list \<times> 'r) work) list \<Rightarrow> 'r list io" where
  "run_group tasks =
     io_bind (io_get db) (\<lambda>snapshot.
     io_bind (io_mapM (\<lambda>task. run_task task snapshot) tasks) (\<lambda>results.
       io_lift (work_map (\<lambda>r. r) results)))"

definition split_chunks :: "nat \<Rightarrow> 'a list \<Rightarrow> 'a list list work" where
  "split_chunks n xs = (if n = 0 then Inl RustPanic else Inr (chunks n xs))"

definition max_concurrent :: "Worker \<Rightarrow> nat" where
  "max_concurrent wk =
     unwrap_or (split_commit_max_concurrent (config wk)) DEFAULT_SPLIT_COMMIT_MAX_CONCURRENT"

definition batch_size :: "Worker \<Rightarrow> nat" where
  "batch_size wk = unwrap_or (split_commit_batch_size (config wk)) DEFAULT_SPLIT_COMMIT_BATCH_SIZE"

definition run_in_groups :: "('b \<Rightarrow> store \<Rightarrow> (Mutation list \<times> 'r) work) \<Rightarrow> 'b list \<Rightarrow> 'r list io" where
  "run_in_groups task action_batches =
     io_bind (io_get worker) (\<lambda>wk.
     io_bind (io_lift (split_chunks (max_concurrent wk) action_batches)) (\<lambda>concurrent_batches.
     io_bind (io_mapM (\<lambda>concurrent_batch. run_group (map task concurrent_batch)) concurrent_batches)
       (\<lambda>results. io_return (concat results))))"

section \<open>The lock\<close>

definition point_pair :: "Point \<Rightarrow> u64 \<times> bytes" where
  "point_pair p = (pt_height p, pt_hash p)"

definition put_lock :: "SplitCommitLockValue \<Rightarrow> unit io" where
  "put_lock lock_val =
     io_bind (io_get worker) (\<lambda>wk.
     io_bind (commit_txn_or_rollback
       [Put (Prefix_lock (key_encoder wk)) (SplitCommitLockValue_encode lock_val)]) (\<lambda>_.
       io_return ()))"

definition delete_lock :: "TiKVTimestamp option io" where
  "delete_lock =
     io_bind (io_get worker) (\<lambda>wk. commit_txn_or_rollback [Del (Prefix_lock (key_encoder wk))])"

section \<open>Actions of a block that cannot be rolled back\<close>

definition immutable_task :: "Worker \<Rightarrow> nat \<times> StorageActions \<Rightarrow> store \<Rightarrow> (Mutation list \<times> unit) work" where
  "immutable_task wk entry snapshot =
     (let (batch_id, batch) = entry in
      work_bind (or_restart (execute_batch batch
        (batch_get_required_kvs_for_batch snapshot batch False (safe_mode wk)))) (\<lambda>ms.
        Inr (ms @ [Put (Prefix_batch_complete (key_encoder wk) (of_nat batch_id)) []], ())))"

definition skip_complete ::
  "Worker \<Rightarrow> u64 \<Rightarrow> (nat \<times> StorageActions) list \<Rightarrow> (nat \<times> StorageActions) list work" where
  "skip_complete wk n_actions action_batches =
     (case partial_split_commit wk of
        Some partial_commit_info \<Rightarrow>
          if n_actions \<noteq> total_actions (sc_lock partial_commit_info) then Inl RustPanic
          else if mutable (sc_lock partial_commit_info) then Inl RustPanic
          else Inr (filter (\<lambda>(idx, _). of_nat idx \<notin> set (batches_complete partial_commit_info))
                      action_batches)
      | None \<Rightarrow> Inr action_batches)"

definition cleanup_immutable :: "nat \<Rightarrow> TiKVTimestamp option io" where
  "cleanup_immutable num_of_batches =
     io_bind (io_get worker) (\<lambda>wk.
       commit_txn_or_rollback
         (delete_mutation (Prefix_lock (key_encoder wk)) #
          map (\<lambda>batch_id. delete_mutation (Prefix_batch_complete (key_encoder wk) (of_nat batch_id)))
            [0..<num_of_batches]))"

definition apply_actions_split_commit_immutable :: "StorageActions \<Rightarrow> TiKVTimestamp option io" where
  "apply_actions_split_commit_immutable actions =
     io_bind (io_get worker) (\<lambda>wk.
     (let actions = sort_key action_key actions; n_actions = of_nat (length actions) in
     io_bind (io_lift (split_chunks (batch_size wk) actions)) (\<lambda>action_chunks.
     (let action_batches = enumerate 0 action_chunks; num_of_batches = length action_batches in
     io_bind (io_lift (skip_complete wk n_actions action_batches)) (\<lambda>action_batches.
     io_bind (put_lock \<lparr>safe_point = map_option point_pair (last_processed wk),
                        total_actions = n_actions, mutable = False\<rparr>) (\<lambda>_.
     io_bind (run_in_groups (immutable_task wk) action_batches) (\<lambda>_.
     io_bind (cleanup_immutable num_of_batches) (\<lambda>final_ts.
     io_bind (io_worker (\<lambda>wk. wk\<lparr>partial_split_commit := None\<rparr>)) (\<lambda>_.
       io_return final_ts)))))))))"

section \<open>Actions of a block that may be rolled back\<close>

definition mutable_task ::
  "Worker \<Rightarrow> Point \<Rightarrow> (StorageAction \<times> bool) list \<Rightarrow> store \<Rightarrow> (Mutation list \<times> StorageActions) work" where
  "mutable_task wk point batch snapshot =
     work_bind (or_restart (execute_batch_with_inverse (safe_mode wk) batch
       (batch_get_required_kvs_for_batch snapshot (map fst batch) True (safe_mode wk)))) (\<lambda>(ms, inverses).
     work_bind (apply_storage_rb_actions inverses point (key_encoder wk)) (\<lambda>rb_mutations.
       Inr (ms @ rb_mutations, inverses)))"

definition apply_actions_split_commit_mutable ::
  "StorageActions \<Rightarrow> Point \<Rightarrow> (TiKVTimestamp option \<times> StorageActions) io" where
  "apply_actions_split_commit_mutable actions point =
     io_bind (io_get worker) (\<lambda>wk.
     (let actions = sort_key action_key actions; n_actions = of_nat (length actions) in
     io_bind (io_lift (split_chunks (batch_size wk) actions)) (\<lambda>action_batches.
     io_bind (put_lock \<lparr>safe_point = map_option point_pair (last_processed wk),
                        total_actions = n_actions, mutable = True\<rparr>) (\<lambda>_.
     io_bind (run_in_groups (\<lambda>batch. mutable_task wk point (map (\<lambda>a. (a, True)) batch)) action_batches)
       (\<lambda>all_inverses.
     io_bind delete_lock (\<lambda>final_ts.
       io_return (final_ts, concat all_inverses)))))))"

text \<open>The actions of a mempool refresh, each with whether its inverse is recorded.\<close>

definition apply_actions_split_commit_mempool ::
  "(StorageAction \<times> bool) list \<Rightarrow> Point \<Rightarrow> Point \<Rightarrow> (TiKVTimestamp option \<times> StorageActions) io" where
  "apply_actions_split_commit_mempool actions mempool_point chain_tip =
     io_bind (io_get worker) (\<lambda>wk.
     (let actions = sort_key (\<lambda>(x, _). action_key x) actions; n_actions = of_nat (length actions) in
     io_bind (io_lift (split_chunks (batch_size wk) actions)) (\<lambda>action_batches.
     io_bind (put_lock \<lparr>safe_point = Some (point_pair chain_tip), total_actions = n_actions,
                        mutable = True\<rparr>) (\<lambda>_.
     io_bind (run_in_groups (mutable_task wk mempool_point) action_batches) (\<lambda>all_inverses.
     io_bind delete_lock (\<lambda>final_ts.
       io_return (final_ts, concat all_inverses)))))))"

section \<open>Undoing blocks\<close>

primrec inverse_mutations :: "Namespace \<Rightarrow> Point \<Rightarrow> StorageActions \<Rightarrow> Mutation list work" where
  "inverse_mutations ns reverse_point [] = Inr []"
| "inverse_mutations ns reverse_point (action # batch) =
     work_bind (case action of
         Set k v \<Rightarrow> Inr (set_mutation k v)
       | Delete k \<Rightarrow> Inr (delete_mutation k)
       | _ \<Rightarrow> Inl RustPanic) (\<lambda>m.
     work_bind (inverse_mutations ns reverse_point batch) (\<lambda>ms.
       Inr (m # delete_mutation (rollback_key ns reverse_point (action_key action)) # ms)))"

definition inverse_task :: "Worker \<Rightarrow> Point \<Rightarrow> StorageActions \<Rightarrow> store \<Rightarrow> (Mutation list \<times> unit) work" where
  "inverse_task wk reverse_point batch snapshot =
     work_bind (inverse_mutations (key_encoder wk) reverse_point batch) (\<lambda>ms. Inr (ms, ()))"

definition undo_block :: "Point \<times> StorageActions \<Rightarrow> unit io" where
  "undo_block entry =
     io_bind (io_get worker) (\<lambda>wk.
     io_bind (io_lift (split_chunks (batch_size wk) (sort_key action_key (snd entry)))) (\<lambda>action_batches.
     io_bind (run_in_groups (inverse_task wk (fst entry)) action_batches) (\<lambda>_. io_return ())))"

definition apply_inverse_actions_split_commit ::
  "(Point \<times> StorageActions) list \<Rightarrow> Point \<Rightarrow> TiKVTimestamp option io" where
  "apply_inverse_actions_split_commit reversing_blocks rb_point =
     io_bind (put_lock \<lparr>safe_point = Some (point_pair rb_point), total_actions = 0, mutable = True\<rparr>) (\<lambda>_.
     io_bind (io_mapM undo_block reversing_blocks) (\<lambda>_.
       delete_lock))"

end
