(* ===== verification/Task_Groups.thy ===== *)
theory Task_Groups
  imports Split_Commit
begin

text \<open>
  What a group of parallel tasks does to the database, whatever the outcomes of their commits. The
  locale \<open>local_tasks\<close> asks that a task reads and writes only its own keys; tasks on disjoint keys then
  each take effect or not, independently of the others, and a run without an error has done all of them.
  The three kinds of tasks of the split commits are instances.
\<close>

section \<open>The environment\<close>

definition fault_free :: "world \<Rightarrow> bool" where
  "fault_free w \<longleftrightarrow> (\<forall>out \<in> set (outcomes w). \<exists>ts. out = Committed ts)"

text \<open>The worker and Redis are left alone, and an environment without faults stays one.\<close>

definition same_env :: "world \<Rightarrow> world \<Rightarrow> bool" where
  "same_env w w' \<longleftrightarrow> worker w' = worker w \<and> redis w' = redis w \<and> (fault_free w \<longrightarrow> fault_free w')"

lemma same_env_refl [simp]: "same_env w w"
  by (simp add: same_env_def)

lemma same_env_trans: "same_env w w1 \<Longrightarrow> same_env w1 w2 \<Longrightarrow> same_env w w2"
  by (auto simp: same_env_def)

lemma same_env_worker: "same_env w w' \<Longrightarrow> worker w' = worker w"
  by (simp add: same_env_def)

lemma apply_mutations_cong: "d x = d' x \<Longrightarrow> apply_mutations ms d x = apply_mutations ms d' x"
proof (induction ms arbitrary: d d')
  case Nil
  then show ?case by simp
next
  case (Cons m ms)
  have "apply_mutation m d x = apply_mutation m d' x" using Cons.prems by (cases m) auto
  then show ?case unfolding apply_mutations_simps by (rule Cons.IH)
qed

text \<open>The three outcomes of a commit.\<close>

lemma commit_cases:
  assumes "commit_txn_or_rollback ms w = (r, w')"
  obtains (committed) ts where "r = Inr ts" "db w' = apply_mutations ms (db w)" "same_env w w'"
  | (aborted) "r = Inl ShouldRestart" "db w' = db w" "same_env w w'" "\<not> fault_free w"
  | (lost) "r = Inl ShouldRestart" "db w' = apply_mutations ms (db w)" "same_env w w'" "\<not> fault_free w"
proof (cases "outcomes w")
  case Nil
  then show thesis
    using assms committed by (auto simp: commit_txn_or_rollback_def next_outcome_def same_env_def fault_free_def)
next
  case (Cons out rest)
  then show thesis
    using assms committed aborted lost
    by (cases out) (auto simp: commit_txn_or_rollback_def next_outcome_def same_env_def fault_free_def)
qed

lemma or_restart_Inr_iff [simp]: "or_restart r = Inr x \<longleftrightarrow> r = Inr x"
  by (auto simp: or_restart_def split: sum.splits work_error.splits)

section \<open>Local tasks\<close>

locale local_tasks =
  fixes task :: "'b \<Rightarrow> store \<Rightarrow> (Mutation list \<times> 'r) work"
    and keys :: "'b \<Rightarrow> Key set"
  assumes reads: "(\<And>x. x \<in> keys b \<Longrightarrow> d x = d' x) \<Longrightarrow> task b d = task b d'"
    and writes: "task b d = Inr (ms, r) \<Longrightarrow> mutation_key ` set ms \<subseteq> keys b"
begin

definition written :: "store \<Rightarrow> 'b \<Rightarrow> store" where
  "written s b = (case task b s of Inr (ms, r) \<Rightarrow> apply_mutations ms s | Inl e \<Rightarrow> s)"

definition task_result :: "store \<Rightarrow> 'b \<Rightarrow> 'r" where
  "task_result s b = (case task b s of Inr (ms, r) \<Rightarrow> r)"

definition ready :: "'b set \<Rightarrow> store \<Rightarrow> bool" where
  "ready B s \<longleftrightarrow>
     (\<forall>b \<in> B. \<exists>y. task b s = Inr y) \<and> (\<forall>b \<in> B. \<forall>c \<in> B. b \<noteq> c \<longrightarrow> keys b \<inter> keys c = {})"

text \<open>The tasks of \<open>D\<close> have been done, those of \<open>B\<close> outside of \<open>D\<close> have not.\<close>

definition progress :: "'b set \<Rightarrow> store \<Rightarrow> 'b set \<Rightarrow> store \<Rightarrow> bool" where
  "progress B s D d \<longleftrightarrow>
     (\<forall>b \<in> B. \<forall>x \<in> keys b. d x = (if b \<in> D then written s b x else s x)) \<and>
     (\<forall>x. (\<forall>b \<in> B. x \<notin> keys b) \<longrightarrow> d x = s x)"

definition advances :: "'b set \<Rightarrow> store \<Rightarrow> 'b set \<Rightarrow> 'b list \<Rightarrow> world \<Rightarrow> 'r list work \<Rightarrow> world \<Rightarrow> bool" where
  "advances B s D xs w r w' \<longleftrightarrow>
     same_env w w' \<and>
     (\<exists>D'. D \<subseteq> D' \<and> D' \<subseteq> D \<union> set xs \<and> progress B s D' (db w') \<and>
        (case r of
           Inl e \<Rightarrow> e = ShouldRestart \<and> \<not> fault_free w
         | Inr ys \<Rightarrow> ys = map (task_result s) xs \<and> D' = D \<union> set xs))"

lemma progress_start: "progress B s {} s"
  by (simp add: progress_def)

lemma written_other: "x \<notin> keys b \<Longrightarrow> written s b x = s x"
  by (auto simp: written_def intro!: apply_mutations_other dest!: writes split: sum.splits prod.splits)

lemma written_cong:
  assumes "\<And>x. x \<in> keys b \<Longrightarrow> s x = s' x" and "x \<in> keys b"
  shows "written s b x = written s' b x"
proof -
  have "task b s = task b s'" using assms(1) by (rule reads)
  then show ?thesis
    using assms apply_mutations_cong [of s x s'] by (auto simp: written_def split: sum.splits)
qed

lemma progress_frame:
  assumes "progress B s D d" and "\<forall>b \<in> B. k \<notin> keys b"
  shows "progress B (s(k := v)) D (d(k := v))"
proof -
  have "written (s(k := v)) b x = written s b x" if "b \<in> B" "x \<in> keys b" for b x
    by (rule written_cong) (use that assms(2) in auto)
  then show ?thesis using assms by (auto simp: progress_def)
qed

lemma ready_cong:
  assumes "ready B s" and "\<And>b x. b \<in> B \<Longrightarrow> x \<in> keys b \<Longrightarrow> s' x = s x"
  shows "ready B s'"
proof -
  have "task b s' = task b s" if "b \<in> B" for b
    by (rule reads) (use that assms(2) in simp)
  then show ?thesis using assms(1) by (simp add: ready_def)
qed

lemma progress_commit:
  assumes "ready B s" and "progress B s D d" and "b \<in> B" and "b \<notin> D" and "task b s = Inr (ms, r)"
  shows "progress B s (insert b D) (apply_mutations ms d)"
proof -
  have ms: "mutation_key ` set ms \<subseteq> keys b" using writes [OF assms(5)] .
  have own: "apply_mutations ms d x = written s b x" if "x \<in> keys b" for x
    using that assms by (auto simp: written_def progress_def intro!: apply_mutations_cong)
  have other: "apply_mutations ms d x = d x" if "x \<notin> keys b" for x
    using that ms by (intro apply_mutations_other) auto
  show ?thesis
    unfolding progress_def
  proof (intro conjI ballI allI impI)
    fix c x
    assume c: "c \<in> B" "x \<in> keys c"
    show "apply_mutations ms d x = (if c \<in> insert b D then written s c x else s x)"
    proof (cases "c = b")
      case True
      then show ?thesis using own c by simp
    next
      case False
      then have "x \<notin> keys b" using assms(1,3) c by (auto simp: ready_def)
      then show ?thesis using other False assms(2) c by (simp add: progress_def)
    qed
  next
    fix x
    assume "\<forall>b \<in> B. x \<notin> keys b"
    then show "apply_mutations ms d x = s x" using other assms(2,3) by (simp add: progress_def)
  qed
qed

lemma run_task_advances:
  assumes "ready B s" and "progress B s D (db w)" and "b \<in> B" and "b \<notin> D"
    and "\<And>x. x \<in> keys b \<Longrightarrow> snapshot x = s x"
    and "run_task (task b) snapshot w = (r, w')"
  shows "\<exists>v. r = Inr v \<and> advances B s D [b] w (map_sum id (\<lambda>y. [y]) v) w'"
proof -
  obtain ms y where t: "task b s = Inr (ms, y)" using assms(1,3) by (auto simp: ready_def)
  have snap: "task b snapshot = Inr (ms, y)" using reads [of b snapshot s] assms(5) t by simp
  have res: "task_result s b = y" by (simp add: task_result_def t)
  have run: "run_task (task b) snapshot w =
      (case commit_txn_or_rollback ms w of (c, w1) \<Rightarrow> (Inr (map_sum id (\<lambda>_. y) c), w1))"
    by (simp add: run_task_def snap split: prod.splits sum.splits)
  obtain c w1 where c: "commit_txn_or_rollback ms w = (c, w1)" by fastforce
  then have r: "r = Inr (map_sum id (\<lambda>_. y) c)" and w1: "w1 = w'" using assms(6) run by simp_all
  note pc = progress_commit [OF assms(1-4) t]
  from c show ?thesis
  proof (cases rule: commit_cases)
    case (committed ts)
    then show ?thesis
      using pc by (auto simp: r res advances_def w1)
  next
    case aborted
    then show ?thesis
      using assms(2) by (auto simp: r advances_def w1 intro!: exI [of _ D])
  next
    case lost
    then show ?thesis
      using pc by (auto simp: r advances_def w1 intro!: exI [of _ "insert b D"])
  qed
qed

lemma advances_append:
  assumes "advances B s D xs w (Inr ys) w1" and "advances B s (D \<union> set xs) zs w1 r w2"
  shows "advances B s D (xs @ zs) w (map_sum id (\<lambda>us. ys @ us) r) w2"
proof -
  from assms(1) have e: "same_env w w1" and ys: "ys = map (task_result s) xs"
    by (auto simp: advances_def)
  from assms(2) obtain D' where D': "D \<union> set xs \<subseteq> D'" "D' \<subseteq> D \<union> set xs \<union> set zs"
    "progress B s D' (db w2)" "same_env w1 w2"
    "case r of Inl e \<Rightarrow> e = ShouldRestart \<and> \<not> fault_free w1
     | Inr us \<Rightarrow> us = map (task_result s) zs \<and> D' = D \<union> set xs \<union> set zs"
    by (auto simp: advances_def)
  show ?thesis
    unfolding advances_def
    using same_env_trans [OF e D'(4)] D' ys e
    by (intro conjI exI [of _ D']) (auto simp: same_env_def split: sum.splits)
qed

lemma advances_stop:
  assumes "advances B s D xs w (Inl e) w1"
  shows "advances B s D (xs @ zs) w (Inl e) w1"
  using assms by (auto simp: advances_def)

lemma advances_skip:
  assumes "advances B s D xs w (Inl e) w1" and "advances B s D' zs w1 r w2"
    and "D \<subseteq> D'" and "D' \<subseteq> D \<union> set xs"
  shows "advances B s D (xs @ zs) w (Inl ShouldRestart) w2"
proof -
  obtain D'' where "D' \<subseteq> D''" "D'' \<subseteq> D' \<union> set zs" "progress B s D'' (db w2)"
    using assms(2) by (auto simp: advances_def)
  then show ?thesis
    using assms same_env_trans [of w w1 w2]
    by (auto simp: advances_def intro!: exI [of _ D''])
qed

text \<open>All tasks of a group run, also after one of them has failed.\<close>

lemma run_tasks_advance:
  assumes "ready B s" and "progress B s D (db w)" and "distinct xs" and "set xs \<subseteq> B"
    and "set xs \<inter> D = {}" and "\<And>b x. b \<in> set xs \<Longrightarrow> x \<in> keys b \<Longrightarrow> snapshot x = s x"
    and "io_mapM (\<lambda>t. run_task t snapshot) (map task xs) w = (r, w')"
  shows "\<exists>rs. r = Inr rs \<and> advances B s D xs w (work_map (\<lambda>r. r) rs) w'"
  using assms
proof (induction xs arbitrary: D w r w')
  case Nil
  then show ?case by (auto simp: io_return_def advances_def)
next
  case (Cons b xs)
  obtain r1 w1 where one: "run_task (task b) snapshot w = (r1, w1)" by fastforce
  obtain v where r1: "r1 = Inr v" and adv: "advances B s D [b] w (map_sum id (\<lambda>y. [y]) v) w1"
    using run_task_advances [OF Cons.prems(1,2) _ _ _ one] Cons.prems by auto
  obtain D1 where D1: "D \<subseteq> D1" "D1 \<subseteq> insert b D" "progress B s D1 (db w1)"
    using adv by (auto simp: advances_def)
  obtain r2 w2 where two: "io_mapM (\<lambda>t. run_task t snapshot) (map task xs) w1 = (r2, w2)" by fastforce
  have IH: "\<exists>rs. r2 = Inr rs \<and> advances B s D2 xs w1 (work_map (\<lambda>r. r) rs) w2"
    if "D2 \<subseteq> insert b D" "progress B s D2 (db w1)" for D2
    by (rule Cons.IH [OF Cons.prems(1) that(2) _ _ _ _ two]) (use Cons.prems that(1) in auto)
  obtain rs where rs: "r2 = Inr rs" "advances B s D1 xs w1 (work_map (\<lambda>r. r) rs) w2"
    using IH D1 by blast
  have r: "r = Inr (v # rs)" "w' = w2"
    using Cons.prems(7) one two r1 rs(1) by (auto simp: io_bind_def io_return_def)
  show ?case
  proof (cases v)
    case (Inl e)
    then show ?thesis
      using advances_skip [OF _ rs(2) D1(1), of "[b]" w e] adv D1(2) r
      by (auto simp: advances_def work_bind_def)
  next
    case (Inr y)
    then have "advances B s (D \<union> set [b]) xs w1 (work_map (\<lambda>r. r) rs) w2"
      using rs adv IH [of "insert b D"] by (auto simp: advances_def)
    moreover have "advances B s D [b] w (Inr [y]) w1" using adv Inr by simp
    ultimately have "advances B s D ([b] @ xs) w (map_sum id (\<lambda>us. [y] @ us) (work_map (\<lambda>r. r) rs)) w2"
      using advances_append by blast
    then show ?thesis
      using Inr r by (cases "work_map (\<lambda>r. r) rs") (auto simp: work_bind_def)
  qed
qed

lemma run_group_advances:
  assumes "ready B s" and "progress B s D (db w)" and "distinct xs" and "set xs \<subseteq> B"
    and "set xs \<inter> D = {}" and "run_group (map task xs) w = (r, w')"
  shows "advances B s D xs w r w'"
proof -
  have "db w x = s x" if "b \<in> set xs" "x \<in> keys b" for b x
  proof -
    have "b \<in> B" "b \<notin> D" using that(1) assms(4,5) by auto
    then show ?thesis using that(2) assms(2) by (simp add: progress_def)
  qed
  then show ?thesis
    using run_tasks_advance [OF assms(1-5), of "db w"] assms(6)
    by (fastforce simp: run_group_def io_bind_def io_get_def io_lift_def split: prod.splits sum.splits)
qed

lemma run_groups_advance:
  assumes "ready B s" and "progress B s D (db w)" and "distinct (concat xss)" and "set (concat xss) \<subseteq> B"
    and "set (concat xss) \<inter> D = {}"
    and "io_mapM (\<lambda>xs. run_group (map task xs)) xss w = (r, w')"
  shows "advances B s D (concat xss) w (map_sum id concat r) w'"
  using assms
proof (induction xss arbitrary: D w r w')
  case Nil
  then show ?case by (auto simp: io_return_def advances_def)
next
  case (Cons xs xss)
  obtain r1 w1 where one: "run_group (map task xs) w = (r1, w1)" by fastforce
  have adv: "advances B s D xs w r1 w1"
    by (rule run_group_advances [OF Cons.prems(1,2) _ _ _ one]) (use Cons.prems in auto)
  show ?case
  proof (cases r1)
    case (Inl e)
    then have "r = Inl e" "w' = w1" using Cons.prems(6) one by (auto simp: io_bind_def)
    then show ?thesis using advances_stop [of B s D xs w e w1 "concat xss"] adv Inl by simp
  next
    case (Inr ys)
    obtain r2 w2 where two: "io_mapM (\<lambda>xs. run_group (map task xs)) xss w1 = (r2, w2)" by fastforce
    have "progress B s (D \<union> set xs) (db w1)" using adv Inr by (auto simp: advances_def)
    then have rest: "advances B s (D \<union> set xs) (concat xss) w1 (map_sum id concat r2) w2"
      by (rule Cons.IH [OF Cons.prems(1) _ _ _ _ two]) (use Cons.prems in auto)
    have "r = map_sum id (\<lambda>yss. ys # yss) r2 \<and> w' = w2"
      using Cons.prems(6) one two Inr
      by (auto simp: io_bind_def io_return_def split: sum.splits)
    then show ?thesis using advances_append [OF adv [unfolded Inr] rest] by (cases r2) auto
  qed
qed

lemma run_in_groups_advances:
  assumes "ready B s" and "progress B s D (db w)" and "distinct xs" and "set xs \<subseteq> B"
    and "set xs \<inter> D = {}" and "max_concurrent (worker w) > 0"
    and "run_in_groups task xs w = (r, w')"
  shows "advances B s D xs w r w'"
proof -
  have c: "concat (chunks (max_concurrent (worker w)) xs) = xs" using assms(6) by (simp add: concat_chunks)
  obtain r1 w1 where run: "io_mapM (\<lambda>xs. run_group (map task xs)) (chunks (max_concurrent (worker w)) xs) w = (r1, w1)"
    by fastforce
  then have "advances B s D xs w (map_sum id concat r1) w1"
    using run_groups_advance [OF assms(1,2) _ _ _ run] assms(3-5) c by simp
  moreover have "r = map_sum id concat r1" "w' = w1"
    using assms(6,7) run
    by (auto simp: run_in_groups_def io_bind_def io_get_def io_lift_def io_return_def split_chunks_def
        split: sum.splits)
  ultimately show ?thesis by simp
qed

end

section \<open>The tasks of the split commits are local\<close>

lemma execute_storage_op_keys:
  assumes "execute_storage_op_in_txn a kv = Inr (ms, kv')"
  shows "mutation_key ` set ms \<subseteq> footprint a"
  using execute_storage_op_refines [of a kv kv] assms by (simp add: op_refines_def)

lemma execute_batch_keys: "execute_batch as kv = Inr ms \<Longrightarrow> mutation_key ` set ms \<subseteq> footprints as"
proof (induction as arbitrary: kv ms)
  case Nil
  then show ?case by simp
next
  case (Cons a as)
  then obtain ms1 kv1 ms2 where "execute_storage_op_in_txn a kv = Inr (ms1, kv1)"
    and "execute_batch as kv1 = Inr ms2" and "ms = ms1 @ ms2"
    by (auto simp: work_bind_Inr_iff)
  then show ?case using execute_storage_op_keys Cons.IH by fastforce
qed

lemma execute_batch_with_inverse_keys:
  "execute_batch_with_inverse safe es kv = Inr (ms, inverses) \<Longrightarrow>
   mutation_key ` set ms \<subseteq> footprints (map fst es) \<and> action_key ` set inverses \<subseteq> footprints (map fst es)"
proof (induction es arbitrary: kv ms inverses)
  case Nil
  then show ?case by simp
next
  case (Cons e es)
  then obtain ms1 op kv1 ms2 inv2 where
    one: "execute_storage_op_in_txn_with_inverse safe (fst e) kv = Inr (ms1, op, kv1)"
    and two: "execute_batch_with_inverse safe es kv1 = Inr (ms2, inv2)"
    and eq: "ms = ms1 @ ms2" "inverses = (if snd e then unwrap_or op [] else []) @ inv2"
    by (auto simp: work_bind_Inr_iff)
  have "inverse_ok (fst e) kv kv (Inr (ms1, op, kv1))"
    unfolding one [symmetric] by (rule execute_with_inverse_ok) simp
  then have "mutation_key ` set ms1 \<subseteq> footprint (fst e)" "action_key ` set (unwrap_or op []) \<subseteq> footprint (fst e)"
    by (simp_all add: inverse_ok_def)
  then show ?case using Cons.IH [OF two] unfolding eq by auto
qed

lemma batch_get_cong:
  assumes "\<And>x. x \<in> footprints as \<Longrightarrow> d x = d' x"
  shows "batch_get_required_kvs_for_batch d as inverses safe = batch_get_required_kvs_for_batch d' as inverses safe"
proof -
  have "set (required_keys as inverses safe) \<subseteq> footprints as"
    by (auto simp: required_keys_def intro: key_in_footprints)
  then show ?thesis
    unfolding batch_get_required_kvs_restrict using assms by (auto simp: restrict_map_def fun_eq_iff)
qed

lemma rb_actions_keys:
  "apply_storage_rb_actions inverses point ns = Inr ms \<Longrightarrow>
   mutation_key ` set ms = rollback_key ns point ` action_key ` set inverses"
proof (induction inverses arbitrary: ms)
  case Nil
  then show ?case by (simp add: apply_storage_rb_actions_def)
next
  case (Cons a inverses)
  then obtain m ns' where "rb_mutation ns point a = Inr m" "ms = m # ns'"
    and rest: "apply_storage_rb_actions inverses point ns = Inr ns'"
    by (auto simp: apply_storage_rb_actions_def work_bind_Inr_iff)
  then show ?case using Cons.IH [OF rest] by (cases a) (auto simp: set_mutation_def)
qed

lemma inverse_mutations_keys:
  "inverse_mutations ns point batch = Inr ms \<Longrightarrow>
   mutation_key ` set ms \<subseteq> action_key ` set batch \<union> rollback_key ns point ` action_key ` set batch"
proof (induction batch arbitrary: ms)
  case Nil
  then show ?case by simp
next
  case (Cons a batch)
  then obtain m ms' where ms: "ms = m # delete_mutation (rollback_key ns point (action_key a)) # ms'"
    and m: "mutation_key m = action_key a" and rest: "inverse_mutations ns point batch = Inr ms'"
    by (cases a) (auto simp: work_bind_Inr_iff set_mutation_def delete_mutation_def)
  have "mutation_key ` set ms =
      insert (action_key a) (insert (rollback_key ns point (action_key a)) (mutation_key ` set ms'))"
    by (simp add: ms m delete_mutation_def)
  then show ?case using Cons.IH [OF rest] by auto
qed

definition immutable_keys :: "Worker \<Rightarrow> nat \<times> StorageActions \<Rightarrow> Key set" where
  "immutable_keys wk e = insert (Prefix_batch_complete (key_encoder wk) (of_nat (fst e))) (footprints (snd e))"

definition mutable_keys :: "Worker \<Rightarrow> Point \<Rightarrow> (StorageAction \<times> bool) list \<Rightarrow> Key set" where
  "mutable_keys wk point es =
     footprints (map fst es) \<union> rollback_key (key_encoder wk) point ` footprints (map fst es)"

definition inverse_keys :: "Worker \<Rightarrow> Point \<Rightarrow> StorageActions \<Rightarrow> Key set" where
  "inverse_keys wk point as =
     action_key ` set as \<union> rollback_key (key_encoder wk) point ` action_key ` set as"

interpretation imm: local_tasks "immutable_task wk" "immutable_keys wk" for wk
proof
  fix b and d d' :: store
  assume same: "\<And>x. x \<in> immutable_keys wk b \<Longrightarrow> d x = d' x"
  have "batch_get_required_kvs_for_batch d (snd b) f g = batch_get_required_kvs_for_batch d' (snd b) f g" for f g
    by (rule batch_get_cong) (use same in \<open>simp add: immutable_keys_def\<close>)
  then show "immutable_task wk b d = immutable_task wk b d'"
    by (cases b) (simp add: immutable_task_def)
next
  fix b d ms r
  assume "immutable_task wk b d = Inr (ms, r)"
  then obtain ms1 where "ms = ms1 @ [Put (Prefix_batch_complete (key_encoder wk) (of_nat (fst b))) []]"
    "execute_batch (snd b) (batch_get_required_kvs_for_batch d (snd b) False (safe_mode wk)) = Inr ms1"
    by (cases b) (auto simp: immutable_task_def work_bind_Inr_iff or_restart_Inr_iff)
  then show "mutation_key ` set ms \<subseteq> immutable_keys wk b"
    using execute_batch_keys by (simp add: immutable_keys_def) blast
qed

interpretation mut: local_tasks "mutable_task wk point" "mutable_keys wk point" for wk point
proof
  fix b and d d' :: store
  assume same: "\<And>x. x \<in> mutable_keys wk point b \<Longrightarrow> d x = d' x"
  have "batch_get_required_kvs_for_batch d (map fst b) f g = batch_get_required_kvs_for_batch d' (map fst b) f g"
    for f g
    by (rule batch_get_cong) (use same in \<open>simp add: mutable_keys_def\<close>)
  then show "mutable_task wk point b d = mutable_task wk point b d'"
    by (simp add: mutable_task_def)
next
  fix b d ms r
  assume "mutable_task wk point b d = Inr (ms, r)"
  then obtain ms1 ms2 where ms: "ms = ms1 @ ms2"
    and rb: "apply_storage_rb_actions r point (key_encoder wk) = Inr ms2"
    and ex: "execute_batch_with_inverse (safe_mode wk) b
       (batch_get_required_kvs_for_batch d (map fst b) True (safe_mode wk)) = Inr (ms1, r)"
    by (auto simp: mutable_task_def work_bind_Inr_iff or_restart_Inr_iff)
  have "mutation_key ` set ms1 \<subseteq> footprints (map fst b)" "action_key ` set r \<subseteq> footprints (map fst b)"
    using execute_batch_with_inverse_keys [OF ex] by simp_all
  from Un_mono [OF this(1) image_mono [OF this(2), of "rollback_key (key_encoder wk) point"]]
  show "mutation_key ` set ms \<subseteq> mutable_keys wk point b"
    by (simp only: ms mutable_keys_def set_append image_Un rb_actions_keys [OF rb])
qed

interpretation undo: local_tasks "inverse_task wk point" "inverse_keys wk point" for wk point
proof
  fix b and d d' :: store
  show "inverse_task wk point b d = inverse_task wk point b d'" by (simp add: inverse_task_def)
next
  fix b d ms r
  assume "inverse_task wk point b d = Inr (ms, r)"
  then have "inverse_mutations (key_encoder wk) point b = Inr ms"
    by (simp add: inverse_task_def work_bind_Inr_iff)
  then show "mutation_key ` set ms \<subseteq> inverse_keys wk point b"
    unfolding inverse_keys_def by (rule inverse_mutations_keys)
qed

end
