(* ===== verification/Storage_Worker.thy ===== *)
theory Storage_Worker
  imports Split_Commit
begin

text \<open>
  The storage worker (\<open>services/polyphony-xbt/src/storage/tikv.rs\<close> and \<open>storage/utils.rs\<close>): reading
  its state back from the database, recovery on start-up, compaction of queued work, and the processing
  of blocks, rollbacks and mempool refreshes.

  A scan returns the entries of a range in key order, page by page; an error about the size of a page
  is not modelled. The clean-up of evicted rollback metadata, which the code runs in the background,
  is run where it is started. The physical part of a timestamp is a parameter.
\<close>

section \<open>Reading the state back\<close>

definition mk_point :: "u64 \<times> bytes \<Rightarrow> Point" where
  "mk_point p = \<lparr>pt_height = fst p, pt_hash = snd p\<rparr>"

definition keys_in :: "store \<Rightarrow> bytes \<times> bytes \<Rightarrow> Key set" where
  "keys_in s r = {k \<in> dom s. in_range r k}"

definition scan_range_keys :: "store \<Rightarrow> bytes \<times> bytes \<Rightarrow> Key list" where
  "scan_range_keys s r = sorted_list_of_set (keys_in s r)"

definition scan_page :: "store \<Rightarrow> bytes \<times> bytes \<Rightarrow> nat \<Rightarrow> (Key \<times> Value) list" where
  "scan_page s r limit = take limit (map (\<lambda>k. (k, the (s k))) (scan_range_keys s r))"

definition suffix_after_prefix :: "Key \<Rightarrow> bytes work" where
  "suffix_after_prefix k =
     (if length k < Namespace_size + 2 then Inl RustPanic else Inr (drop (Namespace_size + 2) k))"

definition batch_complete_id :: "Key \<Rightarrow> u32 work" where
  "batch_complete_id k =
     work_bind (suffix_after_prefix k) (\<lambda>x. case uint_decode x of Inr (i, _) \<Rightarrow> Inr i | Inl _ \<Rightarrow> Inl RustPanic)"

definition read_lock :: "Namespace \<Rightarrow> store \<Rightarrow> SplitCommitInfo option work" where
  "read_lock ns s =
     (case s (Prefix_lock ns) of
        Some raw_lock \<Rightarrow>
          work_bind (or_panic (SplitCommitLockValue_decode raw_lock)) (\<lambda>(lock_val, _).
          work_bind (work_map batch_complete_id (scan_range_keys s (batch_complete_key_range ns))) (\<lambda>ids.
            Inr (Some \<lparr>sc_lock = lock_val, batches_complete = ids\<rparr>)))
      | None \<Rightarrow> Inr None)"

definition check_partial_split_commit :: "unit io" where
  "check_partial_split_commit =
     io_bind (io_get (\<lambda>w. (worker w, db w))) (\<lambda>(wk, s).
     io_bind (io_lift (read_lock (key_encoder wk) s)) (\<lambda>info.
       case info of
         Some i \<Rightarrow> io_worker (\<lambda>wk. wk\<lparr>partial_split_commit := Some i\<rparr>)
       | None \<Rightarrow> io_return ()))"

text \<open>The last processed point: that of the lock if there is one, else the cursor.\<close>

definition decode_cursor_point :: "bytes \<Rightarrow> (u64 \<times> bytes) work" where
  "decode_cursor_point bs = (case point_decode bs of Inr (p, _) \<Rightarrow> Inr p | Inl _ \<Rightarrow> Inl RustPanic)"

definition last_point :: "Namespace \<Rightarrow> store \<Rightarrow> Point option work" where
  "last_point ns s =
     work_bind (read_lock ns s) (\<lambda>info.
       case info of
         Some i \<Rightarrow>
           (case safe_point (sc_lock i) of
              Some p \<Rightarrow> Inr (Some (mk_point p))
            | None \<Rightarrow> Inl RustPanic)
       | None \<Rightarrow>
           (case s (Prefix_cursor ns) of
              Some x \<Rightarrow> work_bind (decode_cursor_point x) (\<lambda>p. Inr (Some (mk_point p)))
            | None \<Rightarrow> Inr None))"

subsection \<open>The persistent rollback buffer\<close>

record PersistentBufferValue =
  pb_point :: Point
  inverse_actions :: StorageActions

lemma scan_page_shrinks:
  assumes "scan_page s (a, b) limit \<noteq> []"
  shows "card (keys_in s (fst (last (scan_page s (a, b) limit)) @ [0], b)) < card (keys_in s (a, b))"
proof -
  let ?l = "fst (last (scan_page s (a, b) limit))"
  have fin: "finite (keys_in s (a, b))"
    using assms by (cases "finite (keys_in s (a, b))") (auto simp: scan_page_def scan_range_keys_def)
  have "last (scan_page s (a, b) limit) \<in> set (scan_page s (a, b) limit)" using assms by simp
  then have "last (scan_page s (a, b) limit) \<in> (\<lambda>k. (k, the (s k))) ` keys_in s (a, b)"
    using fin in_set_takeD by (fastforce simp: scan_page_def scan_range_keys_def)
  then have l: "?l \<in> keys_in s (a, b)" by auto
  have gt: "?l < ?l @ [0]" by (rule less_snoc)
  have "keys_in s (?l @ [0], b) \<subseteq> keys_in s (a, b) - {?l}"
  proof
    fix x assume x: "x \<in> keys_in s (?l @ [0], b)"
    then have "?l @ [0] \<le> x" by (simp add: keys_in_def in_range_def)
    with gt have "?l < x" by (rule less_le_trans)
    then have "x \<noteq> ?l" by blast
    moreover have "a \<le> ?l" using l by (simp add: keys_in_def in_range_def)
    then have "a \<le> x" using \<open>?l < x\<close> less_imp_le order_trans by blast
    ultimately show "x \<in> keys_in s (a, b) - {?l}" using x by (simp add: keys_in_def in_range_def)
  qed
  then have "card (keys_in s (?l @ [0], b)) \<le> card (keys_in s (a, b) - {?l})"
    by (rule card_mono [OF finite_Diff [OF fin]])
  also have "\<dots> < card (keys_in s (a, b))" by (rule card_Diff1_less [OF fin l])
  finally show ?thesis .
qed

function scan_pages :: "store \<Rightarrow> bytes \<times> bytes \<Rightarrow> nat \<Rightarrow> (Key \<times> Value) list" where
  "scan_pages s (range_start, range_end) scan_size =
     (let kvs_vec = scan_page s (range_start, range_end) scan_size in
      if kvs_vec = [] then []
      else kvs_vec @ scan_pages s (fst (last kvs_vec) @ [0], range_end) scan_size)"
  by pat_completeness auto
termination
  by (relation "measure (\<lambda>(s, r, n). card (keys_in s r))") (simp_all add: scan_page_shrinks)

declare scan_pages.simps [simp del]

text \<open>The loop over the scanned entries: the finished points, the current point and its actions.\<close>

record parse_state =
  ps_buf :: "PersistentBufferValue list"
  ps_point :: Point
  ps_actions :: StorageActions

definition finish_point :: "parse_state \<Rightarrow> PersistentBufferValue list" where
  "finish_point st =
     (if pt_height (ps_point st) \<noteq> 0
      then ps_buf st @ [\<lparr>pb_point = ps_point st, inverse_actions = ps_actions st\<rparr>]
      else ps_buf st)"

definition inverse_of_entry :: "Key \<Rightarrow> Value \<Rightarrow> StorageAction" where
  "inverse_of_entry k v = (if v = [] then Delete k else Set k v)"

definition parse_entry :: "Key \<times> Value \<Rightarrow> parse_state \<Rightarrow> parse_state work" where
  "parse_entry kv st =
     work_bind (suffix_after_prefix (fst kv)) (\<lambda>k.
     case MetadataKey_decode k of
       Inl _ \<Rightarrow> Inl RustPanic
     | Inr (metadata_key, _) \<Rightarrow>
         (let st = (if mk_height metadata_key \<noteq> pt_height (ps_point st) \<or>
                       mk_hash metadata_key \<noteq> pt_hash (ps_point st)
                    then \<lparr>ps_buf = finish_point st,
                          ps_point = mk_point (mk_height metadata_key, mk_hash metadata_key),
                          ps_actions = []\<rparr>
                    else st) in
          Inr (st\<lparr>ps_actions := ps_actions st @ [inverse_of_entry (modified_key metadata_key) (snd kv)]\<rparr>)))"

definition parse_start :: parse_state where
  "parse_start =
     \<lparr>ps_buf = [], ps_point = mk_point (0, replicate 32 0), ps_actions = []\<rparr>"

definition parse_entries :: "(Key \<times> Value) list \<Rightarrow> PersistentBufferValue list work" where
  "parse_entries kvs =
     work_bind (work_fold parse_entry kvs parse_start) (\<lambda>st. Inr (finish_point st))"

definition saturating_sub_u64 :: "u64 \<Rightarrow> u64 \<Rightarrow> u64" where
  "saturating_sub_u64 a b = saturating_sub a b"

definition fetch_persistent_buffer ::
  "Namespace \<Rightarrow> nat \<Rightarrow> store \<Rightarrow> PersistentBufferValue list option work" where
  "fetch_persistent_buffer ns buf_size s =
     work_bind (last_point ns s) (\<lambda>p.
     (let cursor_height = (case p of Some x \<Rightarrow> pt_height x | None \<Rightarrow> 0);
          min_height = saturating_sub_u64 cursor_height (of_nat buf_size + 1);
          kvs = scan_pages s (rollback_metadata_key_range ns uint_encode uint_encode (Some min_height)
            (None :: u64 option)) 2000 in
      work_bind (parse_entries kvs) (\<lambda>persistent_buf.
        Inr (if persistent_buf = [] then None else Some persistent_buf))))"

section \<open>Compacting queued work\<close>

fun is_mempool_refresh :: "StorageActionPayload \<Rightarrow> bool" where
  "is_mempool_refresh (MempoolRefresh _ _ _ _) = True"
| "is_mempool_refresh _ = False"

fun arrives_at :: "Point \<Rightarrow> StorageActionPayload \<Rightarrow> bool" where
  "arrives_at target (RollBack p _) = (p = target)"
| "arrives_at target (RollForward p _ _) = (p = target)"
| "arrives_at target (MempoolRefresh _ _ _ _) = False"

primrec truncate_at :: "Point \<Rightarrow> StorageActionPayload list \<Rightarrow> StorageActionPayload list option" where
  "truncate_at target [] = None"
| "truncate_at target (a # stack) =
     (if arrives_at target a then Some [a] else map_option ((#) a) (truncate_at target stack))"

fun compact_action :: "StorageActionPayload \<Rightarrow> StorageActionPayload list \<Rightarrow> StorageActionPayload list" where
  "compact_action (RollForward p outputs m) stack =
     filter (\<lambda>x. \<not> is_mempool_refresh x) stack @ [RollForward p outputs m]"
| "compact_action (RollBack target_point m) stack =
     (case truncate_at target_point (filter (\<lambda>x. \<not> is_mempool_refresh x) stack) of
        Some truncated \<Rightarrow> truncated
      | None \<Rightarrow> [RollBack target_point m])"
| "compact_action (MempoolRefresh info blocks fetch_ms reduce_ms) stack =
     filter (\<lambda>x. \<not> is_mempool_refresh x) stack @ [MempoolRefresh info blocks fetch_ms reduce_ms]"

definition compact_actions :: "StorageActionPayload list \<Rightarrow> StorageActionPayload list" where
  "compact_actions actions = fold compact_action actions []"

section \<open>Requests outside of the split commit\<close>

definition cleanup_tikv_locks :: "unit io" where
  "cleanup_tikv_locks = request"

text \<open>Deleting the metadata of an evicted block, with at most five attempts.\<close>

primrec gc_attempts :: "nat \<Rightarrow> Mutation list \<Rightarrow> unit io" where
  "gc_attempts 0 ms = io_return ()"
| "gc_attempts (Suc n) ms =
     (\<lambda>w. case commit_txn_or_rollback ms w of
        (Inr _, w') \<Rightarrow> (Inr (), w')
      | (Inl _, w') \<Rightarrow> gc_attempts n ms w')"

definition spawn_garbage_collect_rollback_metadata :: "PointWithResult \<Rightarrow> unit io" where
  "spawn_garbage_collect_rollback_metadata evicted_block =
     io_bind (io_get worker) (\<lambda>wk.
       gc_attempts 5
         (map (\<lambda>action. Del (rollback_key (key_encoder wk) (pwr_point evicted_block) (action_key action)))
            (pwr_result evicted_block)))"

definition string_bytes :: "string \<Rightarrow> bytes" where
  "string_bytes s = map of_char s"

definition timestamps_key :: "Config \<Rightarrow> string" where
  "timestamps_key cfg =
     ''tikv-timestamps:'' @ show_nat (unat (cfg_dataplane_id cfg)) @ '':'' @ show_nat (unat (cfg_instance_id cfg))"

definition registry_key :: "string \<Rightarrow> string \<Rightarrow> string \<Rightarrow> string" where
  "registry_key net reducer kind = ''{bitcoin:'' @ net @ '':'' @ reducer @ ''}:'' @ kind"

definition instance_member :: "Config \<Rightarrow> bytes" where
  "instance_member cfg = cfg_dataplane_id cfg # be_bytes 2 (unat (cfg_instance_id cfg))"

definition advertise_reducer ::
  "Point \<Rightarrow> ((u64 \<times> bytes) \<times> u64) option \<Rightarrow> Config \<Rightarrow> string \<Rightarrow> unit io" where
  "advertise_reducer point mempool_info cfg reducer =
     (let net = to_lowercase (network cfg); member = instance_member cfg in
      case mempool_info of
        Some ((chain_tip_height, _), view_ts) \<Rightarrow>
          io_bind (zadd (registry_key net reducer ''mempool-view'') member (uint view_ts)) (\<lambda>_.
            zadd (registry_key net reducer ''scores'') member (uint chain_tip_height))
      | None \<Rightarrow> zadd (registry_key net reducer ''scores'') member (uint (pt_height point)))"

definition insert_timestamp_entry ::
  "(TiKVTimestamp \<Rightarrow> int) \<Rightarrow> Point \<Rightarrow> TiKVTimestamp \<Rightarrow> ((u64 \<times> bytes) \<times> u64) option \<Rightarrow> unit io" where
  "insert_timestamp_entry physical point ts mempool_info =
     (let ((tip_height, tip_hash), view_ts) =
            (case mempool_info of Some i \<Rightarrow> i | None \<Rightarrow> ((0, replicate 32 0), 0)) in
     io_bind (io_get worker) (\<lambda>wk.
     (let cfg = config wk; key = timestamps_key cfg in
     io_bind (zadd ''tikv-timestamps-keys'' (string_bytes key) (physical ts)) (\<lambda>_.
     io_bind (zadd key
       (string_bytes (RedisEntry_to_string
          \<lparr>re_height = pt_height point, re_block_hash = pt_hash point, re_was_mempool = mempool_info \<noteq> None,
           re_commit_ts = ts, re_network = network cfg, re_chain_tip_height = tip_height,
           re_chain_tip_hash = tip_hash, re_mempool_view_ts = view_ts\<rparr>)) (physical ts)) (\<lambda>_.
     io_bind (io_worker (\<lambda>wk. if mempool_info \<noteq> None then wk\<lparr>registered := True\<rparr> else wk)) (\<lambda>_.
     io_bind (io_get worker) (\<lambda>wk.
       if \<not> registered wk then io_return ()
       else io_bind (io_mapM (advertise_reducer point mempool_info cfg) (reducer_names wk))
              (\<lambda>_. io_return ()))))))))"

section \<open>Start-up\<close>

definition refill_buffer :: "PersistentBufferValue list \<Rightarrow> RollbackBuffer \<Rightarrow> RollbackBuffer" where
  "refill_buffer persistent_buf buf =
     fold (\<lambda>entry buf. snd (rb_add_block (pb_point entry) (inverse_actions entry) buf)) persistent_buf buf"

definition spawn_worker ::
  "Config \<Rightarrow> Point option \<Rightarrow> PersistentBufferValue list option \<Rightarrow> bool \<Rightarrow> string list \<Rightarrow> Worker" where
  "spawn_worker cfg intersect buf safe reducers =
     \<lparr>config = cfg,
      rollback_buffer = refill_buffer (unwrap_or buf []) (RollbackBuffer_new (buffer_size cfg) safe),
      wk_mutable = buf \<noteq> None, work_unit_2pc = [], last_processed = intersect,
      partial_split_commit = None, safe_mode = safe, mempool_refresh_cache = None,
      reducer_names = reducers, registered = unwrap_or (advertise_immediately cfg) False\<rparr>"

definition since_or_panic :: "Point \<Rightarrow> RollbackBuffer \<Rightarrow> PointWithResult list work" where
  "since_or_panic point buf = (case rb_points_since point buf of Inr ps \<Rightarrow> Inr ps | Inl _ \<Rightarrow> Inl RustPanic)"

text \<open>Undoing a partly applied block with the persistent rollback buffer.\<close>

definition recover_mutable :: "SplitCommitInfo \<Rightarrow> unit io" where
  "recover_mutable pcinfo =
     io_bind (io_get (\<lambda>w. (worker w, db w))) (\<lambda>(wk, s).
     io_bind (io_or_restart (io_lift (fetch_persistent_buffer (key_encoder wk) (buffer_size (config wk)) s)))
       (\<lambda>buf.
     case buf of
       None \<Rightarrow> io_fail RustPanic
     | Some persistent_rb \<Rightarrow>
         (let refreshed = refill_buffer persistent_rb
                (RollbackBuffer_new (rb_capacity (rollback_buffer wk)) (safe_mode wk)) in
         io_bind (io_lift (unwrap (safe_point (sc_lock pcinfo)))) (\<lambda>p.
         (let rb_point = mk_point p in
         io_bind (io_lift (since_or_panic rb_point refreshed)) (\<lambda>points.
         io_bind (apply_inverse_actions_split_commit
           (map (\<lambda>x. (pwr_point x, pwr_result x)) points) rb_point) (\<lambda>_.
         case rb_rollback_to_point rb_point refreshed of
           (Inl _, _) \<Rightarrow> io_fail WorkPanic
         | (Inr _, refreshed) \<Rightarrow>
             io_worker (\<lambda>wk. wk\<lparr>rollback_buffer := refreshed, partial_split_commit := None,
                                last_processed := Some rb_point\<rparr>))))))))"

definition bytes_string :: "bytes \<Rightarrow> string" where
  "bytes_string bs = map (\<lambda>b. char_of (unat b)) bs"

definition redis_entries :: "(bytes \<rightharpoonup> int) \<Rightarrow> RedisEntry set work" where
  "redis_entries z =
     (if \<exists>m \<in> dom z. \<exists>e. RedisEntry_from_redis_value (bytes_string m) = Inl e then Inl RustPanic
      else Inr {e. \<exists>m \<in> dom z. RedisEntry_from_redis_value (bytes_string m) = Inr e})"

text \<open>The entry of the last commit is written again if the process ended before it was.\<close>

definition insert_missing_entry :: "(TiKVTimestamp \<Rightarrow> int) \<Rightarrow> TiKVTimestamp \<Rightarrow> unit io" where
  "insert_missing_entry physical current_ts =
     io_bind (io_get (\<lambda>w. (worker w, db w, redis w))) (\<lambda>(wk, s, r).
     case s (Prefix_cursor (key_encoder wk)) of
       None \<Rightarrow> io_return ()
     | Some cursor_bytes \<Rightarrow>
         io_bind (io_lift (decode_cursor_point cursor_bytes)) (\<lambda>(height, hash).
         io_bind (io_lift (redis_entries (r (timestamps_key (config wk))))) (\<lambda>entries.
           if entries \<noteq> {} \<and> \<not> (\<exists>e \<in> entries. re_height e = height \<and> re_block_hash e = hash) \<and>
              partial_split_commit wk = None
           then
             (case CursorValue_decode cursor_bytes of
                Inl _ \<Rightarrow> io_fail RustPanic
              | Inr (cursor_val, _) \<Rightarrow>
                  insert_timestamp_entry physical (mk_point (height, hash)) current_ts
                    (cv_mempool_info cursor_val))
           else io_return ())))"

text \<open>The current timestamp is asked for by a request, and given here as \<open>current_ts\<close>.\<close>

definition bootstrap :: "(TiKVTimestamp \<Rightarrow> int) \<Rightarrow> TiKVTimestamp \<Rightarrow> unit io" where
  "bootstrap physical current_ts =
     io_bind check_partial_split_commit (\<lambda>_.
     io_bind (io_get worker) (\<lambda>wk.
     io_bind (case partial_split_commit wk of
         Some pcinfo \<Rightarrow> if mutable (sc_lock pcinfo) then recover_mutable pcinfo else io_return ()
       | None \<Rightarrow> io_return ()) (\<lambda>_.
     io_bind request (\<lambda>_.
     io_bind (if unwrap_or (tikv_cleanup_locks (config wk)) True then cleanup_tikv_locks else io_return ())
       (\<lambda>_. insert_missing_entry physical current_ts)))))"

section \<open>Work\<close>

text \<open>The work unit to execute next, from the messages that have been received; \<open>None\<close> is idle.\<close>

definition schedule :: "StorageActionPayload list \<Rightarrow> StorageActionPayload list option io" where
  "schedule received =
     io_bind (io_get worker) (\<lambda>wk.
       if work_unit_2pc wk = [] then
         (if received = [] then io_return None
          else
            (let actions = (if wk_mutable wk then compact_actions received else received) in
             io_return (if actions = [] then None else Some actions)))
       else io_return (Some (work_unit_2pc wk)))"

text \<open>The storage actions of a list of reducer outputs.\<close>

definition storage_ops :: "ReducerOutput list \<Rightarrow> StorageActions io" where
  "storage_ops outputs =
     io_bind (io_get worker) (\<lambda>wk.
     io_bind (io_lift (work_map (reducer_output_to_storage_ops (key_encoder wk) (network (config wk))) outputs))
       (\<lambda>ops. io_return (concat ops)))"

text \<open>The processed payload leaves the front of the work unit.\<close>

definition unlock_2pc :: "unit io" where
  "unlock_2pc = io_worker (\<lambda>wk. wk\<lparr>work_unit_2pc := drop 1 (work_unit_2pc wk)\<rparr>)"

definition begin_chain_action :: "bool \<Rightarrow> unit io" where
  "begin_chain_action m =
     io_worker (\<lambda>wk. wk\<lparr>wk_mutable := wk_mutable wk \<or> m, mempool_refresh_cache := None\<rparr>)"

definition cleanup_if_configured :: "unit io" where
  "cleanup_if_configured =
     io_bind (io_get worker) (\<lambda>wk.
       if unwrap_or (tikv_cleanup_locks (config wk)) True then io_or_restart cleanup_tikv_locks else io_return ())"

text \<open>The first mutable block leaves an entry for its predecessor in the rollback buffer.\<close>

definition init_rollback_buffer :: "unit io" where
  "init_rollback_buffer =
     io_bind (io_get worker) (\<lambda>wk.
       if rb_is_empty (rollback_buffer wk) then
         (case last_processed wk of
            Some prev_point \<Rightarrow>
              (let dummy_action = Delete [] in
               io_bind (io_lift (apply_storage_rb_actions [dummy_action] prev_point (key_encoder wk))) (\<lambda>ms.
               io_bind (commit_txn_or_rollback ms) (\<lambda>_.
                 io_worker (\<lambda>wk. wk\<lparr>rollback_buffer :=
                   snd (rb_add_block prev_point [dummy_action] (rollback_buffer wk))\<rparr>))))
          | None \<Rightarrow> io_return ())
       else io_return ())"

definition add_block_to_buffer :: "Point \<Rightarrow> StorageActions \<Rightarrow> PointWithResult option io" where
  "add_block_to_buffer point inverse_ops w =
     (case rb_add_block point inverse_ops (rollback_buffer (worker w)) of
        (evicted, buf) \<Rightarrow> (Inr evicted, w\<lparr>worker := (worker w)\<lparr>rollback_buffer := buf\<rparr>\<rparr>))"

definition gc_evicted :: "PointWithResult option \<Rightarrow> unit io" where
  "gc_evicted evicted =
     (case evicted of Some block \<Rightarrow> spawn_garbage_collect_rollback_metadata block | None \<Rightarrow> io_return ())"

definition roll_forward_immutable :: "StorageActions \<Rightarrow> Point \<Rightarrow> unit io" where
  "roll_forward_immutable actions point =
     io_bind (apply_actions_split_commit_immutable actions) (\<lambda>_.
     io_bind unlock_2pc (\<lambda>_.
       io_worker (\<lambda>wk. wk\<lparr>last_processed := Some point\<rparr>)))"

definition roll_forward_mutable :: "(TiKVTimestamp \<Rightarrow> int) \<Rightarrow> StorageActions \<Rightarrow> Point \<Rightarrow> unit io" where
  "roll_forward_mutable physical actions point =
     io_bind init_rollback_buffer (\<lambda>_.
     io_bind (io_or_restart (apply_actions_split_commit_mutable actions point)) (\<lambda>(commit_ts, inverse_ops).
     io_bind unlock_2pc (\<lambda>_.
     io_bind (io_worker (\<lambda>wk. wk\<lparr>last_processed := Some point\<rparr>)) (\<lambda>_.
     io_bind (add_block_to_buffer point inverse_ops) (\<lambda>evicted.
     io_bind (case commit_ts of
         Some ts \<Rightarrow> io_bind cleanup_if_configured (\<lambda>_. io_or_restart (insert_timestamp_entry physical point ts None))
       | None \<Rightarrow> io_return ()) (\<lambda>_.
       gc_evicted evicted))))))"

definition process_roll_forward ::
  "(TiKVTimestamp \<Rightarrow> int) \<Rightarrow> Point \<Rightarrow> ReducerOutput list \<Rightarrow> bool \<Rightarrow> unit io" where
  "process_roll_forward physical point outputs m =
     io_bind (io_get worker) (\<lambda>wk.
     io_bind (io_guard (case last_processed wk of
         Some prev \<Rightarrow> pt_height prev + 1 = pt_height point
       | None \<Rightarrow> True)) (\<lambda>_.
     io_bind (begin_chain_action m) (\<lambda>_.
     io_bind (storage_ops outputs) (\<lambda>reducer_storage_ops.
     io_bind (io_lift (push_actions reducer_storage_ops ActionMerger_new)) (\<lambda>merger.
     io_bind (io_get worker) (\<lambda>wk.
       if \<not> wk_mutable wk then roll_forward_immutable (into_merged_actions merger) point
       else roll_forward_mutable physical (into_merged_actions merger) point))))))"

text \<open>An error of the buffer is a panic of the stage, under the policy that ignores no error.\<close>

definition trim_buffer :: "Point \<Rightarrow> unit io" where
  "trim_buffer point w =
     (case rb_rollback_to_point point (rollback_buffer (worker w)) of
        (Inl _, _) \<Rightarrow> (Inl WorkPanic, w)
      | (Inr _, buf) \<Rightarrow> (Inr (), w\<lparr>worker := (worker w)\<lparr>rollback_buffer := buf\<rparr>\<rparr>))"

definition process_roll_back :: "(TiKVTimestamp \<Rightarrow> int) \<Rightarrow> Point \<Rightarrow> bool \<Rightarrow> unit io" where
  "process_roll_back physical point m =
     io_bind (begin_chain_action m) (\<lambda>_.
     io_bind (io_get worker) (\<lambda>wk.
     io_bind (io_lift (since_or_panic point (rollback_buffer wk))) (\<lambda>points.
     io_bind (io_or_restart (apply_inverse_actions_split_commit
       (map (\<lambda>x. (pwr_point x, pwr_result x)) points) point)) (\<lambda>final_ts.
     io_bind (case final_ts of
         Some ts \<Rightarrow> io_bind cleanup_if_configured (\<lambda>_. insert_timestamp_entry physical point ts None)
       | None \<Rightarrow> io_return ()) (\<lambda>_.
     io_bind unlock_2pc (\<lambda>_.
     io_bind (io_worker (\<lambda>wk. wk\<lparr>last_processed := Some point\<rparr>)) (\<lambda>_.
       trim_buffer point)))))))"

text \<open>The actions that take the data of the chain tip to that of the last mempool block.\<close>

primrec mempool_actions :: "(Point \<times> ReducerOutput list) list \<Rightarrow> ActionMerger \<Rightarrow> ActionMerger io" where
  "mempool_actions [] merger = io_return merger"
| "mempool_actions (block # blocks) merger =
     io_bind (storage_ops (snd block)) (\<lambda>reducer_storage_ops.
     io_bind (io_lift (push_actions reducer_storage_ops merger)) (\<lambda>merger.
       mempool_actions blocks merger))"

text \<open>For every key the previous refresh also acted on, how its action differs.\<close>

definition mempool_diffs ::
  "(Point \<times> (Key \<times> StorageAction) list) option \<Rightarrow> Point \<Rightarrow> (Key \<times> StorageAction) list \<Rightarrow>
   (Key \<times> StorageAction option) list work" where
  "mempool_diffs cache chain_tip current =
     (case cache of
        Some (cache_tip, cache_actions) \<Rightarrow>
          if cache_tip = chain_tip then
            work_map (\<lambda>(key, action). work_bind (diff (the (map_of cache_actions key)) action) (\<lambda>d. Inr (key, d)))
              (filter (\<lambda>(key, action). map_of cache_actions key \<noteq> None) current)
          else Inr []
      | None \<Rightarrow> Inr [])"

definition take_cache :: "(Point \<times> (Key \<times> StorageAction) list) option io" where
  "take_cache w =
     (Inr (mempool_refresh_cache (worker w)), w\<lparr>worker := (worker w)\<lparr>mempool_refresh_cache := None\<rparr>\<rparr>)"

definition update_buffer :: "(RollbackBuffer \<Rightarrow> RollbackBuffer work) \<Rightarrow> unit io" where
  "update_buffer f =
     io_bind (io_get worker) (\<lambda>wk.
     io_bind (io_lift (f (rollback_buffer wk))) (\<lambda>buf.
       io_worker (\<lambda>wk. wk\<lparr>rollback_buffer := buf\<rparr>)))"

primrec push_inverses :: "PointWithResult list \<Rightarrow> ActionMerger \<Rightarrow> ActionMerger work" where
  "push_inverses [] merger = Inr merger"
| "push_inverses (p # ps) merger = work_bind (push_actions (pwr_result p) merger) (push_inverses ps)"

text \<open>Undoing what the previous refresh did to the keys that have no difference to apply.\<close>

definition undo_mempool :: "Point \<Rightarrow> Point \<Rightarrow> (Key \<times> StorageAction option) list \<Rightarrow> unit io" where
  "undo_mempool chain_tip mempool_point diff_cache =
     io_bind (io_get worker) (\<lambda>wk.
     io_bind (io_lift (since_or_panic chain_tip (rollback_buffer wk))) (\<lambda>points.
     io_bind (io_lift (push_inverses points ActionMerger_new)) (\<lambda>inverse_merger.
     (let inverses_to_apply = filter (\<lambda>x. action_key x \<notin> fst ` set diff_cache)
            (into_merged_actions inverse_merger) in
      if inverses_to_apply = [] then io_return ()
      else
        io_bind (io_or_restart (apply_inverse_actions_split_commit [(mempool_point, inverses_to_apply)] chain_tip))
          (\<lambda>_. update_buffer (rb_remove_actions_for_point mempool_point inverses_to_apply))))))"

text \<open>The differences, without an inverse, and the actions on other keys, with one.\<close>

definition forward_actions ::
  "(Key \<times> StorageAction option) list \<Rightarrow> (Key \<times> StorageAction) list \<Rightarrow> (StorageAction \<times> bool) list" where
  "forward_actions diff_cache current =
     map (\<lambda>x. (x, False))
       (List.map_filter (\<lambda>(key, action). case map_of diff_cache key of Some d \<Rightarrow> d | None \<Rightarrow> None) current) @
     map (\<lambda>(key, action). (action, True)) (filter (\<lambda>(key, action). map_of diff_cache key = None) current)"

definition record_mempool_inverses :: "Point \<Rightarrow> StorageActions \<Rightarrow> unit io" where
  "record_mempool_inverses mempool_point inverse_ops =
     io_bind (io_get worker) (\<lambda>wk.
       case rb_points_since mempool_point (rollback_buffer wk) of
         Inr _ \<Rightarrow> update_buffer (rb_insert_actions_for_point mempool_point inverse_ops)
       | Inl _ \<Rightarrow> io_bind (add_block_to_buffer mempool_point inverse_ops) gc_evicted)"

definition mempool_timestamp_entry ::
  "(TiKVTimestamp \<Rightarrow> int) \<Rightarrow> MempoolInfo \<Rightarrow> Point list \<Rightarrow> TiKVTimestamp option \<Rightarrow> unit io" where
  "mempool_timestamp_entry physical mempool_info block_points final_ts =
     (case final_ts of
        None \<Rightarrow> io_return ()
      | Some ts \<Rightarrow>
          io_bind (io_or_restart cleanup_tikv_locks) (\<lambda>_.
          io_bind (io_guard (block_points \<noteq> [])) (\<lambda>_.
            insert_timestamp_entry physical (last block_points) ts
              (Some (mi_chain_tip mempool_info, mempool_view_ts mempool_info)))))"

definition process_mempool_refresh ::
  "(TiKVTimestamp \<Rightarrow> int) \<Rightarrow> MempoolInfo \<Rightarrow> (Point \<times> ReducerOutput list) list \<Rightarrow> unit io" where
  "process_mempool_refresh physical mempool_info blocks =
     (let chain_tip = mk_point (mi_chain_tip mempool_info);
          mempool_point = mk_point (fst (mi_chain_tip mempool_info) + 1, replicate 32 0) in
     io_bind (mempool_actions blocks ActionMerger_new) (\<lambda>total_mempool_action_merger.
     (let current = into_batch_actions_with_keys total_mempool_action_merger in
     io_bind take_cache (\<lambda>cache.
     io_bind (io_lift (mempool_diffs cache chain_tip current)) (\<lambda>diff_cache.
     io_bind (undo_mempool chain_tip mempool_point diff_cache) (\<lambda>_.
     io_bind (io_or_restart (apply_actions_split_commit_mempool (forward_actions diff_cache current)
       mempool_point chain_tip)) (\<lambda>(final_ts, inverse_ops).
     io_bind (io_worker (\<lambda>wk. wk\<lparr>mempool_refresh_cache := Some (chain_tip, current)\<rparr>)) (\<lambda>_.
     io_bind unlock_2pc (\<lambda>_.
     io_bind (record_mempool_inverses mempool_point inverse_ops) (\<lambda>_.
       mempool_timestamp_entry physical mempool_info (map fst blocks) final_ts))))))))))"

definition process_payload :: "(TiKVTimestamp \<Rightarrow> int) \<Rightarrow> StorageActionPayload \<Rightarrow> unit io" where
  "process_payload physical chain_action =
     (case chain_action of
        RollForward point outputs m \<Rightarrow> process_roll_forward physical point outputs m
      | RollBack point m \<Rightarrow> process_roll_back physical point m
      | MempoolRefresh mempool_info blocks _ _ \<Rightarrow> process_mempool_refresh physical mempool_info blocks)"

definition execute :: "(TiKVTimestamp \<Rightarrow> int) \<Rightarrow> StorageActionPayload list \<Rightarrow> unit io" where
  "execute physical unit =
     io_bind (io_worker (\<lambda>wk. wk\<lparr>work_unit_2pc := unit\<rparr>)) (\<lambda>_.
     io_bind (io_mapM (process_payload physical) unit) (\<lambda>_. io_return ()))"

end
