(* ===== verification/Immutable_Recovery.thy ===== *)
theory Immutable_Recovery
  imports Task_Groups Storage_Worker
begin

text \<open>
  The split commit of a block that cannot be rolled back takes effect exactly once, whatever commits
  fail and whatever replies are lost, over any number of restarts; the one exception is a lost reply of
  the last commit, which removes the record of what has been done.
\<close>

section \<open>Keys of the worker itself\<close>

text \<open>The lock, the batch markers and the rollback entries of a namespace.\<close>

definition system_keys :: "Namespace \<Rightarrow> Key set" where
  "system_keys ns = {k. \<exists>tag \<in> {PREFIX_BATCHING_LOCK, PREFIX_BATCH_COMPLETE, PREFIX_ROLLBACK}.
     prefix (Namespace_encode ns @ [tag]) k}"


lemma batch_complete_range:
  "in_range (batch_complete_key_range ns) k \<longleftrightarrow> prefix (Namespace_encode ns @ [66, 96]) k"
  by (simp add: batch_complete_key_range_def in_prefix_key_range builder_defs tag_defs)


lemma batch_complete_in_range [simp]: "in_range (batch_complete_key_range ns) (Prefix_batch_complete ns i)"
  by (simp add: batch_complete_range Prefix_shapes)

lemma batch_complete_inj [simp]: "Prefix_batch_complete ns i = Prefix_batch_complete ns j \<longleftrightarrow> i = j"
  using u32.enc_inj by (auto simp: Prefix_shapes)

lemma lock_neq_batch_complete [simp]: "Prefix_lock ns \<noteq> Prefix_batch_complete ns i"
  "Prefix_batch_complete ns i \<noteq> Prefix_lock ns"
  by (simp_all add: Prefix_shapes)


section \<open>Reading the lock\<close>



section \<open>Batches\<close>

definition immutable_batches :: "Worker \<Rightarrow> StorageActions \<Rightarrow> (nat \<times> StorageActions) list" where
  "immutable_batches wk actions = enumerate 0 (chunks (batch_size wk) (sort_key action_key actions))"

text \<open>
  What the split commit relies on: the configuration does not divide by zero, the actions write
  different keys, none of the worker's own, they take the database \<open>s\<close> to \<open>t\<close>, and batch numbers fit
  their width.
\<close>

definition splittable :: "Worker \<Rightarrow> StorageActions \<Rightarrow> store \<Rightarrow> store \<Rightarrow> bool" where
  "splittable wk actions s t \<longleftrightarrow>
     batch_size wk > 0 \<and> max_concurrent wk > 0 \<and> disjoint_footprints actions \<and>
     footprints actions \<inter> system_keys (key_encoder wk) = {} \<and>
     actions_effect actions s = Inr t \<and> length (immutable_batches wk actions) < 2 ^ 32"

















section \<open>One attempt\<close>

text \<open>The database as it should be before a block: nothing is in progress.\<close>

definition quiescent :: "Namespace \<Rightarrow> store \<Rightarrow> bool" where
  "quiescent ns s \<longleftrightarrow> s (Prefix_lock ns) = None \<and> keys_in s (batch_complete_key_range ns) = {}"




definition resume_state :: "Worker \<Rightarrow> StorageActions \<Rightarrow> store \<Rightarrow> (nat \<times> StorageActions) set \<Rightarrow> store \<Rightarrow> bool" where
  "resume_state wk actions s D d \<longleftrightarrow>
     (\<exists>v. imm.progress wk (set (immutable_batches wk actions)) (s(Prefix_lock (key_encoder wk) := v)) D d)"

text \<open>An attempt in progress holds a lock that says so.\<close>

definition locked_state :: "Worker \<Rightarrow> StorageActions \<Rightarrow> store \<Rightarrow> (nat \<times> StorageActions) set \<Rightarrow> store \<Rightarrow> bool" where
  "locked_state wk actions s D d \<longleftrightarrow>
     (\<exists>l. SplitCommitLockValue_wf l \<and> total_actions l = of_nat (length actions) \<and> \<not> mutable l \<and>
        imm.progress wk (set (immutable_batches wk actions))
          (s(Prefix_lock (key_encoder wk) \<mapsto> SplitCommitLockValue_encode l)) D d)"


lemma io_bind_Inl: "m w = (Inl e, w1) \<Longrightarrow> io_bind m f w = (Inl e, w1)"
  by (simp add: io_bind_def)

lemma io_bind_Inr: "m w = (Inr x, w1) \<Longrightarrow> io_bind m f w = f x w1"
  by (simp add: io_bind_def)

definition immutable_lock :: "Worker \<Rightarrow> StorageActions \<Rightarrow> SplitCommitLockValue" where
  "immutable_lock wk actions =
     \<lparr>safe_point = map_option point_pair (last_processed wk), total_actions = of_nat (length actions),
      mutable = False\<rparr>"

definition hash_wf :: "Worker \<Rightarrow> bool" where
  "hash_wf wk \<longleftrightarrow> (\<forall>p. last_processed wk = Some p \<longrightarrow> length (pt_hash p) = 32)"


lemma apply_immutable_unfold:
  assumes "batch_size (worker w) > 0"
    and "skip_complete (worker w) (of_nat (length actions)) (immutable_batches (worker w) actions) = Inr xs"
  shows "apply_actions_split_commit_immutable actions w =
     io_bind (put_lock (immutable_lock (worker w) actions)) (\<lambda>_.
     io_bind (run_in_groups (immutable_task (worker w)) xs) (\<lambda>_.
     io_bind (cleanup_immutable (length (immutable_batches (worker w) actions))) (\<lambda>final_ts.
     io_bind (io_worker (\<lambda>wk. wk\<lparr>partial_split_commit := None\<rparr>)) (\<lambda>_.
       io_return final_ts)))) w"
  using assms
  by (simp add: apply_actions_split_commit_immutable_def io_bind_Inr [where m = "io_get worker"] io_get_def
      io_bind_Inr [where m = "io_lift (Inr x)" for x] io_lift_def split_chunks_def Let_def
      immutable_batches_def immutable_lock_def)



text \<open>From the lock on: the batches that are left, and the clean-up.\<close>

definition finish_immutable :: "Worker \<Rightarrow> StorageActions \<Rightarrow> (nat \<times> StorageActions) list \<Rightarrow> TiKVTimestamp option io" where
  "finish_immutable wk actions xs =
     io_bind (run_in_groups (immutable_task wk) xs) (\<lambda>_.
     io_bind (cleanup_immutable (length (immutable_batches wk actions))) (\<lambda>final_ts.
     io_bind (io_worker (\<lambda>wk. wk\<lparr>partial_split_commit := None\<rparr>)) (\<lambda>_.
       io_return final_ts)))"




section \<open>Restarts\<close>

text \<open>
  What the stage does with a block after a restart: it reads the lock and the markers back, then runs
  the split commit of the block again.
\<close>

definition attempt :: "StorageActions \<Rightarrow> TiKVTimestamp option io" where
  "attempt actions = io_bind check_partial_split_commit (\<lambda>_. apply_actions_split_commit_immutable actions)"


lemma partial_update_simps [simp]:
  "key_encoder (wk\<lparr>partial_split_commit := p\<rparr>) = key_encoder wk"
  "batch_size (wk\<lparr>partial_split_commit := p\<rparr>) = batch_size wk"
  "max_concurrent (wk\<lparr>partial_split_commit := p\<rparr>) = max_concurrent wk"
  "immutable_batches (wk\<lparr>partial_split_commit := p\<rparr>) = immutable_batches wk"
  "immutable_task (wk\<lparr>partial_split_commit := p\<rparr>) = immutable_task wk"
  "immutable_keys (wk\<lparr>partial_split_commit := p\<rparr>) = immutable_keys wk"
  "hash_wf (wk\<lparr>partial_split_commit := p\<rparr>) = hash_wf wk"
  by (simp_all add: key_encoder_def batch_size_def max_concurrent_def immutable_batches_def
      immutable_task_def immutable_keys_def hash_wf_def fun_eq_iff)

lemma partial_update_states [simp]:
  "splittable (wk\<lparr>partial_split_commit := p\<rparr>) = splittable wk"
  "locked_state (wk\<lparr>partial_split_commit := p\<rparr>) = locked_state wk"
  "resume_state (wk\<lparr>partial_split_commit := p\<rparr>) = resume_state wk"
  by (simp_all add: splittable_def locked_state_def resume_state_def fun_eq_iff)



lemma check_partial_quiet:
  "quiescent (key_encoder (worker w)) (db w) \<Longrightarrow> check_partial_split_commit w = (Inr (), w)"
  by (simp add: check_partial_split_commit_def io_bind_def io_get_def io_lift_def io_return_def
      read_lock_def quiescent_def)





section \<open>Properties\<close>

definition sample_worker :: Worker where
  "sample_worker =
     \<lparr>config = \<lparr>network = ''mainnet'', cfg_dataplane_id = 0, cfg_instance_id = 0,
        split_commit_batch_size = Some 1, split_commit_max_concurrent = Some 1, tikv_cleanup_locks = None,
        advertise_immediately = None, buffer_size = 2\<rparr>,
      rollback_buffer = RollbackBuffer_new 2 False, wk_mutable = False, work_unit_2pc = [],
      last_processed = None, partial_split_commit = None, safe_mode = False, mempool_refresh_cache = None,
      reducer_names = [], registered = False\<rparr>"

definition sample_world :: "outcome list \<Rightarrow> world" where
  "sample_world outs = \<lparr>db = Map.empty, redis = (\<lambda>_. Map.empty), worker = sample_worker, outcomes = outs\<rparr>"










text \<open>Single steps of the sample worker.\<close>

definition sample_step :: "store \<Rightarrow> outcome list \<Rightarrow> world" where
  "sample_step d outs = (sample_world outs)\<lparr>db := d\<rparr>"

definition outcome_effect :: "outcome \<Rightarrow> Mutation list \<Rightarrow> store \<Rightarrow> store" where
  "outcome_effect out ms d = (case out of NotCommitted \<Rightarrow> d | _ \<Rightarrow> apply_mutations ms d)"

definition outcome_reply :: "outcome \<Rightarrow> TiKVTimestamp option work" where
  "outcome_reply out = (case out of Committed ts \<Rightarrow> Inr ts | _ \<Rightarrow> Inl ShouldRestart)"

lemma sample_commit:
  "commit_txn_or_rollback ms (sample_step d (out # outs)) =
     (outcome_reply out, sample_step (outcome_effect out ms d) outs)"
  "commit_txn_or_rollback ms (sample_step d []) = (Inr None, sample_step (apply_mutations ms d) [])"
  by (simp_all add: commit_txn_or_rollback_def next_outcome_def sample_step_def sample_world_def
      outcome_effect_def outcome_reply_def split: outcome.splits)

lemma sample_batches: "immutable_batches sample_worker [a] = [(0, [a])]"
  by (simp add: immutable_batches_def sample_worker_def batch_size_def chunks.simps enumerate_eq_zip)

lemma sample_step_simps [simp]:
  "worker (sample_step d outs) = sample_worker" "db (sample_step d outs) = d"
  by (simp_all add: sample_step_def sample_world_def)

lemma sample_run_in_groups:
  "run_in_groups task [e] (sample_step d outs) =
     (case task e d of
        Inl RustPanic \<Rightarrow> (Inl ShouldRestart, sample_step d outs)
      | Inl err \<Rightarrow> (Inl err, sample_step d outs)
      | Inr (ms, r) \<Rightarrow>
          (case commit_txn_or_rollback ms (sample_step d outs) of
             (Inl err, w') \<Rightarrow> (Inl err, w') | (Inr ts, w') \<Rightarrow> (Inr [r], w')))"
proof -
  have "max_concurrent sample_worker = 1" by (simp add: max_concurrent_def sample_worker_def)
  then show ?thesis
    by (simp add: run_in_groups_def io_bind_def io_get_def io_lift_def io_return_def split_chunks_def
        chunks.simps run_group_def run_task_def split: sum.splits prod.splits work_error.splits)
qed

text \<open>
  C23: The case left out above: the last commit takes effect, its reply is lost, and the restarted
  stage finds no lock. It applies the block again: a counter that was to become 5 becomes 10.
\<close>

theorem lost_cleanup_applies_twice:
  "\<exists>w w1 w2. worker w = sample_worker \<and> db w = Map.empty \<and>
     attempt [Increment [1] 5] w = (Inl ShouldRestart, w1) \<and> db w1 = [[1] \<mapsto> uint_encode (5 :: u128)] \<and>
     attempt [Increment [1] 5] w1 = (Inr None, w2) \<and> db w2 = [[1] \<mapsto> uint_encode (10 :: u128)]"
proof -
  let ?a = "[Increment [1] 5]" and ?d = "[[1] \<mapsto> uint_encode (5 :: u128)]"
  let ?outs = "[Committed None, Committed None, ReplyLost]"
  have dec: "decode_amount (uint_encode (5 :: u128)) = Inr 5"
    using u128.dec_enc_exact [of 5] by (simp add: decode_amount_def or_panic_def)
  have skip: "skip_complete sample_worker n bs = Inr bs" for n bs
    by (simp add: skip_complete_def sample_worker_def)
  have bsz: "0 < batch_size sample_worker" by (simp add: batch_size_def sample_worker_def)
  have keys: "Prefix_lock (key_encoder sample_worker) \<noteq> [1]" "Prefix_batch_complete (key_encoder sample_worker) 0 \<noteq> [1]"
    by (simp_all add: Prefix_shapes Namespace_encode_shape)
  have quiet: "quiescent (key_encoder sample_worker) Map.empty" "quiescent (key_encoder sample_worker) ?d"
    using keys by (auto simp: quiescent_def keys_in_def batch_complete_range prefix_def Namespace_encode_shape)
  have unfold: "attempt ?a (sample_step d outs) =
      io_bind (put_lock (immutable_lock sample_worker ?a)) (\<lambda>_. finish_immutable sample_worker ?a [(0, ?a)])
        (sample_step d outs)" if "quiescent (key_encoder sample_worker) d" for d outs
    using check_partial_quiet [of "sample_step d outs"] that
      apply_immutable_unfold [of "sample_step d outs" ?a "[(0, ?a)]"] skip
    by (simp add: attempt_def io_bind_def sample_batches finish_immutable_def bsz)
  note steps = put_lock_def finish_immutable_def cleanup_immutable_def io_bind_def io_get_def io_return_def
    io_worker_def sample_commit sample_run_in_groups sample_batches immutable_task_def or_restart_def
    execute_counter_def batch_get_required_kvs_restrict required_keys_def outcome_effect_def outcome_reply_def
    delete_mutation_def
  have "attempt ?a (sample_step Map.empty ?outs) = (Inl ShouldRestart, sample_step ?d [])"
    using keys by (simp add: unfold quiet steps)
  moreover have "\<exists>w2. attempt ?a (sample_step ?d []) = (Inr None, w2) \<and> db w2 = [[1] \<mapsto> uint_encode (10 :: u128)]"
    using keys by (auto simp: unfold quiet steps dec)
  ultimately show ?thesis by (metis sample_step_simps)
qed

end
