(* ===== verification/Persistent_Buffer.thy ===== *)
theory Persistent_Buffer
  imports Immutable_Recovery
begin

text \<open>
  The persistent rollback buffer: reading the rollback entries of the database page by page gives all
  of them, and parsing them gives back, for every block, the inverse actions that were stored with it.
\<close>

section \<open>Scanning page by page\<close>

lemma keys_in_after:
  assumes "l \<in> keys_in s (a, b)"
  shows "keys_in s (l @ [0], b) = {k \<in> keys_in s (a, b). l < k}"
proof -
  have "a \<le> l" using assms by (simp add: keys_in_def in_range_def)
  then have "a \<le> k" if "l < k" for k using that less_imp_le order_trans by blast
  then show ?thesis by (auto simp: keys_in_def in_range_def snoc_zero_le_iff)
qed

lemma sorted_list_of_set_filter_less:
  assumes "sorted_wrt (<) L" and "n > 0" and "n \<le> length L"
  shows "sorted_list_of_set {k \<in> set L. L ! (n - 1) < k} = drop n (L :: 'a::linorder list)"
proof -
  have "{k \<in> set L. L ! (n - 1) < k} = set (drop n L)"
  proof
    show "{k \<in> set L. L ! (n - 1) < k} \<subseteq> set (drop n L)"
    proof
      fix k assume "k \<in> {k \<in> set L. L ! (n - 1) < k}"
      then obtain i where i: "i < length L" "k = L ! i" "L ! (n - 1) < L ! i" by (auto simp: in_set_conv_nth)
      have "\<not> i \<le> n - 1"
      proof
        assume "i \<le> n - 1"
        moreover have "n - 1 < length L" using assms(2,3) by simp
        ultimately have "L ! i \<le> L ! (n - 1)"
          using sorted_wrt_nth_less [OF assms(1), of i "n - 1"] by (cases "i = n - 1") auto
        then show False using i(3) by simp
      qed
      then show "k \<in> set (drop n L)"
        using i(1,2) assms(2) by (auto simp: in_set_conv_nth intro!: exI [of _ "i - n"])
    qed
    show "set (drop n L) \<subseteq> {k \<in> set L. L ! (n - 1) < k}"
      using sorted_wrt_nth_less [OF assms(1)] assms(2)
      by (auto simp: in_set_conv_nth dest: in_set_dropD)
  qed
  moreover have "sorted_wrt (<) (drop n L)" using assms(1) by (simp add: sorted_wrt_drop)
  ultimately show ?thesis by (simp add: strict_sorted_equal)
qed

lemma scan_pages_complete:
  assumes "finite (keys_in s r)" and "n > 0"
  shows "scan_pages s r n = map (\<lambda>k. (k, the (s k))) (scan_range_keys s r)"
  using assms
proof (induction s r n rule: scan_pages.induct)
  case (1 s a b n)
  let ?L = "scan_range_keys s (a, b)" and ?kv = "\<lambda>k. (k, the (s k))"
  let ?page = "scan_page s (a, b) n"
  have L: "sorted_wrt (<) ?L" "set ?L = keys_in s (a, b)"
    using 1 by (simp_all add: scan_range_keys_def)
  show ?case
  proof (cases "?L = []")
    case True
    then show ?thesis by (simp add: scan_pages.simps [of s a b n] scan_page_def)
  next
    case False
    define m where "m = min n (length ?L)"
    have m: "m > 0" "m \<le> length ?L" "take n ?L = take m ?L" "drop n ?L = drop m ?L"
      using False 1(3) by (auto simp: m_def min_def)
    have page: "?page = map ?kv (take m ?L)" "?page \<noteq> []"
      using m False by (simp_all add: scan_page_def take_map)
    have "last (take m ?L) = ?L ! (m - 1)"
      using m False by (subst last_conv_nth) auto
    then have last: "fst (last ?page) = ?L ! (m - 1)"
      using page m by (simp add: last_map)
    have "?L ! (m - 1) \<in> set ?L" using m by (intro nth_mem) simp
    then have rest: "keys_in s (fst (last ?page) @ [0], b) = {k \<in> set ?L. ?L ! (m - 1) < k}"
      unfolding last L(2) by (rule keys_in_after)
    then have "scan_range_keys s (fst (last ?page) @ [0], b) = drop m ?L"
      using sorted_list_of_set_filter_less [OF L(1) m(1,2)] by (simp add: scan_range_keys_def)
    moreover have "finite (keys_in s (fst (last ?page) @ [0], b))" using rest by simp
    ultimately have "scan_pages s (fst (last ?page) @ [0], b) n = map ?kv (drop m ?L)"
      using 1(1) [OF refl page(2)] 1(3) by simp
    then show ?thesis
      using page by (simp add: scan_pages.simps [of s a b n] flip: map_append)
  qed
qed

section \<open>Parsing the entries\<close>

text \<open>A rollback entry: the block, the key it restores and the stored value.\<close>

type_synonym rb_entry = "Point \<times> Key \<times> Value"

definition entry_kv :: "Namespace \<Rightarrow> rb_entry \<Rightarrow> Key \<times> Value" where
  "entry_kv ns e = (rollback_key ns (fst e) (fst (snd e)), snd (snd e))"

definition entry_wf :: "rb_entry \<Rightarrow> bool" where
  "entry_wf e \<longleftrightarrow> length (pt_hash (fst e)) = 32 \<and> pt_height (fst e) \<noteq> 0 \<and> length (fst (snd e)) < 2 ^ 64"

definition entry_inverse :: "rb_entry \<Rightarrow> StorageAction" where
  "entry_inverse e = inverse_of_entry (fst (snd e)) (snd (snd e))"

lemma parse_entry_kv:
  assumes "entry_wf e"
  shows "parse_entry (entry_kv ns e) st =
     Inr (let st = (if fst e \<noteq> ps_point st
                    then \<lparr>ps_buf = finish_point st, ps_point = fst e, ps_actions = []\<rparr> else st) in
          st\<lparr>ps_actions := ps_actions st @ [entry_inverse e]\<rparr>)"
proof -
  let ?mk = "\<lparr>mk_height = pt_height (fst e), mk_hash = pt_hash (fst e), modified_key = fst (snd e)\<rparr>"
  have "MetadataKey_decode (MetadataKey_encode ?mk) = Inr (?mk, [])"
    using metadata_key.dec_enc_exact [of ?mk] assms by (simp add: MetadataKey_wf_def entry_wf_def)
  moreover have "(pt_height (fst e) \<noteq> pt_height q \<or> pt_hash (fst e) \<noteq> pt_hash q) = (fst e \<noteq> q)" for q
    by (cases "fst e"; cases q) auto
  moreover have "mk_point (pt_height (fst e), pt_hash (fst e)) = fst e"
    by (cases "fst e") (simp add: mk_point_def)
  ultimately show ?thesis
    by (simp add: parse_entry_def entry_kv_def entry_inverse_def rollback_key_def suffix_after_prefix_def
        Prefix_shapes Namespace_size_def Let_def)
qed

lemma parse_same_point:
  assumes "\<forall>e \<in> set es. entry_wf e \<and> fst e = p" and "ps_point st = p"
  shows "work_fold parse_entry (map (entry_kv ns) es) st = Inr (st\<lparr>ps_actions := ps_actions st @ map entry_inverse es\<rparr>)"
  using assms
proof (induction es arbitrary: st)
  case Nil
  then show ?case by simp
next
  case (Cons e es)
  then show ?case by (simp add: parse_entry_kv)
qed

lemma parse_new_point:
  assumes "\<forall>e \<in> set es. entry_wf e \<and> fst e = p" and "es \<noteq> []" and "ps_point st \<noteq> p"
  shows "work_fold parse_entry (map (entry_kv ns) es) st =
     Inr \<lparr>ps_buf = finish_point st, ps_point = p, ps_actions = map entry_inverse es\<rparr>"
proof (cases es)
  case (Cons e es')
  then show ?thesis
    using assms parse_same_point [of es' p "\<lparr>ps_buf = finish_point st, ps_point = p, ps_actions = [entry_inverse e]\<rparr>" ns]
    by (auto simp: parse_entry_kv)
qed (use assms in simp)

definition group_value :: "Point \<times> rb_entry list \<Rightarrow> PersistentBufferValue" where
  "group_value g = \<lparr>pb_point = fst g, inverse_actions = map entry_inverse (snd g)\<rparr>"

lemma group_value_point [simp]: "pb_point (group_value g) = fst g"
  by (simp add: group_value_def)

definition group_ok :: "Point \<times> rb_entry list \<Rightarrow> bool" where
  "group_ok g \<longleftrightarrow> snd g \<noteq> [] \<and> (\<forall>e \<in> set (snd g). entry_wf e \<and> fst e = fst g)"

lemma parse_groups:
  assumes "\<forall>g \<in> set gs. group_ok g" and "distinct (map fst gs)" and "ps_point st \<notin> fst ` set gs"
  shows "\<exists>st'. work_fold parse_entry (map (entry_kv ns) (concat (map snd gs))) st = Inr st' \<and>
     finish_point st' = finish_point st @ map group_value gs"
  using assms
proof (induction gs arbitrary: st)
  case Nil
  then show ?case by simp
next
  case (Cons g gs)
  let ?st = "\<lparr>ps_buf = finish_point st, ps_point = fst g, ps_actions = map entry_inverse (snd g)\<rparr>"
  have g: "\<forall>e \<in> set (snd g). entry_wf e \<and> fst e = fst g" "snd g \<noteq> []" "ps_point st \<noteq> fst g"
    using Cons.prems by (auto simp: group_ok_def)
  then have "pt_height (fst g) \<noteq> 0" by (cases "snd g") (auto simp: entry_wf_def)
  then have "finish_point ?st = finish_point st @ [group_value g]"
    by (simp add: finish_point_def group_value_def)
  moreover obtain st' where "work_fold parse_entry (map (entry_kv ns) (concat (map snd gs))) ?st = Inr st'"
    "finish_point st' = finish_point ?st @ map group_value gs"
    using Cons.IH [of ?st] Cons.prems by auto
  ultimately show ?case using parse_new_point [OF g, of ns] by (simp add: work_fold_append)
qed

lemma parse_entries_groups:
  assumes "\<forall>g \<in> set gs. group_ok g" and "distinct (map fst gs)"
  shows "parse_entries (map (entry_kv ns) (concat (map snd gs))) = Inr (map group_value gs)"
proof -
  have "ps_point parse_start \<notin> fst ` set gs"
  proof
    assume "ps_point parse_start \<in> fst ` set gs"
    then obtain g where g: "g \<in> set gs" "fst g = ps_point parse_start" by auto
    then have "snd g \<noteq> []" "\<forall>e \<in> set (snd g). entry_wf e \<and> fst e = fst g" using assms(1) by (auto simp: group_ok_def)
    then have "pt_height (fst g) \<noteq> 0" by (cases "snd g") (auto simp: entry_wf_def)
    then show False using g(2) by (simp add: parse_start_def mk_point_def)
  qed
  moreover have "finish_point parse_start = []"
    by (simp add: finish_point_def parse_start_def mk_point_def)
  ultimately show ?thesis using parse_groups [OF assms, of parse_start ns] by (auto simp: parse_entries_def)
qed

section \<open>Entries in key order\<close>

lemma group_sorted:
  fixes f :: "'a \<Rightarrow> 'b::linorder"
  assumes "sorted (map f xs)" and "sorted_wrt (<) cs" and "f ` set xs \<subseteq> set cs"
  shows "xs = concat (map (\<lambda>c. filter (\<lambda>x. f x = c) xs) cs)"
  using assms
proof (induction cs arbitrary: xs)
  case Nil
  then show ?case by simp
next
  case (Cons c cs)
  have split: "xs = filter (\<lambda>x. f x = c) xs @ filter (\<lambda>x. f x \<noteq> c) xs"
    using Cons.prems(1,3)
  proof (induction xs)
    case (Cons x xs)
    show ?case
    proof (cases "f x = c")
      case False
      then have "c < f x" using Cons.prems(2) \<open>sorted_wrt (<) (c # cs)\<close> by auto
      then have "\<forall>y \<in> set xs. f y \<noteq> c" using Cons.prems(1) by auto
      then show ?thesis using False by (simp add: filter_empty_conv filter_id_conv)
    qed (use Cons in auto)
  qed simp
  let ?ys = "filter (\<lambda>x. f x \<noteq> c) xs"
  have "sorted (map f ?ys)" using Cons.prems(1) sorted_filter by blast
  moreover have "f ` set ?ys \<subseteq> set cs" using Cons.prems(3) by auto
  moreover have "sorted_wrt (<) cs" using Cons.prems(2) by simp
  ultimately have "?ys = concat (map (\<lambda>c. filter (\<lambda>x. f x = c) ?ys) cs)"
    using Cons.IH by blast
  also have "\<dots> = concat (map (\<lambda>c. filter (\<lambda>x. f x = c) xs) cs)"
    using Cons.prems(2) by (intro arg_cong [where f = concat] map_cong refl) (auto simp: filter_filter intro!: filter_cong)
  finally show ?case using split by simp
qed

lemma rollback_key_shape:
  "rollback_key ns p m =
     (Namespace_encode ns @ [82, 96]) @ uint_encode (pt_height p) @ pt_hash p @ vec_encode u8_encode m"
  by (simp add: rollback_key_def Prefix_shapes MetadataKey_encode_def array_encode_def)

lemma rollback_key_less_height:
  assumes "rollback_key ns p m < rollback_key ns q m'"
  shows "pt_height p \<le> pt_height q"
  using assms u64.append_less_iff [where x = "pt_height p" and y = "pt_height q"]
  by (auto simp: rollback_key_shape)

lemma rollback_key_inj:
  assumes "entry_wf (p, m, v)" and "entry_wf (q, m', v')" and "rollback_key ns p m = rollback_key ns q m'"
  shows "p = q \<and> m = m'"
proof -
  have "\<lparr>mk_height = pt_height p, mk_hash = pt_hash p, modified_key = m\<rparr> =
      \<lparr>mk_height = pt_height q, mk_hash = pt_hash q, modified_key = m'\<rparr>"
    by (rule metadata_key.enc_inj)
      (use assms in \<open>simp_all add: MetadataKey_wf_def entry_wf_def rollback_key_def Prefix_shapes\<close>)
  then show ?thesis by (cases p; cases q) simp
qed

section \<open>Fetching the buffer\<close>

definition saved_points :: "Namespace \<Rightarrow> store \<Rightarrow> Point set" where
  "saved_points ns d = {p. \<exists>m v. entry_wf (p, m, v) \<and> d (rollback_key ns p m) = Some v}"

definition saved_inverses :: "Namespace \<Rightarrow> store \<Rightarrow> Point \<Rightarrow> StorageAction set" where
  "saved_inverses ns d p = {inverse_of_entry m v |m v. entry_wf (p, m, v) \<and> d (rollback_key ns p m) = Some v}"

text \<open>The rollback entries of a namespace are well formed, with one block per height.\<close>

definition buffer_wf :: "Namespace \<Rightarrow> store \<Rightarrow> bool" where
  "buffer_wf ns d \<longleftrightarrow>
     finite {k \<in> dom d. prefix (Namespace_encode ns @ [PREFIX_ROLLBACK, BREAK]) k} \<and>
     (\<forall>k \<in> dom d. prefix (Namespace_encode ns @ [PREFIX_ROLLBACK, BREAK]) k \<longrightarrow>
        (\<exists>e. entry_wf e \<and> rollback_key ns (fst e) (fst (snd e)) = k)) \<and>
     inj_on pt_height (saved_points ns d)"

definition rollback_range :: "Namespace \<Rightarrow> u64 \<Rightarrow> bytes \<times> bytes" where
  "rollback_range ns lo = rollback_metadata_key_range ns uint_encode uint_encode (Some lo) (None :: u64 option)"

lemma rollback_range_prefix:
  assumes "in_range (rollback_range ns lo) k"
  shows "prefix (Namespace_encode ns @ [PREFIX_ROLLBACK, BREAK]) k"
proof -
  let ?p = "Namespace_encode ns @ [82, 96]"
  have "rollback_range ns lo = (unwrap_or (Some (?p @ uint_encode lo)) (fst (prefix_key_range ?p)),
      unwrap_or None (snd (prefix_key_range ?p)))"
    by (simp add: rollback_range_def rollback_metadata_key_range_def builder_defs tag_defs Let_def)
  from prefix_range_bounds [OF _ _ assms [unfolded this]] show ?thesis by (simp add: tag_defs)
qed

lemma in_rollback_range: "in_range (rollback_range ns lo) (rollback_key ns p m) \<longleftrightarrow> lo \<le> pt_height p"
  unfolding rollback_range_def rollback_key_def by (simp add: rollback_scan within_bounds_def)

lemma list_choice:
  "\<forall>x \<in> set xs. \<exists>y. P y \<and> f y = x \<Longrightarrow> \<exists>ys. map f ys = xs \<and> (\<forall>y \<in> set ys. P y)"
proof (induction xs)
  case (Cons x xs)
  then obtain y ys where "P y" "f y = x" "map f ys = xs" "\<forall>y \<in> set ys. P y" by auto
  then show ?case by (intro exI [of _ "y # ys"]) simp
qed simp

lemma scan_entries:
  assumes "buffer_wf ns d"
  obtains es where "scan_pages d (rollback_range ns lo) 2000 = map (entry_kv ns) es"
    "\<forall>e \<in> set es. entry_wf e" "sorted (map (\<lambda>e. pt_height (fst e)) es)"
    "distinct (map (\<lambda>e. (fst e, fst (snd e))) es)"
    "set es = {e. entry_wf e \<and> lo \<le> pt_height (fst e) \<and> d (rollback_key ns (fst e) (fst (snd e))) = Some (snd (snd e))}"
proof -
  let ?ks = "scan_range_keys d (rollback_range ns lo)"
  have fin: "finite (keys_in d (rollback_range ns lo))"
    using assms rollback_range_prefix [of ns lo]
    by (auto simp: buffer_wf_def keys_in_def intro: finite_subset [rotated])
  then have ks: "sorted_wrt (<) ?ks" "set ?ks = keys_in d (rollback_range ns lo)"
    by (simp_all add: scan_range_keys_def)
  have kvs: "scan_pages d (rollback_range ns lo) 2000 = map (\<lambda>k. (k, the (d k))) ?ks"
    by (rule scan_pages_complete [OF fin]) simp
  have "\<exists>e. entry_wf e \<and> entry_kv ns e = (k, the (d k))" if "k \<in> set ?ks" for k
  proof -
    have "k \<in> dom d" "prefix (Namespace_encode ns @ [PREFIX_ROLLBACK, BREAK]) k"
      using that rollback_range_prefix by (auto simp: ks(2) keys_in_def)
    then obtain e where "entry_wf e" "rollback_key ns (fst e) (fst (snd e)) = k"
      using assms unfolding buffer_wf_def by blast
    then show ?thesis
      by (intro exI [of _ "(fst e, fst (snd e), the (d k))"]) (auto simp: entry_wf_def entry_kv_def)
  qed
  then have "\<forall>x \<in> set (map (\<lambda>k. (k, the (d k))) ?ks). \<exists>e. entry_wf e \<and> entry_kv ns e = x" by auto
  from list_choice [OF this] obtain es where
    es: "map (entry_kv ns) es = map (\<lambda>k. (k, the (d k))) ?ks" "\<forall>e \<in> set es. entry_wf e" by blast
  have keys: "map (\<lambda>e. rollback_key ns (fst e) (fst (snd e))) es = ?ks"
    using arg_cong [OF es(1), of "map fst"] by (simp add: entry_kv_def comp_def)
  have "sorted_wrt (\<lambda>a b. rollback_key ns (fst a) (fst (snd a)) < rollback_key ns (fst b) (fst (snd b))) es"
    using ks(1) unfolding keys [symmetric] sorted_wrt_map .
  then have sorted: "sorted (map (\<lambda>e. pt_height (fst e)) es)"
    unfolding sorted_map by (rule sorted_wrt_mono_rel [rotated]) (rule rollback_key_less_height)
  have "distinct (map (\<lambda>e. rollback_key ns (fst e) (fst (snd e))) es)"
    unfolding keys by (simp add: scan_range_keys_def)
  then have dist: "distinct (map (\<lambda>e. (fst e, fst (snd e))) es)"
    by (auto simp: distinct_map inj_on_def)
  have set: "set es = {e. entry_wf e \<and> lo \<le> pt_height (fst e) \<and>
      d (rollback_key ns (fst e) (fst (snd e))) = Some (snd (snd e))}" (is "_ = ?S")
  proof
    have "entry_kv ns e \<in> (\<lambda>k. (k, the (d k))) ` keys_in d (rollback_range ns lo)" if "e \<in> set es" for e
    proof -
      have "entry_kv ns e \<in> set (map (entry_kv ns) es)" using that by simp
      then show ?thesis unfolding es(1) by (simp add: ks(2))
    qed
    then show "set es \<subseteq> ?S"
      using es(2) by (fastforce simp: entry_kv_def keys_in_def in_rollback_range)
    show "?S \<subseteq> set es"
    proof
      fix e assume e: "e \<in> ?S"
      then have "rollback_key ns (fst e) (fst (snd e)) \<in> set ?ks"
        by (auto simp: ks(2) keys_in_def in_rollback_range)
      then obtain e' where e': "e' \<in> set es" "rollback_key ns (fst e') (fst (snd e')) = rollback_key ns (fst e) (fst (snd e))"
        unfolding keys [symmetric] by auto
      have "e' \<in> ?S" using \<open>set es \<subseteq> ?S\<close> e'(1) by blast
      then have "e' = e" using rollback_key_inj e e'(2) by (cases e; cases e') fastforce
      then show "e \<in> set es" using e'(1) by simp
    qed
  qed
  show thesis by (rule that [OF _ es(2) sorted dist set]) (simp only: kvs es(1))
qed

text \<open>Entries in key order are grouped by block, in the order of the heights.\<close>

lemma sorted_entries_groups:
  assumes "\<forall>e \<in> set es. entry_wf e" and "sorted (map (\<lambda>e. pt_height (fst e)) es)"
    and "inj_on pt_height (fst ` set es)"
  obtains gs where "es = concat (map snd gs)" "\<forall>g \<in> set gs. group_ok g"
    "sorted_wrt (<) (map (\<lambda>g. pt_height (fst g)) gs)"
    "\<forall>g \<in> set gs. snd g = filter (\<lambda>e. fst e = fst g) es" "fst ` set gs = fst ` set es"
proof -
  let ?h = "\<lambda>e :: rb_entry. pt_height (fst e)"
  let ?hs = "sorted_list_of_set (?h ` set es)"
  let ?g = "\<lambda>c. (fst (hd (filter (\<lambda>e. ?h e = c) es)), filter (\<lambda>e. ?h e = c) es)"
  have hs: "set ?hs = ?h ` set es" "sorted_wrt (<) ?hs" by simp_all
  have same: "fst e = fst e'" if "e \<in> set es" "e' \<in> set es" "?h e = ?h e'" for e e'
    using that assms(3) by (auto simp: inj_on_def)
  have hd: "hd (filter (\<lambda>e. ?h e = c) es) \<in> set es \<and> ?h (hd (filter (\<lambda>e. ?h e = c) es)) = c" if "c \<in> set ?hs" for c
  proof -
    have "filter (\<lambda>e. ?h e = c) es \<noteq> []" using that unfolding hs(1) by (auto simp: filter_empty_conv)
    from hd_in_set [OF this] show ?thesis by auto
  qed
  have point: "(\<lambda>e. ?h e = c) e \<longleftrightarrow> fst e = fst (?g c)" if "c \<in> set ?hs" "e \<in> set es" for c e
    using hd [OF that(1)] that(2) same [of e "hd (filter (\<lambda>e. ?h e = c) es)"] by auto
  show thesis
  proof (rule that [of "map ?g ?hs"])
    show "es = concat (map snd (map ?g ?hs))"
      using group_sorted [OF assms(2) hs(2)] hs(1) by (simp add: comp_def)
    show "\<forall>g \<in> set (map ?g ?hs). group_ok g"
    proof
      fix g assume "g \<in> set (map ?g ?hs)"
      then obtain c where c: "c \<in> set ?hs" "g = ?g c" by auto
      have "snd g \<noteq> []" using hd [OF c(1)] c(2) by (auto simp: filter_empty_conv)
      moreover have "entry_wf e \<and> fst e = fst g" if "e \<in> set (snd g)" for e
        using that assms(1) c point [OF c(1), of e] by simp
      ultimately show "group_ok g" by (simp add: group_ok_def)
    qed
    have "map (\<lambda>g. pt_height (fst g)) (map ?g ?hs) = ?hs" using hd by (auto intro!: map_idI)
    then show "sorted_wrt (<) (map (\<lambda>g. pt_height (fst g)) (map ?g ?hs))" using hs(2) by simp
    show "\<forall>g \<in> set (map ?g ?hs). snd g = filter (\<lambda>e. fst e = fst g) es"
    proof
      fix g assume "g \<in> set (map ?g ?hs)"
      then obtain c where c: "c \<in> set ?hs" "g = ?g c" by auto
      show "snd g = filter (\<lambda>e. fst e = fst g) es"
        unfolding c(2) snd_conv by (rule filter_cong [OF refl]) (rule point [OF c(1)])
    qed
    show "fst ` set (map ?g ?hs) = fst ` set es"
    proof
      show "fst ` set (map ?g ?hs) \<subseteq> fst ` set es"
      proof
        fix p assume "p \<in> fst ` set (map ?g ?hs)"
        then have "p \<in> (\<lambda>c. fst (hd (filter (\<lambda>e. ?h e = c) es))) ` set ?hs"
          by (simp only: set_map image_image fst_conv)
        then obtain c where "c \<in> set ?hs" "p = fst (hd (filter (\<lambda>e. ?h e = c) es))" by (rule imageE)
        then show "p \<in> fst ` set es" using hd by blast
      qed
      show "fst ` set es \<subseteq> fst ` set (map ?g ?hs)"
      proof
        fix p assume "p \<in> fst ` set es"
        then obtain e where e: "e \<in> set es" "p = fst e" by auto
        then have "?h e \<in> set ?hs" using hs(1) by auto
        then show "p \<in> fst ` set (map ?g ?hs)"
          using point [of "?h e" e] e by (auto intro!: image_eqI [of _ _ "?g (?h e)"])
      qed
    qed
  qed
qed

definition fetch_from :: "nat \<Rightarrow> Point option \<Rightarrow> u64" where
  "fetch_from n lp = saturating_sub_u64 (case lp of Some x \<Rightarrow> pt_height x | None \<Rightarrow> 0) (of_nat n + 1)"

lemma saved_inverses_image:
  "saved_inverses ns d p = entry_inverse `
     {e. fst e = p \<and> entry_wf e \<and> d (rollback_key ns (fst e) (fst (snd e))) = Some (snd (snd e))}"
proof -
  have "x \<in> saved_inverses ns d p \<longleftrightarrow> x \<in> entry_inverse `
     {e. fst e = p \<and> entry_wf e \<and> d (rollback_key ns (fst e) (fst (snd e))) = Some (snd (snd e))}" for x
    by (simp add: saved_inverses_def entry_inverse_def image_iff split_paired_Ex) blast
  then show ?thesis by blast
qed

lemma fetch_buffer:
  assumes "buffer_wf ns d" and "last_point ns d = Inr lp"
  obtains buf where "fetch_persistent_buffer ns n d = Inr (if buf = [] then None else Some buf)"
    "set (map pb_point buf) = {p \<in> saved_points ns d. fetch_from n lp \<le> pt_height p}"
    "sorted_wrt (\<lambda>a b. pt_height a < pt_height b) (map pb_point buf)"
    "\<forall>e \<in> set buf. distinct (map action_key (inverse_actions e)) \<and>
       set (inverse_actions e) = saved_inverses ns d (pb_point e)"
proof -
  let ?lo = "fetch_from n lp"
  obtain es where es: "scan_pages d (rollback_range ns ?lo) 2000 = map (entry_kv ns) es"
    "\<forall>e \<in> set es. entry_wf e" "sorted (map (\<lambda>e. pt_height (fst e)) es)"
    "distinct (map (\<lambda>e. (fst e, fst (snd e))) es)"
    "set es = {e. entry_wf e \<and> ?lo \<le> pt_height (fst e) \<and> d (rollback_key ns (fst e) (fst (snd e))) = Some (snd (snd e))}"
    using scan_entries [OF assms(1)] by blast
  have pts: "fst ` set es = {p \<in> saved_points ns d. ?lo \<le> pt_height p}"
    unfolding es(5) saved_points_def by force
  then have "inj_on pt_height (fst ` set es)"
    using assms(1) by (auto simp: buffer_wf_def intro: inj_on_subset)
  from sorted_entries_groups [OF es(2,3) this] obtain gs where gs: "es = concat (map snd gs)" "\<forall>g \<in> set gs. group_ok g"
    "sorted_wrt (<) (map (\<lambda>g. pt_height (fst g)) gs)"
    "\<forall>g \<in> set gs. snd g = filter (\<lambda>e. fst e = fst g) es" "fst ` set gs = fst ` set es" by blast
  have "distinct (map pt_height (map fst gs))" using gs(3) strict_sorted_iff by (auto simp: comp_def)
  then have "distinct (map fst gs)" using distinct_map by blast
  then have "parse_entries (map (entry_kv ns) es) = Inr (map group_value gs)"
    unfolding gs(1) by (rule parse_entries_groups [OF gs(2)])
  then have fetch: "fetch_persistent_buffer ns n d =
      Inr (if map group_value gs = [] then None else Some (map group_value gs))"
    using assms(2) es(1) by (simp add: fetch_persistent_buffer_def fetch_from_def rollback_range_def Let_def)
  have "distinct (map action_key (inverse_actions (group_value g))) \<and>
      set (inverse_actions (group_value g)) = saved_inverses ns d (fst g)" if g: "g \<in> set gs" for g
  proof -
    have snd: "snd g = filter (\<lambda>e. fst e = fst g) es" using gs(4) g by blast
    have key: "action_key (entry_inverse e) = fst (snd e)" for e
      by (simp add: entry_inverse_def inverse_of_entry_def)
    have "inj_on (\<lambda>e. fst (snd e)) (set (snd g))" "distinct (snd g)"
      using es(4) unfolding snd by (auto simp: distinct_map inj_on_def)
    then have "distinct (map action_key (inverse_actions (group_value g)))"
      by (simp add: group_value_def comp_def key distinct_map)
    moreover have "?lo \<le> pt_height (fst g)" using gs(5) g pts by blast
    then have "set (snd g) = {e. fst e = fst g \<and> entry_wf e \<and> d (rollback_key ns (fst e) (fst (snd e))) = Some (snd (snd e))}"
      unfolding snd by (auto simp: es(5))
    then have "set (inverse_actions (group_value g)) = saved_inverses ns d (fst g)"
      by (simp add: group_value_def saved_inverses_image)
    ultimately show ?thesis by blast
  qed
  then have "\<forall>e \<in> set (map group_value gs). distinct (map action_key (inverse_actions e)) \<and>
      set (inverse_actions e) = saved_inverses ns d (pb_point e)"
    by (simp add: group_value_def)
  then show thesis
    using that [OF fetch] gs(3,5) pts by (simp add: sorted_wrt_map)
qed

end
