(* ===== verification/Gc_Safepoint.thy ===== *)
theory Gc_Safepoint
  imports Redis_Entry "HOL-Library.AList" "HOL-Library.Sublist"
begin

text \<open>
  The garbage collector of old TiKV versions (\<open>services/tikv-gc\<close>): it reads the timestamp entries of
  every instance from Redis, chooses a safepoint that keeps the chain tip of every instance, the blocks
  of the last minutes and a common block of every network, publishes it and removes the older entries
  from Redis. A panic of the process is \<open>Inl RustPanic\<close>. The map from instances to entries is an
  association list in the iteration order of the hash map, and every theorem holds for every order.
  \<open>from_version\<close> is the TiKV client's split of a version into its physical and logical parts and
  \<open>version\<close> its inverse; both are parameters.
\<close>

section \<open>Keys and timestamps\<close>

record RedisKey =
  rk_dataplane :: u8
  rk_instance :: u16

definition timestamp_key :: "u8 \<Rightarrow> u16 \<Rightarrow> string" where
  "timestamp_key dp inst = ''tikv-timestamps:'' @ show_nat (unat dp) @ '':'' @ show_nat (unat inst)"

text \<open>The physical and the logical part, with the derived lexicographic order.\<close>

type_synonym Timestamp = "int \<times> int"

datatype Invariant = EarliestChaintip | SafeZone | NetworkIntersection

text \<open>Release builds wrap on overflow of \<open>i64\<close>.\<close>

definition i64_sub :: "int \<Rightarrow> int \<Rightarrow> int" where
  "i64_sub a b = (a - b + 2 ^ 63) mod 2 ^ 64 - 2 ^ 63"

definition i64_saturating_sub :: "int \<Rightarrow> int \<Rightarrow> int" where
  "i64_saturating_sub a b = max (- (2 ^ 63)) (min (2 ^ 63 - 1) (a - b))"

type_synonym entry_map = "(RedisKey \<times> RedisEntry list) list"

type_synonym block_point = "u64 \<times> bytes"

definition block_of :: "RedisEntry \<Rightarrow> block_point" where
  "block_of e = (re_height e, re_block_hash e)"

definition chain_entries :: "RedisEntry list \<Rightarrow> RedisEntry list" where
  "chain_entries es = filter (\<lambda>e. \<not> re_was_mempool e) es"

definition has_block :: "RedisEntry list \<Rightarrow> block_point \<Rightarrow> bool" where
  "has_block es p \<longleftrightarrow> p \<in> set (map block_of (chain_entries es))"

lemma has_block_iff: "has_block es p \<longleftrightarrow> (\<exists>e \<in> set es. \<not> re_was_mempool e \<and> block_of e = p)"
  by (auto simp: has_block_def chain_entries_def)

lemma has_blockI: "e \<in> set es \<Longrightarrow> \<not> re_was_mempool e \<Longrightarrow> block_of e = p \<Longrightarrow> has_block es p"
  by (auto simp: has_block_iff)

definition newest_first :: "(u64 \<Rightarrow> Timestamp) \<Rightarrow> RedisEntry list \<Rightarrow> RedisEntry list" where
  "newest_first from_version es =
     rev (sort_key (\<lambda>e. (re_height e, from_version (re_commit_ts e))) es)"

section \<open>The earliest chain tip\<close>

definition get_instance_chaintips :: "(u64 \<Rightarrow> Timestamp) \<Rightarrow> entry_map \<Rightarrow> (RedisKey \<times> RedisEntry) list work" where
  "get_instance_chaintips from_version m =
     work_map (\<lambda>(key, block_options).
       case newest_first from_version (chain_entries block_options) of
         [] \<Rightarrow> Inl RustPanic
       | tip # _ \<Rightarrow> Inr (key, tip)) m"

definition get_earliest_chaintip_ts :: "(u64 \<Rightarrow> Timestamp) \<Rightarrow> entry_map \<Rightarrow> int \<Rightarrow> Timestamp work" where
  "get_earliest_chaintip_ts from_version m current_ts =
     work_bind (get_instance_chaintips from_version m) (\<lambda>tips.
       case sort_key (\<lambda>(_, e). from_version (re_commit_ts e)) tips of
         [] \<Rightarrow> Inl RustPanic
       | (_, earliest) # _ \<Rightarrow>
           (let ts = from_version (re_commit_ts earliest) in
            if i64_sub current_ts (fst ts) < 0 then Inl RustPanic else Inr ts))"

section \<open>The network intersection\<close>

definition network_map :: "entry_map \<Rightarrow> (string \<times> RedisKey list) list" where
  "network_map m =
     fold (\<lambda>(key, entries) nm.
       case entries of
         [] \<Rightarrow> nm
       | e # _ \<Rightarrow>
           AList.update (re_network e)
             (case map_of nm (re_network e) of None \<Rightarrow> [key] | Some v \<Rightarrow> v @ [key]) nm) m []"

text \<open>The index \<open>entry_map[instance]\<close>; its keys come from the map, so it never misses.\<close>

definition entries_at :: "entry_map \<Rightarrow> RedisKey \<Rightarrow> RedisEntry list" where
  "entries_at m key = (case map_of m key of Some es \<Rightarrow> es | None \<Rightarrow> [])"

definition shared_by :: "entry_map \<Rightarrow> RedisKey list \<Rightarrow> block_point \<Rightarrow> bool" where
  "shared_by m instances p \<longleftrightarrow> (\<forall>key \<in> set instances. has_block (entries_at m key) p)"

text \<open>
  The candidate loop: the first shared candidate is the best intersection; after that a candidate of the
  same height is skipped, the search stops below the height before it, and the first shared candidate of
  exactly that height is the previous intersection.
\<close>

fun candidate_loop ::
  "(block_point \<Rightarrow> bool) \<Rightarrow> block_point list \<Rightarrow> block_point option \<Rightarrow> block_point option \<times> block_point option" where
  "candidate_loop shared [] best = (best, None)"
| "candidate_loop shared (c # cs) None =
     candidate_loop shared cs (if shared c then Some c else None)"
| "candidate_loop shared (c # cs) (Some b) =
     (if fst c = fst b then candidate_loop shared cs (Some b)
      else if fst b = 0 \<or> fst c \<noteq> fst b - 1 then (Some b, None)
      else if shared c then (Some b, Some c)
      else candidate_loop shared cs (Some b))"

definition latest_commit_ts :: "(u64 \<Rightarrow> Timestamp) \<Rightarrow> RedisEntry list \<Rightarrow> block_point \<Rightarrow> Timestamp work" where
  "latest_commit_ts from_version es p =
     (case rev (sort_key (\<lambda>e. from_version (re_commit_ts e)) (filter (\<lambda>e. block_of e = p) (chain_entries es))) of
        [] \<Rightarrow> Inl RustPanic
      | e # _ \<Rightarrow> Inr (from_version (re_commit_ts e)))"

definition first_sorted :: "Timestamp list \<Rightarrow> Timestamp work" where
  "first_sorted ts = (case sort ts of [] \<Rightarrow> Inl RustPanic | t # _ \<Rightarrow> Inr t)"

text \<open>The earliest, over the instances, of the latest timestamp that an instance has for the block.\<close>

definition block_safepoint :: "(u64 \<Rightarrow> Timestamp) \<Rightarrow> entry_map \<Rightarrow> RedisKey list \<Rightarrow> block_point \<Rightarrow> Timestamp work" where
  "block_safepoint from_version m instances p =
     work_bind (work_map (\<lambda>key. latest_commit_ts from_version (entries_at m key) p) instances) first_sorted"

definition network_safepoint :: "(u64 \<Rightarrow> Timestamp) \<Rightarrow> entry_map \<Rightarrow> RedisKey list \<Rightarrow> Timestamp work" where
  "network_safepoint from_version m instances =
     (case instances of
        [] \<Rightarrow> Inl RustPanic
      | arbitrary_instance # _ \<Rightarrow>
          (let candidates = newest_first from_version (chain_entries (entries_at m arbitrary_instance)) in
           case candidate_loop (shared_by m instances) (map block_of candidates) None of
             (None, _) \<Rightarrow> Inl RustPanic
           | (Some best_intersection, previous_intersection) \<Rightarrow>
               block_safepoint from_version m instances
                 (case previous_intersection of Some prev \<Rightarrow> prev | None \<Rightarrow> best_intersection)))"

definition get_latest_network_intersection_ts :: "(u64 \<Rightarrow> Timestamp) \<Rightarrow> entry_map \<Rightarrow> Timestamp work" where
  "get_latest_network_intersection_ts from_version m =
     work_bind
       (work_map (\<lambda>(_, instances). network_safepoint from_version m instances)
         (filter (\<lambda>(network, _). \<not> sublist ''dogecoin'' (to_lowercase network)) (network_map m)))
       first_sorted"

section \<open>The worker\<close>

text \<open>
  Redis: the members of a sorted set in the order of their scores, with the scores, and the plain
  string keys.
\<close>

record gc_redis =
  zsets :: "string \<Rightarrow> (string \<times> int) list"
  plain :: "string \<Rightarrow> string option"

definition zrembyscore :: "string \<Rightarrow> int \<Rightarrow> gc_redis \<Rightarrow> gc_redis" where
  "zrembyscore key hi r = r\<lparr>zsets := (zsets r)(key := filter (\<lambda>(_, score). \<not> score \<le> hi) (zsets r key))\<rparr>"

primrec split_on :: "char \<Rightarrow> string \<Rightarrow> string list" where
  "split_on d [] = [[]]"
| "split_on d (c # cs) =
     (if c = d then [] # split_on d cs
      else case split_on d cs of p # ps \<Rightarrow> (c # p) # ps | [] \<Rightarrow> [[c]])"

definition parse_uint :: "nat \<Rightarrow> string \<Rightarrow> nat option" where
  "parse_uint w s =
     (let ds = (case s of c # cs \<Rightarrow> (if c = CHR ''+'' then cs else s) | [] \<Rightarrow> []) in
      if ds = [] then None
      else case digits_value ds 0 of
             Some n \<Rightarrow> (if n < 2 ^ w then Some n else None)
           | None \<Rightarrow> None)"

definition parse_key :: "string \<Rightarrow> RedisKey work" where
  "parse_key key =
     (let parts = split_on CHR '':'' key; (label, parts) = next_field parts;
          (p1, parts) = next_field parts; (p2, parts) = next_field parts in
      work_bind (unwrap label) (\<lambda>_.
      work_bind (work_bind (unwrap p1) (\<lambda>p. unwrap (parse_uint 8 p))) (\<lambda>dp.
      work_bind (work_bind (unwrap p2) (\<lambda>p. unwrap (parse_uint 16 p))) (\<lambda>inst.
        Inr \<lparr>rk_dataplane = of_nat dp, rk_instance = of_nat inst\<rparr>))))"

definition fetch_entry_map :: "gc_redis \<Rightarrow> entry_map work" where
  "fetch_entry_map r =
     work_fold (\<lambda>key m.
       work_bind (parse_key key) (\<lambda>k.
       work_bind (work_map RedisEntry_from_redis_value (map fst (zsets r key))) (\<lambda>block_options.
         if block_options = [] then Inr m else Inr (AList.update k block_options m))))
       (map fst (zsets r ''tikv-timestamps-keys'')) []"

definition get_new_safepoint ::
  "(u64 \<Rightarrow> Timestamp) \<Rightarrow> (Timestamp \<Rightarrow> u64) \<Rightarrow> int \<Rightarrow> int \<Rightarrow> gc_redis \<Rightarrow> (Timestamp \<times> gc_redis) work" where
  "get_new_safepoint from_version version safe_zone_millis current_ts r =
     work_bind (fetch_entry_map r) (\<lambda>m.
     work_bind (get_earliest_chaintip_ts from_version m current_ts) (\<lambda>earliest_chaintip_ts.
       let safe_zone_ts = (i64_saturating_sub current_ts safe_zone_millis, 0) in
     work_bind (get_latest_network_intersection_ts from_version m) (\<lambda>network_intersection_ts.
       case sort_key snd
              [(EarliestChaintip, earliest_chaintip_ts), (SafeZone, safe_zone_ts),
               (NetworkIntersection, network_intersection_ts)] of
         [] \<Rightarrow> Inl RustPanic
       | (_, new_safepoint) # _ \<Rightarrow>
           (let r1 = r\<lparr>plain := (plain r)(''tikv-gc-safepoint'' \<mapsto> show_u64 (version new_safepoint))\<rparr>;
                r2 = fold (\<lambda>k. zrembyscore (timestamp_key (rk_dataplane k) (rk_instance k))
                                  (i64_sub (fst new_safepoint) 1)) (map fst m) r1 in
            Inr (new_safepoint, r2)))))"

section \<open>What the parts of the safepoint guarantee\<close>

lemma sort_key_hd:
  assumes "sort_key f xs = y # ys"
  shows "y \<in> set xs" "x \<in> set xs \<Longrightarrow> f y \<le> f x"
proof -
  have "set (y # ys) = set xs" by (simp only: assms [symmetric] set_sort)
  moreover have "sorted (map f (y # ys))" by (simp only: assms [symmetric] sorted_sort_key)
  ultimately show "y \<in> set xs" "x \<in> set xs \<Longrightarrow> f y \<le> f x" by auto
qed

lemma rev_sort_key_hd:
  assumes "rev (sort_key f xs) = y # ys"
  shows "y \<in> set xs" "x \<in> set xs \<Longrightarrow> f x \<le> f y"
proof -
  have e: "sort_key f xs = rev ys @ [y]" using assms by (simp add: rev_swap)
  have "set (rev ys @ [y]) = set xs" by (simp only: e [symmetric] set_sort)
  moreover have "sorted (map f (rev ys @ [y]))" by (simp only: e [symmetric] sorted_sort_key)
  ultimately show "y \<in> set xs" "x \<in> set xs \<Longrightarrow> f x \<le> f y" by (auto simp: sorted_append)
qed

lemma first_sorted_Inr:
  assumes "first_sorted ts = Inr t"
  shows "t \<in> set ts" "u \<in> set ts \<Longrightarrow> t \<le> u"
  using assms sort_key_hd [of "\<lambda>x. x" ts t] by (auto simp: first_sorted_def split: list.splits)

lemma work_map_set:
  assumes "work_map f xs = Inr ys"
  shows "x \<in> set xs \<Longrightarrow> \<exists>y \<in> set ys. f x = Inr y" "y \<in> set ys \<Longrightarrow> \<exists>x \<in> set xs. f x = Inr y"
  using assms by (fastforce simp: work_map_Inr_iff list_all2_conv_all_nth in_set_conv_nth)+

lemma set_newest_first [simp]: "set (newest_first fv es) = set es"
  by (simp add: newest_first_def)

lemma newest_first_hd:
  assumes "newest_first fv es = e # es'"
  shows "e \<in> set es"
    "x \<in> set es \<Longrightarrow> (re_height x, fv (re_commit_ts x)) \<le> (re_height e, fv (re_commit_ts e))"
  using rev_sort_key_hd [OF assms [unfolded newest_first_def]] by auto

lemma earliest_chaintip_bound:
  assumes "get_earliest_chaintip_ts fv m now = Inr t" "(k, es) \<in> set m"
  shows "\<exists>e \<in> set (chain_entries es). t \<le> fv (re_commit_ts e) \<and>
           (\<forall>x \<in> set (chain_entries es). (re_height x, fv (re_commit_ts x)) \<le> (re_height e, fv (re_commit_ts e)))"
proof -
  obtain tips where tips: "get_instance_chaintips fv m = Inr tips"
    and t: "(case sort_key (\<lambda>(_, e). fv (re_commit_ts e)) tips of
       [] \<Rightarrow> Inl RustPanic
     | (_, earliest) # _ \<Rightarrow>
         (let ts = fv (re_commit_ts earliest) in
          if i64_sub now (fst ts) < 0 then Inl RustPanic else Inr ts)) = Inr t"
    using assms(1) by (auto simp: get_earliest_chaintip_ts_def work_bind_Inr_iff)
  from work_map_set(1) [OF tips [unfolded get_instance_chaintips_def] assms(2)]
  obtain e es' where e: "(k, e) \<in> set tips" "newest_first fv (chain_entries es) = e # es'"
    by (auto split: list.splits)
  obtain k0 e0 rest where s: "sort_key (\<lambda>(_, e). fv (re_commit_ts e)) tips = (k0, e0) # rest"
    and t0: "t = fv (re_commit_ts e0)"
    using t by (auto simp: Let_def split: list.splits if_splits)
  have "t \<le> fv (re_commit_ts e)" using sort_key_hd(2) [OF s e(1)] t0 by simp
  then show ?thesis using newest_first_hd [OF e(2)] by blast
qed

lemma candidate_loop_Some:
  "candidate_loop shared cs (Some b) = (best, prev) \<Longrightarrow>
     best = Some b \<and> (\<forall>p. prev = Some p \<longrightarrow> p \<in> set cs \<and> shared p \<and> fst b \<noteq> 0 \<and> fst p = fst b - 1)"
  by (induction cs) (auto split: if_splits)

lemma candidate_loop_None:
  "candidate_loop shared cs None = (best, prev) \<Longrightarrow>
     (case best of
        None \<Rightarrow> prev = None \<and> (\<forall>c \<in> set cs. \<not> shared c)
      | Some b \<Rightarrow> b \<in> set cs \<and> shared b \<and>
          (\<forall>p. prev = Some p \<longrightarrow> p \<in> set cs \<and> shared p \<and> fst b \<noteq> 0 \<and> fst p = fst b - 1))"
proof (induction cs)
  case (Cons c cs)
  show ?case
  proof (cases "shared c")
    case True
    then show ?thesis using Cons.prems by (auto dest!: candidate_loop_Some)
  next
    case False
    then show ?thesis using Cons by (auto split: option.splits)
  qed
qed simp

lemma latest_commit_ts_Inr:
  assumes "latest_commit_ts fv es p = Inr t"
  shows "\<exists>e \<in> set (chain_entries es). block_of e = p \<and> fv (re_commit_ts e) = t"
  using assms rev_sort_key_hd(1) [of _ "filter (\<lambda>e. block_of e = p) (chain_entries es)"]
  by (fastforce simp: latest_commit_ts_def split: list.splits)

text \<open>The blocks that the safepoint of a network keeps readable in all of its instances.\<close>

definition kept_block :: "(u64 \<Rightarrow> Timestamp) \<Rightarrow> entry_map \<Rightarrow> RedisKey list \<Rightarrow> Timestamp \<Rightarrow> block_point \<Rightarrow> bool" where
  "kept_block fv m instances t p \<longleftrightarrow>
     (\<forall>key \<in> set instances. \<exists>e \<in> set (chain_entries (entries_at m key)).
        block_of e = p \<and> t \<le> fv (re_commit_ts e))"

lemma network_safepoint_bound:
  assumes "network_safepoint fv m instances = Inr t"
  shows "\<exists>p. kept_block fv m instances t p"
proof -
  obtain p ts where ts: "work_map (\<lambda>key. latest_commit_ts fv (entries_at m key) p) instances = Inr ts"
    and t: "first_sorted ts = Inr t"
    using assms
    by (auto simp: network_safepoint_def block_safepoint_def Let_def work_bind_Inr_iff simp del: work_map.simps
        split: list.splits prod.splits option.splits)
  have "\<exists>e \<in> set (chain_entries (entries_at m key)). block_of e = p \<and> t \<le> fv (re_commit_ts e)"
    if "key \<in> set instances" for key
    using work_map_set(1) [OF ts that] latest_commit_ts_Inr first_sorted_Inr(2) [OF t] by blast
  then show ?thesis unfolding kept_block_def by blast
qed

lemma network_intersection_bound:
  assumes "get_latest_network_intersection_ts fv m = Inr t"
    and "(network, instances) \<in> set (network_map m)" "\<not> sublist ''dogecoin'' (to_lowercase network)"
  shows "\<exists>u p. t \<le> u \<and> kept_block fv m instances u p"
proof -
  obtain ts where ts: "work_map (\<lambda>(_, instances). network_safepoint fv m instances)
      (filter (\<lambda>(network, _). \<not> sublist ''dogecoin'' (to_lowercase network)) (network_map m)) = Inr ts"
    and t: "first_sorted ts = Inr t"
    using assms(1) by (auto simp: get_latest_network_intersection_ts_def work_bind_Inr_iff)
  from work_map_set(1) [OF ts, of "(network, instances)"] assms(2,3)
  obtain u where "u \<in> set ts" "network_safepoint fv m instances = Inr u" by auto
  then show ?thesis using network_safepoint_bound first_sorted_Inr(2) [OF t] by blast
qed

lemma kept_block_mono: "t \<le> u \<Longrightarrow> kept_block fv m ins u p \<Longrightarrow> kept_block fv m ins t p"
  unfolding kept_block_def by (meson order_trans)

section \<open>Reading the entries back\<close>

definition key_string :: "RedisKey \<Rightarrow> string" where
  "key_string k = timestamp_key (rk_dataplane k) (rk_instance k)"

lemma show_nat_no_colon: "CHR '':'' \<notin> set (show_nat n)"
proof -
  have "digit_char d \<noteq> CHR '':''" if "d < 10" for d
    using digit_value_digit_char [OF that] by (auto simp: digit_value_def)
  then show ?thesis using show_nat_digits [of n] by fastforce
qed

lemma parse_uint_show: "n < 2 ^ w \<Longrightarrow> parse_uint w (show_nat n) = Some n"
proof -
  assume n: "n < 2 ^ w"
  obtain c cs where s: "show_nat n = c # cs" by (cases "show_nat n") auto
  then obtain d where "d < 10" "c = digit_char d" using show_nat_digits [of n] by auto
  then have "c \<noteq> CHR ''+''" using digit_char_neq(1) by simp
  then show ?thesis using n digits_value_show_nat [of n] by (simp add: parse_uint_def s)
qed

lemma split_on_field: "d \<notin> set p \<Longrightarrow> split_on d p = [p]"
  by (induction p) auto

lemma split_on_append: "d \<notin> set p \<Longrightarrow> split_on d (p @ d # s) = p # split_on d s"
  by (induction p) auto

lemma parse_key_string [simp]: "parse_key (key_string k) = Inr k"
proof -
  have "unat (rk_dataplane k) < 2 ^ 8" "unat (rk_instance k) < 2 ^ 16"
    using unsigned_less [of "rk_dataplane k", where 'a = nat] unsigned_less [of "rk_instance k", where 'a = nat]
    by simp_all
  moreover have "split_on CHR '':'' (key_string k) =
      [''tikv-timestamps'', show_nat (unat (rk_dataplane k)), show_nat (unat (rk_instance k))]"
    using split_on_append [of "CHR '':''" "''tikv-timestamps''"
        "show_nat (unat (rk_dataplane k)) @ '':'' @ show_nat (unat (rk_instance k))"]
      split_on_append [OF show_nat_no_colon, of "unat (rk_dataplane k)" "show_nat (unat (rk_instance k))"]
    by (simp add: key_string_def timestamp_key_def split_on_field show_nat_no_colon)
  ultimately show ?thesis by (simp add: parse_key_def next_field_def unwrap_def parse_uint_show)
qed

lemma key_string_eq_iff [simp]: "key_string k = key_string k' \<longleftrightarrow> k = k'"
  using parse_key_string by (metis sum.inject(2))

lemma key_string_neq [simp]: "key_string k \<noteq> ''tikv-timestamps-keys''" "''tikv-timestamps-keys'' \<noteq> key_string k"
  by (simp_all add: key_string_def timestamp_key_def)

text \<open>
  What the storage workers keep in Redis: the registered keys are those of different instances, every
  member of an instance's set is an entry and its score is the physical part of its timestamp.
\<close>

definition member_ok :: "(u64 \<Rightarrow> Timestamp) \<Rightarrow> string \<times> int \<Rightarrow> bool" where
  "member_ok fv ms \<longleftrightarrow>
     (case RedisEntry_from_redis_value (fst ms) of Inl _ \<Rightarrow> False | Inr e \<Rightarrow> snd ms = fst (fv (re_commit_ts e)))"

definition gc_store :: "(u64 \<Rightarrow> Timestamp) \<Rightarrow> RedisKey list \<Rightarrow> gc_redis \<Rightarrow> bool" where
  "gc_store fv ks r \<longleftrightarrow>
     distinct ks \<and> map fst (zsets r ''tikv-timestamps-keys'') = map key_string ks \<and>
     (\<forall>k \<in> set ks. list_all (member_ok fv) (zsets r (key_string k)))"

definition stored_entries :: "gc_redis \<Rightarrow> RedisKey \<Rightarrow> RedisEntry list" where
  "stored_entries r k = map (\<lambda>ms. projr (RedisEntry_from_redis_value (fst ms))) (zsets r (key_string k))"

definition stored_map :: "gc_redis \<Rightarrow> RedisKey list \<Rightarrow> entry_map" where
  "stored_map r ks = filter (\<lambda>(_, es). es \<noteq> []) (map (\<lambda>k. (k, stored_entries r k)) ks)"

lemma work_map_members:
  "list_all (member_ok fv) ms \<Longrightarrow>
     work_map RedisEntry_from_redis_value (map fst ms)
       = Inr (map (\<lambda>ms. projr (RedisEntry_from_redis_value (fst ms))) ms)"
  by (induction ms) (auto simp: member_ok_def split: sum.splits)

lemma update_fresh: "k \<notin> fst ` set al \<Longrightarrow> AList.update k v al = al @ [(k, v)]"
  by (induction al) auto

lemma stored_map_keys: "fst ` set (stored_map r ks) \<subseteq> set ks"
  by (auto simp: stored_map_def)

lemma fetch_entry_map_stored:
  assumes "gc_store fv ks r"
  shows "fetch_entry_map r = Inr (stored_map r ks)"
proof -
  let ?step = "\<lambda>key m. work_bind (parse_key key) (\<lambda>k.
       work_bind (work_map RedisEntry_from_redis_value (map fst (zsets r key))) (\<lambda>block_options.
         if block_options = [] then Inr m else Inr (AList.update k block_options m)))"
  have "work_fold ?step (map key_string ks') m = Inr (m @ stored_map r ks')"
    if "set ks' \<subseteq> set ks" "distinct ks'" "fst ` set m \<inter> set ks' = {}" for ks' m
    using that
  proof (induction ks' arbitrary: m)
    case Nil
    then show ?case by (simp add: stored_map_def)
  next
    case (Cons k ks')
    have ok: "list_all (member_ok fv) (zsets r (key_string k))"
      using assms Cons.prems(1) by (simp add: gc_store_def)
    have "?step (key_string k) m =
        Inr (if stored_entries r k = [] then m else m @ [(k, stored_entries r k)])"
      using work_map_members [OF ok] update_fresh [of k m] Cons.prems(3) by (auto simp: stored_entries_def)
    then have "work_fold ?step (map key_string (k # ks')) m =
        work_fold ?step (map key_string ks')
          (if stored_entries r k = [] then m else m @ [(k, stored_entries r k)])"
      by simp
    also have "\<dots> = Inr ((if stored_entries r k = [] then m else m @ [(k, stored_entries r k)]) @ stored_map r ks')"
      by (rule Cons.IH) (use Cons.prems in auto)
    finally show ?case by (simp add: stored_map_def)
  qed
  from this [of ks "[]"] show ?thesis using assms by (simp add: fetch_entry_map_def gc_store_def)
qed

lemma entries_at_stored: "distinct ks \<Longrightarrow> k \<in> set ks \<Longrightarrow> entries_at (stored_map r ks) k = stored_entries r k"
proof (induction ks)
  case (Cons a ks)
  have "map_of (stored_map r ks) a = None" if "a \<notin> set ks"
    using stored_map_keys [of r ks] that by (auto simp: map_of_eq_None_iff)
  with Cons show ?case by (auto simp: stored_map_def entries_at_def)
qed simp

section \<open>The effect of a run\<close>

lemma zsets_fold_zrembyscore:
  "zsets (fold (\<lambda>k. zrembyscore (key_string k) hi) ks r) key =
     (if key \<in> key_string ` set ks then filter (\<lambda>(_, score). \<not> score \<le> hi) (zsets r key) else zsets r key)"
  by (induction ks arbitrary: r) (auto simp: zrembyscore_def)

lemma i64_sub_one: "- (2 ^ 63) < p \<Longrightarrow> p < 2 ^ 63 \<Longrightarrow> i64_sub p 1 = p - 1"
  by (simp add: i64_sub_def)

text \<open>
  The clock and the options are those of a machine of this age, and a version has a physical part that
  is a non-negative \<open>i64\<close>.
\<close>

definition gc_env :: "(u64 \<Rightarrow> Timestamp) \<Rightarrow> int \<Rightarrow> int \<Rightarrow> bool" where
  "gc_env fv safe_zone_millis now \<longleftrightarrow>
     (\<forall>v. 0 \<le> fst (fv v) \<and> fst (fv v) < 2 ^ 63) \<and> 0 \<le> now \<and> now < 2 ^ 63 \<and>
     - (2 ^ 63) \<le> safe_zone_millis \<and> safe_zone_millis < 2 ^ 63"

lemma get_new_safepoint_Inr:
  assumes store: "gc_store fv ks r" and run: "get_new_safepoint fv vs sz now r = Inr (t, r')"
  obtains c n where
    "get_earliest_chaintip_ts fv (stored_map r ks) now = Inr c"
    "get_latest_network_intersection_ts fv (stored_map r ks) = Inr n"
    "t \<in> {c, (i64_saturating_sub now sz, 0), n}"
    "t \<le> c" "t \<le> (i64_saturating_sub now sz, 0)" "t \<le> n"
    "r' = fold (\<lambda>k. zrembyscore (key_string k) (i64_sub (fst t) 1)) (map fst (stored_map r ks))
            (r\<lparr>plain := (plain r)(''tikv-gc-safepoint'' \<mapsto> show_u64 (vs t))\<rparr>)"
proof -
  obtain c n where c: "get_earliest_chaintip_ts fv (stored_map r ks) now = Inr c"
    and n: "get_latest_network_intersection_ts fv (stored_map r ks) = Inr n"
    using run unfolding get_new_safepoint_def fetch_entry_map_stored [OF store] by (auto simp: Let_def work_bind_Inr_iff)
  let ?cs = "[(EarliestChaintip, c), (SafeZone, (i64_saturating_sub now sz, 0)), (NetworkIntersection, n)]"
  obtain i u rest where s: "sort_key snd ?cs = (i, u) # rest" by (cases "sort_key snd ?cs") (auto dest: arg_cong [of _ _ length])
  then have "t = u \<and> r' = fold (\<lambda>k. zrembyscore (key_string k) (i64_sub (fst t) 1)) (map fst (stored_map r ks))
            (r\<lparr>plain := (plain r)(''tikv-gc-safepoint'' \<mapsto> show_u64 (vs t))\<rparr>)"
    using run unfolding get_new_safepoint_def fetch_entry_map_stored [OF store] key_string_def
    by (auto simp: Let_def c n simp del: sort_key_simps)
  moreover have "u \<in> {c, (i64_saturating_sub now sz, 0), n}" using sort_key_hd(1) [OF s] by auto
  moreover have "u \<le> c" "u \<le> (i64_saturating_sub now sz, 0)" "u \<le> n"
    using sort_key_hd(2) [OF s, of "(EarliestChaintip, c)"] sort_key_hd(2) [OF s, of "(NetworkIntersection, n)"]
      sort_key_hd(2) [OF s, of "(SafeZone, (i64_saturating_sub now sz, 0))"] by simp_all
  ultimately show ?thesis using that [OF c n] by simp
qed

text \<open>The same without the eliminated timestamps: the new state of Redis.\<close>

lemma gc_redis_after:
  assumes "gc_store fv ks r" "get_new_safepoint fv vs sz now r = Inr (t, r')"
  shows "zsets r' key =
    (if key \<in> key_string ` fst ` set (stored_map r ks)
     then filter (\<lambda>(_, score). \<not> score \<le> i64_sub (fst t) 1) (zsets r key) else zsets r key)"
  by (rule get_new_safepoint_Inr [OF assms]) (simp add: zsets_fold_zrembyscore)

lemma earliest_chaintip_version:
  assumes "get_earliest_chaintip_ts fv m now = Inr c"
  shows "\<exists>v. c = fv v"
proof -
  obtain tips :: "(RedisKey \<times> RedisEntry) list" where "(case sort_key (\<lambda>(_, e). fv (re_commit_ts e)) tips of
       [] \<Rightarrow> Inl RustPanic
     | (_, earliest) # _ \<Rightarrow>
         (let ts = fv (re_commit_ts earliest) in
          if i64_sub now (fst ts) < 0 then Inl RustPanic else Inr ts)) = Inr c"
    using assms by (auto simp: get_earliest_chaintip_ts_def work_bind_Inr_iff)
  then show ?thesis
    by (cases "sort_key (\<lambda>(_, e). fv (re_commit_ts e)) tips") (auto simp: Let_def split: if_splits)
qed

lemma network_safepoint_version:
  assumes "network_safepoint fv m ins = Inr n"
  shows "\<exists>v. n = fv v"
proof -
  obtain p us where us: "work_map (\<lambda>key. latest_commit_ts fv (entries_at m key) p) ins = Inr us"
    and "first_sorted us = Inr n"
    using assms
    by (auto simp: network_safepoint_def block_safepoint_def Let_def work_bind_Inr_iff simp del: work_map.simps
        split: list.splits prod.splits option.splits)
  then obtain k where "latest_commit_ts fv (entries_at m k) p = Inr n"
    using work_map_set(2) [OF us first_sorted_Inr(1)] by auto
  then show ?thesis using latest_commit_ts_Inr by metis
qed

lemma network_intersection_version:
  assumes "get_latest_network_intersection_ts fv m = Inr n"
  shows "\<exists>v. n = fv v"
proof -
  obtain ts where ts: "work_map (\<lambda>(_, instances). network_safepoint fv m instances)
      (filter (\<lambda>(network, _). \<not> sublist ''dogecoin'' (to_lowercase network)) (network_map m)) = Inr ts"
    and "first_sorted ts = Inr n"
    using assms by (auto simp: get_latest_network_intersection_ts_def work_bind_Inr_iff)
  then obtain ins where "network_safepoint fv m ins = Inr n"
    using work_map_set(2) [OF ts first_sorted_Inr(1)] by auto
  then show ?thesis by (rule network_safepoint_version)
qed

lemma safepoint_physical:
  assumes "gc_store fv ks r" "gc_env fv sz now" "get_new_safepoint fv vs sz now r = Inr (t, r')"
  shows "i64_sub (fst t) 1 = fst t - 1"
proof (rule get_new_safepoint_Inr [OF assms(1,3)])
  fix c n
  assume "get_earliest_chaintip_ts fv (stored_map r ks) now = Inr c"
    "get_latest_network_intersection_ts fv (stored_map r ks) = Inr n"
    and t: "t \<in> {c, (i64_saturating_sub now sz, 0), n}"
  then obtain v w where "c = fv v" "n = fv w"
    using earliest_chaintip_version network_intersection_version by blast
  moreover have "- (2 ^ 63) < fst (fv u)" "fst (fv u) < 2 ^ 63" for u
    using assms(2) by (auto simp: gc_env_def intro: less_le_trans [of _ 0])
  moreover have "- (2 ^ 63) < i64_saturating_sub now sz" "i64_saturating_sub now sz < 2 ^ 63"
    using assms(2) by (auto simp: gc_env_def i64_saturating_sub_def)
  ultimately have "- (2 ^ 63) < fst t" "fst t < 2 ^ 63" using t by (auto simp del: power_numeral)
  then show ?thesis by (rule i64_sub_one)
qed

lemma zsets_after_gc:
  assumes "gc_store fv ks r" "gc_env fv sz now" "get_new_safepoint fv vs sz now r = Inr (t, r')" "k \<in> set ks"
  shows "zsets r' (key_string k) = filter (\<lambda>(_, score). fst t \<le> score) (zsets r (key_string k))"
proof -
  have e: "(\<lambda>(_, score). \<not> score \<le> fst t - 1) = (\<lambda>(_ :: string, score). fst t \<le> score)"
    by (auto simp: fun_eq_iff)
  show ?thesis
  proof (cases "k \<in> fst ` set (stored_map r ks)")
    case True
    then show ?thesis
      unfolding gc_redis_after [OF assms(1,3)] safepoint_physical [OF assms(1-3)] e by simp
  next
    case False
    then have "zsets r (key_string k) = []"
      using assms(4) by (force simp: stored_map_def stored_entries_def)
    then show ?thesis by (simp add: gc_redis_after [OF assms(1,3)])
  qed
qed

lemma gc_store_after:
  assumes "gc_store fv ks r" "gc_env fv sz now" "get_new_safepoint fv vs sz now r = Inr (t, r')"
  shows "gc_store fv ks r'"
proof -
  have "zsets r' ''tikv-timestamps-keys'' = zsets r ''tikv-timestamps-keys''"
    unfolding gc_redis_after [OF assms(1,3)] by (simp add: image_iff)
  moreover have "list_all (member_ok fv) (zsets r' (key_string k))" if "k \<in> set ks" for k
    unfolding zsets_after_gc [OF assms that]
    using assms(1) that by (auto simp: gc_store_def list_all_iff)
  ultimately show ?thesis using assms(1) by (simp add: gc_store_def)
qed

lemma entries_after_gc:
  assumes "gc_store fv ks r" "gc_env fv sz now" "get_new_safepoint fv vs sz now r = Inr (t, r')" "k \<in> set ks"
  shows "stored_entries r' k = filter (\<lambda>e. fst t \<le> fst (fv (re_commit_ts e))) (stored_entries r k)"
proof -
  have "map (\<lambda>ms. projr (RedisEntry_from_redis_value (fst ms))) (filter (\<lambda>(_, score). hi \<le> score) zs) =
      filter (\<lambda>e. hi \<le> fst (fv (re_commit_ts e))) (map (\<lambda>ms. projr (RedisEntry_from_redis_value (fst ms))) zs)"
    if "list_all (member_ok fv) zs" for hi zs
    using that by (induction zs) (auto simp: member_ok_def split: sum.splits)
  then show ?thesis
    using zsets_after_gc [OF assms] assms(1,4) by (auto simp: gc_store_def stored_entries_def)
qed

section \<open>Networks\<close>

definition network_members :: "entry_map \<Rightarrow> string \<Rightarrow> RedisKey list" where
  "network_members m network = map fst (filter (\<lambda>(_, es). es \<noteq> [] \<and> re_network (hd es) = network) m)"

lemma network_map_snoc:
  "network_map (m @ [(key, es)]) =
     (case es of
        [] \<Rightarrow> network_map m
      | e # _ \<Rightarrow>
          AList.update (re_network e)
            (case map_of (network_map m) (re_network e) of None \<Rightarrow> [key] | Some v \<Rightarrow> v @ [key]) (network_map m))"
  by (cases es) (simp_all add: network_map_def)

lemma distinct_network_map: "distinct (map fst (network_map m))"
proof (induction m rule: rev_induct)
  case (snoc x m)
  then show ?case by (cases x) (auto simp: network_map_snoc distinct_update split: list.splits)
qed (simp add: network_map_def)

lemma map_of_network_map:
  "map_of (network_map m) n = (if network_members m n = [] then None else Some (network_members m n))"
proof (induction m rule: rev_induct)
  case (snoc x m)
  obtain key es where x: "x = (key, es)" by force
  show ?case
  proof (cases es)
    case Nil
    then show ?thesis using snoc by (simp add: x network_map_snoc network_members_def)
  next
    case (Cons e es')
    then show ?thesis using snoc by (auto simp: x network_map_snoc network_members_def update_conv')
  qed
qed (simp add: network_map_def network_members_def)

lemma network_map_iff:
  "(n, ins) \<in> set (network_map m) \<longleftrightarrow> ins \<noteq> [] \<and> ins = network_members m n"
  unfolding map_of_eq_Some_iff [OF distinct_network_map, symmetric] map_of_network_map by auto

lemma network_members_keys: "set (network_members m n) \<subseteq> fst ` set m"
  by (auto simp: network_members_def)

section \<open>When the process does not panic\<close>

lemma work_map_ok: "(\<And>x. x \<in> set xs \<Longrightarrow> \<exists>y. f x = Inr y) \<Longrightarrow> \<exists>ys. work_map f xs = Inr ys"
  by (induction xs) (auto simp: work_bind_Inr_iff)

lemma work_map_Nil_iff: "work_map f xs = Inr [] \<longleftrightarrow> xs = []"
  by (cases xs) (auto simp: work_bind_Inr_iff)

lemma first_sorted_ok: "ts \<noteq> [] \<Longrightarrow> \<exists>t. first_sorted ts = Inr t"
proof -
  assume "ts \<noteq> []"
  then have "sort ts \<noteq> []" by (metis length_0_conv length_sort)
  then show ?thesis by (auto simp: first_sorted_def split: list.splits)
qed

lemma latest_commit_ts_ok:
  assumes "has_block es p"
  shows "\<exists>t. latest_commit_ts fv es p = Inr t"
proof -
  let ?xs = "filter (\<lambda>e. block_of e = p) (chain_entries es)"
  obtain e where "e \<in> set (chain_entries es)" "p = block_of e" using assms by (auto simp: has_block_def)
  then have "set (rev (sort_key (\<lambda>e. fv (re_commit_ts e)) ?xs)) \<noteq> {}" by (simp only: set_rev set_sort) auto
  then show ?thesis by (cases "rev (sort_key (\<lambda>e. fv (re_commit_ts e)) ?xs)") (simp_all add: latest_commit_ts_def)
qed

lemma block_safepoint_ok:
  assumes "ins \<noteq> []" "shared_by m ins p"
  shows "\<exists>t. block_safepoint fv m ins p = Inr t"
proof -
  obtain ts where "work_map (\<lambda>key. latest_commit_ts fv (entries_at m key) p) ins = Inr ts"
    using work_map_ok [of ins "\<lambda>key. latest_commit_ts fv (entries_at m key) p"] latest_commit_ts_ok assms(2)
    by (auto simp: shared_by_def)
  moreover from this have "ts \<noteq> []" using assms(1) work_map_Nil_iff by blast
  ultimately show ?thesis using first_sorted_ok by (simp add: block_safepoint_def)
qed

lemma network_safepoint_ok:
  assumes "ins \<noteq> []" "shared_by m ins p"
  shows "\<exists>t. network_safepoint fv m ins = Inr t"
proof -
  obtain i rest where ins: "ins = i # rest" using assms(1) by (cases ins) auto
  let ?cs = "map block_of (newest_first fv (chain_entries (entries_at m i)))"
  obtain best prev where l: "candidate_loop (shared_by m ins) ?cs None = (best, prev)" by force
  have "p \<in> set ?cs" using assms(2) by (auto simp: ins shared_by_def has_block_def)
  then obtain b where b: "best = Some b" "shared_by m ins b" "prev = Some q \<Longrightarrow> shared_by m ins q" for q
    using candidate_loop_None [OF l] assms(2) by (cases best) auto
  then have "shared_by m ins (case prev of Some q \<Rightarrow> q | None \<Rightarrow> b)" by (cases prev) auto
  then show ?thesis
    using block_safepoint_ok [OF assms(1)] l b(1) by (simp add: network_safepoint_def ins)
qed

lemma earliest_chaintip_ok:
  assumes "m \<noteq> []"
    and tips: "\<And>k es. (k, es) \<in> set m \<Longrightarrow> chain_entries es \<noteq> []"
    and past: "\<And>k es e. (k, es) \<in> set m \<Longrightarrow> e \<in> set es \<Longrightarrow> 0 \<le> i64_sub now (fst (fv (re_commit_ts e)))"
  shows "\<exists>c. get_earliest_chaintip_ts fv m now = Inr c"
proof -
  let ?tip = "\<lambda>(key, block_options). case newest_first fv (chain_entries block_options) of
         [] \<Rightarrow> Inl RustPanic | tip # _ \<Rightarrow> Inr (key, tip)"
  have "\<exists>y. ?tip x = Inr y" if "x \<in> set m" for x
  proof -
    obtain k es where x: "x = (k, es)" by force
    then have "newest_first fv (chain_entries es) \<noteq> []" using tips that by (metis set_empty set_newest_first)
    then show ?thesis by (auto simp: x split: list.splits)
  qed
  then obtain ts where ts: "work_map ?tip m = Inr ts" using work_map_ok by blast
  have past': "0 \<le> i64_sub now (fst (fv (re_commit_ts e)))" if ke: "(k, e) \<in> set ts" for k e
  proof -
    obtain es es' where "(k, es) \<in> set m" "newest_first fv (chain_entries es) = e # es'"
      using work_map_set(2) [OF ts ke] by (auto split: list.splits)
    then show ?thesis using past newest_first_hd(1) by (fastforce simp: chain_entries_def)
  qed
  have "ts \<noteq> []" using ts assms(1) work_map_Nil_iff by blast
  then obtain k e rest where s: "sort_key (\<lambda>(_, e). fv (re_commit_ts e)) ts = (k, e) # rest"
    by (metis length_0_conv length_sort neq_Nil_conv surj_pair)
  then show ?thesis
    using past' [OF sort_key_hd(1) [OF s]] ts
    by (simp add: get_earliest_chaintip_ts_def get_instance_chaintips_def)
qed

lemma get_new_safepoint_ok:
  assumes store: "gc_store fv ks r" and "fetch_entry_map r = Inr m"
    and some: "\<exists>(network, _) \<in> set (network_map m). \<not> sublist ''dogecoin'' (to_lowercase network)"
    and tips: "\<forall>(k, es) \<in> set m. chain_entries es \<noteq> []
                 \<and> (\<forall>e \<in> set es. 0 \<le> i64_sub now (fst (fv (re_commit_ts e))))"
    and shared: "\<forall>(network, instances) \<in> set (network_map m).
                   \<not> sublist ''dogecoin'' (to_lowercase network) \<longrightarrow> (\<exists>p. shared_by m instances p)"
  shows "\<exists>t r'. get_new_safepoint fv vs sz now r = Inr (t, r')"
proof -
  let ?part = "filter (\<lambda>(network, _). \<not> sublist ''dogecoin'' (to_lowercase network)) (network_map m)"
  have "\<exists>t. (\<lambda>(_, instances). network_safepoint fv m instances) x = Inr t" if xin: "x \<in> set ?part" for x
  proof -
    obtain network ins where x: "x = (network, ins)" by force
    then obtain p where "shared_by m ins p" using xin shared by auto
    moreover have "ins \<noteq> []" using xin by (auto simp: x network_map_iff)
    ultimately show ?thesis using network_safepoint_ok by (simp add: x)
  qed
  then obtain ts where ts: "work_map (\<lambda>(_, instances). network_safepoint fv m instances) ?part = Inr ts"
    using work_map_ok by blast
  have part: "?part \<noteq> []" using some by (auto simp: filter_empty_conv)
  then have "ts \<noteq> []" using ts work_map_Nil_iff by blast
  then obtain n where n: "get_latest_network_intersection_ts fv m = Inr n"
    using first_sorted_ok [of ts] ts by (auto simp: get_latest_network_intersection_ts_def)
  have "m \<noteq> []" using part by (auto simp: network_map_def)
  then obtain c where c: "get_earliest_chaintip_ts fv m now = Inr c"
    using earliest_chaintip_ok [of m now fv] tips by fastforce
  let ?cs = "[(EarliestChaintip, c), (SafeZone, (i64_saturating_sub now sz, 0)), (NetworkIntersection, n)]"
  obtain i u rest where "sort_key snd ?cs = (i, u) # rest"
    by (cases "sort_key snd ?cs") (auto dest: arg_cong [of _ _ length])
  then show ?thesis using assms(2) c n by (simp add: get_new_safepoint_def Let_def del: sort_key_simps)
qed

section \<open>Properties\<close>

lemma kept_block_after_gc:
  assumes "gc_store fv ks r" "gc_env fv sz now" "get_new_safepoint fv vs sz now r = Inr (t, r')"
    and "set ins \<subseteq> set ks" "kept_block fv (stored_map r ks) ins t p"
  shows "kept_block fv (stored_map r' ks) ins t p"
  unfolding kept_block_def
proof
  fix k assume k: "k \<in> set ins"
  then have ks: "k \<in> set ks" "distinct ks" using assms(1,4) by (auto simp: gc_store_def)
  obtain e where e: "e \<in> set (chain_entries (stored_entries r k))" "block_of e = p" "t \<le> fv (re_commit_ts e)"
    using assms(5) k by (auto simp: kept_block_def entries_at_stored ks)
  have "fst t \<le> fst (fv (re_commit_ts e))" using e(3) by (cases t; cases "fv (re_commit_ts e)") auto
  then have "e \<in> set (chain_entries (entries_at (stored_map r' ks) k))"
    using e(1) by (simp add: entries_at_stored ks entries_after_gc [OF assms(1-3)] chain_entries_def)
  with e show "\<exists>e \<in> set (chain_entries (entries_at (stored_map r' ks) k)). block_of e = p \<and> t \<le> fv (re_commit_ts e)"
    by blast
qed

lemma gc_common_block:
  assumes store: "gc_store fv ks r" and env: "gc_env fv sz now"
    and run: "get_new_safepoint fv vs sz now r = Inr (t, r')"
    and net: "(network, instances) \<in> set (network_map (stored_map r ks))"
    and part: "\<not> sublist ''dogecoin'' (to_lowercase network)"
  shows "\<exists>p. kept_block fv (stored_map r' ks) instances t p"
proof (rule get_new_safepoint_Inr [OF store run])
  fix c n
  assume n: "get_latest_network_intersection_ts fv (stored_map r ks) = Inr n" and t: "t \<le> n"
  have ins: "set instances \<subseteq> set ks"
    using net network_members_keys stored_map_keys unfolding network_map_iff by blast
  obtain u p where "n \<le> u" "kept_block fv (stored_map r ks) instances u p"
    using network_intersection_bound [OF n net part] by blast
  then have "kept_block fv (stored_map r ks) instances t p" using kept_block_mono t order_trans by metis
  from kept_block_after_gc [OF store env run ins this] show ?thesis by blast
qed

lemma plain_after_gc:
  assumes "gc_store fv ks r" "get_new_safepoint fv vs sz now r = Inr (t, r')"
  shows "plain r' ''tikv-gc-safepoint'' = Some (show_u64 (vs t))"
proof (rule get_new_safepoint_Inr [OF assms])
  fix c n
  assume r': "r' = fold (\<lambda>k. zrembyscore (key_string k) (i64_sub (fst t) 1)) (map fst (stored_map r ks))
      (r\<lparr>plain := (plain r)(''tikv-gc-safepoint'' \<mapsto> show_u64 (vs t))\<rparr>)"
  have "plain (fold (\<lambda>k. zrembyscore (key_string k) hi) xs s) = plain s" for hi xs s
    by (induction xs arbitrary: s) (simp_all add: zrembyscore_def)
  then show ?thesis by (simp add: r')
qed

text \<open>
  C3: After a run of the garbage collector every network that takes part still has a common block: the
  entries read back from Redis hold, for every instance of the network, a non-mempool entry of that block
  whose timestamp is not before the published safepoint.
\<close>

theorem gc_keeps_common_block:
  assumes store: "gc_store fv ks r" and env: "gc_env fv sz now"
    and run: "get_new_safepoint fv vs sz now r = Inr (t, r')"
    and "fetch_entry_map r = Inr m" "(network, instances) \<in> set (network_map m)"
    and "\<not> sublist ''dogecoin'' (to_lowercase network)"
  shows "plain r' ''tikv-gc-safepoint'' = Some (show_u64 (vs t))
       \<and> (\<exists>m' p. fetch_entry_map r' = Inr m' \<and> instances \<noteq> [] \<and>
            (\<forall>k \<in> set instances. \<exists>e \<in> set (entries_at m' k).
               \<not> re_was_mempool e \<and> block_of e = p \<and> t \<le> fv (re_commit_ts e)))"
proof -
  have m: "m = stored_map r ks" using assms(4) fetch_entry_map_stored [OF store] by simp
  have "instances \<noteq> []" using assms(5) unfolding m network_map_iff by blast
  moreover obtain p where "kept_block fv (stored_map r' ks) instances t p"
    using gc_common_block [OF store env run assms(5) [unfolded m] assms(6)] by blast
  then have "\<forall>k \<in> set instances. \<exists>e \<in> set (entries_at (stored_map r' ks) k).
      \<not> re_was_mempool e \<and> block_of e = p \<and> t \<le> fv (re_commit_ts e)"
    unfolding kept_block_def chain_entries_def set_filter by blast
  ultimately show ?thesis
    using fetch_entry_map_stored [OF gc_store_after [OF store env run]] plain_after_gc [OF store run] by blast
qed

text \<open>
  C24: A run of the garbage collector keeps the entry of the chain tip of every instance readable, removes
  no entry of the safe zone and leaves no entry with a smaller physical timestamp than the safepoint.
\<close>

theorem gc_keeps_tips_and_safe_zone:
  assumes store: "gc_store fv ks r" and env: "gc_env fv sz now"
    and run: "get_new_safepoint fv vs sz now r = Inr (t, r')"
    and "fetch_entry_map r = Inr m" and k: "(k, es) \<in> set m"
  shows "\<exists>m'. fetch_entry_map r' = Inr m'
       \<and> (\<exists>tip \<in> set (entries_at m' k). \<not> re_was_mempool tip \<and> t \<le> fv (re_commit_ts tip)
            \<and> (\<forall>e \<in> set es. \<not> re_was_mempool e \<longrightarrow> re_height e \<le> re_height tip))
       \<and> (\<forall>e \<in> set es. i64_saturating_sub now sz \<le> fst (fv (re_commit_ts e)) \<longrightarrow> e \<in> set (entries_at m' k))
       \<and> (\<forall>e \<in> set (entries_at m' k). e \<in> set es \<and> fst t \<le> fst (fv (re_commit_ts e)))"
proof (rule get_new_safepoint_Inr [OF store run])
  fix c n
  assume c: "get_earliest_chaintip_ts fv (stored_map r ks) now = Inr c"
    and t: "t \<le> c" "t \<le> (i64_saturating_sub now sz, 0)"
  have m: "m = stored_map r ks" using assms(4) fetch_entry_map_stored [OF store] by simp
  have ks: "distinct ks" "k \<in> set ks" "es = stored_entries r k"
    using store k by (auto simp: m gc_store_def stored_map_def)
  have after: "entries_at (stored_map r' ks) k = filter (\<lambda>e. fst t \<le> fst (fv (re_commit_ts e))) es"
    using entries_after_gc [OF store env run ks(2)] by (simp add: entries_at_stored ks)
  obtain tip where tip: "tip \<in> set (chain_entries es)" "c \<le> fv (re_commit_ts tip)"
    "\<forall>x \<in> set (chain_entries es). (re_height x, fv (re_commit_ts x)) \<le> (re_height tip, fv (re_commit_ts tip))"
    using earliest_chaintip_bound [OF c k [unfolded m]] by blast
  have le: "t \<le> fv (re_commit_ts tip)" using t(1) tip(2) by simp
  then have "fst t \<le> fst (fv (re_commit_ts tip))" by (cases t; cases "fv (re_commit_ts tip)") auto
  moreover have "fst t \<le> i64_saturating_sub now sz" using t(2) by (cases t) auto
  moreover have "re_height e \<le> re_height tip" if "e \<in> set es" "\<not> re_was_mempool e" for e
    using tip(3) that by (auto simp: chain_entries_def)
  moreover have "tip \<in> set es" "\<not> re_was_mempool tip" using tip(1) by (auto simp: chain_entries_def)
  ultimately show ?thesis
    using le fetch_entry_map_stored [OF gc_store_after [OF store env run]]
    by (intro exI [of _ "stored_map r' ks"]) (auto simp: after intro!: exI [of _ tip])
qed

text \<open>
  C25: The collector returns a safepoint instead of stopping with a panic: when some network takes part,
  every instance has a non-mempool entry, no entry is later than the clock and the instances of every
  network that takes part share a block.
\<close>

theorem gc_returns_safepoint:
  assumes store: "gc_store fv ks r" and "fetch_entry_map r = Inr m"
    and some: "\<exists>(network, _) \<in> set (network_map m). \<not> sublist ''dogecoin'' (to_lowercase network)"
    and tips: "\<forall>(k, es) \<in> set m. chain_entries es \<noteq> []
                 \<and> (\<forall>e \<in> set es. 0 \<le> i64_sub now (fst (fv (re_commit_ts e))))"
    and shared: "\<forall>(network, instances) \<in> set (network_map m).
                   \<not> sublist ''dogecoin'' (to_lowercase network) \<longrightarrow> (\<exists>p. shared_by m instances p)"
  shows "\<exists>t r'. get_new_safepoint fv vs sz now r = Inr (t, r')"
  using assms by (rule get_new_safepoint_ok)

subsection \<open>Two instances of one network\<close>

text \<open>The layout of a version: the low 18 bits are the logical part.\<close>

definition split_version :: "u64 \<Rightarrow> Timestamp" where
  "split_version v = (uint v div 2 ^ 18, uint v mod 2 ^ 18)"

definition sample_gc_entry :: "u64 \<Rightarrow> u64 \<Rightarrow> RedisEntry" where
  "sample_gc_entry height ts =
     \<lparr>re_height = height, re_block_hash = replicate 32 (ucast height), re_was_mempool = False,
      re_commit_ts = ts, re_network = ''mainnet'', re_chain_tip_height = 0,
      re_chain_tip_hash = replicate 32 0, re_mempool_view_ts = 0\<rparr>"

definition sample_gc_keys :: "RedisKey list" where
  "sample_gc_keys = [\<lparr>rk_dataplane = 0, rk_instance = 1\<rparr>, \<lparr>rk_dataplane = 0, rk_instance = 2\<rparr>]"

definition sample_gc_member :: "u64 \<Rightarrow> u64 \<Rightarrow> string \<times> int" where
  "sample_gc_member height ts = (RedisEntry_to_string (sample_gc_entry height ts), fst (split_version ts))"

definition sample_gc :: gc_redis where
  "sample_gc =
     \<lparr>zsets = (\<lambda>_. [])
        (''tikv-timestamps-keys'' := map (\<lambda>k. (key_string k, 40)) sample_gc_keys,
         key_string \<lparr>rk_dataplane = 0, rk_instance = 1\<rparr> :=
           [sample_gc_member 4 2621440, sample_gc_member 5 5242880, sample_gc_member 6 10485760],
         key_string \<lparr>rk_dataplane = 0, rk_instance = 2\<rparr> :=
           [sample_gc_member 4 2883584, sample_gc_member 5 7864320]),
      plain = Map.empty\<rparr>"

lemma sample_gc_parse: "RedisEntry_from_redis_value (fst (sample_gc_member h ts)) = Inr (sample_gc_entry h ts)"
proof -
  have "to_lowercase ''mainnet'' = ''mainnet''" by code_simp
  then show ?thesis
    using from_to_redis [of "sample_gc_entry h ts"]
    by (simp add: sample_gc_member_def redis_entry_wf_def sample_gc_entry_def)
qed

lemma sample_gc_store: "gc_store split_version sample_gc_keys sample_gc"
proof -
  have "member_ok split_version (sample_gc_member h ts)" for h ts
    by (simp add: member_ok_def sample_gc_parse) (simp add: sample_gc_member_def sample_gc_entry_def)
  then show ?thesis by (simp add: gc_store_def sample_gc_def sample_gc_keys_def comp_def)
qed

lemma sample_gc_env: "gc_env split_version 10 100"
proof -
  have "uint v div 2 ^ 18 < 2 ^ 63" for v :: u64
  proof -
    have "uint v < 2 ^ 64" using uint_bounded [of v] by simp
    then have "uint v div 2 ^ 18 \<le> 2 ^ 64 div 2 ^ 18" by (intro zdiv_mono1) auto
    then show ?thesis by simp
  qed
  then show ?thesis by (simp add: gc_env_def split_version_def pos_imp_zdiv_nonneg_iff)
qed

definition sample_gc_entries :: entry_map where
  "sample_gc_entries =
     [(\<lparr>rk_dataplane = 0, rk_instance = 1\<rparr>,
       [sample_gc_entry 4 2621440, sample_gc_entry 5 5242880, sample_gc_entry 6 10485760]),
      (\<lparr>rk_dataplane = 0, rk_instance = 2\<rparr>, [sample_gc_entry 4 2883584, sample_gc_entry 5 7864320])]"

lemma sample_gc_map: "fetch_entry_map sample_gc = Inr sample_gc_entries"
  unfolding fetch_entry_map_stored [OF sample_gc_store] sample_gc_entries_def
  by (simp add: stored_map_def sample_gc_keys_def stored_entries_def sample_gc_def sample_gc_parse)

lemma sample_gc_networks: "network_map sample_gc_entries = [(''mainnet'', sample_gc_keys)]"
  by (simp add: sample_gc_entries_def network_map_def sample_gc_keys_def sample_gc_entry_def)

lemma mainnet_not_dogecoin: "\<not> sublist ''dogecoin'' (to_lowercase ''mainnet'')"
  by code_simp

lemma sample_gc_shared: "shared_by sample_gc_entries sample_gc_keys (5, replicate 32 5)"
proof -
  have "has_block es (5, replicate 32 5)" if "sample_gc_entry 5 ts \<in> set es" for es ts
    by (rule has_blockI [OF that]) (simp_all add: block_of_def sample_gc_entry_def)
  from this [of 5242880] this [of 7864320] show ?thesis
    by (simp add: sample_gc_entries_def shared_by_def sample_gc_keys_def entries_at_def)
qed

lemma sample_gc_tips:
  "\<forall>(k, es) \<in> set sample_gc_entries. chain_entries es \<noteq> []
     \<and> (\<forall>e \<in> set es. 0 \<le> i64_sub 100 (fst (split_version (re_commit_ts e))))"
  by (simp add: sample_gc_entries_def chain_entries_def sample_gc_entry_def i64_sub_def split_version_def)

lemma sample_gc_network:
  "\<exists>(network, _) \<in> set (network_map sample_gc_entries). \<not> sublist ''dogecoin'' (to_lowercase network)"
  "\<forall>(network, instances) \<in> set (network_map sample_gc_entries).
     \<not> sublist ''dogecoin'' (to_lowercase network) \<longrightarrow> (\<exists>p. shared_by sample_gc_entries instances p)"
  using sample_gc_shared mainnet_not_dogecoin by (auto simp: sample_gc_networks)

lemma sample_gc_run: "\<exists>t r'. get_new_safepoint split_version (\<lambda>_. 0) 10 100 sample_gc = Inr (t, r')"
  by (rule get_new_safepoint_ok [OF sample_gc_store sample_gc_map sample_gc_network(1) sample_gc_tips sample_gc_network(2)])

theorem gc_returns_safepoint_witness:
  "\<exists>t r'. get_new_safepoint split_version (\<lambda>_. 0) 10 100 sample_gc = Inr (t, r')"
  by (rule gc_returns_safepoint [OF sample_gc_store sample_gc_map sample_gc_network(1) sample_gc_tips sample_gc_network(2)])

theorem gc_keeps_common_block_witness:
  "\<exists>t r' m' p. get_new_safepoint split_version (\<lambda>_. 0) 10 100 sample_gc = Inr (t, r') \<and> fetch_entry_map r' = Inr m'
     \<and> (\<exists>e \<in> set (entries_at m' \<lparr>rk_dataplane = 0, rk_instance = 1\<rparr>). block_of e = p \<and> t \<le> split_version (re_commit_ts e))
     \<and> (\<exists>e \<in> set (entries_at m' \<lparr>rk_dataplane = 0, rk_instance = 2\<rparr>). block_of e = p \<and> t \<le> split_version (re_commit_ts e))"
proof -
  obtain t r' where run: "get_new_safepoint split_version (\<lambda>_. 0) 10 100 sample_gc = Inr (t, r')"
    using sample_gc_run by blast
  have "(''mainnet'', sample_gc_keys) \<in> set (network_map sample_gc_entries)" by (simp add: sample_gc_networks)
  from gc_keeps_common_block [OF sample_gc_store sample_gc_env run sample_gc_map this mainnet_not_dogecoin]
  obtain m' p where m': "fetch_entry_map r' = Inr m'"
    and kept: "\<forall>k \<in> set sample_gc_keys. \<exists>e \<in> set (entries_at m' k).
        \<not> re_was_mempool e \<and> block_of e = p \<and> t \<le> split_version (re_commit_ts e)" by blast
  have "\<exists>e \<in> set (entries_at m' k). block_of e = p \<and> t \<le> split_version (re_commit_ts e)"
    if "k \<in> set sample_gc_keys" for k
    using kept that by blast
  from this [of "\<lparr>rk_dataplane = 0, rk_instance = 1\<rparr>"] this [of "\<lparr>rk_dataplane = 0, rk_instance = 2\<rparr>"]
  show ?thesis using run m' unfolding sample_gc_keys_def by (simp only: list.set insert_iff simp_thms) blast
qed

theorem gc_keeps_tips_and_safe_zone_witness:
  "\<exists>t r' m' tip. get_new_safepoint split_version (\<lambda>_. 0) 10 100 sample_gc = Inr (t, r') \<and> fetch_entry_map r' = Inr m'
     \<and> tip \<in> set (entries_at m' \<lparr>rk_dataplane = 0, rk_instance = 2\<rparr>) \<and> re_height tip \<ge> 5
     \<and> t \<le> split_version (re_commit_ts tip)"
proof -
  obtain t r' where run: "get_new_safepoint split_version (\<lambda>_. 0) 10 100 sample_gc = Inr (t, r')"
    using sample_gc_run by blast
  have "(\<lparr>rk_dataplane = 0, rk_instance = 2\<rparr>, [sample_gc_entry 4 2883584, sample_gc_entry 5 7864320])
      \<in> set sample_gc_entries" by (simp add: sample_gc_entries_def)
  from gc_keeps_tips_and_safe_zone [OF sample_gc_store sample_gc_env run sample_gc_map this]
  obtain m' tip where "fetch_entry_map r' = Inr m'" "tip \<in> set (entries_at m' \<lparr>rk_dataplane = 0, rk_instance = 2\<rparr>)"
    "t \<le> split_version (re_commit_ts tip)"
    "\<forall>e \<in> set [sample_gc_entry 4 2883584, sample_gc_entry 5 7864320].
       \<not> re_was_mempool e \<longrightarrow> re_height e \<le> re_height tip" by blast
  then show ?thesis using run by (auto simp: sample_gc_entry_def)
qed

end
