(* ===== verification/Mapi_Adapter.thy ===== *)
theory Mapi_Adapter
  imports Gc_Safepoint Timbre_Keys
begin

text \<open>
  How the API chooses the snapshots it reads (\<open>services/mapi-xbt/src/tikv\<close>): \<open>unify.rs\<close>, which
  finds the best block and the best mempool view that all the required instances have, and
  \<open>adapter.rs\<close>, which discovers the instances, reads their timestamp entries and opens one snapshot per
  reducer. Hash maps are association lists; \<open>unify.rs\<close> is proved for every order of its map. A
  snapshot is the timestamp it was opened at; reading it is the parameter \<open>read\<close>, the contents of
  the store at a timestamp. \<open>reducer_name\<close> is the derived \<open>Display\<close> of the reducer types. Connection
  failures of Redis and TiKV are not modelled, and neither is logging.
\<close>

section \<open>Errors and keys\<close>

datatype ReducerType =
    RT_BlockInfo | RT_ContentByInscriptionId | RT_InscriptionActivityByScriptHash
  | RT_InscriptionActivityByTx | RT_InscriptionActivityByTxV2 | RT_InscriptionUtxosByScriptHash
  | RT_RuneUtxosByScriptHash | RT_Brc20BalancesByScriptHash | RT_Brc20TermsByTicker | RT_BalancesByBrc20
  | RT_UtxosByRuneId | RT_EtchingByRuneId | RT_MintsByRuneId | RT_RuneIdByRuneName
  | RT_RuneTxsByScriptHash | RT_SatBalanceByScriptHash | RT_SatTxsByScriptHash | RT_ScriptByScriptHash
  | RT_ScriptHashByAddressPayloadHash | RT_SpendingTxByTxo | RT_TotalInscriptionsByScriptHash
  | RT_TotalOutputsByScriptHash | RT_TotalSatInInputsByScriptHash | RT_TotalSatInOutputsByScriptHash
  | RT_TotalTxsByScriptHash | RT_TotalUtxosByScriptHash | RT_TransferInscriptionsByScriptHash
  | RT_TxInfo | RT_TxsByBlock | RT_TxsByInscription | RT_TxsByRuneId | RT_TxsByScriptHash
  | RT_UtxosByScriptHash | RT_RuneBalancesByScriptHash | RT_SatsPerVbByBlock | RT_HeightByBlockHash
  | RT_HeightByTimestamp | RT_BlockByTxHash | RT_BalancesByRuneId | RT_HistoricalSatBalanceByScriptHash
  | RT_InscriptionCollectionsMetadata | RT_MinerMetadata

datatype mapi_error =
    KeyResolverNoEntries string
  | KeyResolverMalformed bytes
  | NoTimestampEntires u8 u16
  | NoInstanceIntersect "(ReducerType \<times> RedisEntry list) list"
  | AdapterNotInitialised
  | AdapterMissingReducer ReducerType
  | MissingData bytes
  | MalformedData bytes "TimbreError option"
  | TiKVError
  | MapiPanic

type_synonym 'a mapi = "mapi_error + 'a"

definition mapi_bind :: "'a mapi \<Rightarrow> ('a \<Rightarrow> 'b mapi) \<Rightarrow> 'b mapi" where
  "mapi_bind r f = (case r of Inl e \<Rightarrow> Inl e | Inr x \<Rightarrow> f x)"

lemma mapi_bind_simps [simp]: "mapi_bind (Inr x) f = f x" "mapi_bind (Inl e) f = Inl e"
  by (simp_all add: mapi_bind_def)

lemma mapi_bind_Inr_iff: "mapi_bind r f = Inr y \<longleftrightarrow> (\<exists>x. r = Inr x \<and> f x = Inr y)"
  by (cases r) simp_all

primrec mapi_map :: "('a \<Rightarrow> 'b mapi) \<Rightarrow> 'a list \<Rightarrow> 'b list mapi" where
  "mapi_map f [] = Inr []"
| "mapi_map f (x # xs) = mapi_bind (f x) (\<lambda>y. mapi_bind (mapi_map f xs) (\<lambda>ys. Inr (y # ys)))"

primrec mapi_fold :: "('a \<Rightarrow> 's \<Rightarrow> 's mapi) \<Rightarrow> 'a list \<Rightarrow> 's \<Rightarrow> 's mapi" where
  "mapi_fold f [] s = Inr s"
| "mapi_fold f (x # xs) s = mapi_bind (f x s) (mapi_fold f xs)"

text \<open>A panic of the language ends the request.\<close>

definition or_panic :: "'a work \<Rightarrow> 'a mapi" where
  "or_panic w = (case w of Inl _ \<Rightarrow> Inl MapiPanic | Inr x \<Rightarrow> Inr x)"

lemma or_panic_Inr_iff [simp]: "or_panic w = Inr x \<longleftrightarrow> w = Inr x"
  by (simp add: or_panic_def split: sum.splits)

lemma or_panic_Inr [simp]: "or_panic (Inr x) = Inr x"
  by simp

section \<open>Unification\<close>

type_synonym reducer_entries = "(ReducerType \<times> RedisEntry list) list"

definition all_have :: "reducer_entries \<Rightarrow> block_point \<Rightarrow> bool" where
  "all_have m p \<longleftrightarrow> list_all (\<lambda>(_, es). has_block es p) m"

definition find_best_common_block ::
  "(u64 \<Rightarrow> Timestamp) \<Rightarrow> reducer_entries \<Rightarrow> block_point option work" where
  "find_best_common_block from_version m =
     (case m of
        [] \<Rightarrow> Inl RustPanic
      | (_, entries) # _ \<Rightarrow>
          Inr (find (all_have m) (map block_of (newest_first from_version (chain_entries entries)))))"

definition available_views :: "RedisEntry list \<Rightarrow> block_point \<Rightarrow> u64 list" where
  "available_views entries chain_tip =
     rev (remdups_adj (sort (map re_mempool_view_ts
       (filter (\<lambda>e. re_was_mempool e \<and> (re_chain_tip_height e, re_chain_tip_hash e) = chain_tip) entries))))"



section \<open>The adapter\<close>

record MempoolView =
  mv_mempool_view_ts :: u64
  mv_mempool_blocks :: u64

record SnapshotPoint =
  sp_chain_tip :: block_point
  sp_mempool :: "MempoolView option"

record IngestorInstances =
  collections :: "u8 \<times> u16"
  miners :: "u8 \<times> u16"

type_synonym snapshot = u64

record TiKVAdapter =
  ad_network :: string
  ingestor_instances :: IngestorInstances
  snapshot_point :: "SnapshotPoint option"
  snapshots :: "(ReducerType \<times> (snapshot \<times> Namespace)) list"

definition TiKVAdapter_new :: "string \<Rightarrow> IngestorInstances \<Rightarrow> TiKVAdapter" where
  "TiKVAdapter_new net ingestors =
     \<lparr>ad_network = net, ingestor_instances = ingestors, snapshot_point = None, snapshots = []\<rparr>"

definition TiKVAdapter_clone :: "TiKVAdapter \<Rightarrow> TiKVAdapter" where
  "TiKVAdapter_clone a = a\<lparr>snapshot_point := None, snapshots := []\<rparr>"

definition parse_instance_entry :: "bytes \<Rightarrow> (u8 \<times> u16) mapi" where
  "parse_instance_entry entry =
     (if 3 \<le> length entry then Inr (entry ! 0, of_nat (be_val (take 2 (drop 1 entry))))
      else Inl (KeyResolverMalformed entry))"

text \<open>The registry of healthy instances: the members of a sorted set with their scores, in order.\<close>

type_synonym registry = "string \<Rightarrow> (bytes \<times> int) list"

definition resolver_key :: "(ReducerType \<Rightarrow> string) \<Rightarrow> string \<Rightarrow> ReducerType \<Rightarrow> string \<Rightarrow> string" where
  "resolver_key reducer_name network reducer kind =
     ''{bitcoin:'' @ network @ '':'' @ reducer_name reducer @ ''}:'' @ kind"

text \<open>\<open>Iterator::max_by_key\<close>: the last of the greatest elements.\<close>

fun max_by_key :: "('a \<Rightarrow> 'b :: linorder) \<Rightarrow> 'a list \<Rightarrow> 'a option" where
  "max_by_key f [] = None"
| "max_by_key f (x # xs) =
     (case max_by_key f xs of None \<Rightarrow> Some x | Some y \<Rightarrow> Some (if f x \<le> f y then y else x))"

text \<open>The lowest score of the required instances of each dataplane.\<close>

definition track_lowest :: "(u8 \<times> int) list \<Rightarrow> u8 \<Rightarrow> int \<Rightarrow> (u8 \<times> int) list" where
  "track_lowest shared dp score =
     (case map_of shared dp of
        Some tip \<Rightarrow> (if score < tip then AList.update dp score shared else shared)
      | None \<Rightarrow> AList.update dp score shared)"

definition track_entries :: "(bytes \<times> int) list \<Rightarrow> (u8 \<times> int) list \<Rightarrow> (u8 \<times> int) list mapi" where
  "track_entries entries shared =
     mapi_fold (\<lambda>(entry, score) shared.
       mapi_bind (parse_instance_entry entry) (\<lambda>(dp, _). Inr (track_lowest shared dp score)))
       entries shared"

text \<open>The first instance of the chosen dataplane in the entries of every reducer.\<close>

primrec first_in_dataplane :: "u8 \<Rightarrow> (bytes \<times> int) list \<Rightarrow> (u8 \<times> u16) option mapi" where
  "first_in_dataplane best [] = Inr None"
| "first_in_dataplane best (es # rest) =
     mapi_bind (parse_instance_entry (fst es)) (\<lambda>(dp, inst_id).
       if dp \<noteq> best then first_in_dataplane best rest else Inr (Some (dp, inst_id)))"

definition select_instances ::
  "u8 \<Rightarrow> (ReducerType \<times> (bytes \<times> int) list) list \<Rightarrow> (ReducerType \<times> (u8 \<times> u16)) list mapi" where
  "select_instances best instance_entries =
     mapi_fold (\<lambda>(reducer, entries) found.
       mapi_bind (first_in_dataplane best entries) (\<lambda>inst.
         Inr (case inst of None \<Rightarrow> found | Some i \<Rightarrow> AList.update reducer i found)))
       instance_entries []"

text \<open>Without a common dataplane, the first entry of the sorted set of the reducer.\<close>

definition resolve_first ::
  "(ReducerType \<Rightarrow> string) \<Rightarrow> registry \<Rightarrow> TiKVAdapter \<Rightarrow> ReducerType \<Rightarrow> (ReducerType \<times> (u8 \<times> u16)) list \<Rightarrow>
     (ReducerType \<times> (u8 \<times> u16)) list mapi" where
  "resolve_first reducer_name reg a reducer found =
     (let key = resolver_key reducer_name (ad_network a) reducer ''scores'' in
      case take 1 (reg key) of
        (entry, _) # _ \<Rightarrow>
          mapi_bind (parse_instance_entry entry) (\<lambda>inst. Inr (AList.update reducer inst found))
      | [] \<Rightarrow> Inl (KeyResolverNoEntries key))"

definition resolve_instances ::
  "(ReducerType \<Rightarrow> string) \<Rightarrow> registry \<Rightarrow> TiKVAdapter \<Rightarrow> ReducerType list \<Rightarrow> bool \<Rightarrow>
     (ReducerType \<times> (u8 \<times> u16)) list mapi" where
  "resolve_instances reducer_name reg a reducers same_dataplane =
     (if same_dataplane then
        mapi_bind
          (mapi_fold (\<lambda>reducer (instance_entries, shared).
             let key = resolver_key reducer_name (ad_network a) reducer ''scores''; entries = take 101 (reg key) in
             if entries = [] then Inl (KeyResolverNoEntries key)
             else mapi_bind (track_entries entries shared) (\<lambda>shared.
                    Inr (AList.update reducer entries instance_entries, shared)))
             reducers ([], [])) (\<lambda>(instance_entries, dataplane_shared_tip).
        case max_by_key snd dataplane_shared_tip of
          None \<Rightarrow> Inr []
        | Some (best_dataplane, _) \<Rightarrow> select_instances best_dataplane instance_entries)
      else
        mapi_fold (resolve_first reducer_name reg a) reducers [])"



section \<open>Opening the snapshots\<close>

definition fetch_reducer_entries ::
  "gc_redis \<Rightarrow> (ReducerType \<times> (u8 \<times> u16)) list \<Rightarrow> reducer_entries mapi" where
  "fetch_reducer_entries r instances =
     mapi_map (\<lambda>(instance_type, (dp, inst_id)).
       mapi_bind (or_panic (work_map RedisEntry_from_redis_value (map fst (zsets r (timestamp_key dp inst_id)))))
         (\<lambda>block_options.
            if block_options = [] then Inl (NoTimestampEntires dp inst_id) else Inr (instance_type, block_options)))
       instances"

text \<open>The most recent timestamp of the block in the entries of an instance.\<close>

definition tip_ts :: "(u64 \<Rightarrow> Timestamp) \<Rightarrow> RedisEntry list \<Rightarrow> block_point \<Rightarrow> snapshot mapi" where
  "tip_ts from_version entries p =
     (case find (\<lambda>e. block_of e = p) (filter (\<lambda>e. \<not> re_was_mempool e) (newest_first from_version entries)) of
        None \<Rightarrow> Inl MapiPanic
      | Some e \<Rightarrow> Inr (re_commit_ts e))"

definition instance_prefix :: "(ReducerType \<times> (u8 \<times> u16)) list \<Rightarrow> ReducerType \<Rightarrow> Namespace mapi" where
  "instance_prefix instances reducer =
     (case map_of instances reducer of
        None \<Rightarrow> Inl MapiPanic
      | Some (dp, inst_id) \<Rightarrow> Inr \<lparr>dataplane_id = dp, instance_id = inst_id\<rparr>)"

definition open_tip_snapshots ::
  "(u64 \<Rightarrow> Timestamp) \<Rightarrow> (ReducerType \<times> (u8 \<times> u16)) list \<Rightarrow> reducer_entries \<Rightarrow> block_point \<Rightarrow>
     (ReducerType \<times> (snapshot \<times> Namespace)) list mapi" where
  "open_tip_snapshots from_version instances m p =
     mapi_map (\<lambda>(instance_type, entries).
       mapi_bind (tip_ts from_version entries p) (\<lambda>ts.
       mapi_bind (instance_prefix instances instance_type) (\<lambda>ns.
         Inr (instance_type, (ts, ns))))) m"

definition init_tip ::
  "(u64 \<Rightarrow> Timestamp) \<Rightarrow> (ReducerType \<Rightarrow> string) \<Rightarrow> registry \<Rightarrow> gc_redis \<Rightarrow> ReducerType list \<Rightarrow> TiKVAdapter \<Rightarrow>
     TiKVAdapter mapi" where
  "init_tip from_version reducer_name reg r reducers a =
     (if reducers = [] then Inr a
      else
        mapi_bind (resolve_instances reducer_name reg a reducers False) (\<lambda>instances.
        mapi_bind (fetch_reducer_entries r instances) (\<lambda>m.
        mapi_bind (or_panic (find_best_common_block from_version m)) (\<lambda>common.
          case common of
            None \<Rightarrow> Inl (NoInstanceIntersect m)
          | Some intersection_block \<Rightarrow>
              mapi_bind (open_tip_snapshots from_version instances m intersection_block) (\<lambda>snaps.
                Inr (a\<lparr>snapshots := snaps,
                       snapshot_point := Some \<lparr>sp_chain_tip = intersection_block, sp_mempool = None\<rparr>\<rparr>))))))"







section \<open>Reading\<close>

definition take_snapshot_and_encoder ::
  "ReducerType \<Rightarrow> TiKVAdapter \<Rightarrow> ((snapshot \<times> Namespace) \<times> TiKVAdapter) mapi" where
  "take_snapshot_and_encoder reducer a =
     (case map_of (snapshots a) reducer of
        None \<Rightarrow> Inl (AdapterMissingReducer reducer)
      | Some s \<Rightarrow> Inr (s, a\<lparr>snapshots := AList.delete reducer (snapshots a)\<rparr>))"

definition insert_snapshot_and_encoder :: "ReducerType \<Rightarrow> snapshot \<Rightarrow> Namespace \<Rightarrow> TiKVAdapter \<Rightarrow> TiKVAdapter" where
  "insert_snapshot_and_encoder reducer snap encoder a =
     a\<lparr>snapshots := AList.update reducer (snap, encoder) (snapshots a)\<rparr>"

definition get_snapshot :: "TiKVAdapter \<Rightarrow> ReducerType \<Rightarrow> snapshot mapi" where
  "get_snapshot a reducer =
     (case map_of (snapshots a) reducer of
        None \<Rightarrow> Inl (AdapterMissingReducer reducer) | Some (snap, _) \<Rightarrow> Inr snap)"

definition get_encoder :: "TiKVAdapter \<Rightarrow> ReducerType \<Rightarrow> Namespace mapi" where
  "get_encoder a reducer =
     (case map_of (snapshots a) reducer of
        None \<Rightarrow> Inl (AdapterMissingReducer reducer) | Some (_, ns) \<Rightarrow> Inr ns)"

definition get_snapshot_point :: "TiKVAdapter \<Rightarrow> block_point mapi" where
  "get_snapshot_point a =
     (case snapshot_point a of None \<Rightarrow> Inl AdapterNotInitialised | Some p \<Rightarrow> Inr (sp_chain_tip p))"

definition get_snapshot_mempool_info :: "TiKVAdapter \<Rightarrow> MempoolView option mapi" where
  "get_snapshot_mempool_info a =
     (case snapshot_point a of None \<Rightarrow> Inl AdapterNotInitialised | Some p \<Rightarrow> Inr (sp_mempool p))"

text \<open>The contents of the store at a timestamp.\<close>

type_synonym mvcc = "snapshot \<Rightarrow> bytes \<Rightarrow> bytes option"

text \<open>A failed decode is an error of the request; a panic inside it ends the request.\<close>

definition decode_or_malformed :: "('b decoder) \<Rightarrow> bytes \<Rightarrow> 'b mapi" where
  "decode_or_malformed decode v =
     (case decode v of
        Inr (x, _) \<Rightarrow> Inr x
      | Inl (Fail e) \<Rightarrow> Inl (MalformedData v (Some e))
      | Inl Panic \<Rightarrow> Inl MapiPanic)"

definition get_reducer_key_maybe ::
  "mvcc \<Rightarrow> TiKVAdapter \<Rightarrow> ReducerType \<times> Reducer \<Rightarrow> ('k \<Rightarrow> bytes) \<Rightarrow> 'b decoder \<Rightarrow> 'k \<Rightarrow> 'b option mapi" where
  "get_reducer_key_maybe read a reducer encode decode key =
     (case map_of (snapshots a) (fst reducer) of
        None \<Rightarrow> Inl (AdapterMissingReducer (fst reducer))
      | Some (snap, encoder) \<Rightarrow>
          (case read snap (Prefix_data encoder (snd reducer) encode key) of
             Some v \<Rightarrow> mapi_bind (decode_or_malformed decode v) (\<lambda>x. Inr (Some x))
           | None \<Rightarrow> Inr None))"

definition get_reducer_key ::
  "mvcc \<Rightarrow> TiKVAdapter \<Rightarrow> ReducerType \<times> Reducer \<Rightarrow> ('k \<Rightarrow> bytes) \<Rightarrow> 'b decoder \<Rightarrow> 'k \<Rightarrow> 'b mapi" where
  "get_reducer_key read a reducer encode decode key =
     (case map_of (snapshots a) (fst reducer) of
        None \<Rightarrow> Inl (AdapterMissingReducer (fst reducer))
      | Some (_, encoder) \<Rightarrow>
          mapi_bind (get_reducer_key_maybe read a reducer encode decode key) (\<lambda>found.
            case found of
              None \<Rightarrow> Inl (MissingData (Prefix_data encoder (snd reducer) encode key))
            | Some x \<Rightarrow> Inr x))"

text \<open>The metadata ingestors are read at the current timestamp.\<close>

definition with_collection_metadata :: "snapshot \<Rightarrow> TiKVAdapter \<Rightarrow> TiKVAdapter" where
  "with_collection_metadata current_timestamp a =
     (let (dp, inst_id) = collections (ingestor_instances a) in
      a\<lparr>snapshots := AList.update RT_InscriptionCollectionsMetadata
          (current_timestamp, \<lparr>dataplane_id = dp, instance_id = inst_id\<rparr>) (snapshots a)\<rparr>)"

definition get_collection_key_maybe ::
  "mvcc \<Rightarrow> TiKVAdapter \<Rightarrow> CollectionIngestor \<Rightarrow> ('k \<Rightarrow> bytes) \<Rightarrow> 'k \<Rightarrow> bytes option mapi" where
  "get_collection_key_maybe read a kind encode key =
     (case map_of (snapshots a) RT_InscriptionCollectionsMetadata of
        None \<Rightarrow> Inl (AdapterMissingReducer RT_InscriptionCollectionsMetadata)
      | Some (snap, encoder) \<Rightarrow> Inr (read snap (Prefix_collection_metadata encoder kind encode key)))"

definition with_miner_metadata :: "snapshot \<Rightarrow> TiKVAdapter \<Rightarrow> TiKVAdapter" where
  "with_miner_metadata current_timestamp a =
     (let (dp, inst_id) = miners (ingestor_instances a) in
      a\<lparr>snapshots := AList.update RT_MinerMetadata
          (current_timestamp, \<lparr>dataplane_id = dp, instance_id = inst_id\<rparr>) (snapshots a)\<rparr>)"

definition get_miner_metadata_key_maybe ::
  "mvcc \<Rightarrow> TiKVAdapter \<Rightarrow> MinerIngestor \<Rightarrow> ('k \<Rightarrow> bytes) \<Rightarrow> 'k \<Rightarrow> bytes option mapi" where
  "get_miner_metadata_key_maybe read a kind encode key =
     (case map_of (snapshots a) RT_MinerMetadata of
        None \<Rightarrow> Inl (AdapterMissingReducer RT_MinerMetadata)
      | Some (snap, encoder) \<Rightarrow> Inr (read snap (Prefix_miner_metadata encoder kind encode key)))"

section \<open>The best common block and mempool view\<close>

lemma find_SomeD: "find P xs = Some x \<Longrightarrow> x \<in> set xs \<and> P x"
  by (auto simp: find_Some_iff)

lemma find_greatest:
  "sorted_wrt (\<lambda>x y. f y \<le> f x) xs \<Longrightarrow> find P xs = Some x \<Longrightarrow> y \<in> set xs \<Longrightarrow> P y \<Longrightarrow> f y \<le> (f x :: 'b :: linorder)"
  by (induction xs) (auto split: if_splits)

lemma newest_first_desc:
  "sorted_wrt (\<lambda>x y. (re_height y, fv (re_commit_ts y)) \<le> (re_height x, fv (re_commit_ts x))) (newest_first fv es)"
proof -
  have "sorted (map (\<lambda>e. (re_height e, fv (re_commit_ts e)))
      (sort_key (\<lambda>e. (re_height e, fv (re_commit_ts e))) es))"
    by (rule sorted_sort_key)
  then show ?thesis by (simp add: newest_first_def sorted_wrt_rev sorted_wrt_map)
qed

lemma newest_first_blocks_desc:
  "sorted_wrt (\<lambda>p q. fst q \<le> fst p) (map block_of (newest_first fv es))"
  using newest_first_desc [of fv es]
  by (auto simp: sorted_wrt_map block_of_def elim!: sorted_wrt_mono_rel [rotated])

lemma all_have_iff: "all_have m p \<longleftrightarrow> (\<forall>(t, es) \<in> set m. has_block es p)"
  by (auto simp: all_have_def list_all_iff)

lemma best_common_block:
  assumes "find_best_common_block fv m = Inr r"
  shows "case r of
           None \<Rightarrow> \<forall>p. \<not> all_have m p
         | Some p \<Rightarrow> all_have m p \<and> (\<forall>q. all_have m q \<longrightarrow> fst q \<le> fst p)"
proof -
  obtain t es rest where m: "m = (t, es) # rest"
    and r: "r = find (all_have m) (map block_of (newest_first fv (chain_entries es)))"
    using assms by (auto simp: find_best_common_block_def split: list.splits)
  have cand: "q \<in> set (map block_of (newest_first fv (chain_entries es)))" if "all_have m q" for q
    using that by (auto simp: m all_have_def has_block_def)
  show ?thesis
  proof (cases r)
    case None
    then have "\<not> all_have m q" for q using r cand find_None_iff by metis
    then show ?thesis using None by simp
  next
    case (Some p)
    with r have f: "find (all_have m) (map block_of (newest_first fv (chain_entries es))) = Some p" by simp
    then have "fst q \<le> fst p" if "all_have m q" for q
      using find_greatest [OF newest_first_blocks_desc f cand [OF that]] that by simp
    moreover have "all_have m p" using find_SomeD [OF f] by simp
    ultimately show ?thesis using Some by simp
  qed
qed

lemma best_common_block_total: "m \<noteq> [] \<Longrightarrow> \<exists>r. find_best_common_block fv m = Inr r"
  by (auto simp: find_best_common_block_def split: list.splits)

lemma set_available_views:
  "v \<in> set (available_views es tip) \<longleftrightarrow>
     (\<exists>e \<in> set es. re_was_mempool e \<and> (re_chain_tip_height e, re_chain_tip_hash e) = tip \<and> re_mempool_view_ts e = v)"
  by (auto simp: available_views_def)





section \<open>The snapshots of a request\<close>

lemma mapi_map_Inr_iff: "mapi_map f xs = Inr ys \<longleftrightarrow> list_all2 (\<lambda>x y. f x = Inr y) xs ys"
  by (induction xs arbitrary: ys) (auto simp: mapi_bind_Inr_iff list_all2_Cons1)

lemma mapi_map_set:
  assumes "mapi_map f xs = Inr ys"
  shows "x \<in> set xs \<Longrightarrow> \<exists>y \<in> set ys. f x = Inr y" "y \<in> set ys \<Longrightarrow> \<exists>x \<in> set xs. f x = Inr y"
  using assms by (fastforce simp: mapi_map_Inr_iff list_all2_conv_all_nth in_set_conv_nth)+

lemma mapi_map_ok: "(\<And>x. x \<in> set xs \<Longrightarrow> \<exists>y. f x = Inr y) \<Longrightarrow> \<exists>ys. mapi_map f xs = Inr ys"
  by (induction xs) (auto simp: mapi_bind_Inr_iff)

lemma mapi_map_keys:
  assumes "mapi_map f xs = Inr ys" "\<And>x y. f x = Inr y \<Longrightarrow> fst y = fst x"
  shows "map fst ys = map fst xs"
proof -
  have "list_all2 (\<lambda>x y. fst x = fst y) xs ys"
    using assms(1) unfolding mapi_map_Inr_iff by (rule list_all2_mono) (simp add: assms(2))
  then show ?thesis by (induction rule: list_all2_induct) auto
qed

text \<open>The entries of an instance, as the API reads them.\<close>

definition read_entries :: "gc_redis \<Rightarrow> u8 \<times> u16 \<Rightarrow> RedisEntry list work" where
  "read_entries r i = work_map RedisEntry_from_redis_value (map fst (zsets r (timestamp_key (fst i) (snd i))))"

lemma fetch_reducer_entries_alt:
  "fetch_reducer_entries r instances =
     mapi_map (\<lambda>(t, i). mapi_bind (or_panic (read_entries r i)) (\<lambda>es.
       if es = [] then Inl (NoTimestampEntires (fst i) (snd i)) else Inr (t, es))) instances"
  by (simp add: fetch_reducer_entries_def read_entries_def case_prod_unfold)

lemma fetch_reducer_entries_keys:
  "fetch_reducer_entries r instances = Inr m \<Longrightarrow> map fst m = map fst instances"
  unfolding fetch_reducer_entries_alt
  by (erule mapi_map_keys) (auto simp: mapi_bind_Inr_iff split: if_splits)

lemma fetch_reducer_entries_set:
  assumes "fetch_reducer_entries r instances = Inr m" "(t, es) \<in> set m" "distinct (map fst instances)"
  shows "\<exists>i. map_of instances t = Some i \<and> read_entries r i = Inr es \<and> es \<noteq> []"
proof -
  from mapi_map_set(2) [OF assms(1) [unfolded fetch_reducer_entries_alt] assms(2)]
  obtain i where "(t, i) \<in> set instances" "read_entries r i = Inr es" "es \<noteq> []"
    by (auto simp: mapi_bind_Inr_iff split: if_splits)
  then show ?thesis using assms(3) by auto
qed

lemma tip_ts_spec:
  assumes "has_block es p"
  shows "\<exists>e \<in> set es. tip_ts fv es p = Inr (re_commit_ts e) \<and> \<not> re_was_mempool e \<and> block_of e = p \<and>
           (\<forall>x \<in> set es. \<not> re_was_mempool x \<longrightarrow> block_of x = p \<longrightarrow> fv (re_commit_ts x) \<le> fv (re_commit_ts e))"
proof -
  let ?xs = "filter (\<lambda>e. \<not> re_was_mempool e) (newest_first fv es)"
  obtain e0 where e0: "e0 \<in> set ?xs" "block_of e0 = p" using assms by (auto simp: has_block_iff)
  then obtain e where f: "find (\<lambda>e. block_of e = p) ?xs = Some e"
    by (cases "find (\<lambda>e. block_of e = p) ?xs") (auto simp: find_None_iff)
  have e: "e \<in> set es" "\<not> re_was_mempool e" "block_of e = p" using find_SomeD [OF f] by auto
  have desc: "sorted_wrt (\<lambda>x y. (re_height y, fv (re_commit_ts y)) \<le> (re_height x, fv (re_commit_ts x))) ?xs"
    by (rule sorted_wrt_filter [OF newest_first_desc])
  have "fv (re_commit_ts x) \<le> fv (re_commit_ts e)" if x: "x \<in> set es" "\<not> re_was_mempool x" "block_of x = p" for x
  proof -
    have "(re_height x, fv (re_commit_ts x)) \<le> (re_height e, fv (re_commit_ts e))"
      using find_greatest [OF desc f, of x] x by simp
    moreover have "re_height x = re_height e" using x(3) e(3) by (auto simp: block_of_def)
    ultimately show ?thesis by simp
  qed
  then show ?thesis using e f by (intro bexI [of _ e]) (auto simp: tip_ts_def)
qed

text \<open>
  What a snapshot at the tip is: its timestamp is that of the latest entry of the block that the instance
  it reads has in Redis.
\<close>

definition at_block :: "(u64 \<Rightarrow> Timestamp) \<Rightarrow> gc_redis \<Rightarrow> block_point \<Rightarrow> snapshot \<times> Namespace \<Rightarrow> bool" where
  "at_block fv r p s \<longleftrightarrow>
     (\<exists>es. read_entries r (dataplane_id (snd s), instance_id (snd s)) = Inr es \<and>
        (\<exists>e \<in> set es. \<not> re_was_mempool e \<and> block_of e = p \<and> re_commit_ts e = fst s \<and>
           (\<forall>x \<in> set es. \<not> re_was_mempool x \<longrightarrow> block_of x = p \<longrightarrow> fv (re_commit_ts x) \<le> fv (fst s))))"

lemma open_tip_snapshots_spec:
  assumes "fetch_reducer_entries r instances = Inr m" "distinct (map fst instances)" "all_have m p"
  shows "\<exists>snaps. open_tip_snapshots fv instances m p = Inr snaps \<and> map fst snaps = map fst instances \<and>
           (\<forall>(t, s) \<in> set snaps. at_block fv r p s \<and>
              map_of instances t = Some (dataplane_id (snd s), instance_id (snd s)))"
proof -
  let ?open = "\<lambda>(t, es). mapi_bind (tip_ts fv es p) (\<lambda>ts.
       mapi_bind (instance_prefix instances t) (\<lambda>ns. Inr (t, (ts, ns))))"
  have one: "\<exists>ts ns. ?open (t, es) = Inr (t, (ts, ns)) \<and> at_block fv r p (ts, ns) \<and>
      map_of instances t = Some (dataplane_id ns, instance_id ns)"
    if tes: "(t, es) \<in> set m" for t es
  proof -
    obtain dp i where i: "map_of instances t = Some (dp, i)" "read_entries r (dp, i) = Inr es"
      using fetch_reducer_entries_set [OF assms(1) tes assms(2)] by auto
    have "has_block es p" using assms(3) tes by (auto simp: all_have_iff)
    then obtain e where e: "e \<in> set es" "tip_ts fv es p = Inr (re_commit_ts e)" "\<not> re_was_mempool e" "block_of e = p"
      "\<forall>x \<in> set es. \<not> re_was_mempool x \<longrightarrow> block_of x = p \<longrightarrow> fv (re_commit_ts x) \<le> fv (re_commit_ts e)"
      using tip_ts_spec by blast
    then show ?thesis using i by (auto simp: instance_prefix_def at_block_def)
  qed
  have "\<exists>y. ?open x = Inr y" if "x \<in> set m" for x using one that by (cases x) blast
  then obtain snaps where snaps: "mapi_map ?open m = Inr snaps" using mapi_map_ok by blast
  have "at_block fv r p s \<and> map_of instances t = Some (dataplane_id (snd s), instance_id (snd s))"
    if ts: "(t, s) \<in> set snaps" for t s
    using mapi_map_set(2) [OF snaps ts] one by fastforce
  moreover have "map fst snaps = map fst m"
    by (rule mapi_map_keys [OF snaps]) (auto simp: mapi_bind_Inr_iff)
  ultimately show ?thesis
    using snaps fetch_reducer_entries_keys [OF assms(1)] by (auto simp: open_tip_snapshots_def)
qed

text \<open>The instance that the registry puts first for a reducer.\<close>

definition first_instance ::
  "(ReducerType \<Rightarrow> string) \<Rightarrow> registry \<Rightarrow> TiKVAdapter \<Rightarrow> ReducerType \<Rightarrow> (u8 \<times> u16) option" where
  "first_instance reducer_name reg a reducer =
     (case reg (resolver_key reducer_name (ad_network a) reducer ''scores'') of
        [] \<Rightarrow> None
      | (entry, _) # _ \<Rightarrow> (case parse_instance_entry entry of Inl _ \<Rightarrow> None | Inr i \<Rightarrow> Some i))"

lemma resolve_first_iff:
  "resolve_first nm reg a t found = Inr found' \<longleftrightarrow>
     (\<exists>i. first_instance nm reg a t = Some i \<and> found' = AList.update t i found)"
  by (cases "reg (resolver_key nm (ad_network a) t ''scores'')")
    (auto simp: resolve_first_def first_instance_def mapi_bind_Inr_iff split: sum.splits)

lemma resolve_fold:
  "mapi_fold (resolve_first nm reg a) reducers acc = Inr found \<Longrightarrow> distinct (map fst acc) \<Longrightarrow>
     distinct (map fst found) \<and> (\<forall>t \<in> set reducers. first_instance nm reg a t \<noteq> None) \<and>
     map_of found = (\<lambda>t. if t \<in> set reducers then first_instance nm reg a t else map_of acc t)"
proof (induction reducers arbitrary: acc)
  case (Cons t ts)
  obtain i where i: "first_instance nm reg a t = Some i"
    and rest: "mapi_fold (resolve_first nm reg a) ts (AList.update t i acc) = Inr found"
    using Cons.prems(1) by (auto simp: mapi_bind_Inr_iff resolve_first_iff)
  from Cons.IH [OF rest] Cons.prems(2) i show ?case by (auto simp: distinct_update update_conv')
qed simp

lemma resolve_instances_tip:
  assumes "resolve_instances nm reg a reducers False = Inr found"
  shows "distinct (map fst found)" "fst ` set found = set reducers"
    "t \<in> set reducers \<Longrightarrow> map_of found t = first_instance nm reg a t"
proof -
  have "mapi_fold (resolve_first nm reg a) reducers [] = Inr found"
    using assms by (simp add: resolve_instances_def)
  from resolve_fold [OF this] have f: "distinct (map fst found)"
    "\<forall>t \<in> set reducers. first_instance nm reg a t \<noteq> None"
    "map_of found = (\<lambda>t. if t \<in> set reducers then first_instance nm reg a t else None)"
    by (simp_all cong: if_cong)
  have "fst ` set found = dom (map_of found)" by (rule dom_map_of_conv_image_fst [symmetric])
  also have "\<dots> = set reducers" using f(2) by (auto simp: f(3) split: if_splits)
  finally show "distinct (map fst found)" "fst ` set found = set reducers"
    "t \<in> set reducers \<Longrightarrow> map_of found t = first_instance nm reg a t"
    using f(1,3) by simp_all
qed

lemma resolve_instances_tip_ok:
  "\<forall>t \<in> set reducers. first_instance nm reg a t \<noteq> None \<Longrightarrow>
     \<exists>found. resolve_instances nm reg a reducers False = Inr found"
proof -
  have "\<exists>found. mapi_fold (resolve_first nm reg a) reducers acc = Inr found"
    if "\<forall>t \<in> set reducers. first_instance nm reg a t \<noteq> None" for acc
    using that
    by (induction reducers arbitrary: acc) (auto simp: mapi_bind_Inr_iff resolve_first_iff)
  then show "\<forall>t \<in> set reducers. first_instance nm reg a t \<noteq> None \<Longrightarrow> ?thesis"
    by (simp add: resolve_instances_def)
qed

text \<open>A block that every instance behind the snapshots has in Redis.\<close>

definition served_by :: "gc_redis \<Rightarrow> (ReducerType \<times> (snapshot \<times> Namespace)) list \<Rightarrow> block_point \<Rightarrow> bool" where
  "served_by r snaps q \<longleftrightarrow>
     (\<forall>(t, s) \<in> set snaps. \<exists>es. read_entries r (dataplane_id (snd s), instance_id (snd s)) = Inr es \<and> has_block es q)"

lemma served_by_iff:
  assumes m: "fetch_reducer_entries r instances = Inr m" and d: "distinct (map fst instances)"
    and keys: "map fst snaps = map fst instances"
    and inst: "\<forall>(t, s) \<in> set snaps. map_of instances t = Some (dataplane_id (snd s), instance_id (snd s))"
  shows "served_by r snaps q \<longleftrightarrow> all_have m q"
proof
  assume served: "served_by r snaps q"
  show "all_have m q"
    unfolding all_have_iff
  proof clarify
    fix t es assume tes: "(t, es) \<in> set m"
    obtain i where i: "map_of instances t = Some i" "read_entries r i = Inr es"
      using fetch_reducer_entries_set [OF m tes d] by auto
    have "t \<in> fst ` set snaps" using i(1) keys by (metis map_of_eq_None_iff option.distinct(1) set_map)
    then obtain s where "(t, s) \<in> set snaps" by auto
    then show "has_block es q" using served inst i by (fastforce simp: served_by_def)
  qed
next
  assume all: "all_have m q"
  show "served_by r snaps q"
    unfolding served_by_def
  proof clarify
    fix t s ns assume ts: "(t, s, ns) \<in> set snaps"
    then have "t \<in> fst ` set m" using keys fetch_reducer_entries_keys [OF m] by (metis fst_conv image_eqI set_map)
    then obtain es where tes: "(t, es) \<in> set m" by auto
    then have "has_block es q" using all by (auto simp: all_have_iff)
    moreover have "map_of instances t = Some (dataplane_id ns, instance_id ns)" using ts inst by auto
    ultimately show "\<exists>es. read_entries r (dataplane_id (snd (s, ns)), instance_id (snd (s, ns))) = Inr es \<and> has_block es q"
      using fetch_reducer_entries_set [OF m tes d] by auto
  qed
qed

lemma init_tip_Inr:
  assumes "init_tip fv nm reg r reducers a = Inr a'" "reducers \<noteq> []"
  obtains instances m p snaps where "resolve_instances nm reg a reducers False = Inr instances"
    "fetch_reducer_entries r instances = Inr m" "find_best_common_block fv m = Inr (Some p)"
    "open_tip_snapshots fv instances m p = Inr snaps"
    "a' = a\<lparr>snapshots := snaps, snapshot_point := Some \<lparr>sp_chain_tip = p, sp_mempool = None\<rparr>\<rparr>"
proof -
  obtain instances m common where i: "resolve_instances nm reg a reducers False = Inr instances"
    and m: "fetch_reducer_entries r instances = Inr m" and c: "find_best_common_block fv m = Inr common"
    and o: "(case common of None \<Rightarrow> Inl (NoInstanceIntersect m)
      | Some p \<Rightarrow> mapi_bind (open_tip_snapshots fv instances m p) (\<lambda>snaps.
          Inr (a\<lparr>snapshots := snaps, snapshot_point := Some \<lparr>sp_chain_tip = p, sp_mempool = None\<rparr>\<rparr>))) = Inr a'"
    using assms unfolding init_tip_def by (simp only: if_False mapi_bind_Inr_iff or_panic_Inr_iff) blast
  then obtain p where p: "common = Some p" by (cases common) auto
  with o obtain snaps where "open_tip_snapshots fv instances m p = Inr snaps"
    "a' = a\<lparr>snapshots := snaps, snapshot_point := Some \<lparr>sp_chain_tip = p, sp_mempool = None\<rparr>\<rparr>"
    by (auto simp only: option.case mapi_bind_Inr_iff Inr_inject)
  with that i m c p show thesis by blast
qed

section \<open>Mempool views\<close>










section \<open>After a garbage collection\<close>

lemma read_entries_stored:
  assumes "gc_store fv ks r" "k \<in> set ks"
  shows "read_entries r (rk_dataplane k, rk_instance k) = Inr (stored_entries r k)"
proof -
  have "list_all (member_ok fv) (zsets r (key_string k))" using assms by (simp add: gc_store_def)
  from work_map_members [OF this] show ?thesis
    by (simp add: read_entries_def stored_entries_def key_string_def)
qed

lemma fetch_reducer_entries_ok:
  assumes "\<forall>(t, i) \<in> set instances. \<exists>es. read_entries r i = Inr es \<and> es \<noteq> []"
  shows "\<exists>m. fetch_reducer_entries r instances = Inr m"
  unfolding fetch_reducer_entries_alt
proof (rule mapi_map_ok)
  fix x assume "x \<in> set instances"
  then obtain t i es where "x = (t, i)" "read_entries r i = Inr es" "es \<noteq> []" using assms by fast
  then show "\<exists>y. (case x of (t, i) \<Rightarrow> mapi_bind (or_panic (read_entries r i)) (\<lambda>es.
      if es = [] then Inl (NoTimestampEntires (fst i) (snd i)) else Inr (t, es))) = Inr y" by simp
qed

lemma init_tip_ok:
  assumes inst: "\<forall>u \<in> set reducers. \<exists>i es. first_instance nm reg a u = Some i \<and> read_entries r i = Inr es \<and> has_block es p"
    and "reducers \<noteq> []"
  shows "\<exists>a'. init_tip fv nm reg r reducers a = Inr a'"
proof -
  obtain instances where res: "resolve_instances nm reg a reducers False = Inr instances"
    using resolve_instances_tip_ok [of reducers nm reg a] inst by force
  note found = resolve_instances_tip [OF res]
  have ok: "\<exists>es. read_entries r i = Inr es \<and> has_block es p" if "(u, i) \<in> set instances" for u i
  proof -
    have "u \<in> set reducers" using that found(2) by force
    moreover have "map_of instances u = Some i" using that found(1) by simp
    ultimately show ?thesis using found(3) inst by force
  qed
  have "es \<noteq> []" if "has_block es p" for es using that by (auto simp: has_block_iff)
  with ok have "\<forall>(t, i) \<in> set instances. \<exists>es. read_entries r i = Inr es \<and> es \<noteq> []" by fast
  then obtain m where m: "fetch_reducer_entries r instances = Inr m" using fetch_reducer_entries_ok by blast
  have all: "all_have m p"
    unfolding all_have_iff
  proof clarify
    fix u es assume ues: "(u, es) \<in> set m"
    obtain i where "map_of instances u = Some i" "read_entries r i = Inr es"
      using fetch_reducer_entries_set [OF m ues found(1)] by auto
    then show "has_block es p" using ok map_of_SomeD by fastforce
  qed
  have "m \<noteq> []" using fetch_reducer_entries_keys [OF m] found(2) assms(2) by auto
  then obtain c where c: "find_best_common_block fv m = Inr c" using best_common_block_total by blast
  then obtain q where q: "c = Some q" "all_have m q"
    using best_common_block [OF c] all by (cases c) (simp_all del: split_paired_All)
  obtain snaps where "open_tip_snapshots fv instances m q = Inr snaps"
    using open_tip_snapshots_spec [OF m found(1) q(2)] by blast
  then show ?thesis using res m c q(1) assms(2) by (simp add: init_tip_def)
qed

lemma init_tip_one_block:
  assumes "init_tip fv nm reg r reducers a = Inr a'" "reducers \<noteq> []"
  shows "\<exists>p. snapshot_point a' = Some \<lparr>sp_chain_tip = p, sp_mempool = None\<rparr>
       \<and> fst ` set (snapshots a') = set reducers
       \<and> (\<forall>(t, s) \<in> set (snapshots a'). at_block fv r p s \<and>
            first_instance nm reg a t = Some (dataplane_id (snd s), instance_id (snd s)))
       \<and> (\<forall>q. served_by r (snapshots a') q \<longrightarrow> fst q \<le> fst p)"
proof (rule init_tip_Inr [OF assms])
  fix instances m p snaps
  assume inst: "resolve_instances nm reg a reducers False = Inr instances"
    and m: "fetch_reducer_entries r instances = Inr m" and p: "find_best_common_block fv m = Inr (Some p)"
    and snaps: "open_tip_snapshots fv instances m p = Inr snaps"
    and a': "a' = a\<lparr>snapshots := snaps, snapshot_point := Some \<lparr>sp_chain_tip = p, sp_mempool = None\<rparr>\<rparr>"
  note res = resolve_instances_tip [OF inst]
  have best: "all_have m p" "\<And>q. all_have m q \<Longrightarrow> fst q \<le> fst p" using best_common_block [OF p] by auto
  have s: "map fst snaps = map fst instances"
    "\<forall>(t, s) \<in> set snaps. at_block fv r p s \<and> map_of instances t = Some (dataplane_id (snd s), instance_id (snd s))"
    using open_tip_snapshots_spec [OF m res(1) best(1), of fv] unfolding snaps Inr_inject by (elim exE conjE; blast)+
  have keys: "fst ` set snaps = set reducers" using s(1) res(2) by (metis set_map)
  have "served_by r snaps q \<longleftrightarrow> all_have m q" for q by (rule served_by_iff [OF m res(1) s(1)]) (use s(2) in blast)
  moreover have "first_instance nm reg a t = Some (dataplane_id (snd s'), instance_id (snd s'))"
    if "(t, s') \<in> set snaps" for t s'
  proof -
    have "t \<in> set reducers" using that keys by force
    then show ?thesis using res(3) [of t] s(2) that by auto
  qed
  ultimately show ?thesis
    using best(2) s(2) keys unfolding a' by (intro exI [of _ p] conjI ballI allI impI) (simp_all del: split_paired_All, blast+)
qed


section \<open>Properties\<close>


text \<open>
  C5: A request at the tip reads one consistent block: every required reducer has a snapshot of the
  instance that the registry puts first, all snapshots are at the latest timestamp that their instance has
  for the same block, and that block is the highest that all of these instances have.
\<close>

theorem init_tip_reads_one_block:
  assumes "init_tip fv nm reg r reducers a = Inr a'" "reducers \<noteq> []"
  shows "\<exists>p. snapshot_point a' = Some \<lparr>sp_chain_tip = p, sp_mempool = None\<rparr>
       \<and> fst ` set (snapshots a') = set reducers
       \<and> (\<forall>(t, s) \<in> set (snapshots a'). at_block fv r p s \<and>
            first_instance nm reg a t = Some (dataplane_id (snd s), instance_id (snd s)))
       \<and> (\<forall>q. served_by r (snapshots a') q \<longrightarrow> fst q \<le> fst p)"
  using assms by (rule init_tip_one_block)



section \<open>Sample requests\<close>

definition sample_reducer_name :: "ReducerType \<Rightarrow> string" where
  "sample_reducer_name t = (if t = RT_BlockInfo then ''block-info'' else ''tx-info'')"

definition sample_adapter :: TiKVAdapter where
  "sample_adapter = TiKVAdapter_new ''mainnet'' \<lparr>collections = (9, 1), miners = (9, 2)\<rparr>"

definition sample_registry :: registry where
  "sample_registry = (\<lambda>_. [])
     (''{bitcoin:mainnet:block-info}:scores'' := [([0, 0, 1], 5), ([0, 0, 3], 6)],
      ''{bitcoin:mainnet:tx-info}:scores'' := [([0, 0, 2], 5)])"

lemma sample_first_instance:
  "first_instance sample_reducer_name sample_registry sample_adapter RT_BlockInfo = Some (0, 1)"
  "first_instance sample_reducer_name sample_registry sample_adapter RT_TxInfo = Some (0, 2)"
  by (simp_all add: first_instance_def sample_registry_def sample_adapter_def TiKVAdapter_new_def
      resolver_key_def sample_reducer_name_def parse_instance_entry_def be_val_def)

lemma sample_read_entries:
  "read_entries sample_gc (0, 1) =
     Inr [sample_gc_entry 4 2621440, sample_gc_entry 5 5242880, sample_gc_entry 6 10485760]"
  "read_entries sample_gc (0, 2) = Inr [sample_gc_entry 4 2883584, sample_gc_entry 5 7864320]"
  using read_entries_stored [OF sample_gc_store, of "\<lparr>rk_dataplane = 0, rk_instance = 1\<rparr>"]
    read_entries_stored [OF sample_gc_store, of "\<lparr>rk_dataplane = 0, rk_instance = 2\<rparr>"]
  by (simp_all add: sample_gc_keys_def stored_entries_def sample_gc_def sample_gc_parse)

lemma sample_init_tip:
  "\<exists>a'. init_tip split_version sample_reducer_name sample_registry sample_gc [RT_BlockInfo, RT_TxInfo] sample_adapter = Inr a'"
proof (rule init_tip_ok)
  have "has_block es (5, replicate 32 5)" if "sample_gc_entry 5 ts \<in> set es" for es ts
    by (rule has_blockI [OF that]) (simp_all add: block_of_def sample_gc_entry_def)
  from this [of 5242880] this [of 7864320]
  show "\<forall>u \<in> set [RT_BlockInfo, RT_TxInfo]. \<exists>i es.
      first_instance sample_reducer_name sample_registry sample_adapter u = Some i \<and>
      read_entries sample_gc i = Inr es \<and> has_block es (5, replicate 32 5)"
    using sample_first_instance sample_read_entries by simp
qed simp









theorem init_tip_reads_one_block_witness:
  "\<exists>a' p. init_tip split_version sample_reducer_name sample_registry sample_gc [RT_BlockInfo, RT_TxInfo] sample_adapter = Inr a'
     \<and> snapshot_point a' = Some \<lparr>sp_chain_tip = p, sp_mempool = None\<rparr>
     \<and> fst ` set (snapshots a') = {RT_BlockInfo, RT_TxInfo}
     \<and> (\<forall>(t, s) \<in> set (snapshots a'). at_block split_version sample_gc p s)"
proof -
  obtain a' where a': "init_tip split_version sample_reducer_name sample_registry sample_gc [RT_BlockInfo, RT_TxInfo]
      sample_adapter = Inr a'" using sample_init_tip by blast
  from init_tip_reads_one_block [OF a'] have "\<exists>p. snapshot_point a' = Some \<lparr>sp_chain_tip = p, sp_mempool = None\<rparr>
     \<and> fst ` set (snapshots a') = {RT_BlockInfo, RT_TxInfo}
     \<and> (\<forall>(t, s) \<in> set (snapshots a'). at_block split_version sample_gc p s)" by (simp only: list.set) blast
  with a' show ?thesis by blast
qed



text \<open>
  C27: Without a common dataplane the API takes, for every reducer, the registered instance that has
  indexed the fewest blocks, as the sorted set lists the lowest heights first.
\<close>

theorem tip_request_selects_lowest:
  assumes "resolve_instances nm reg a reducers False = Inr found" "t \<in> set reducers"
    and "sorted (map snd (reg (resolver_key nm (ad_network a) t ''scores'')))"
  shows "\<exists>entry height i. (entry, height) \<in> set (reg (resolver_key nm (ad_network a) t ''scores''))
       \<and> parse_instance_entry entry = Inr i \<and> map_of found t = Some i
       \<and> (\<forall>(_, h) \<in> set (reg (resolver_key nm (ad_network a) t ''scores'')). height \<le> h)"
proof -
  let ?key = "resolver_key nm (ad_network a) t ''scores''"
  have "dom (map_of found) = set reducers" using resolve_instances_tip(2) [OF assms(1)] by (simp add: dom_map_of_conv_image_fst)
  then obtain i where i: "map_of found t = Some i" using assms(2) by blast
  then have "first_instance nm reg a t = Some i" using resolve_instances_tip(3) [OF assms(1,2)] by simp
  then obtain entry height rest where "reg ?key = (entry, height) # rest" "parse_instance_entry entry = Inr i"
    by (auto simp: first_instance_def split: list.splits sum.splits)
  with assms(3) i show ?thesis by (intro exI [of _ entry] exI [of _ height] exI [of _ i]) auto
qed

theorem tip_request_selects_lowest_witness:
  "\<exists>found i. resolve_instances sample_reducer_name sample_registry sample_adapter [RT_BlockInfo] False = Inr found
     \<and> map_of found RT_BlockInfo = Some i"
proof -
  have "resolve_instances sample_reducer_name sample_registry sample_adapter [RT_BlockInfo] False = Inr [(RT_BlockInfo, (0, 1))]"
    by (simp add: resolve_instances_def resolve_first_def sample_registry_def sample_adapter_def TiKVAdapter_new_def
        resolver_key_def sample_reducer_name_def parse_instance_entry_def be_val_def)
  moreover have "sorted (map snd (sample_registry (resolver_key sample_reducer_name (ad_network sample_adapter) RT_BlockInfo ''scores'')))"
    by (simp add: sample_registry_def sample_adapter_def TiKVAdapter_new_def resolver_key_def sample_reducer_name_def)
  ultimately show ?thesis
    using tip_request_selects_lowest [of sample_reducer_name sample_registry sample_adapter "[RT_BlockInfo]" _ RT_BlockInfo]
    by fastforce
qed

definition uneven_registry :: registry where
  "uneven_registry = (\<lambda>_. [])
     (''{bitcoin:mainnet:block-info}:scores'' := [([0, 0, 1], 5), ([1, 0, 1], 9)],
      ''{bitcoin:mainnet:tx-info}:scores'' := [([0, 0, 2], 5)])"

text \<open>
  C28: The selection of a common dataplane can lose a required reducer: a dataplane that runs only some of
  the reducers wins by its height, and the reducers it does not run get no instance although another
  dataplane runs all of them.
\<close>

theorem common_dataplane_misses_reducer:
  "resolve_instances sample_reducer_name uneven_registry sample_adapter [RT_BlockInfo, RT_TxInfo] True
     = Inr [(RT_BlockInfo, (1, 1))]
   \<and> first_in_dataplane 0 (uneven_registry ''{bitcoin:mainnet:block-info}:scores'') = Inr (Some (0, 1))
   \<and> first_in_dataplane 0 (uneven_registry ''{bitcoin:mainnet:tx-info}:scores'') = Inr (Some (0, 2))"
  by (simp add: resolve_instances_def uneven_registry_def sample_adapter_def
      TiKVAdapter_new_def resolver_key_def sample_reducer_name_def parse_instance_entry_def be_val_def
      track_entries_def track_lowest_def select_instances_def)

end
