(* ===== verification/Mapi_Scanner.thy ===== *)
theory Mapi_Scanner
  imports Mapi_Adapter Schema_Chain Schema_Tokens
begin

text \<open>
  The paged range scans of the API (\<open>services/mapi-xbt/src/tikv/scanner.rs\<close>). The contents of a
  snapshot are the list of its pairs in key order, no key of which is empty; a scan returns the first
  \<open>limit\<close> pairs of a range and a reverse scan the last. \<open>fits\<close> decides whether a reply is small enough for
  the client; an empty reply always is. The four scan methods have the same loop and differ in what they
  make of a pair.
\<close>

section \<open>One page\<close>

datatype OrderParam = Asc | Desc

type_synonym kv_pair = "bytes \<times> bytes"

definition listing :: "OrderParam \<Rightarrow> kv_pair list \<Rightarrow> bytes \<times> bytes \<Rightarrow> kv_pair list" where
  "listing order kvs rng =
     (let xs = filter (\<lambda>kv. fst kv \<noteq> [] \<and> in_range rng (fst kv)) kvs in
      case order of Asc \<Rightarrow> xs | Desc \<Rightarrow> rev xs)"

definition fetch_page :: "OrderParam \<Rightarrow> kv_pair list \<Rightarrow> bytes \<times> bytes \<Rightarrow> u32 \<Rightarrow> kv_pair list" where
  "fetch_page order kvs rng scan_size = take (unat scan_size) (listing order kvs rng)"

definition range_after :: "OrderParam \<Rightarrow> bytes \<times> bytes \<Rightarrow> bytes \<Rightarrow> bytes \<times> bytes" where
  "range_after order rng last_key =
     (case order of Asc \<Rightarrow> (last_key @ [0], snd rng) | Desc \<Rightarrow> (fst rng, last_key))"

text \<open>
  The loop over the pairs of a page: \<open>None\<close> is a pair that is left out, \<open>Some xs\<close> extends the result,
  after which the scan stops when it has enough.
\<close>

fun scan_items ::
  "(kv_pair \<Rightarrow> 'a list option mapi) \<Rightarrow> nat option \<Rightarrow> kv_pair list \<Rightarrow> 'a list \<Rightarrow> ('a list \<times> bool) mapi" where
  "scan_items emit count [] acc = Inr (acc, False)"
| "scan_items emit count (kv # kvs) acc =
     mapi_bind (emit kv) (\<lambda>r.
       case r of
         None \<Rightarrow> scan_items emit count kvs acc
       | Some xs \<Rightarrow>
           (if (case count of Some n \<Rightarrow> n \<le> length (acc @ xs) | None \<Rightarrow> False) then Inr (acc @ xs, True)
            else scan_items emit count kvs (acc @ xs)))"

section \<open>The scan loop\<close>

lemma in_range_after:
  assumes "in_range rng k" "k \<noteq> []"
  shows "in_range (range_after order rng k) j \<longleftrightarrow>
    in_range rng j \<and> (case order of Asc \<Rightarrow> k < j | Desc \<Rightarrow> j < k)"
proof (cases order)
  case Asc
  have "k < j \<Longrightarrow> fst rng \<le> j" using assms(1) less_imp_le order_trans by (auto simp: in_range_def)
  then show ?thesis using Asc by (auto simp: in_range_def range_after_def snoc_zero_le_iff)
next
  case Desc
  have "j < k \<Longrightarrow> snd rng = [] \<or> j < snd rng" using assms(1) less_trans by (auto simp: in_range_def)
  then show ?thesis using Desc assms(2) by (auto simp: in_range_def range_after_def)
qed

lemma listing_shrinks:
  assumes "kv \<in> set (listing order kvs rng)"
  shows "length (listing order kvs (range_after order rng (fst kv))) < length (listing order kvs rng)"
proof -
  have kv: "kv \<in> set kvs" "fst kv \<noteq> []" "in_range rng (fst kv)"
    using assms by (auto simp: listing_def Let_def split: OrderParam.splits)
  let ?r = "range_after order rng (fst kv)"
  have "length (filter (\<lambda>x. fst x \<noteq> [] \<and> in_range ?r (fst x)) kvs) <
      length (filter (\<lambda>x. fst x \<noteq> [] \<and> in_range rng (fst x)) kvs)"
    by (rule length_filter_less_filter [OF kv(1)])
      (use kv in \<open>auto simp: in_range_after split: OrderParam.splits\<close>)
  then show ?thesis by (cases order) (simp_all add: listing_def)
qed

lemma last_page_in_listing: "fetch_page order kvs rng n \<noteq> [] \<Longrightarrow> last (fetch_page order kvs rng n) \<in> set (listing order kvs rng)"
  using last_in_set in_set_takeD by (metis fetch_page_def)

lemma mapi_bind_cong [fundef_cong]:
  "r = r' \<Longrightarrow> (\<And>x. r' = Inr x \<Longrightarrow> f x = f' x) \<Longrightarrow> mapi_bind r f = mapi_bind r' f'"
  by (cases r') simp_all

lemma unat_half_less: "fetch_page order kvs rng n \<noteq> [] \<Longrightarrow> unat (n div 2) < unat n"
proof -
  assume "fetch_page order kvs rng n \<noteq> []"
  then have "0 < unat n" by (auto simp: fetch_page_def)
  then show ?thesis by (simp add: unat_div)
qed

function scan_loop ::
  "OrderParam \<Rightarrow> (kv_pair list \<Rightarrow> bool) \<Rightarrow> kv_pair list \<Rightarrow> (kv_pair \<Rightarrow> 'a list option mapi) \<Rightarrow> nat option \<Rightarrow>
     bytes \<times> bytes \<Rightarrow> u32 \<Rightarrow> 'a list \<Rightarrow> 'a list mapi" where
  "scan_loop order fits kvs emit count range_remaining scan_size acc =
     (let page = fetch_page order kvs range_remaining scan_size in
      if page = [] then Inr acc
      else if \<not> fits page then scan_loop order fits kvs emit count range_remaining (scan_size div 2) acc
      else
        mapi_bind (scan_items emit count page acc) (\<lambda>(acc, enough).
          if enough \<or> of_nat (length page) < scan_size then Inr acc
          else scan_loop order fits kvs emit count
                 (range_after order range_remaining (fst (last page))) scan_size acc))"
  by pat_completeness auto
termination
  by (relation "measures [\<lambda>(order, fits, kvs, emit, count, r, n, acc). length (listing order kvs r),
                          \<lambda>(order, fits, kvs, emit, count, r, n, acc). unat n]")
    (auto simp: unat_half_less intro!: listing_shrinks last_page_in_listing)

declare scan_loop.simps [simp del]

definition truncate_to :: "nat option \<Rightarrow> 'a list \<Rightarrow> 'a list" where
  "truncate_to count xs = (case count of Some n \<Rightarrow> take n xs | None \<Rightarrow> xs)"

section \<open>The scanner\<close>

definition KV_SCAN_BATCH_SIZE :: u32 where
  "KV_SCAN_BATCH_SIZE = 1000"

record Scanner =
  sc_range :: "bytes \<times> bytes"
  sc_order :: OrderParam
  sc_count :: "nat option"

definition Scanner_new :: "bytes \<times> bytes \<Rightarrow> Scanner" where
  "Scanner_new rng = \<lparr>sc_range = rng, sc_order = Asc, sc_count = None\<rparr>"

definition Scanner_order :: "OrderParam \<Rightarrow> Scanner \<Rightarrow> Scanner" where
  "Scanner_order order sc = sc\<lparr>sc_order := order\<rparr>"

definition Scanner_count :: "nat \<Rightarrow> Scanner \<Rightarrow> Scanner" where
  "Scanner_count count sc = sc\<lparr>sc_count := Some count\<rparr>"

definition run_scan ::
  "(kv_pair list \<Rightarrow> bool) \<Rightarrow> kv_pair list \<Rightarrow> Scanner \<Rightarrow> u32 \<Rightarrow> (kv_pair \<Rightarrow> 'a list option mapi) \<Rightarrow> 'a list mapi" where
  "run_scan fits kvs sc scan_size emit =
     mapi_bind (scan_loop (sc_order sc) fits kvs emit (sc_count sc) (sc_range sc) scan_size [])
       (\<lambda>xs. Inr (truncate_to (sc_count sc) xs))"

text \<open>The bytes of a key after the namespace, the tag, the reducer and the break.\<close>

definition key_suffix :: "bytes \<Rightarrow> bytes mapi" where
  "key_suffix k = (if Namespace_size + 3 \<le> length k then Inr (drop (Namespace_size + 3) k) else Inl (MalformedData k None))"

lemma Prefix_data_shape:
  "Prefix_data ns r enc k = dataplane_id ns # be_bytes 2 (unat (instance_id ns)) @ [PREFIX_DATA, Reducer_tag r, BREAK] @ enc k"
  by (simp add: Prefix_data_def build_def eb_append_def append_with_break_def break0_def data_tag_def enc_new_def
      Namespace_encode_def Reducer_encode_def array_encode_def unat_byte_bound)

lemma key_suffix_data [simp]: "key_suffix (Prefix_data ns r enc k) = Inr (enc k)"
  by (simp add: key_suffix_def Prefix_data_shape Namespace_size_def)

definition decode_key :: "'k decoder \<Rightarrow> bytes \<Rightarrow> 'k mapi" where
  "decode_key decode k = mapi_bind (key_suffix k) (decode_or_malformed decode)"


definition emit_pair :: "'k decoder \<Rightarrow> 'v decoder \<Rightarrow> (kv_pair \<Rightarrow> bool) option \<Rightarrow> kv_pair \<Rightarrow> ('k \<times> 'v) list option mapi" where
  "emit_pair kdec vdec filter_fn kv =
     (if (case filter_fn of Some f \<Rightarrow> \<not> f kv | None \<Rightarrow> False) then Inr None
      else
        mapi_bind (decode_key kdec (fst kv)) (\<lambda>k.
        mapi_bind (decode_or_malformed vdec (snd kv)) (\<lambda>v. Inr (Some [(k, v)]))))"

definition emit_mapped ::
  "'k decoder \<Rightarrow> 'v decoder \<Rightarrow> ('k \<Rightarrow> 'v \<Rightarrow> ('a \<times> 'b) list mapi) \<Rightarrow> kv_pair \<Rightarrow> ('a \<times> 'b) list option mapi" where
  "emit_mapped kdec vdec map_fn kv =
     mapi_bind (decode_key kdec (fst kv)) (\<lambda>k.
     mapi_bind (decode_or_malformed vdec (snd kv)) (\<lambda>v.
     mapi_bind (map_fn k v) (\<lambda>xs. Inr (Some xs))))"

text \<open>The contents of the store at a timestamp, in key order.\<close>

type_synonym contents = "snapshot \<Rightarrow> kv_pair list"


definition execute_with_filter ::
  "(kv_pair list \<Rightarrow> bool) \<Rightarrow> contents \<Rightarrow> TiKVAdapter \<Rightarrow> ReducerType \<Rightarrow> 'k decoder \<Rightarrow> 'v decoder \<Rightarrow>
     (kv_pair \<Rightarrow> bool) option \<Rightarrow> Scanner \<Rightarrow> ('k \<times> 'v) list mapi" where
  "execute_with_filter fits at a reducer_type kdec vdec filter_fn sc =
     mapi_bind (get_snapshot a reducer_type) (\<lambda>snap.
       run_scan fits (at snap) sc
         (if filter_fn = None then (case sc_count sc of Some n \<Rightarrow> of_nat n | None \<Rightarrow> KV_SCAN_BATCH_SIZE)
          else KV_SCAN_BATCH_SIZE)
         (emit_pair kdec vdec filter_fn))"

definition execute_scan ::
  "(kv_pair list \<Rightarrow> bool) \<Rightarrow> contents \<Rightarrow> TiKVAdapter \<Rightarrow> ReducerType \<Rightarrow> 'k decoder \<Rightarrow> 'v decoder \<Rightarrow> Scanner \<Rightarrow>
     ('k \<times> 'v) list mapi" where
  "execute_scan fits at a reducer_type kdec vdec sc = execute_with_filter fits at a reducer_type kdec vdec None sc"

definition execute_with_map ::
  "(kv_pair list \<Rightarrow> bool) \<Rightarrow> contents \<Rightarrow> TiKVAdapter \<Rightarrow> ReducerType \<Rightarrow> 'k decoder \<Rightarrow> 'v decoder \<Rightarrow>
     ('k \<Rightarrow> 'v \<Rightarrow> ('a \<times> 'b) list mapi) \<Rightarrow> Scanner \<Rightarrow> ('a \<times> 'b) list mapi" where
  "execute_with_map fits at a reducer_type kdec vdec map_fn sc =
     mapi_bind (get_snapshot a reducer_type) (\<lambda>snap.
       run_scan fits (at snap) sc KV_SCAN_BATCH_SIZE (emit_mapped kdec vdec map_fn))"

section \<open>UTxOs without metaprotocol assets\<close>

definition ascii_lower :: "byte \<Rightarrow> byte" where
  "ascii_lower b = (if 65 \<le> b \<and> b \<le> 90 then b + 32 else b)"

definition ascii_bytes :: "string \<Rightarrow> bytes" where
  "ascii_bytes s = map of_char s"

definition point_read :: "contents \<Rightarrow> mvcc" where
  "point_read at = (\<lambda>snap. map_of (at snap))"

text \<open>Inscriptions that count: BRC-20 inscriptions are ignored unless they are unspent transfers.\<close>

definition keep_inscription ::
  "contents \<Rightarrow> TiKVAdapter \<Rightarrow> UtxosByScriptHash_Key \<Rightarrow> SatoshiOffset \<times> InscriptionId \<Rightarrow> bool mapi" where
  "keep_inscription at a key oi =
     mapi_bind (get_reducer_key (point_read at) a (RT_ContentByInscriptionId, Reducer_ContentByInscriptionId)
         ContentByInscriptionId_Key_encode ContentByInscriptionId_Value_decode \<lparr>cbiik_inscription_id = snd oi\<rparr>)
       (\<lambda>info.
          let content = map ascii_lower (cbiiv_content_body info) in
          Inr (\<not> utf8_valid (cbiiv_content_body info) \<or>
               \<not> sublist (ascii_bytes ''brc-20'') content \<or>
               (sublist (ascii_bytes ''transfer'') content \<and> ubshk_utxo_hash key = fst (snd oi))))"

fun mapi_filter :: "('a \<Rightarrow> bool mapi) \<Rightarrow> 'a list \<Rightarrow> 'a list mapi" where
  "mapi_filter p [] = Inr []"
| "mapi_filter p (x # xs) =
     mapi_bind (p x) (\<lambda>keep. mapi_bind (mapi_filter p xs) (\<lambda>ys. Inr (if keep then x # ys else ys)))"

definition emit_plain_utxo ::
  "contents \<Rightarrow> TiKVAdapter \<Rightarrow> (kv_pair \<Rightarrow> bool) option \<Rightarrow> bool \<Rightarrow> kv_pair \<Rightarrow>
     (UtxosByScriptHash_Key \<times> UtxosByScriptHash_Value) list option mapi" where
  "emit_plain_utxo at a filter_fn ignore_used_brc20 kv =
     (if (case filter_fn of Some f \<Rightarrow> \<not> f kv | None \<Rightarrow> False) then Inr None
      else
        mapi_bind (decode_key UtxosByScriptHash_Key_decode (fst kv)) (\<lambda>key.
        mapi_bind (decode_or_malformed UtxosByScriptHash_Value_decode (snd kv)) (\<lambda>val.
        mapi_bind (get_reducer_key_maybe (point_read at) a (RT_RuneUtxosByScriptHash, Reducer_RuneUtxosByScriptHash)
            UtxosByScriptHash_Key_encode RuneUtxosByScriptHash_Value_decode key) (\<lambda>runes.
        mapi_bind (get_reducer_key_maybe (point_read at) a
            (RT_InscriptionUtxosByScriptHash, Reducer_InscriptionUtxosByScriptHash)
            UtxosByScriptHash_Key_encode InscriptionUtxosByScriptHash_Value_decode key) (\<lambda>inscriptions.
          let inscriptions = (case inscriptions of Some x \<Rightarrow> iubshv_inscriptions x | None \<Rightarrow> []);
              runes = (case runes of Some x \<Rightarrow> rubshv_runes x | None \<Rightarrow> []) in
          mapi_bind (if ignore_used_brc20 then mapi_filter (keep_inscription at a key) inscriptions
                     else Inr inscriptions) (\<lambda>inscriptions.
            if runes = [] \<and> inscriptions = [] then Inr (Some [(key, val)]) else Inr None))))))"

definition get_non_metaprotocol_utxos ::
  "(kv_pair list \<Rightarrow> bool) \<Rightarrow> contents \<Rightarrow> TiKVAdapter \<Rightarrow> (kv_pair \<Rightarrow> bool) option \<Rightarrow> bool \<Rightarrow> Scanner \<Rightarrow>
     (UtxosByScriptHash_Key \<times> UtxosByScriptHash_Value) list mapi" where
  "get_non_metaprotocol_utxos fits at a filter_fn ignore_used_brc20 sc =
     mapi_bind (get_snapshot a RT_UtxosByScriptHash) (\<lambda>snap.
       run_scan fits (at snap) sc KV_SCAN_BATCH_SIZE (emit_plain_utxo at a filter_fn ignore_used_brc20))"

section \<open>Paging is invisible\<close>

definition key_sorted :: "kv_pair list \<Rightarrow> bool" where
  "key_sorted kvs \<longleftrightarrow> sorted_wrt (<) (map fst kvs)"

lemma filter_after_nth:
  assumes "sorted_wrt P L" "transp P" "irreflp P" "0 < m" "m \<le> length L"
  shows "filter (P (L ! (m - 1))) L = drop m L"
proof -
  have "\<not> P (L ! (m - 1)) x" if mem: "x \<in> set (take m L)" for x
  proof
    assume lt: "P (L ! (m - 1)) x"
    obtain i where i: "i < m" "x = L ! i" using mem assms(5) by (auto simp: in_set_conv_nth)
    have "i = m - 1 \<or> P (L ! i) (L ! (m - 1))"
      using sorted_wrt_nth_less [OF assms(1), of i "m - 1"] i(1) assms(4,5) by linarith
    then show False using lt i(2) assms(2,3) by (metis irreflpD transpD)
  qed
  moreover have "P (L ! (m - 1)) x" if mem: "x \<in> set (drop m L)" for x
  proof -
    obtain i where "m + i < length L" "x = L ! (m + i)"
      using mem by (metis in_set_conv_nth length_drop less_diff_conv add.commute nth_drop assms(5))
    then show ?thesis using sorted_wrt_nth_less [OF assms(1), of "m - 1" "m + i"] assms(4) by simp
  qed
  ultimately have "filter (P (L ! (m - 1))) (take m L @ drop m L) = drop m L"
    by (simp only: filter_append) (simp add: filter_empty_conv filter_id_conv)
  then show ?thesis by simp
qed

definition before :: "OrderParam \<Rightarrow> kv_pair \<Rightarrow> kv_pair \<Rightarrow> bool" where
  "before order x y \<longleftrightarrow> (case order of Asc \<Rightarrow> fst x < fst y | Desc \<Rightarrow> fst y < fst x)"

lemma listing_sorted: "key_sorted kvs \<Longrightarrow> sorted_wrt (before order) (listing order kvs rng)"
proof -
  assume "key_sorted kvs"
  then have "sorted_wrt (\<lambda>x y. fst x < fst y) kvs" by (simp add: key_sorted_def sorted_wrt_map)
  then have "sorted_wrt (\<lambda>x y. fst x < fst y) (filter (\<lambda>kv. fst kv \<noteq> [] \<and> in_range rng (fst kv)) kvs)"
    by (rule sorted_wrt_filter)
  then show ?thesis
    by (cases order) (simp_all add: listing_def before_def [abs_def] sorted_wrt_rev)
qed

lemma before_order: "transp (before order)" "irreflp (before order)"
  by (cases order; auto simp: before_def transp_def irreflp_def)+

lemma listing_range_after:
  assumes "fst kv \<noteq> []" "in_range rng (fst kv)"
  shows "listing order kvs (range_after order rng (fst kv)) = filter (before order kv) (listing order kvs rng)"
  using in_range_after [OF assms(2,1)]
  by (cases order) (auto simp: listing_def before_def rev_filter [symmetric] filter_filter intro!: filter_cong)

lemma listing_memD: "kv \<in> set (listing order kvs rng) \<Longrightarrow> kv \<in> set kvs \<and> fst kv \<noteq> [] \<and> in_range rng (fst kv)"
  by (cases order) (auto simp: listing_def)

lemma listing_rest:
  assumes "key_sorted kvs" "fetch_page order kvs rng n \<noteq> []"
  shows "listing order kvs (range_after order rng (fst (last (fetch_page order kvs rng n)))) =
    drop (unat n) (listing order kvs rng)"
proof -
  let ?L = "listing order kvs rng" and ?m = "min (unat n) (length (listing order kvs rng))"
  have page: "fetch_page order kvs rng n = take ?m ?L" by (simp add: fetch_page_def min_def)
  then have m: "0 < ?m" "?m \<le> length ?L" using assms(2) by auto
  have last: "last (take k L) = L ! (k - 1)" if "0 < k" "k \<le> length L" for k and L :: "kv_pair list"
    using that by (subst last_conv_nth) auto
  note last = last [OF m]
  then have mem: "?L ! (?m - 1) \<in> set ?L" using m by (intro nth_mem) linarith
  from listing_memD [OF this]
  have "listing order kvs (range_after order rng (fst (?L ! (?m - 1)))) = filter (before order (?L ! (?m - 1))) ?L"
    by (intro listing_range_after) auto
  also have "\<dots> = drop ?m ?L"
    by (rule filter_after_nth [OF listing_sorted [OF assms(1)] before_order m])
  finally show ?thesis unfolding page last by (simp add: min_def)
qed

lemma scan_items_append:
  "scan_items emit count (xs @ ys) acc =
     mapi_bind (scan_items emit count xs acc) (\<lambda>(acc, enough).
       if enough then Inr (acc, True) else scan_items emit count ys acc)"
proof (induction xs arbitrary: acc)
  case (Cons kv xs)
  show ?case
  proof (cases "emit kv")
    case (Inr r)
    then show ?thesis using Cons by (cases r) simp_all
  qed simp
qed simp

lemma half_positive:
  assumes "\<forall>kv \<in> set kvs. fits [kv]" "fetch_page order kvs rng n \<noteq> []" "\<not> fits (fetch_page order kvs rng n)"
  shows "0 < n div 2"
proof -
  let ?page = "fetch_page order kvs rng n"
  have "length ?page \<noteq> 1"
  proof
    assume "length ?page = 1"
    then obtain kv where kv: "?page = [kv]" by (auto simp: length_Suc_conv)
    then have "kv \<in> set (listing order kvs rng)"
      using in_set_takeD [of kv "unat n" "listing order kvs rng"] by (simp add: fetch_page_def)
    then show False using listing_memD assms(1,3) kv by fastforce
  qed
  moreover have "length ?page \<le> unat n" "length ?page \<noteq> 0" using assms(2) by (simp_all add: fetch_page_def)
  ultimately have "2 \<le> unat n" by linarith
  then have "0 < unat (n div 2)" by (simp add: unat_div)
  then show ?thesis by (simp add: word_less_nat_alt)
qed

lemma short_page:
  assumes "of_nat (length (fetch_page order kvs rng n)) < n"
  shows "drop (unat n) (listing order kvs rng) = []"
proof -
  have "length (fetch_page order kvs rng n) \<le> unat n" by (simp add: fetch_page_def)
  moreover have "length (fetch_page order kvs rng n) \<noteq> unat n" using assms by (auto simp del: length_0_conv)
  ultimately have "length (fetch_page order kvs rng n) < unat n" by linarith
  then show ?thesis by (simp add: fetch_page_def)
qed

lemma scan_items_page:
  "scan_items emit count (listing order kvs rng) acc =
     mapi_bind (scan_items emit count (fetch_page order kvs rng n) acc) (\<lambda>(acc, enough).
       if enough then Inr (acc, True) else scan_items emit count (drop (unat n) (listing order kvs rng)) acc)"
  unfolding fetch_page_def scan_items_append [symmetric] by simp

lemma scan_loop_one_pass:
  assumes "key_sorted kvs" "\<forall>kv \<in> set kvs. fits [kv]" "0 < n"
  shows "scan_loop order fits kvs emit count rng n acc =
    mapi_bind (scan_items emit count (listing order kvs rng) acc) (\<lambda>(xs, _). Inr xs)"
  using assms
proof (induction order fits kvs emit count rng n acc rule: scan_loop.induct)
  case (1 order fits kvs emit count rng n acc)
  let ?L = "listing order kvs rng" and ?page = "fetch_page order kvs rng n"
  note unfold = scan_loop.simps [of order fits kvs emit count rng n]
  consider "?page = []" | "?page \<noteq> []" "\<not> fits ?page" | "?page \<noteq> []" "fits ?page" by blast
  then show ?case
  proof cases
    case 1
    then have "?L = []" using \<open>0 < n\<close> by (simp add: fetch_page_def word_less_nat_alt)
    then show ?thesis using 1 by (simp add: unfold)
  next
    case 2
    with "1.IH"(1) [OF refl 2 "1.prems"(1,2) half_positive [OF "1.prems"(2) 2]]
    show ?thesis by (simp add: unfold)
  next
    case 3
    have step: "scan_loop order fits kvs emit count (range_after order rng (fst (last ?page))) n acc' =
        mapi_bind (scan_items emit count (drop (unat n) ?L) acc') (\<lambda>(xs, _). Inr xs)"
      if "scan_items emit count ?page acc = Inr (acc', False)" "\<not> of_nat (length ?page) < n" for acc'
      using "1.IH"(2) [OF refl 3(1) _ that(1) refl _ "1.prems"] 3 that(2) listing_rest [OF "1.prems"(1) 3(1)]
      by simp
    show ?thesis
    proof (cases "scan_items emit count ?page acc")
      case (Inr r)
      obtain acc' enough where r: "r = (acc', enough)" by force
      show ?thesis
        using 3 step short_page [of order kvs rng n] Inr r
        by (cases enough; cases "of_nat (length ?page) < n") (simp_all add: unfold scan_items_page [of _ _ _ _ _ _ n])
    qed (use 3 in \<open>simp add: unfold scan_items_page [of _ _ _ _ _ _ n]\<close>)
  qed
qed

section \<open>What a scan returns\<close>

definition emitted :: "(kv_pair \<Rightarrow> 'a list option) \<Rightarrow> kv_pair list \<Rightarrow> 'a list" where
  "emitted e xs = concat (map (\<lambda>kv. case e kv of Some ys \<Rightarrow> ys | None \<Rightarrow> []) xs)"

lemma scan_items_emitted:
  assumes "\<forall>kv \<in> set xs. emit kv = Inr (e kv)"
  shows "\<exists>ys d. scan_items emit count xs acc = Inr (ys, d) \<and> truncate_to count ys = truncate_to count (acc @ emitted e xs)"
  using assms
proof (induction xs arbitrary: acc)
  case (Cons kv xs)
  show ?case
  proof (cases "e kv")
    case None
    then show ?thesis using Cons by (simp add: emitted_def)
  next
    case (Some ys)
    show ?thesis
    proof (cases "case count of Some n \<Rightarrow> n \<le> length (acc @ ys) | None \<Rightarrow> False")
      case True
      then show ?thesis using Some Cons.prems by (auto simp: emitted_def truncate_to_def split: option.splits)
    next
      case False
      then show ?thesis using Some Cons.prems Cons.IH [of "acc @ ys"] by (simp add: emitted_def)
    qed
  qed
qed (auto simp: emitted_def)

lemma run_scan_emitted:
  assumes "key_sorted kvs" "\<forall>kv \<in> set kvs. fits [kv]" "0 < n"
    and "\<forall>kv \<in> set (listing (sc_order sc) kvs (sc_range sc)). emit kv = Inr (e kv)"
  shows "run_scan fits kvs sc n emit =
    Inr (truncate_to (sc_count sc) (emitted e (listing (sc_order sc) kvs (sc_range sc))))"
  using scan_items_emitted [OF assms(4), of "sc_count sc" "[]"]
  by (auto simp: run_scan_def scan_loop_one_pass [OF assms(1-3)])

lemma scan_items_sound:
  "scan_items emit count kvs acc = Inr (xs, d) \<Longrightarrow> x \<in> set xs \<Longrightarrow>
     x \<in> set acc \<or> (\<exists>kv \<in> set kvs. \<exists>ys. emit kv = Inr (Some ys) \<and> x \<in> set ys)"
proof (induction kvs arbitrary: acc)
  case (Cons kv kvs)
  obtain r where r: "emit kv = Inr r" using Cons.prems(1) by (auto simp: mapi_bind_Inr_iff)
  show ?case
  proof (cases r)
    case None
    then show ?thesis using Cons r by auto
  next
    case (Some ys)
    then show ?thesis using Cons.prems Cons.IH [of "acc @ ys"] r by (auto split: if_splits)
  qed
qed simp

lemma scan_loop_sound:
  "scan_loop order fits kvs emit count rng n acc = Inr xs \<Longrightarrow> x \<in> set xs \<Longrightarrow>
     x \<in> set acc \<or> (\<exists>kv \<in> set kvs. \<exists>ys. emit kv = Inr (Some ys) \<and> x \<in> set ys)"
proof (induction order fits kvs emit count rng n acc rule: scan_loop.induct)
  case (1 order fits kvs emit count rng n acc)
  let ?page = "fetch_page order kvs rng n"
  note unfold = scan_loop.simps [of order fits kvs emit count rng n]
  consider "?page = []" | "?page \<noteq> []" "\<not> fits ?page" | "?page \<noteq> []" "fits ?page" by blast
  then show ?case
  proof cases
    case 1
    then show ?thesis using "1.prems" by (simp add: unfold)
  next
    case 2
    then show ?thesis using "1.IH"(1) [OF refl 2] "1.prems" by (simp add: unfold)
  next
    case 3
    then obtain acc' enough where items: "scan_items emit count ?page acc = Inr (acc', enough)"
      and rest: "(if enough \<or> of_nat (length ?page) < n then Inr acc'
        else scan_loop order fits kvs emit count (range_after order rng (fst (last ?page))) n acc') = Inr xs"
      using "1.prems"(1) by (auto simp: unfold Let_def mapi_bind_Inr_iff)
    have sub: "set ?page \<subseteq> set kvs"
      using listing_memD in_set_takeD by (fastforce simp: fetch_page_def)
    have "x \<in> set acc' \<or> (\<exists>kv \<in> set kvs. \<exists>ys. emit kv = Inr (Some ys) \<and> x \<in> set ys)"
      using "1.IH"(2) [OF refl 3(1) _ items refl] 3 rest "1.prems"(2) by (auto split: if_splits)
    then show ?thesis using scan_items_sound [OF items] sub by blast
  qed
qed

section \<open>Properties\<close>

lemma emitted_pairs:
  "emitted (\<lambda>kv. if keep kv then Some [f kv] else None) xs = map f (filter keep xs)"
  by (induction xs) (simp_all add: emitted_def)

lemma emit_pair_decoded:
  assumes "decode_key kdec (fst kv) = Inr (dk kv)" "decode_or_malformed vdec (snd kv) = Inr (dv kv)"
  shows "emit_pair kdec vdec filter_fn kv =
    Inr (if (case filter_fn of Some f \<Rightarrow> f kv | None \<Rightarrow> True) then Some [(dk kv, dv kv)] else None)"
  using assms by (simp add: emit_pair_def split: option.splits)

text \<open>
  C7: A scan returns exactly the pairs of its range that pass the filter, decoded, in the order of the
  scan and cut off at the count, whatever the pages are: the page size does not show, not even when
  replies are too large and the pages are halved, as long as every single pair fits.
\<close>

theorem execute_with_filter_exact:
  assumes "get_snapshot a reducer_type = Inr snap" "key_sorted (at snap)" "\<forall>kv \<in> set (at snap). fits [kv]"
    and "filter_fn = None \<longrightarrow> (\<forall>n. sc_count sc = Some n \<longrightarrow> 0 < n \<and> n < 2 ^ 32)"
    and decoded: "\<forall>kv \<in> set (listing (sc_order sc) (at snap) (sc_range sc)).
           decode_key kdec (fst kv) = Inr (dk kv) \<and> decode_or_malformed vdec (snd kv) = Inr (dv kv)"
  shows "execute_with_filter fits at a reducer_type kdec vdec filter_fn sc =
    Inr (truncate_to (sc_count sc)
      (map (\<lambda>kv. (dk kv, dv kv))
        (filter (\<lambda>kv. case filter_fn of Some f \<Rightarrow> f kv | None \<Rightarrow> True)
          (listing (sc_order sc) (at snap) (sc_range sc)))))"
proof -
  let ?n = "if filter_fn = None then (case sc_count sc of Some n \<Rightarrow> of_nat n | None \<Rightarrow> KV_SCAN_BATCH_SIZE)
          else KV_SCAN_BATCH_SIZE"
  have "0 < (of_nat n :: u32)" if "0 < n" "n < 2 ^ 32" for n
    using that by (simp add: word_less_nat_alt unat_of_nat)
  then have "0 < ?n" using assms(4) by (auto simp: KV_SCAN_BATCH_SIZE_def split: option.splits)
  then have "run_scan fits (at snap) sc ?n (emit_pair kdec vdec filter_fn) =
      Inr (truncate_to (sc_count sc) (emitted
        (\<lambda>kv. if (case filter_fn of Some f \<Rightarrow> f kv | None \<Rightarrow> True) then Some [(dk kv, dv kv)] else None)
        (listing (sc_order sc) (at snap) (sc_range sc))))"
    using decoded emit_pair_decoded [of kdec _ dk vdec dv filter_fn]
    by (intro run_scan_emitted [OF assms(2,3)]) simp_all
  then show ?thesis unfolding emitted_pairs by (simp add: execute_with_filter_def assms(1))
qed

definition sample_contents :: contents where
  "sample_contents = (\<lambda>_. [([0, 0, 1, 68, 2, 96, 1], [7]), ([0, 0, 1, 68, 2, 96, 2], [8]), ([0, 0, 1, 68, 2, 96, 3], [9])])"

definition sample_scan_adapter :: TiKVAdapter where
  "sample_scan_adapter = insert_snapshot_and_encoder RT_UtxosByScriptHash 5 \<lparr>dataplane_id = 0, instance_id = 1\<rparr> sample_adapter"

definition sample_scanner :: Scanner where
  "sample_scanner = Scanner_count 2 (Scanner_order Desc (Scanner_new ([0, 0, 1, 68, 2, 96], [0, 0, 1, 68, 2, 97])))"

lemma sample_scan_snapshot: "get_snapshot sample_scan_adapter RT_UtxosByScriptHash = Inr 5"
  by (simp add: get_snapshot_def sample_scan_adapter_def insert_snapshot_and_encoder_def sample_adapter_def TiKVAdapter_new_def)

theorem execute_with_filter_exact_witness:
  "execute_with_filter (\<lambda>page. length page \<le> 1) sample_contents sample_scan_adapter RT_UtxosByScriptHash
     u8_decode u8_decode (Some (\<lambda>kv. snd kv \<noteq> [8])) sample_scanner = Inr [(3, 9), (1, 7)]"
proof -
  have l: "listing (sc_order sample_scanner) (sample_contents 5) (sc_range sample_scanner) =
      [([0, 0, 1, 68, 2, 96, 3], [9]), ([0, 0, 1, 68, 2, 96, 2], [8]), ([0, 0, 1, 68, 2, 96, 1], [7])]"
    by (simp add: listing_def sample_contents_def sample_scanner_def Scanner_count_def Scanner_order_def
        Scanner_new_def in_range_def)
  have "execute_with_filter (\<lambda>page. length page \<le> 1) sample_contents sample_scan_adapter RT_UtxosByScriptHash
      u8_decode u8_decode (Some (\<lambda>kv. snd kv \<noteq> [8])) sample_scanner =
    Inr (truncate_to (sc_count sample_scanner)
      (map (\<lambda>kv. (last (fst kv), hd (snd kv)))
        (filter (\<lambda>kv. case Some (\<lambda>kv. snd kv \<noteq> [8]) of Some f \<Rightarrow> f kv | None \<Rightarrow> True)
          (listing (sc_order sample_scanner) (sample_contents 5) (sc_range sample_scanner)))))"
  proof (rule execute_with_filter_exact [OF sample_scan_snapshot])
    show "key_sorted (sample_contents 5)" by (simp add: key_sorted_def sample_contents_def)
    show "\<forall>kv \<in> set (listing (sc_order sample_scanner) (sample_contents 5) (sc_range sample_scanner)).
        decode_key u8_decode (fst kv) = Inr (last (fst kv)) \<and> decode_or_malformed u8_decode (snd kv) = Inr (hd (snd kv))"
      by (simp add: l decode_key_def key_suffix_def Namespace_size_def decode_or_malformed_def u8_decode_def)
  qed simp_all
  then show ?thesis
    unfolding l by (simp add: truncate_to_def sample_scanner_def Scanner_count_def Scanner_order_def Scanner_new_def)
qed


lemma emit_plain_utxo_clean:
  assumes "emit_plain_utxo at a filter_fn ignore kv = Inr (Some ys)" "(key, val) \<in> set ys"
  shows "\<exists>runes inscriptions.
    get_reducer_key_maybe (point_read at) a (RT_RuneUtxosByScriptHash, Reducer_RuneUtxosByScriptHash)
      UtxosByScriptHash_Key_encode RuneUtxosByScriptHash_Value_decode key = Inr runes
    \<and> (case runes of Some x \<Rightarrow> rubshv_runes x = [] | None \<Rightarrow> True)
    \<and> get_reducer_key_maybe (point_read at) a (RT_InscriptionUtxosByScriptHash, Reducer_InscriptionUtxosByScriptHash)
      UtxosByScriptHash_Key_encode InscriptionUtxosByScriptHash_Value_decode key = Inr inscriptions
    \<and> (case inscriptions of
         Some x \<Rightarrow> (if ignore then mapi_filter (keep_inscription at a key) (iubshv_inscriptions x) = Inr []
                    else iubshv_inscriptions x = [])
       | None \<Rightarrow> True)"
proof -
  obtain k v runes inscriptions kept where ys: "ys = [(k, v)]"
    and r: "get_reducer_key_maybe (point_read at) a (RT_RuneUtxosByScriptHash, Reducer_RuneUtxosByScriptHash)
      UtxosByScriptHash_Key_encode RuneUtxosByScriptHash_Value_decode k = Inr runes"
      "(case runes of Some x \<Rightarrow> rubshv_runes x | None \<Rightarrow> []) = []"
    and i: "get_reducer_key_maybe (point_read at) a (RT_InscriptionUtxosByScriptHash, Reducer_InscriptionUtxosByScriptHash)
      UtxosByScriptHash_Key_encode InscriptionUtxosByScriptHash_Value_decode k = Inr inscriptions"
    and f: "(if ignore then mapi_filter (keep_inscription at a k)
        (case inscriptions of Some x \<Rightarrow> iubshv_inscriptions x | None \<Rightarrow> [])
      else Inr (case inscriptions of Some x \<Rightarrow> iubshv_inscriptions x | None \<Rightarrow> [])) = Inr []"
    using assms(1) unfolding emit_plain_utxo_def Let_def by (auto simp: mapi_bind_Inr_iff split: if_splits)
  then show ?thesis using assms(2) by (auto split: option.splits if_splits)
qed

text \<open>
  C8: A UTxO that the API offers as free of metaprotocol assets holds no runes in the snapshot of the
  request and no inscription, or, when used BRC-20 inscriptions are ignored, none that counts.
\<close>

theorem plain_utxos_hold_no_assets:
  assumes "get_non_metaprotocol_utxos fits at a filter_fn ignore sc = Inr xs" "(key, val) \<in> set xs"
  shows "\<exists>runes inscriptions.
    get_reducer_key_maybe (point_read at) a (RT_RuneUtxosByScriptHash, Reducer_RuneUtxosByScriptHash)
      UtxosByScriptHash_Key_encode RuneUtxosByScriptHash_Value_decode key = Inr runes
    \<and> (case runes of Some x \<Rightarrow> rubshv_runes x = [] | None \<Rightarrow> True)
    \<and> get_reducer_key_maybe (point_read at) a (RT_InscriptionUtxosByScriptHash, Reducer_InscriptionUtxosByScriptHash)
      UtxosByScriptHash_Key_encode InscriptionUtxosByScriptHash_Value_decode key = Inr inscriptions
    \<and> (case inscriptions of
         Some x \<Rightarrow> (if ignore then mapi_filter (keep_inscription at a key) (iubshv_inscriptions x) = Inr []
                    else iubshv_inscriptions x = [])
       | None \<Rightarrow> True)"
proof -
  obtain snap ys where run: "scan_loop (sc_order sc) fits (at snap) (emit_plain_utxo at a filter_fn ignore) (sc_count sc)
      (sc_range sc) KV_SCAN_BATCH_SIZE [] = Inr ys" and xs: "xs = truncate_to (sc_count sc) ys"
    using assms(1) by (auto simp: get_non_metaprotocol_utxos_def run_scan_def mapi_bind_Inr_iff)
  have "(key, val) \<in> set ys"
    using assms(2) unfolding xs by (auto simp: truncate_to_def dest: in_set_takeD split: option.splits)
  with run have "(key, val) \<in> set [] \<or> (\<exists>kv \<in> set (at snap). \<exists>zs.
      emit_plain_utxo at a filter_fn ignore kv = Inr (Some zs) \<and> (key, val) \<in> set zs)"
    by (rule scan_loop_sound)
  then obtain kv zs where "emit_plain_utxo at a filter_fn ignore kv = Inr (Some zs)" "(key, val) \<in> set zs"
    by (simp only: list.set empty_iff simp_thms) blast
  then show ?thesis by (rule emit_plain_utxo_clean)
qed

definition plain_ns :: Namespace where
  "plain_ns = \<lparr>dataplane_id = 0, instance_id = 1\<rparr>"

definition plain_key :: UtxosByScriptHash_Key where
  "plain_key = \<lparr>ubshk_script_hash = replicate 20 1, ubshk_height = 7, ubshk_utxo_hash = replicate 32 2, ubshk_utxo_index = 0\<rparr>"

definition plain_contents :: contents where
  "plain_contents = (\<lambda>snap. if snap = 1
     then [(Prefix_data plain_ns Reducer_UtxosByScriptHash UtxosByScriptHash_Key_encode plain_key,
            UtxosByScriptHash_Value_encode \<lparr>ubshv_satoshis = 546\<rparr>)]
     else [])"

definition plain_adapter :: TiKVAdapter where
  "plain_adapter = sample_adapter\<lparr>snapshots := [(RT_UtxosByScriptHash, (1, plain_ns)),
     (RT_RuneUtxosByScriptHash, (2, plain_ns)), (RT_InscriptionUtxosByScriptHash, (3, plain_ns))]\<rparr>"

lemma plain_scan:
  "get_non_metaprotocol_utxos (\<lambda>_. True) plain_contents plain_adapter None False (Scanner_new ([], [])) =
     Inr [(plain_key, \<lparr>ubshv_satoshis = 546\<rparr>)]"
proof -
  let ?k = "Prefix_data plain_ns Reducer_UtxosByScriptHash UtxosByScriptHash_Key_encode plain_key"
  let ?v = "UtxosByScriptHash_Value_encode \<lparr>ubshv_satoshis = 546\<rparr>"
  have dec: "UtxosByScriptHash_Key_decode (UtxosByScriptHash_Key_encode plain_key) = Inr (plain_key, [])"
    "UtxosByScriptHash_Value_decode ?v = Inr (\<lparr>ubshv_satoshis = 546\<rparr>, [])"
    by (rule ubsh_key.dec_enc_exact ubsh_value.dec_enc_exact,
        simp add: UtxosByScriptHash_Key_wf_def UtxosByScriptHash_Value_wf_def plain_key_def array_wf_def)+
  have "emit_plain_utxo plain_contents plain_adapter None False (?k, ?v) = Inr (Some [(plain_key, \<lparr>ubshv_satoshis = 546\<rparr>)])"
    by (simp add: emit_plain_utxo_def decode_key_def decode_or_malformed_def dec get_reducer_key_maybe_def
        plain_adapter_def plain_contents_def point_read_def)
  moreover have "listing Asc (plain_contents 1) ([], []) = [(?k, ?v)]"
    by (simp add: listing_def plain_contents_def in_range_def Prefix_data_shape)
  ultimately show ?thesis
    by (simp add: get_non_metaprotocol_utxos_def get_snapshot_def run_scan_def scan_loop.simps fetch_page_def
        Scanner_new_def plain_adapter_def KV_SCAN_BATCH_SIZE_def truncate_to_def)
qed

theorem plain_utxos_hold_no_assets_witness:
  "\<exists>runes. get_reducer_key_maybe (point_read plain_contents) plain_adapter
      (RT_RuneUtxosByScriptHash, Reducer_RuneUtxosByScriptHash)
      UtxosByScriptHash_Key_encode RuneUtxosByScriptHash_Value_decode plain_key = Inr runes
    \<and> (case runes of Some x \<Rightarrow> rubshv_runes x = [] | None \<Rightarrow> True)"
  using plain_utxos_hold_no_assets [OF plain_scan, of plain_key "\<lparr>ubshv_satoshis = 546\<rparr>"] by (simp only: list.set_intros simp_thms) blast

end
