(* ===== verification/Block_Model.thy ===== *)
theory Block_Model
  imports Split_Commit "HOL-Library.AList"
begin

text \<open>
  The input of the reducers: blocks and transactions, the block context that resolves what a
  transaction spends and holds (\<open>services/polyphony-xbt/src/model.rs\<close>) and the policy for missing
  data (\<open>crosscut/policies.rs\<close>). The types of the \<open>bitcoin\<close>, \<open>ord\<close> and \<open>ordinals\<close> crates
  are records of the fields the reducers read; the functions of these crates are the fields of
  \<open>bitcoin_lib\<close>, an argument of every reducer that calls one.

  A hash map is an association list with distinct keys, a hash set a list without repetitions. They are
  iterated in an unspecified order: a reducer that iterates one takes the order as an argument, the
  positions of the entries in the order they are visited.
\<close>

section \<open>Transactions and blocks\<close>

record OutPoint =
  op_txid :: bytes
  op_vout :: u32

record TxOut =
  txo_value :: u64
  script_pubkey :: bytes

record TxIn =
  previous_output :: OutPoint
  script_sig :: bytes
  txin_sequence :: u32
  witness :: "bytes list"

record Transaction =
  tx_version :: u32
  lock_time :: u32
  tx_input :: "TxIn list"
  tx_output :: "TxOut list"

record Block =
  header_version :: u32
  prev_blockhash :: bytes
  merkle_root :: bytes
  header_time :: u32
  header_bits :: u32
  header_nonce :: u32
  txdata :: "Transaction list"

type_synonym TransactionsWithIds = "(Transaction \<times> bytes) list"

record Terms =
  terms_amount :: "u128 option"
  terms_cap :: "u128 option"
  terms_height :: "u64 option \<times> u64 option"
  terms_offset :: "u64 option \<times> u64 option"

record Etching =
  etch_divisibility :: "u8 option"
  etch_premine :: "u128 option"
  etch_rune :: "u128 option"
  etch_spacers :: "u32 option"
  etch_symbol :: "u32 option"
  etch_terms :: "Terms option"
  etch_turbo :: bool

record Edict =
  edict_id :: RuneId
  edict_amount :: u128
  edict_output :: u32

record Runestone =
  rs_edicts :: "Edict list"
  rs_etching :: "Etching option"
  rs_mint :: "RuneId option"
  rs_pointer :: "u32 option"

record Cenotaph =
  ceno_etching :: "u128 option"
  ceno_mint :: "RuneId option"

datatype Artifact = Art_Runestone Runestone | Art_Cenotaph Cenotaph

text \<open>An inscription in the witness of a transaction: the type and the body of its content.\<close>

record Envelope =
  env_content_type :: "bytes option"
  env_body :: "bytes option"

text \<open>The text of a BRC-20 message; a string is the list of its UTF-8 bytes, as characters.\<close>

record RawProtocolMessage =
  raw_p :: string
  raw_op :: string
  raw_tick :: string
  raw_max :: "string option"
  raw_lim :: "string option"
  raw_dec :: "string option"
  raw_self_mint :: "string option"
  raw_amt :: "string option"

record bitcoin_lib =
  script_hash :: "bytes \<Rightarrow> bytes"
  is_op_return :: "bytes \<Rightarrow> bool"
  is_coinbase :: "Transaction \<Rightarrow> bool"
  vsize :: "Transaction \<Rightarrow> u64"
  total_size :: "Transaction \<Rightarrow> u64"
  base_size :: "Transaction \<Rightarrow> u64"
  block_hash :: "Block \<Rightarrow> bytes"
  block_total_size :: "Block \<Rightarrow> u64"
  block_weight :: "Block \<Rightarrow> u64"
  header_size :: u64
  varint_size :: "u64 \<Rightarrow> u64"
  address_script :: "bytes \<Rightarrow> bytes option"
  decode_txout :: "bytes \<Rightarrow> TxOut option"
  envelopes :: "Transaction \<Rightarrow> Envelope list"
  decipher :: "Transaction \<Rightarrow> Artifact option"
  artifact_mint :: "Artifact \<Rightarrow> RuneId option"
  reserved_rune :: "u64 \<Rightarrow> u32 \<Rightarrow> u128"
  content_type :: "Envelope \<Rightarrow> string option"
  from_json :: "bytes \<Rightarrow> RawProtocolMessage option"
  str_to_lowercase :: "string \<Rightarrow> bytes"

section \<open>Hash maps, hash sets and loops\<close>

text \<open>\<open>entry(k).and_modify(|x| *x += v).or_insert(v)\<close>\<close>

definition entry_add :: "'k \<Rightarrow> 'v::plus \<Rightarrow> ('k \<times> 'v) list \<Rightarrow> ('k \<times> 'v) list" where
  "entry_add k v m = AList.update k (case map_of m k of None \<Rightarrow> v | Some x \<Rightarrow> x + v) m"

text \<open>\<open>entry(k).or_default().push(v)\<close>\<close>

definition entry_push :: "'k \<Rightarrow> 'v \<Rightarrow> ('k \<times> 'v list) list \<Rightarrow> ('k \<times> 'v list) list" where
  "entry_push k v m = AList.update k (case map_of m k of None \<Rightarrow> [v] | Some xs \<Rightarrow> xs @ [v]) m"

definition set_insert :: "'a \<Rightarrow> 'a list \<Rightarrow> 'a list" where
  "set_insert x xs = (if x \<in> set xs then xs else xs @ [x])"

text \<open>\<open>entry(k)\<close> with a set as the value, into which \<open>v\<close> goes.\<close>

definition entry_insert :: "'k \<Rightarrow> 'v \<Rightarrow> ('k \<times> 'v list) list \<Rightarrow> ('k \<times> 'v list) list" where
  "entry_insert k v m = AList.update k (case map_of m k of None \<Rightarrow> [v] | Some xs \<Rightarrow> set_insert v xs) m"

text \<open>Maps of maps: adding to, or writing, the value at two keys.\<close>

definition nested :: "'k \<Rightarrow> ('k \<times> ('j \<times> 'v) list) list \<Rightarrow> ('j \<times> 'v) list" where
  "nested k m = (case map_of m k of None \<Rightarrow> [] | Some n \<Rightarrow> n)"

definition nested_add :: "'k \<Rightarrow> 'j \<Rightarrow> 'v::plus \<Rightarrow> ('k \<times> ('j \<times> 'v) list) list \<Rightarrow> ('k \<times> ('j \<times> 'v) list) list" where
  "nested_add k j v m = AList.update k (entry_add j v (nested k m)) m"

definition nested_insert :: "'k \<Rightarrow> 'j \<Rightarrow> 'v \<Rightarrow> ('k \<times> ('j \<times> 'v) list) list \<Rightarrow> ('k \<times> ('j \<times> 'v) list) list" where
  "nested_insert k j v m = AList.update k (AList.update j v (nested k m)) m"

text \<open>\<open>*entry(k).or_default()\<close> and \<open>*entry(k).or_default() += 1\<close> on counters.\<close>

definition counter_of :: "'k \<Rightarrow> ('k \<times> u32) list \<Rightarrow> u32" where
  "counter_of k m = (case map_of m k of None \<Rightarrow> 0 | Some n \<Rightarrow> n)"

definition counter_incr :: "'k \<Rightarrow> ('k \<times> u32) list \<Rightarrow> ('k \<times> u32) list" where
  "counter_incr k m = AList.update k (counter_of k m + 1) m"

type_synonym hash_order = "bytes \<Rightarrow> nat \<Rightarrow> nat list"

text \<open>The entries of a table in the order it is visited; tables built for one transaction go by its hash.\<close>

definition hash_iter :: "hash_order \<Rightarrow> bytes \<Rightarrow> 'a list \<Rightarrow> 'a list" where
  "hash_iter ord seed xs = map (nth xs) (ord seed (length xs))"

definition hash_order_ok :: "hash_order \<Rightarrow> bool" where
  "hash_order_ok ord \<longleftrightarrow> (\<forall>seed n. mset (ord seed n) = mset [0..<n])"

text \<open>
  A loop whose body may return from the function: \<open>Next\<close> goes on with the state, \<open>Stop\<close> is
  \<open>return Ok(())\<close> with what the function has changed so far.
\<close>

datatype ('s, 'r) flow = Next 's | Stop 'r

definition flow_bind :: "('s, 'r) flow work \<Rightarrow> ('s \<Rightarrow> ('t, 'r) flow work) \<Rightarrow> ('t, 'r) flow work" where
  "flow_bind r f = work_bind r (\<lambda>x. case x of Next s \<Rightarrow> f s | Stop y \<Rightarrow> Inr (Stop y))"

primrec for_each :: "('a \<Rightarrow> 's \<Rightarrow> ('s, 'r) flow work) \<Rightarrow> 'a list \<Rightarrow> 's \<Rightarrow> ('s, 'r) flow work" where
  "for_each f [] s = Inr (Next s)"
| "for_each f (x # xs) s = flow_bind (f x s) (for_each f xs)"

definition flow_result :: "('r, 'r) flow work \<Rightarrow> 'r work" where
  "flow_result r = work_bind r (\<lambda>x. case x of Next s \<Rightarrow> Inr s | Stop y \<Rightarrow> Inr y)"

section \<open>The block context\<close>

type_synonym OrdinalRange = "u64 \<times> u64"

record ContextUtxo =
  cu_height :: u64
  cu_txo :: TxOut
  cu_ords :: "OrdinalRange list"

datatype BRC20Message =
    Brc_Deploy bytes
  | Brc_Mint bytes u128 ScriptHash
  | Brc_Transfer bytes u128 OutPoint ScriptHash
  | Brc_TransferInit bytes u128 ScriptHash

record BlockContext =
  input_resolver :: "(OutPoint \<times> ContextUtxo) list"
  runes_resolver :: "(OutPoint \<times> (RuneId \<times> u128) list) list"
  rune_mint_idxs :: "u32 list"
  rune_etch_idxs :: "u32 list"
  inscriptions_resolver :: "(OutPoint \<times> (u32 \<times> InscriptionId) list) list"
  valid_reinscriptions :: "(u32 \<times> u32) list"
  brc20_resolver :: "(InscriptionId \<times> BRC20Message list) list"
  ctx_new_inscriptions :: "(InscriptionId \<times> u64) list"

definition BlockContext_new :: BlockContext where
  "BlockContext_new = \<lparr>input_resolver = [], runes_resolver = [], rune_mint_idxs = [], rune_etch_idxs = [],
     inscriptions_resolver = [], valid_reinscriptions = [], brc20_resolver = [], ctx_new_inscriptions = []\<rparr>"

definition insert_txo :: "bitcoin_lib \<Rightarrow> OutPoint \<Rightarrow> u64 \<Rightarrow> bytes \<Rightarrow> OrdinalRange list \<Rightarrow> BlockContext \<Rightarrow> BlockContext work" where
  "insert_txo L key height raw ords ctx =
     work_bind (unwrap (decode_txout L raw)) (\<lambda>txo.
     Inr (ctx\<lparr>input_resolver := AList.update key \<lparr>cu_height = height, cu_txo = txo, cu_ords = ords\<rparr> (input_resolver ctx)\<rparr>))"

definition insert_runes :: "OutPoint \<Rightarrow> (RuneId \<times> u128) list \<Rightarrow> BlockContext \<Rightarrow> BlockContext" where
  "insert_runes key runes ctx = ctx\<lparr>runes_resolver := AList.update key runes (runes_resolver ctx)\<rparr>"

definition insert_inscriptions :: "OutPoint \<Rightarrow> (u32 \<times> InscriptionId) list \<Rightarrow> BlockContext \<Rightarrow> BlockContext" where
  "insert_inscriptions key inscriptions ctx =
     ctx\<lparr>inscriptions_resolver := AList.update key inscriptions (inscriptions_resolver ctx)\<rparr>"

definition insert_brc20 :: "InscriptionId \<Rightarrow> BRC20Message \<Rightarrow> BlockContext \<Rightarrow> BlockContext" where
  "insert_brc20 key action ctx = ctx\<lparr>brc20_resolver := entry_push key action (brc20_resolver ctx)\<rparr>"

datatype crate_error =
    ConfigError string | NetworkError string | MissingUtxo OutPoint | SourceError string | StorageError string
  | IntersectNotFound | Message string | Custom string | Encoding string | RollbackOutOfRange Point

definition find_utxo :: "BlockContext \<Rightarrow> OutPoint \<Rightarrow> crate_error + ContextUtxo" where
  "find_utxo ctx key = (case map_of (input_resolver ctx) key of None \<Rightarrow> Inl (MissingUtxo key) | Some utxo \<Rightarrow> Inr utxo)"

definition utxo_runes :: "BlockContext \<Rightarrow> OutPoint \<Rightarrow> (RuneId \<times> u128) list option" where
  "utxo_runes ctx key = map_of (runes_resolver ctx) key"

definition utxo_inscriptions :: "BlockContext \<Rightarrow> OutPoint \<Rightarrow> (u32 \<times> InscriptionId) list option" where
  "utxo_inscriptions ctx key = map_of (inscriptions_resolver ctx) key"

definition inscription_brc20s :: "BlockContext \<Rightarrow> InscriptionId \<Rightarrow> BRC20Message list option" where
  "inscription_brc20s ctx key = map_of (brc20_resolver ctx) key"

definition brc20_existence :: "BlockContext \<Rightarrow> bool" where
  "brc20_existence ctx \<longleftrightarrow> list_ex (\<lambda>(_, messages). messages \<noteq> []) (brc20_resolver ctx)"

definition insert_new_inscription :: "InscriptionId \<Rightarrow> u64 \<Rightarrow> BlockContext \<Rightarrow> BlockContext" where
  "insert_new_inscription key inscription_num ctx =
     ctx\<lparr>ctx_new_inscriptions := AList.update key inscription_num (ctx_new_inscriptions ctx)\<rparr>"

definition new_inscriptions :: "BlockContext \<Rightarrow> InscriptionId \<Rightarrow> u64 option" where
  "new_inscriptions ctx key = map_of (ctx_new_inscriptions ctx) key"

definition get_all_new_inscriptions :: "BlockContext \<Rightarrow> (InscriptionId \<times> u64) list" where
  "get_all_new_inscriptions ctx = ctx_new_inscriptions ctx"

section \<open>The policy for missing data\<close>

datatype ErrorAction = EA_Skip | EA_Warn | EA_Default

record RuntimePolicy =
  missing_data :: "ErrorAction option"
  rollback_errors :: "ErrorAction option"
  any_error :: "ErrorAction option"

fun handle_error :: "crate_error \<Rightarrow> ErrorAction option \<Rightarrow> crate_error + 'a option" where
  "handle_error err (Some EA_Skip) = Inr None"
| "handle_error err (Some EA_Warn) = Inr None"
| "handle_error err _ = Inl err"

definition apply_policy :: "RuntimePolicy \<Rightarrow> crate_error + 'a \<Rightarrow> crate_error + 'a option" where
  "apply_policy policy r =
     (case r of
        Inr t \<Rightarrow> Inr (Some t)
      | Inl err \<Rightarrow>
          if any_error policy \<noteq> None then handle_error err (any_error policy)
          else (case err of
             MissingUtxo _ \<Rightarrow> handle_error err (missing_data policy)
           | RollbackOutOfRange _ \<Rightarrow> handle_error err (rollback_errors policy)
           | _ \<Rightarrow> Inl err))"

definition error_or_panic :: "crate_error + 'a \<Rightarrow> 'a work" where
  "error_or_panic r = (case r of Inl _ \<Rightarrow> Inl WorkPanic | Inr x \<Rightarrow> Inr x)"

text \<open>\<open>ctx.find_utxo(input).apply_policy(&self.policy).or_panic()?\<close>\<close>

definition resolve_utxo :: "BlockContext \<Rightarrow> RuntimePolicy \<Rightarrow> OutPoint \<Rightarrow> ContextUtxo option work" where
  "resolve_utxo ctx policy input = error_or_panic (apply_policy policy (find_utxo ctx input))"

text \<open>The same, followed by \<open>None => return Ok(())\<close> in the body of a loop.\<close>

definition resolve_or_stop ::
  "BlockContext \<Rightarrow> RuntimePolicy \<Rightarrow> 'r \<Rightarrow> OutPoint \<Rightarrow> (ContextUtxo \<Rightarrow> ('s, 'r) flow work) \<Rightarrow> ('s, 'r) flow work" where
  "resolve_or_stop ctx policy r input f =
     work_bind (resolve_utxo ctx policy input) (\<lambda>u. case u of Some utxo \<Rightarrow> f utxo | None \<Rightarrow> Inr (Stop r))"

section \<open>The inputs and outputs of a block\<close>

definition outpoint_at :: "bytes \<Rightarrow> nat \<Rightarrow> OutPoint" where
  "outpoint_at txid idx = \<lparr>op_txid = txid, op_vout = of_nat idx\<rparr>"

definition prev_outputs :: "Transaction \<Rightarrow> OutPoint list" where
  "prev_outputs tx = map previous_output (tx_input tx)"

definition indexed_outputs :: "Transaction \<Rightarrow> (nat \<times> TxOut) list" where
  "indexed_outputs tx = enumerate 0 (tx_output tx)"

text \<open>
  The loop most reducers share: for every transaction the outputs it spends, but for a coinbase
  transaction, and then the outputs it makes with their outpoints.
\<close>

definition for_txos ::
  "bitcoin_lib \<Rightarrow> (OutPoint \<Rightarrow> 's \<Rightarrow> 's work) \<Rightarrow> (OutPoint \<Rightarrow> TxOut \<Rightarrow> 's \<Rightarrow> 's work) \<Rightarrow>
   TransactionsWithIds \<Rightarrow> 's \<Rightarrow> 's work" where
  "for_txos L consumed produced txs s =
     work_fold (\<lambda>(tx, txid) s.
       work_bind (if \<not> is_coinbase L tx then work_fold consumed (prev_outputs tx) s else Inr s)
         (work_fold (\<lambda>(idx, txo). produced (outpoint_at txid idx) txo) (indexed_outputs tx))) txs s"

text \<open>The same loop without the outputs that are both made and spent in the block.\<close>

definition block_txids :: "TransactionsWithIds \<Rightarrow> bytes list" where
  "block_txids txs = map snd txs"

definition chained_txos :: "TransactionsWithIds \<Rightarrow> OutPoint list" where
  "chained_txos txs =
     filter (\<lambda>x. op_txid x \<in> set (block_txids txs)) (concat (map (\<lambda>x. prev_outputs (fst x)) txs))"

definition for_unchained_txos ::
  "bitcoin_lib \<Rightarrow> (OutPoint \<Rightarrow> 's \<Rightarrow> 's work) \<Rightarrow> (OutPoint \<Rightarrow> TxOut \<Rightarrow> 's \<Rightarrow> 's work) \<Rightarrow>
   TransactionsWithIds \<Rightarrow> 's \<Rightarrow> 's work" where
  "for_unchained_txos L consumed produced txs s =
     work_fold (\<lambda>(tx, txid) s.
       work_bind (work_fold (\<lambda>txin s.
           if op_txid txin \<in> set (block_txids txs) \<or> is_coinbase L tx then Inr s else consumed txin s)
         (prev_outputs tx) s)
       (work_fold (\<lambda>(idx, txo) s.
           if outpoint_at txid idx \<in> set (chained_txos txs) then Inr s else produced (outpoint_at txid idx) txo s)
         (indexed_outputs tx))) txs s"

section \<open>Iterating hash maps\<close>

lemma hash_iter_mset:
  assumes "hash_order_ok ord"
  shows "mset (hash_iter ord seed xs) = mset xs"
proof -
  have "mset (hash_iter ord seed xs) = image_mset (nth xs) (mset (ord seed (length xs)))"
    by (simp add: hash_iter_def)
  also have "\<dots> = image_mset (nth xs) (mset [0..<length xs])" using assms by (simp add: hash_order_ok_def)
  also have "\<dots> = mset (map (nth xs) [0..<length xs])" by simp
  finally show ?thesis by (simp add: map_nth)
qed

lemma hash_iter_set [simp]: "hash_order_ok ord \<Longrightarrow> set (hash_iter ord seed xs) = set xs"
  by (metis hash_iter_mset set_mset_mset)

lemma hash_iter_distinct: "hash_order_ok ord \<Longrightarrow> distinct (hash_iter ord seed xs) \<longleftrightarrow> distinct xs"
  by (metis hash_iter_mset mset_eq_imp_distinct_iff)

lemma hash_iter_map: "hash_order_ok ord \<Longrightarrow> map f (hash_iter ord seed xs) = hash_iter ord seed (map f xs)"
proof -
  assume "hash_order_ok ord"
  then have "set (ord seed (length xs)) = {0..<length xs}" unfolding hash_order_ok_def by (metis set_mset_mset set_upt)
  then show ?thesis by (auto simp: hash_iter_def)
qed

lemma hash_iter_keys: "hash_order_ok ord \<Longrightarrow> distinct (map fst (hash_iter ord seed m)) \<longleftrightarrow> distinct (map fst m)"
  by (simp add: hash_iter_map hash_iter_distinct)

lemma hash_iter_map_of:
  assumes "hash_order_ok ord" "distinct (map fst m)"
  shows "map_of (hash_iter ord seed m) = map_of m"
  using assms by (simp add: map_of_inject_set hash_iter_keys)

section \<open>A sample library and sample transactions\<close>

definition sample_lib :: bitcoin_lib where
  "sample_lib = \<lparr>script_hash = (\<lambda>s. s), is_op_return = (\<lambda>s. s = []), is_coinbase = (\<lambda>tx. tx_input tx = []),
     vsize = (\<lambda>_. 100), total_size = (\<lambda>_. 100), base_size = (\<lambda>_. 100), block_hash = merkle_root,
     block_total_size = (\<lambda>_. 200), block_weight = (\<lambda>_. 800), header_size = 80, varint_size = (\<lambda>_. 1),
     address_script = Some, decode_txout = (\<lambda>_. None), envelopes = (\<lambda>_. []), decipher = (\<lambda>_. None),
     artifact_mint = (\<lambda>_. None), reserved_rune = (\<lambda>_ _. 0), content_type = (\<lambda>_. None),
     from_json = (\<lambda>_. None), str_to_lowercase = map of_char\<rparr>"

definition sample_order :: hash_order where
  "sample_order = (\<lambda>_ n. [0..<n])"

definition sample_input :: "bytes \<Rightarrow> u32 \<Rightarrow> TxIn" where
  "sample_input txid vout = \<lparr>previous_output = \<lparr>op_txid = txid, op_vout = vout\<rparr>, script_sig = [], txin_sequence = 0, witness = []\<rparr>"

definition sample_policy :: RuntimePolicy where
  "sample_policy = \<lparr>missing_data = None, rollback_errors = None, any_error = None\<rparr>"

definition sample_utxo :: "u64 \<Rightarrow> bytes \<Rightarrow> ContextUtxo" where
  "sample_utxo sats script = \<lparr>cu_height = 5, cu_txo = \<lparr>txo_value = sats, script_pubkey = script\<rparr>, cu_ords = []\<rparr>"

end
