(* ===== verification/Reducers_Chain.thy ===== *)
theory Reducers_Chain
  imports Block_Model
begin

text \<open>
  The reducers of the chain itself (\<open>services/polyphony-xbt/src/reducers\<close>): blocks, transactions,
  unspent outputs, satoshi balances and scripts. One definition per \<open>reduce_block\<close>, with the helpers
  \<open>process_consumed_txo\<close> and \<open>process_produced_txo\<close> where the source has them. A reducer appends to the
  outputs it is given; where the source returns early on a missing output that the policy skips, what
  has been appended so far is the result.
\<close>

section \<open>Blocks\<close>

definition block_by_tx_hash_reduce_block ::
  "u64 \<Rightarrow> TransactionsWithIds \<Rightarrow> ReducerOutput list \<Rightarrow> ReducerOutput list work" where
  "block_by_tx_hash_reduce_block block_height txs outputs =
     Inr (outputs @ map (\<lambda>(_, tx_hash). Out_BlockByTxHash tx_hash block_height) txs)"

text \<open>Size and weight of a block; those of an estimated block are computed from its transactions.\<close>

definition block_sizes :: "bitcoin_lib \<Rightarrow> Block option \<Rightarrow> TransactionsWithIds \<Rightarrow> u64 \<times> u64" where
  "block_sizes L block txs =
     (case block of
        Some b \<Rightarrow> (block_total_size L b, block_weight L b)
      | None \<Rightarrow>
          let total = header_size L + varint_size L (of_nat (length txs)) + sum_list (map (\<lambda>(tx, _). total_size L tx) txs);
              base = header_size L + varint_size L (of_nat (length txs)) + sum_list (map (\<lambda>(tx, _). base_size L tx) txs)
          in (total, 3 * base + total))"

record block_totals =
  bt_fees :: u128
  bt_volume :: u128
  bt_inscriptions :: bool
  bt_runes :: bool
  bt_brc20 :: bool
  bt_coinbase_script_sig :: bytes

definition involve :: "BlockContext \<Rightarrow> OutPoint \<Rightarrow> block_totals \<Rightarrow> block_totals" where
  "involve ctx outpoint t =
     t\<lparr>bt_inscriptions := bt_inscriptions t \<or> utxo_inscriptions ctx outpoint \<noteq> None,
       bt_runes := bt_runes t \<or> utxo_runes ctx outpoint \<noteq> None,
       bt_brc20 := bt_brc20 t \<or> brc20_existence ctx\<rparr>"

definition block_info_tx ::
  "bitcoin_lib \<Rightarrow> RuntimePolicy \<Rightarrow> BlockContext \<Rightarrow> ReducerOutput list \<Rightarrow> Transaction \<times> bytes \<Rightarrow> block_totals \<Rightarrow>
   (block_totals, ReducerOutput list) flow work" where
  "block_info_tx L policy ctx outputs = (\<lambda>(tx, tx_hash) t.
     flow_bind
       (if \<not> is_coinbase L tx then
          for_each (\<lambda>outpoint (input_volume, t).
            resolve_or_stop ctx policy outputs outpoint (\<lambda>utxo.
              Inr (Next (input_volume + ucast (txo_value (cu_txo utxo)), involve ctx outpoint t))))
            (prev_outputs tx) (0, t)
        else
          (case tx_input tx of
             [] \<Rightarrow> Inl RustPanic
           | input # _ \<Rightarrow> Inr (Next (0, t\<lparr>bt_coinbase_script_sig := script_sig input\<rparr>))))
       (\<lambda>(input_volume, t).
          let (output_volume, t) = fold (\<lambda>(idx, txo) (output_volume, t).
                (output_volume + ucast (txo_value txo), involve ctx (outpoint_at tx_hash idx) t))
                (indexed_outputs tx) (0 :: u128, t)
          in Inr (Next (t\<lparr>bt_fees := bt_fees t + saturating_sub input_volume output_volume,
                          bt_volume := bt_volume t + output_volume\<rparr>))))"

definition block_info_reduce_block ::
  "bitcoin_lib \<Rightarrow> RuntimePolicy \<Rightarrow> u64 \<Rightarrow> TransactionsWithIds \<Rightarrow> Block option \<Rightarrow> BlockContext \<Rightarrow>
   ReducerOutput list \<Rightarrow> ReducerOutput list work" where
  "block_info_reduce_block L policy height txs block ctx outputs =
     flow_result (flow_bind
       (for_each (block_info_tx L policy ctx outputs) txs
         \<lparr>bt_fees = 0, bt_volume = 0, bt_inscriptions = False, bt_runes = False, bt_brc20 = False,
          bt_coinbase_script_sig = []\<rparr>)
       (\<lambda>t. Inr (Next (outputs @ [Out_BlockInfo height (map_option (block_hash L) block)
          (fst (block_sizes L block txs)) (snd (block_sizes L block txs)) (map_option header_time block)
          (bt_fees t) (bt_volume t) (of_nat (length txs)) (bt_inscriptions t) (bt_runes t) (bt_brc20 t)
          (bt_coinbase_script_sig t)]))))"

definition height_by_block_hash_reduce_block ::
  "bitcoin_lib \<Rightarrow> u64 \<Rightarrow> Block option \<Rightarrow> ReducerOutput list \<Rightarrow> ReducerOutput list work" where
  "height_by_block_hash_reduce_block L block_height block outputs =
     (case block of
        Some b \<Rightarrow> Inr (outputs @ [Out_HeightByBlockHash (block_hash L b) block_height])
      | None \<Rightarrow> Inr outputs)"

definition height_by_timestamp_reduce_block ::
  "u64 \<Rightarrow> Block option \<Rightarrow> ReducerOutput list \<Rightarrow> ReducerOutput list work" where
  "height_by_timestamp_reduce_block height block outputs =
     (case block of
        Some b \<Rightarrow> Inr (outputs @ [Out_HeightByTimestamp (header_time b) height])
      | None \<Rightarrow> Inr outputs)"

definition txs_by_block_reduce_block ::
  "u64 \<Rightarrow> TransactionsWithIds \<Rightarrow> ReducerOutput list \<Rightarrow> ReducerOutput list work" where
  "txs_by_block_reduce_block height txs outputs = Inr (outputs @ [Out_TxsByBlock height (map snd txs)])"

definition tx_first_seen_timestamp_reduce_block ::
  "TransactionsWithIds \<Rightarrow> u64 \<Rightarrow> ReducerOutput list \<Rightarrow> ReducerOutput list work" where
  "tx_first_seen_timestamp_reduce_block txs timestamp outputs =
     Inr (outputs @ map (\<lambda>(_, tx_id). Out_TxFirstSeenTimestamp tx_id timestamp) txs)"

section \<open>Fees\<close>

text \<open>Satoshis per virtual byte, rounded up.\<close>

definition sats_per_vb :: "u64 \<Rightarrow> u64 \<Rightarrow> u64" where
  "sats_per_vb fee vb = (if vb = 0 then 0 else (fee + vb - 1) div vb)"

definition sats_per_vb_tx ::
  "bitcoin_lib \<Rightarrow> RuntimePolicy \<Rightarrow> BlockContext \<Rightarrow> ReducerOutput list \<Rightarrow> Transaction \<times> bytes \<Rightarrow> u64 list \<Rightarrow>
   (u64 list, ReducerOutput list) flow work" where
  "sats_per_vb_tx L policy ctx outputs = (\<lambda>(tx, _) rates.
     if is_coinbase L tx then Inr (Next rates)
     else flow_bind
       (for_each (\<lambda>outpoint total_input.
          resolve_or_stop ctx policy outputs outpoint (\<lambda>utxo. Inr (Next (total_input + txo_value (cu_txo utxo)))))
          (prev_outputs tx) 0)
       (\<lambda>total_input.
          let total_output = sum_list (map txo_value (tx_output tx))
          in Inr (Next (rates @ [sats_per_vb (saturating_sub total_input total_output) (vsize L tx)]))))"

definition nth_or_zero :: "u64 list \<Rightarrow> nat \<Rightarrow> u64" where
  "nth_or_zero xs n = (if n < length xs then xs ! n else 0)"

definition sats_per_vb_by_block_reduce_block ::
  "bitcoin_lib \<Rightarrow> RuntimePolicy \<Rightarrow> u64 \<Rightarrow> TransactionsWithIds \<Rightarrow> BlockContext \<Rightarrow> ReducerOutput list \<Rightarrow>
   ReducerOutput list work" where
  "sats_per_vb_by_block_reduce_block L policy height txs ctx outputs =
     flow_result (flow_bind (for_each (sats_per_vb_tx L policy ctx outputs) txs [])
       (\<lambda>rates. let sorted_rates = sort rates in
          Inr (Next (outputs @ [Out_SatsPerVbByBlock height (nth_or_zero sorted_rates 0)
            (nth_or_zero sorted_rates (length sorted_rates div 2))
            (nth_or_zero sorted_rates (length sorted_rates - 1))]))))"

section \<open>Unspent outputs\<close>

definition utxos_by_script_hash_consumed ::
  "bitcoin_lib \<Rightarrow> RuntimePolicy \<Rightarrow> BlockContext \<Rightarrow> OutPoint \<Rightarrow> ReducerOutput list \<Rightarrow> ReducerOutput list work" where
  "utxos_by_script_hash_consumed L policy ctx input outputs =
     work_bind (resolve_utxo ctx policy input) (\<lambda>u. case u of
       None \<Rightarrow> Inr outputs
     | Some utxo \<Rightarrow> Inr (outputs @ [Out_UtxosByScriptHash (script_hash L (script_pubkey (cu_txo utxo)))
         (cu_height utxo) (op_txid input) (op_vout input) Consumed]))"

definition utxos_by_script_hash_produced ::
  "bitcoin_lib \<Rightarrow> u64 \<Rightarrow> OutPoint \<Rightarrow> TxOut \<Rightarrow> ReducerOutput list \<Rightarrow> ReducerOutput list work" where
  "utxos_by_script_hash_produced L height outpoint txo outputs =
     Inr (outputs @ [Out_UtxosByScriptHash (script_hash L (script_pubkey txo)) height
       (op_txid outpoint) (op_vout outpoint) (Produced (txo_value txo))])"

definition utxos_by_script_hash_reduce_block ::
  "bitcoin_lib \<Rightarrow> RuntimePolicy \<Rightarrow> u64 \<Rightarrow> TransactionsWithIds \<Rightarrow> BlockContext \<Rightarrow> ReducerOutput list \<Rightarrow>
   ReducerOutput list work" where
  "utxos_by_script_hash_reduce_block L policy height txs ctx outputs =
     for_unchained_txos L (utxos_by_script_hash_consumed L policy ctx) (utxos_by_script_hash_produced L height) txs outputs"

definition total_utxos_tx ::
  "bitcoin_lib \<Rightarrow> RuntimePolicy \<Rightarrow> BlockContext \<Rightarrow> Transaction \<times> bytes \<Rightarrow> ReducerOutput list \<Rightarrow>
   (ReducerOutput list, ReducerOutput list) flow work" where
  "total_utxos_tx L policy ctx = (\<lambda>(tx, _) outputs.
     flow_bind
       (if \<not> is_coinbase L tx then
          for_each (\<lambda>outpoint outputs. resolve_or_stop ctx policy outputs outpoint (\<lambda>utxo.
              Inr (Next (outputs @ [Out_TotalUtxosByScriptHash (script_hash L (script_pubkey (cu_txo utxo))) False]))))
            (prev_outputs tx) outputs
        else Inr (Next outputs))
       (\<lambda>outputs. Inr (Next (outputs @
          map (\<lambda>txo. Out_TotalUtxosByScriptHash (script_hash L (script_pubkey txo)) True) (tx_output tx)))))"

definition total_utxos_by_script_hash_reduce_block ::
  "bitcoin_lib \<Rightarrow> RuntimePolicy \<Rightarrow> TransactionsWithIds \<Rightarrow> BlockContext \<Rightarrow> ReducerOutput list \<Rightarrow> ReducerOutput list work" where
  "total_utxos_by_script_hash_reduce_block L policy txs ctx outputs =
     flow_result (for_each (total_utxos_tx L policy ctx) txs outputs)"

definition total_outputs_by_script_hash_reduce_block ::
  "bitcoin_lib \<Rightarrow> hash_order \<Rightarrow> TransactionsWithIds \<Rightarrow> ReducerOutput list \<Rightarrow> ReducerOutput list work" where
  "total_outputs_by_script_hash_reduce_block L ord txs outputs =
     (let outputs_count = fold (\<lambda>(tx, _). fold (\<lambda>txo. entry_add (script_hash L (script_pubkey txo)) (1 :: u64)) (tx_output tx))
            txs []
      in Inr (outputs @ map (\<lambda>(sh, new_outputs). Out_TotalOutputsByScriptHash sh new_outputs)
           (hash_iter ord [] outputs_count)))"

section \<open>Satoshis\<close>

definition sat_balance_consumed ::
  "bitcoin_lib \<Rightarrow> RuntimePolicy \<Rightarrow> BlockContext \<Rightarrow> OutPoint \<Rightarrow> ReducerOutput list \<Rightarrow> ReducerOutput list work" where
  "sat_balance_consumed L policy ctx input outputs =
     work_bind (resolve_utxo ctx policy input) (\<lambda>u. case u of
       None \<Rightarrow> Inr outputs
     | Some utxo \<Rightarrow> Inr (outputs @ [Out_SatBalanceByScriptHash (script_hash L (script_pubkey (cu_txo utxo)))
         (IoD_Decrement (ucast (txo_value (cu_txo utxo))))]))"

definition sat_balance_produced ::
  "bitcoin_lib \<Rightarrow> OutPoint \<Rightarrow> TxOut \<Rightarrow> ReducerOutput list \<Rightarrow> ReducerOutput list work" where
  "sat_balance_produced L outpoint txo outputs =
     Inr (outputs @ [Out_SatBalanceByScriptHash (script_hash L (script_pubkey txo))
       (IoD_Increment (ucast (txo_value txo)))])"

definition sat_balance_by_script_hash_reduce_block ::
  "bitcoin_lib \<Rightarrow> RuntimePolicy \<Rightarrow> TransactionsWithIds \<Rightarrow> BlockContext \<Rightarrow> ReducerOutput list \<Rightarrow> ReducerOutput list work" where
  "sat_balance_by_script_hash_reduce_block L policy txs ctx outputs =
     for_txos L (sat_balance_consumed L policy ctx) (sat_balance_produced L) txs outputs"

type_synonym script_sats = "(bytes \<times> u128) list"

definition historical_consumed ::
  "bitcoin_lib \<Rightarrow> RuntimePolicy \<Rightarrow> BlockContext \<Rightarrow> OutPoint \<Rightarrow> script_sats \<times> script_sats \<Rightarrow> (script_sats \<times> script_sats) work" where
  "historical_consumed L policy ctx input = (\<lambda>(increase, decrease).
     work_bind (resolve_utxo ctx policy input) (\<lambda>u. case u of
       None \<Rightarrow> Inr (increase, decrease)
     | Some utxo \<Rightarrow> Inr (increase,
         entry_add (script_hash L (script_pubkey (cu_txo utxo))) (ucast (txo_value (cu_txo utxo))) decrease)))"

definition historical_produced ::
  "bitcoin_lib \<Rightarrow> OutPoint \<Rightarrow> TxOut \<Rightarrow> script_sats \<times> script_sats \<Rightarrow> (script_sats \<times> script_sats) work" where
  "historical_produced L outpoint output = (\<lambda>(increase, decrease).
     Inr (entry_add (script_hash L (script_pubkey output)) (ucast (txo_value output)) increase, decrease))"

definition historical_increase ::
  "u64 \<Rightarrow> bytes \<times> u128 \<Rightarrow> ReducerOutput list \<times> script_sats \<Rightarrow> ReducerOutput list \<times> script_sats" where
  "historical_increase height = (\<lambda>(sh, increase) (outputs, decreases).
     case map_of decreases sh of
       Some decrease \<Rightarrow>
         ((if increase = decrease then outputs
           else if increase > decrease then
             outputs @ [Out_HistoricalSatBalanceByScriptHash sh height (IoD_Increment (saturating_sub increase decrease))]
           else outputs @ [Out_HistoricalSatBalanceByScriptHash sh height (IoD_Decrement (saturating_sub decrease increase))]),
          AList.delete sh decreases)
     | None \<Rightarrow> (outputs @ [Out_HistoricalSatBalanceByScriptHash sh height (IoD_Increment increase)], decreases))"

definition historical_sat_balance_by_script_hash_reduce_block ::
  "bitcoin_lib \<Rightarrow> hash_order \<Rightarrow> RuntimePolicy \<Rightarrow> TransactionsWithIds \<Rightarrow> u64 \<Rightarrow> BlockContext \<Rightarrow> ReducerOutput list \<Rightarrow>
   ReducerOutput list work" where
  "historical_sat_balance_by_script_hash_reduce_block L ord policy txs height ctx outputs =
     work_bind (for_txos L (historical_consumed L policy ctx) (historical_produced L) txs ([], []))
       (\<lambda>(balance_increase, balance_decrease).
          let (outputs, rest) = fold (historical_increase height) (hash_iter ord [] balance_increase) (outputs, balance_decrease)
          in Inr (outputs @ map (\<lambda>(sh, decrease). Out_HistoricalSatBalanceByScriptHash sh height (IoD_Decrement decrease))
               (hash_iter ord [] rest)))"

definition total_sat_in_inputs_by_script_hash_reduce_block ::
  "bitcoin_lib \<Rightarrow> hash_order \<Rightarrow> RuntimePolicy \<Rightarrow> TransactionsWithIds \<Rightarrow> BlockContext \<Rightarrow> ReducerOutput list \<Rightarrow>
   ReducerOutput list work" where
  "total_sat_in_inputs_by_script_hash_reduce_block L ord policy txs ctx outputs =
     flow_result (flow_bind
       (for_each (\<lambda>(tx, _) input_sats_count.
          if \<not> is_coinbase L tx then
            for_each (\<lambda>outpoint m. resolve_or_stop ctx policy outputs outpoint (\<lambda>utxo.
                Inr (Next (entry_add (script_hash L (script_pubkey (cu_txo utxo))) (txo_value (cu_txo utxo)) m))))
              (prev_outputs tx) input_sats_count
          else Inr (Next input_sats_count)) txs [])
       (\<lambda>input_sats_count. Inr (Next (outputs @ map (\<lambda>(sh, new_sats). Out_TotalSatInInputsByScriptHash sh new_sats)
          (hash_iter ord [] input_sats_count)))))"

definition total_sat_in_outputs_by_script_hash_reduce_block ::
  "bitcoin_lib \<Rightarrow> hash_order \<Rightarrow> TransactionsWithIds \<Rightarrow> ReducerOutput list \<Rightarrow> ReducerOutput list work" where
  "total_sat_in_outputs_by_script_hash_reduce_block L ord txs outputs =
     (let output_sats_count = fold (\<lambda>(tx, _). fold (\<lambda>txo. entry_add (script_hash L (script_pubkey txo)) (txo_value txo)) (tx_output tx))
            txs []
      in Inr (outputs @ map (\<lambda>(sh, new_sats). Out_TotalSatInOutputsByScriptHash sh new_sats)
           (hash_iter ord [] output_sats_count)))"

text \<open>The activity of every script in every transaction, numbered per script across the blocks of a mempool view.\<close>

type_synonym activity_indexes = "(bytes \<times> u32) list"

definition sat_activity :: "u64 \<Rightarrow> u64 \<Rightarrow> u64 \<times> SatTxsByScriptHash_SatActivityType" where
  "sat_activity received spent =
     (if received < spent then (saturating_sub spent received, Decreased)
      else if received = spent then (received, SelfTransferred)
      else (saturating_sub received spent, Increased))"

definition sat_txs_received ::
  "u64 \<Rightarrow> bytes \<Rightarrow> bytes \<times> u64 \<Rightarrow> (ReducerOutput list \<times> activity_indexes) \<times> (bytes \<times> u64) list \<Rightarrow>
   (ReducerOutput list \<times> activity_indexes) \<times> (bytes \<times> u64) list" where
  "sat_txs_received height tx_hash = (\<lambda>(sh, received) ((outputs, indexes), spent).
     let (amount, activity_type) = (case map_of spent sh of Some s \<Rightarrow> sat_activity received s | None \<Rightarrow> (received, Increased))
     in ((outputs @ [Out_SatTxsByScriptHash sh height (counter_of sh indexes) tx_hash amount activity_type],
          counter_incr sh indexes), AList.delete sh spent))"

definition sat_txs_spent ::
  "u64 \<Rightarrow> bytes \<Rightarrow> bytes \<times> u64 \<Rightarrow> ReducerOutput list \<times> activity_indexes \<Rightarrow> ReducerOutput list \<times> activity_indexes" where
  "sat_txs_spent height tx_hash = (\<lambda>(sh, spent) (outputs, indexes).
     (outputs @ [Out_SatTxsByScriptHash sh height (counter_of sh indexes) tx_hash spent Decreased], counter_incr sh indexes))"

definition sat_txs_tx ::
  "bitcoin_lib \<Rightarrow> hash_order \<Rightarrow> RuntimePolicy \<Rightarrow> BlockContext \<Rightarrow> u64 \<Rightarrow> Transaction \<times> bytes \<Rightarrow>
   ReducerOutput list \<times> activity_indexes \<Rightarrow>
   (ReducerOutput list \<times> activity_indexes, ReducerOutput list \<times> activity_indexes) flow work" where
  "sat_txs_tx L ord policy ctx height = (\<lambda>(tx, tx_id) st.
     flow_bind
       (if \<not> is_coinbase L tx then
          for_each (\<lambda>outpoint m. resolve_or_stop ctx policy st outpoint (\<lambda>utxo.
              Inr (Next (entry_add (script_hash L (script_pubkey (cu_txo utxo))) (txo_value (cu_txo utxo)) m))))
            (prev_outputs tx) []
        else Inr (Next []))
       (\<lambda>total_spent.
          let total_received = fold (\<lambda>txo m. if is_op_return L (script_pubkey txo) then m
                else entry_add (script_hash L (script_pubkey txo)) (txo_value txo) m) (tx_output tx) [];
              (st, rest) = fold (sat_txs_received height tx_id) (hash_iter ord tx_id total_received) (st, total_spent)
          in Inr (Next (fold (sat_txs_spent height tx_id) (hash_iter ord tx_id rest) st))))"

definition sat_txs_by_script_hash_reduce_block ::
  "bitcoin_lib \<Rightarrow> hash_order \<Rightarrow> RuntimePolicy \<Rightarrow> u64 \<Rightarrow> TransactionsWithIds \<Rightarrow> BlockContext \<Rightarrow>
   ReducerOutput list \<times> activity_indexes \<Rightarrow> (ReducerOutput list \<times> activity_indexes) work" where
  "sat_txs_by_script_hash_reduce_block L ord policy height txs ctx st =
     flow_result (for_each (sat_txs_tx L ord policy ctx height) txs st)"

section \<open>Transactions and scripts\<close>

definition script_by_script_hash_consumed ::
  "bitcoin_lib \<Rightarrow> RuntimePolicy \<Rightarrow> BlockContext \<Rightarrow> OutPoint \<Rightarrow> ReducerOutput list \<Rightarrow> ReducerOutput list work" where
  "script_by_script_hash_consumed L policy ctx input outputs =
     work_bind (resolve_utxo ctx policy input) (\<lambda>u. case u of
       None \<Rightarrow> Inr outputs
     | Some utxo \<Rightarrow> Inr (outputs @ [Out_ScriptByScriptHash (script_hash L (script_pubkey (cu_txo utxo)))
         (script_pubkey (cu_txo utxo))]))"

definition script_by_script_hash_produced ::
  "bitcoin_lib \<Rightarrow> OutPoint \<Rightarrow> TxOut \<Rightarrow> ReducerOutput list \<Rightarrow> ReducerOutput list work" where
  "script_by_script_hash_produced L outpoint txo outputs =
     Inr (outputs @ [Out_ScriptByScriptHash (script_hash L (script_pubkey txo)) (script_pubkey txo)])"

definition script_by_script_hash_reduce_block ::
  "bitcoin_lib \<Rightarrow> RuntimePolicy \<Rightarrow> TransactionsWithIds \<Rightarrow> BlockContext \<Rightarrow> ReducerOutput list \<Rightarrow> ReducerOutput list work" where
  "script_by_script_hash_reduce_block L policy txs ctx outputs =
     for_txos L (script_by_script_hash_consumed L policy ctx) (script_by_script_hash_produced L) txs outputs"

definition script_hash_by_address_payload_hash_reduce_block ::
  "bitcoin_lib \<Rightarrow> TransactionsWithIds \<Rightarrow> ReducerOutput list \<Rightarrow> ReducerOutput list work" where
  "script_hash_by_address_payload_hash_reduce_block L txs outputs =
     Inr (fold (\<lambda>(tx, _). fold (\<lambda>txo outputs.
       case address_script L (script_pubkey txo) of
         Some addr_script \<Rightarrow> outputs @ [Out_ScriptHashByAddressPayloadHash (script_hash L addr_script) (script_hash L (script_pubkey txo))]
       | None \<Rightarrow> outputs) (tx_output tx)) txs outputs)"

definition spending_tx_by_txo_reduce_block ::
  "bitcoin_lib \<Rightarrow> TransactionsWithIds \<Rightarrow> ReducerOutput list \<Rightarrow> ReducerOutput list work" where
  "spending_tx_by_txo_reduce_block L txs outputs =
     Inr (outputs @ concat (map (\<lambda>(tx, tx_hash).
       if \<not> is_coinbase L tx
       then map (\<lambda>outpoint. Out_SpendingTxByTxo (op_txid outpoint) (op_vout outpoint) tx_hash) (prev_outputs tx)
       else []) txs))"

definition total_txs_tx ::
  "bitcoin_lib \<Rightarrow> hash_order \<Rightarrow> RuntimePolicy \<Rightarrow> BlockContext \<Rightarrow> Transaction \<times> bytes \<Rightarrow> ReducerOutput list \<Rightarrow>
   (ReducerOutput list, ReducerOutput list) flow work" where
  "total_txs_tx L ord policy ctx = (\<lambda>(tx, tx_id) outputs.
     flow_bind
       (if \<not> is_coinbase L tx then
          for_each (\<lambda>outpoint involved. resolve_or_stop ctx policy outputs outpoint (\<lambda>utxo.
              Inr (Next (set_insert (script_hash L (script_pubkey (cu_txo utxo))) involved)))) (prev_outputs tx) []
        else Inr (Next []))
       (\<lambda>involved.
          let involved_in_tx = fold (\<lambda>txo. set_insert (script_hash L (script_pubkey txo))) (tx_output tx) involved
          in Inr (Next (outputs @ map Out_TotalTxsByScriptHash (hash_iter ord tx_id involved_in_tx)))))"

definition total_txs_by_script_hash_reduce_block ::
  "bitcoin_lib \<Rightarrow> hash_order \<Rightarrow> RuntimePolicy \<Rightarrow> TransactionsWithIds \<Rightarrow> BlockContext \<Rightarrow> ReducerOutput list \<Rightarrow>
   ReducerOutput list work" where
  "total_txs_by_script_hash_reduce_block L ord policy txs ctx outputs =
     flow_result (for_each (total_txs_tx L ord policy ctx) txs outputs)"

datatype TxInvolvement = Inv_Input | Inv_Output

type_synonym involvements = "(bytes \<times> TxInvolvement list) list"

definition txs_by_script_hash_consumed ::
  "bitcoin_lib \<Rightarrow> RuntimePolicy \<Rightarrow> BlockContext \<Rightarrow> OutPoint \<Rightarrow> involvements \<Rightarrow> involvements work" where
  "txs_by_script_hash_consumed L policy ctx input seen =
     work_bind (resolve_utxo ctx policy input) (\<lambda>u. case u of
       None \<Rightarrow> Inr seen
     | Some utxo \<Rightarrow> Inr (entry_push (script_hash L (script_pubkey (cu_txo utxo))) Inv_Input seen))"

definition txs_by_script_hash_produced :: "bitcoin_lib \<Rightarrow> TxOut \<Rightarrow> involvements \<Rightarrow> involvements" where
  "txs_by_script_hash_produced L txo seen = entry_push (script_hash L (script_pubkey txo)) Inv_Output seen"

definition txs_by_script_hash_tx ::
  "bitcoin_lib \<Rightarrow> hash_order \<Rightarrow> RuntimePolicy \<Rightarrow> BlockContext \<Rightarrow> u64 \<Rightarrow> Transaction \<times> bytes \<Rightarrow>
   ReducerOutput list \<times> activity_indexes \<Rightarrow> (ReducerOutput list \<times> activity_indexes) work" where
  "txs_by_script_hash_tx L ord policy ctx height = (\<lambda>(tx, txid) st.
     work_bind (if \<not> is_coinbase L tx then work_fold (txs_by_script_hash_consumed L policy ctx) (prev_outputs tx) [] else Inr [])
       (\<lambda>seen. Inr (fold (\<lambda>(sh, actions) (outputs, counters).
          (outputs @ [Out_TxsByScriptHash sh height (counter_of sh counters) txid
             (Inv_Input \<in> set actions) (Inv_Output \<in> set actions)], counter_incr sh counters))
        (hash_iter ord txid (fold (txs_by_script_hash_produced L) (tx_output tx) seen)) st)))"

definition txs_by_script_hash_reduce_block ::
  "bitcoin_lib \<Rightarrow> hash_order \<Rightarrow> RuntimePolicy \<Rightarrow> u64 \<Rightarrow> TransactionsWithIds \<Rightarrow> BlockContext \<Rightarrow> ReducerOutput list \<Rightarrow>
   ReducerOutput list work" where
  "txs_by_script_hash_reduce_block L ord policy height txs ctx outputs =
     work_bind (work_fold (txs_by_script_hash_tx L ord policy ctx height) txs (outputs, []))
       (\<lambda>(outputs, _). Inr outputs)"

section \<open>Transaction details\<close>

record tx_details =
  td_inscriptions :: bool
  td_runes :: bool
  td_brc20 :: bool
  td_total :: u128

text \<open>The tokens on an output, and the flags they raise.\<close>

definition token_details ::
  "BlockContext \<Rightarrow> OutPoint \<Rightarrow> tx_details \<Rightarrow>
   (SatoshiOffset \<times> InscriptionId) list \<times> (RuneId \<times> RuneQuantity) list \<times> tx_details" where
  "token_details ctx outpoint d =
     (let (inscriptions, d) = (case utxo_inscriptions ctx outpoint of
            None \<Rightarrow> ([], d)
          | Some ins \<Rightarrow> (map (\<lambda>(offset, id). (ucast offset, id)) ins,
              d\<lparr>td_inscriptions := True,
                td_brc20 := td_brc20 d \<or> list_ex (\<lambda>(_, id). case inscription_brc20s ctx id of Some brc20s \<Rightarrow> brc20s \<noteq> [] | None \<Rightarrow> False) ins\<rparr>));
          (runes, d) = (case utxo_runes ctx outpoint of
            None \<Rightarrow> ([], d)
          | Some rs \<Rightarrow> (rs, d\<lparr>td_runes := True\<rparr>))
      in (inscriptions, runes, d))"

definition runestone_involved :: "bitcoin_lib \<Rightarrow> Transaction \<Rightarrow> bool" where
  "runestone_involved L tx =
     (case decipher L tx of
        Some (Art_Runestone r) \<Rightarrow> rs_edicts r \<noteq> [] \<or> rs_etching r \<noteq> None \<or> rs_mint r \<noteq> None
      | _ \<Rightarrow> False)"

definition tx_info_tx ::
  "bitcoin_lib \<Rightarrow> RuntimePolicy \<Rightarrow> BlockContext \<Rightarrow> u64 \<Rightarrow> BlockHash option \<Rightarrow> u32 option \<Rightarrow> Transaction \<times> bytes \<Rightarrow>
   ReducerOutput list \<Rightarrow> (ReducerOutput list, ReducerOutput list) flow work" where
  "tx_info_tx L policy ctx height hash timestamp = (\<lambda>(tx, tx_hash) outputs.
     let d0 = \<lparr>td_inscriptions = False, td_runes = runestone_involved L tx, td_brc20 = False, td_total = 0\<rparr>
     in flow_bind
       (if \<not> is_coinbase L tx then
          for_each (\<lambda>outpoint (ins, d). resolve_or_stop ctx policy outputs outpoint (\<lambda>utxo.
              let sats = txo_value (cu_txo utxo);
                  (inscriptions, runes, d) = token_details ctx outpoint (d\<lparr>td_total := td_total d + ucast sats\<rparr>)
              in Inr (Next (ins @ [(op_txid outpoint, op_vout outpoint, script_hash L (script_pubkey (cu_txo utxo)), sats, inscriptions, runes)], d))))
            (prev_outputs tx) ([], d0)
        else Inr (Next ([], d0)))
       (\<lambda>(ins, d).
          let total_input = td_total d;
              (outs, d) = fold (\<lambda>(idx, txo) (outs, d).
                let (inscriptions, runes, d) = token_details ctx (outpoint_at tx_hash idx) (d\<lparr>td_total := td_total d + ucast (txo_value txo)\<rparr>)
                in (outs @ [(script_hash L (script_pubkey txo), txo_value txo, inscriptions, runes)], d))
                (indexed_outputs tx) ([], d\<lparr>td_total := 0\<rparr>);
              fees = ucast (saturating_sub total_input (td_total d))
          in Inr (Next (outputs @ [Out_TxInfo tx_hash height hash timestamp (td_total d) fees
               (sats_per_vb fees (vsize L tx)) (td_inscriptions d) (td_runes d) (td_brc20 d) ins outs]))))"

definition tx_info_reduce_block ::
  "bitcoin_lib \<Rightarrow> RuntimePolicy \<Rightarrow> u64 \<Rightarrow> TransactionsWithIds \<Rightarrow> Block option \<Rightarrow> BlockContext \<Rightarrow> ReducerOutput list \<Rightarrow>
   ReducerOutput list work" where
  "tx_info_reduce_block L policy height txs block ctx outputs =
     flow_result (for_each (tx_info_tx L policy ctx height (map_option (block_hash L) block) (map_option header_time block)) txs outputs)"

end
