(* ===== verification/Reducers_Runes.thy ===== *)
theory Reducers_Runes
  imports Block_Model
begin

text \<open>
  The rune reducers (\<open>services/polyphony-xbt/src/reducers\<close>): etchings, mints, balances, unspent outputs
  that hold runes, and the rune activity of scripts and of runes in every transaction. The runes of an
  output come from the block context; a transaction's runestone is deciphered by the \<open>ordinals\<close> crate.
\<close>

section \<open>Etchings and mints\<close>

definition UNCOMMON_GOODS_RUNE :: u128 where
  "UNCOMMON_GOODS_RUNE = 2055900680524219742"

definition GENESIS_RUNE_ID :: RuneId where
  "GENESIS_RUNE_ID = (1, 0)"

definition UNCOMMON_GOODS_SPACERS :: u32 where
  "UNCOMMON_GOODS_SPACERS = 128"

definition UNCOMMON_GOODS_SYMBOL :: u32 where
  "UNCOMMON_GOODS_SYMBOL = 0x29C9"

definition SUBSIDY_HALVING_INTERVAL :: u64 where
  "SUBSIDY_HALVING_INTERVAL = 210000"

definition UNCOMMON_GOODS_START_HEIGHT :: u64 where
  "UNCOMMON_GOODS_START_HEIGHT = SUBSIDY_HALVING_INTERVAL * 4"

definition UNCOMMON_GOODS_END_HEIGHT :: u64 where
  "UNCOMMON_GOODS_END_HEIGHT = SUBSIDY_HALVING_INTERVAL * 5"

text \<open>The transactions of a block whose index is in a list.\<close>

definition indexed_txs :: "u32 list \<Rightarrow> TransactionsWithIds \<Rightarrow> (nat \<times> Transaction \<times> bytes) list" where
  "indexed_txs idxs txs = filter (\<lambda>(idx, _). of_nat idx \<in> set idxs) (enumerate 0 txs)"

definition genesis_etching :: EtchingInfo where
  "genesis_etching = \<lparr>ei_name = Some UNCOMMON_GOODS_RUNE, ei_spacers = Some UNCOMMON_GOODS_SPACERS,
     ei_symbol = Some UNCOMMON_GOODS_SYMBOL, ei_divisibility = Some 0, ei_premine = Some 0, ei_max_mint_txs = Some (- 1),
     ei_amount_per_mint = Some 1, ei_start_height = Some UNCOMMON_GOODS_START_HEIGHT,
     ei_end_height = Some UNCOMMON_GOODS_END_HEIGHT, ei_start_offset = None, ei_end_offset = None, ei_turbo = False\<rparr>"

definition runestone_etching :: "Etching \<Rightarrow> EtchingInfo" where
  "runestone_etching etch = \<lparr>ei_name = etch_rune etch, ei_spacers = etch_spacers etch, ei_symbol = etch_symbol etch,
     ei_divisibility = etch_divisibility etch, ei_premine = etch_premine etch,
     ei_max_mint_txs = Option.bind (etch_terms etch) terms_cap, ei_amount_per_mint = Option.bind (etch_terms etch) terms_amount,
     ei_start_height = Option.bind (etch_terms etch) (fst \<circ> terms_height),
     ei_end_height = Option.bind (etch_terms etch) (snd \<circ> terms_height),
     ei_start_offset = Option.bind (etch_terms etch) (fst \<circ> terms_offset),
     ei_end_offset = Option.bind (etch_terms etch) (snd \<circ> terms_offset), ei_turbo = etch_turbo etch\<rparr>"

definition cenotaph_etching :: "u128 \<Rightarrow> EtchingInfo" where
  "cenotaph_etching rune = \<lparr>ei_name = Some rune, ei_spacers = Some 0, ei_symbol = None, ei_divisibility = Some 0,
     ei_premine = Some 0, ei_max_mint_txs = None, ei_amount_per_mint = None, ei_start_height = None, ei_end_height = None,
     ei_start_offset = None, ei_end_offset = None, ei_turbo = False\<rparr>"

definition etching_info :: "bitcoin_lib \<Rightarrow> Transaction \<Rightarrow> (EtchingInfo \<times> bool) option" where
  "etching_info L tx =
     (case decipher L tx of
        Some (Art_Runestone r) \<Rightarrow> map_option (\<lambda>etch. (runestone_etching etch, False)) (rs_etching r)
      | Some (Art_Cenotaph c) \<Rightarrow> map_option (\<lambda>rune. (cenotaph_etching rune, True)) (ceno_etching c)
      | None \<Rightarrow> None)"

definition etching_by_rune_id_reduce_block ::
  "bitcoin_lib \<Rightarrow> u64 \<Rightarrow> TransactionsWithIds \<Rightarrow> BlockContext \<Rightarrow> ReducerOutput list \<times> bool \<Rightarrow> (ReducerOutput list \<times> bool) work" where
  "etching_by_rune_id_reduce_block L height txs ctx = (\<lambda>(outputs, bootstrapped).
     Inr (outputs
       @ (if \<not> bootstrapped then [Out_EtchingByRuneId GENESIS_RUNE_ID (replicate 32 0) genesis_etching False True] else [])
       @ List.map_filter (\<lambda>(idx, tx, txid).
           map_option (\<lambda>(info, cenotaph). Out_EtchingByRuneId (height, of_nat idx) txid info cenotaph False) (etching_info L tx))
           (indexed_txs (rune_etch_idxs ctx) txs), True))"

definition etched_name :: "bitcoin_lib \<Rightarrow> u64 \<Rightarrow> nat \<Rightarrow> Transaction \<Rightarrow> u128 option" where
  "etched_name L height idx tx =
     (case decipher L tx of
        Some (Art_Runestone r) \<Rightarrow> map_option (\<lambda>etch. case etch_rune etch of
            Some rune \<Rightarrow> rune | None \<Rightarrow> reserved_rune L height (of_nat idx)) (rs_etching r)
      | Some (Art_Cenotaph c) \<Rightarrow> ceno_etching c
      | None \<Rightarrow> None)"

definition rune_id_by_rune_name_reduce_block ::
  "bitcoin_lib \<Rightarrow> u64 \<Rightarrow> TransactionsWithIds \<Rightarrow> BlockContext \<Rightarrow> ReducerOutput list \<times> bool \<Rightarrow> (ReducerOutput list \<times> bool) work" where
  "rune_id_by_rune_name_reduce_block L height txs ctx = (\<lambda>(outputs, bootstrapped).
     Inr (outputs
       @ (if \<not> bootstrapped then [Out_RuneIdByRuneName GENESIS_RUNE_ID UNCOMMON_GOODS_RUNE True] else [])
       @ List.map_filter (\<lambda>(idx, tx, txid).
           map_option (\<lambda>rune. Out_RuneIdByRuneName (height, of_nat idx) rune False) (etched_name L height idx tx))
           (indexed_txs (rune_etch_idxs ctx) txs), True))"

definition mints_by_rune_id_reduce_block ::
  "bitcoin_lib \<Rightarrow> TransactionsWithIds \<Rightarrow> BlockContext \<Rightarrow> ReducerOutput list \<Rightarrow> ReducerOutput list work" where
  "mints_by_rune_id_reduce_block L txs ctx outputs =
     Inr (outputs @ List.map_filter (\<lambda>(_, tx, _).
       map_option Out_MintsByRuneId (Option.bind (decipher L tx) (artifact_mint L)))
       (indexed_txs (rune_mint_idxs ctx) txs))"

section \<open>Balances and unspent outputs\<close>

definition balances_by_rune_id_consumed ::
  "bitcoin_lib \<Rightarrow> RuntimePolicy \<Rightarrow> BlockContext \<Rightarrow> OutPoint \<Rightarrow> ReducerOutput list \<Rightarrow> ReducerOutput list work" where
  "balances_by_rune_id_consumed L policy ctx input outputs =
     (case utxo_runes ctx input of
        None \<Rightarrow> Inr outputs
      | Some runes \<Rightarrow> work_bind (resolve_utxo ctx policy input) (\<lambda>u. case u of
          None \<Rightarrow> Inr outputs
        | Some utxo \<Rightarrow> Inr (outputs @ map (\<lambda>(rune, amount).
            Out_BalancesByRuneId rune (script_hash L (script_pubkey (cu_txo utxo))) (IoD_Decrement amount)) runes)))"

definition balances_by_rune_id_produced ::
  "bitcoin_lib \<Rightarrow> BlockContext \<Rightarrow> OutPoint \<Rightarrow> TxOut \<Rightarrow> ReducerOutput list \<Rightarrow> ReducerOutput list work" where
  "balances_by_rune_id_produced L ctx outpoint txo outputs =
     Inr (outputs @ map (\<lambda>(rune, amount).
       Out_BalancesByRuneId rune (script_hash L (script_pubkey txo)) (IoD_Increment amount))
       (case utxo_runes ctx outpoint of None \<Rightarrow> [] | Some runes \<Rightarrow> runes))"

definition balances_by_rune_id_reduce_block ::
  "bitcoin_lib \<Rightarrow> RuntimePolicy \<Rightarrow> TransactionsWithIds \<Rightarrow> BlockContext \<Rightarrow> ReducerOutput list \<Rightarrow> ReducerOutput list work" where
  "balances_by_rune_id_reduce_block L policy txs ctx outputs =
     for_txos L (balances_by_rune_id_consumed L policy ctx) (balances_by_rune_id_produced L ctx) txs outputs"

definition rune_utxos_by_script_hash_consumed ::
  "bitcoin_lib \<Rightarrow> RuntimePolicy \<Rightarrow> BlockContext \<Rightarrow> OutPoint \<Rightarrow> ReducerOutput list \<Rightarrow> ReducerOutput list work" where
  "rune_utxos_by_script_hash_consumed L policy ctx input outputs =
     (if utxo_runes ctx input \<noteq> None then
        work_bind (resolve_utxo ctx policy input) (\<lambda>u. case u of
          None \<Rightarrow> Inr outputs
        | Some utxo \<Rightarrow> Inr (outputs @ [Out_RuneUtxosByScriptHash (script_hash L (script_pubkey (cu_txo utxo)))
            (cu_height utxo) (op_txid input) (op_vout input) Consumed]))
      else Inr outputs)"

definition rune_utxos_by_script_hash_produced ::
  "bitcoin_lib \<Rightarrow> BlockContext \<Rightarrow> u64 \<Rightarrow> OutPoint \<Rightarrow> TxOut \<Rightarrow> ReducerOutput list \<Rightarrow> ReducerOutput list work" where
  "rune_utxos_by_script_hash_produced L ctx height outpoint txo outputs =
     (case utxo_runes ctx outpoint of
        None \<Rightarrow> Inr outputs
      | Some runes \<Rightarrow> Inr (outputs @ [Out_RuneUtxosByScriptHash (script_hash L (script_pubkey txo)) height
          (op_txid outpoint) (op_vout outpoint) (Produced (txo_value txo, runes))]))"

definition rune_utxos_by_script_hash_reduce_block ::
  "bitcoin_lib \<Rightarrow> RuntimePolicy \<Rightarrow> u64 \<Rightarrow> TransactionsWithIds \<Rightarrow> BlockContext \<Rightarrow> ReducerOutput list \<Rightarrow> ReducerOutput list work" where
  "rune_utxos_by_script_hash_reduce_block L policy height txs ctx outputs =
     for_txos L (rune_utxos_by_script_hash_consumed L policy ctx) (rune_utxos_by_script_hash_produced L ctx height) txs outputs"

definition utxos_by_rune_id_consumed ::
  "RuntimePolicy \<Rightarrow> BlockContext \<Rightarrow> OutPoint \<Rightarrow> ReducerOutput list \<Rightarrow> ReducerOutput list work" where
  "utxos_by_rune_id_consumed policy ctx input outputs =
     (case utxo_runes ctx input of
        None \<Rightarrow> Inr outputs
      | Some runes \<Rightarrow> work_bind (resolve_utxo ctx policy input) (\<lambda>u. case u of
          None \<Rightarrow> Inr outputs
        | Some utxo \<Rightarrow> Inr (outputs @ map (\<lambda>(rune, _).
            Out_UtxosByRuneId rune (cu_height utxo) (op_txid input) (op_vout input) Consumed) runes)))"

definition utxos_by_rune_id_produced ::
  "bitcoin_lib \<Rightarrow> BlockContext \<Rightarrow> u64 \<Rightarrow> OutPoint \<Rightarrow> TxOut \<Rightarrow> ReducerOutput list \<Rightarrow> ReducerOutput list work" where
  "utxos_by_rune_id_produced L ctx height outpoint txo outputs =
     (case utxo_runes ctx outpoint of
        None \<Rightarrow> Inr outputs
      | Some runes \<Rightarrow> Inr (outputs @ map (\<lambda>(rune, amount).
          Out_UtxosByRuneId rune height (op_txid outpoint) (op_vout outpoint)
            (Produced (script_hash L (script_pubkey txo), amount, txo_value txo))) runes))"

definition utxos_by_rune_id_reduce_block ::
  "bitcoin_lib \<Rightarrow> RuntimePolicy \<Rightarrow> u64 \<Rightarrow> TransactionsWithIds \<Rightarrow> BlockContext \<Rightarrow> ReducerOutput list \<Rightarrow> ReducerOutput list work" where
  "utxos_by_rune_id_reduce_block L policy height txs ctx outputs =
     for_unchained_txos L (utxos_by_rune_id_consumed policy ctx) (utxos_by_rune_id_produced L ctx height) txs outputs"

section \<open>Net balance changes\<close>

text \<open>
  Both activity reducers net what was sent against what was received, once per script and rune and once
  per rune and script. The outer key is the first index, the inner one the second: an amount received in
  full is a self-transfer, otherwise the difference is an increase or a decrease.
\<close>

type_synonym ('o, 'i) amounts = "('o \<times> ('i \<times> u128) list) list"

record ('o, 'i) activity =
  self_amounts :: "('o, 'i) amounts"
  increases :: "('o, 'i) amounts"
  decreases :: "('o, 'i) amounts"

definition settle_inner ::
  "('o \<Rightarrow> 'i \<Rightarrow> u128 \<Rightarrow> ('o, 'i) amounts \<Rightarrow> ('o, 'i) amounts) \<Rightarrow> 'o \<Rightarrow> 'i \<times> u128 \<Rightarrow>
   ('o, 'i) activity \<times> ('i \<times> u128) list \<Rightarrow> ('o, 'i) activity \<times> ('i \<times> u128) list" where
  "settle_inner put_self outer = (\<lambda>(inner, sent_amount) (act, received_inner).
     case map_of received_inner inner of
       Some received_amount \<Rightarrow>
         ((if received_amount = sent_amount then act\<lparr>self_amounts := put_self outer inner received_amount (self_amounts act)\<rparr>
           else if received_amount < sent_amount then
             act\<lparr>decreases := nested_insert outer inner (saturating_sub sent_amount received_amount) (decreases act)\<rparr>
           else act\<lparr>increases := nested_insert outer inner (saturating_sub received_amount sent_amount) (increases act)\<rparr>),
          AList.delete inner received_inner)
     | None \<Rightarrow> (act\<lparr>decreases := nested_insert outer inner sent_amount (decreases act)\<rparr>, received_inner))"

definition settle_outer ::
  "hash_order \<Rightarrow> bytes \<Rightarrow> ('o \<Rightarrow> 'i \<Rightarrow> u128 \<Rightarrow> ('o, 'i) amounts \<Rightarrow> ('o, 'i) amounts) \<Rightarrow> 'o \<times> ('i \<times> u128) list \<Rightarrow>
   ('o, 'i) activity \<times> ('o, 'i) amounts \<Rightarrow> ('o, 'i) activity \<times> ('o, 'i) amounts" where
  "settle_outer ord seed put_self = (\<lambda>(outer, sent_inner) (act, received).
     case map_of received outer of
       Some received_inner \<Rightarrow>
         let (act, rest) = fold (settle_inner put_self outer) (hash_iter ord seed sent_inner) (act, received_inner)
         in (act\<lparr>increases := AList.update outer rest (increases act)\<rparr>, AList.delete outer received)
     | None \<Rightarrow> (act\<lparr>decreases := AList.update outer sent_inner (decreases act)\<rparr>, received))"

definition settle ::
  "hash_order \<Rightarrow> bytes \<Rightarrow> ('o \<Rightarrow> 'i \<Rightarrow> u128 \<Rightarrow> ('o, 'i) amounts \<Rightarrow> ('o, 'i) amounts) \<Rightarrow> ('o, 'i) amounts \<Rightarrow> ('o, 'i) amounts \<Rightarrow>
   ('o, 'i) activity" where
  "settle ord seed put_self sent received =
     (let (act, rest) = fold (settle_outer ord seed put_self) (hash_iter ord seed sent)
            (\<lparr>self_amounts = [], increases = [], decreases = []\<rparr>, received)
      in act\<lparr>increases := fold (\<lambda>(outer, received_inner). AList.update outer received_inner) (hash_iter ord seed rest) (increases act)\<rparr>)"

definition push_self :: "'o \<Rightarrow> 'i \<Rightarrow> u128 \<Rightarrow> ('o, 'i) amounts \<Rightarrow> ('o, 'i) amounts" where
  "push_self outer key amount = entry_push outer (key, amount)"

section \<open>Rune activity of scripts\<close>

record script_runes =
  sr_all :: "bytes list"
  sr_runes :: "bytes list"
  sr_amounts :: "(bytes, RuneId) amounts"

definition rune_txs_input ::
  "bitcoin_lib \<Rightarrow> RuntimePolicy \<Rightarrow> BlockContext \<Rightarrow> 'r \<Rightarrow> OutPoint \<Rightarrow> script_runes \<Rightarrow> (script_runes, 'r) flow work" where
  "rune_txs_input L policy ctx st outpoint sr =
     resolve_or_stop ctx policy st outpoint (\<lambda>utxo.
       let sh = script_hash L (script_pubkey (cu_txo utxo));
           sr = fold (\<lambda>(rune_id, amount) sr. sr\<lparr>sr_amounts := nested_add sh rune_id amount (sr_amounts sr),
                  sr_runes := set_insert sh (sr_runes sr)\<rparr>)
                (case utxo_runes ctx outpoint of Some runes \<Rightarrow> runes | None \<Rightarrow> []) sr
       in Inr (Next (sr\<lparr>sr_all := set_insert sh (sr_all sr)\<rparr>)))"

definition rune_txs_output :: "bitcoin_lib \<Rightarrow> BlockContext \<Rightarrow> bytes \<Rightarrow> nat \<times> TxOut \<Rightarrow> script_runes \<Rightarrow> script_runes" where
  "rune_txs_output L ctx tx_id = (\<lambda>(idx, txo) sr.
     if is_op_return L (script_pubkey txo) then sr
     else
       let sh = script_hash L (script_pubkey txo);
           sr = (case utxo_runes ctx (outpoint_at tx_id idx) of
                   Some runes \<Rightarrow> sr\<lparr>sr_amounts := fold (\<lambda>(rune_id, amount). nested_add sh rune_id amount) runes (sr_amounts sr),
                     sr_runes := set_insert sh (sr_runes sr)\<rparr>
                 | None \<Rightarrow> sr)
       in sr\<lparr>sr_all := set_insert sh (sr_all sr)\<rparr>)"

definition rune_etched :: "Artifact option \<Rightarrow> u64 \<Rightarrow> nat \<Rightarrow> (RuneId \<times> u128 option) option" where
  "rune_etched artifact height tx_index =
     (case artifact of
        Some (Art_Runestone r) \<Rightarrow> map_option (\<lambda>etch. ((height, of_nat tx_index), etch_premine etch)) (rs_etching r)
      | _ \<Rightarrow> None)"

definition rune_txs_tx ::
  "bitcoin_lib \<Rightarrow> hash_order \<Rightarrow> RuntimePolicy \<Rightarrow> BlockContext \<Rightarrow> u64 \<Rightarrow> nat \<times> Transaction \<times> bytes \<Rightarrow>
   ReducerOutput list \<times> (bytes \<times> u32) list \<Rightarrow>
   (ReducerOutput list \<times> (bytes \<times> u32) list, ReducerOutput list \<times> (bytes \<times> u32) list) flow work" where
  "rune_txs_tx L ord policy ctx height = (\<lambda>(tx_index, tx, tx_id) (outputs, indexes).
     flow_bind
       (if \<not> is_coinbase L tx
        then for_each (rune_txs_input L policy ctx (outputs, indexes)) (prev_outputs tx) \<lparr>sr_all = [], sr_runes = [], sr_amounts = []\<rparr>
        else Inr (Next \<lparr>sr_all = [], sr_runes = [], sr_amounts = []\<rparr>))
       (\<lambda>sent.
          let sr = fold (rune_txs_output L ctx tx_id) (indexed_outputs tx) (sent\<lparr>sr_amounts := []\<rparr>);
              act = settle ord tx_id push_self (sr_amounts sent) (sr_amounts sr);
              artifact = decipher L tx;
              minted = Option.bind artifact (artifact_mint L)
          in Inr (Next (outputs @ map (\<lambda>sh. Out_RuneTxsByScriptHash sh height (counter_of sh indexes) tx_id
                 (rune_etched artifact height tx_index) minted (nested sh (self_amounts act))
                 (hash_iter ord tx_id (nested sh (increases act))) (hash_iter ord tx_id (nested sh (decreases act))))
               (hash_iter ord tx_id (sr_runes sr)),
             fold counter_incr (hash_iter ord tx_id (sr_all sr)) indexes))))"

definition rune_txs_by_script_hash_reduce_block ::
  "bitcoin_lib \<Rightarrow> hash_order \<Rightarrow> RuntimePolicy \<Rightarrow> u64 \<Rightarrow> TransactionsWithIds \<Rightarrow> BlockContext \<Rightarrow>
   ReducerOutput list \<times> (bytes \<times> u32) list \<Rightarrow> (ReducerOutput list \<times> (bytes \<times> u32) list) work" where
  "rune_txs_by_script_hash_reduce_block L ord policy height txs ctx st =
     flow_result (for_each (rune_txs_tx L ord policy ctx height) (enumerate 0 txs) st)"

section \<open>Activity of runes\<close>

definition txs_by_rune_id_input ::
  "bitcoin_lib \<Rightarrow> RuntimePolicy \<Rightarrow> BlockContext \<Rightarrow> 'r \<Rightarrow> OutPoint \<Rightarrow> (RuneId, bytes) amounts \<Rightarrow>
   ((RuneId, bytes) amounts, 'r) flow work" where
  "txs_by_rune_id_input L policy ctx outputs outpoint sent =
     resolve_or_stop ctx policy outputs outpoint (\<lambda>utxo.
       Inr (Next (fold (\<lambda>(rune_id, amount). nested_add rune_id (script_hash L (script_pubkey (cu_txo utxo))) amount)
         (case utxo_runes ctx outpoint of Some runes \<Rightarrow> runes | None \<Rightarrow> []) sent)))"

definition txs_by_rune_id_output ::
  "bitcoin_lib \<Rightarrow> BlockContext \<Rightarrow> bytes \<Rightarrow> nat \<times> TxOut \<Rightarrow> (RuneId, bytes) amounts \<Rightarrow> (RuneId, bytes) amounts" where
  "txs_by_rune_id_output L ctx tx_id = (\<lambda>(idx, txo) received.
     fold (\<lambda>(rune_id, amount). nested_add rune_id (script_hash L (script_pubkey txo)) amount)
       (case utxo_runes ctx (outpoint_at tx_id idx) of Some runes \<Rightarrow> runes | None \<Rightarrow> []) received)"

definition seen_runes :: "bitcoin_lib \<Rightarrow> Artifact option \<Rightarrow> u64 \<Rightarrow> nat \<Rightarrow> RuneId list \<Rightarrow> RuneId list" where
  "seen_runes L artifact height tx_index seen =
     (case artifact of
        None \<Rightarrow> seen
      | Some a \<Rightarrow>
          let seen = (case artifact_mint L a of Some rune_id \<Rightarrow> set_insert rune_id seen | None \<Rightarrow> seen)
          in (case a of
                Art_Runestone r \<Rightarrow> (if rs_etching r \<noteq> None then set_insert (height, of_nat tx_index) seen else seen)
              | Art_Cenotaph _ \<Rightarrow> seen))"

definition is_etched :: "Artifact option \<Rightarrow> bool" where
  "is_etched artifact =
     (case artifact of
        Some (Art_Runestone r) \<Rightarrow> rs_etching r \<noteq> None
      | Some (Art_Cenotaph c) \<Rightarrow> ceno_etching c \<noteq> None
      | None \<Rightarrow> False)"

definition txs_by_rune_id_tx ::
  "bitcoin_lib \<Rightarrow> hash_order \<Rightarrow> RuntimePolicy \<Rightarrow> BlockContext \<Rightarrow> u64 \<Rightarrow> nat \<times> Transaction \<times> bytes \<Rightarrow>
   ReducerOutput list \<times> (RuneId \<times> u32) list \<Rightarrow> (ReducerOutput list \<times> (RuneId \<times> u32) list, ReducerOutput list) flow work" where
  "txs_by_rune_id_tx L ord policy ctx height = (\<lambda>(tx_index, tx, tx_id) (outputs, indexes).
     flow_bind
       (if \<not> is_coinbase L tx then for_each (txs_by_rune_id_input L policy ctx outputs) (prev_outputs tx) [] else Inr (Next []))
       (\<lambda>sent.
          let received = fold (txs_by_rune_id_output L ctx tx_id) (indexed_outputs tx) [];
              act = settle ord tx_id nested_insert sent received;
              artifact = decipher L tx;
              seen = seen_runes L artifact height tx_index (fold set_insert (map fst sent @ map fst received) [])
          in Inr (Next (fold (\<lambda>rune_id (outputs, indexes).
               (outputs @ [Out_TxsByRuneId rune_id height (counter_of rune_id indexes) tx_id
                  (is_etched artifact \<and> rune_id = (height, of_nat tx_index))
                  (Option.bind artifact (artifact_mint L) = Some rune_id)
                  (sort_key fst (nested rune_id (self_amounts act))) (sort_key fst (nested rune_id (decreases act)))
                  (sort_key fst (nested rune_id (increases act)))], counter_incr rune_id indexes))
             (hash_iter ord tx_id seen) (outputs, indexes)))))"

definition txs_by_rune_id_reduce_block ::
  "bitcoin_lib \<Rightarrow> hash_order \<Rightarrow> RuntimePolicy \<Rightarrow> u64 \<Rightarrow> TransactionsWithIds \<Rightarrow> BlockContext \<Rightarrow> ReducerOutput list \<Rightarrow>
   ReducerOutput list work" where
  "txs_by_rune_id_reduce_block L ord policy height txs ctx outputs =
     flow_result (flow_bind (for_each (txs_by_rune_id_tx L ord policy ctx height) (enumerate 0 txs) (outputs, []))
       (\<lambda>(outputs, _). Inr (Next outputs)))"

section \<open>The net balance changes are exact, but for a grown balance\<close>

text \<open>The amount at two keys.\<close>

definition look :: "('k \<times> ('j \<times> 'v) list) list \<Rightarrow> 'k \<Rightarrow> 'j \<Rightarrow> 'v option" where
  "look m k j = map_of (nested k m) j"

lemma look_nested_insert [simp]:
  "look (nested_insert k j v m) k' j' = (if k' = k \<and> j' = j then Some v else look m k' j')"
  by (auto simp: look_def nested_insert_def nested_def update_conv')

lemma look_update [simp]:
  "look (AList.update k n m) k' j = (if k' = k then map_of n j else look m k' j)"
  by (auto simp: look_def nested_def update_conv')

lemma look_push_self:
  "look m k j = None \<Longrightarrow> look (push_self k j v m) k' j' = (if k' = k \<and> j' = j then Some v else look m k' j')"
  by (auto simp: look_def push_self_def entry_push_def nested_def update_conv' map_add_def split: option.splits)

definition puts_self :: "('o \<Rightarrow> 'i \<Rightarrow> u128 \<Rightarrow> ('o, 'i) amounts \<Rightarrow> ('o, 'i) amounts) \<Rightarrow> bool" where
  "puts_self put \<longleftrightarrow> (\<forall>m k j v k' j'. look m k j = None \<longrightarrow>
     look (put k j v m) k' j' = (if k' = k \<and> j' = j then Some v else look m k' j'))"

lemma puts_self_instances: "puts_self push_self" "puts_self nested_insert"
  by (auto simp: puts_self_def look_push_self)

lemma saturating_sub_less: "(b :: 'a::len word) < a \<Longrightarrow> saturating_sub a b = a - b"
  by (auto simp: saturating_sub_def)

fun net_decrease :: "u128 option \<Rightarrow> u128 option \<Rightarrow> u128 option" where
  "net_decrease (Some a) None = Some a"
| "net_decrease (Some a) (Some b) = (if b < a then Some (a - b) else None)"
| "net_decrease None _ = None"

fun net_self :: "u128 option \<Rightarrow> u128 option \<Rightarrow> u128 option" where
  "net_self (Some a) (Some b) = (if a = b then Some a else None)"
| "net_self _ _ = None"

lemma settle_inner_fold:
  assumes "puts_self put" "distinct (map fst ys)"
    and "\<forall>i \<in> fst ` set ys. look (self_amounts act) k i = None \<and> look (decreases act) k i = None"
    and "fold (settle_inner put k) ys (act, r) = (act', r')"
  shows "map_of r' = map_of r |` (- (fst ` set ys))
    \<and> (\<forall>k' i. look (decreases act') k' i =
        (if k' = k \<and> i \<in> fst ` set ys then net_decrease (map_of ys i) (map_of r i) else look (decreases act) k' i))
    \<and> (\<forall>k' i. look (self_amounts act') k' i =
        (if k' = k \<and> i \<in> fst ` set ys then net_self (map_of ys i) (map_of r i) else look (self_amounts act) k' i))
    \<and> (\<forall>k' i. k' \<noteq> k \<longrightarrow> look (increases act') k' i = look (increases act) k' i)"
  using assms(2-4)
proof (induction ys arbitrary: act r)
  case Nil
  then show ?case by (auto simp: restrict_map_def)
next
  case (Cons y ys)
  obtain i a where y: "y = (i, a)" by fastforce
  obtain act1 r1 where s: "settle_inner put k y (act, r) = (act1, r1)" by fastforce
  have fresh: "look (self_amounts act) k i = None" "look (decreases act) k i = None"
    using Cons.prems(2) by (auto simp: y)
  have put: "look (put k i v (self_amounts act)) k' j' = (if k' = k \<and> j' = i then Some v else look (self_amounts act) k' j')" for v k' j'
    using assms(1) fresh(1) unfolding puts_self_def by blast
  have r1: "map_of r1 = (map_of r)(i := None)"
    using s by (auto simp: y settle_inner_def delete_conv' split: option.splits if_splits)
  have d1: "look (decreases act1) k' j = (if k' = k \<and> j = i then net_decrease (Some a) (map_of r i) else look (decreases act) k' j)" for k' j
    using s fresh by (auto simp: y settle_inner_def saturating_sub_less split: option.splits if_splits)
  have s1: "look (self_amounts act1) k' j = (if k' = k \<and> j = i then net_self (Some a) (map_of r i) else look (self_amounts act) k' j)" for k' j
    using s fresh by (auto simp: y settle_inner_def put split: option.splits if_splits)
  have i1: "k' \<noteq> k \<Longrightarrow> look (increases act1) k' j = look (increases act) k' j" for k' j
    using s by (auto simp: y settle_inner_def split: option.splits if_splits)
  have i: "i \<notin> fst ` set ys" using Cons.prems(1) by (auto simp: y)
  have f: "fold (settle_inner put k) ys (act1, r1) = (act', r')" using Cons.prems(3) by (simp add: s)
  have n: "\<forall>j \<in> fst ` set ys. look (self_amounts act1) k j = None \<and> look (decreases act1) k j = None"
    using Cons.prems(2) i by (auto simp: s1 d1)
  have "distinct (map fst ys)" using Cons.prems(1) by simp
  from Cons.IH [OF this n f] show ?case
    using i by (auto simp: y r1 d1 s1 i1 restrict_map_def)
qed


definition amounts_wf :: "('o, 'i) amounts \<Rightarrow> bool" where
  "amounts_wf m \<longleftrightarrow> distinct (map fst m) \<and> (\<forall>k n. map_of m k = Some n \<longrightarrow> distinct (map fst n))"

definition reported_increase :: "u128 option \<Rightarrow> u128 option \<Rightarrow> u128 option" where
  "reported_increase sent received = (if sent = None then received else None)"

definition fresh_outer :: "('o, 'i) activity \<Rightarrow> 'o \<Rightarrow> bool" where
  "fresh_outer act k \<longleftrightarrow> (\<forall>i. look (self_amounts act) k i = None \<and> look (increases act) k i = None \<and> look (decreases act) k i = None)"

lemma look_outer_None: "map_of m k = None \<Longrightarrow> look m k i = None"
  by (simp add: look_def nested_def)

lemma look_outer_Some: "map_of m k = Some n \<Longrightarrow> look m k i = map_of n i"
  by (simp add: look_def nested_def)

lemma settle_outer_step:
  assumes "hash_order_ok ord" "puts_self put" "distinct (map fst si)" "fresh_outer act k"
    and "settle_outer ord seed put (k, si) (act, r) = (act', r')"
  shows "map_of r' = (map_of r)(k := None) \<and> (distinct (map fst r) \<longrightarrow> distinct (map fst r'))
    \<and> (\<forall>k' i. look (decreases act') k' i = (if k' = k then net_decrease (map_of si i) (look r k i) else look (decreases act) k' i))
    \<and> (\<forall>k' i. look (self_amounts act') k' i = (if k' = k then net_self (map_of si i) (look r k i) else look (self_amounts act) k' i))
    \<and> (\<forall>k' i. look (increases act') k' i = (if k' = k then reported_increase (map_of si i) (look r k i) else look (increases act) k' i))"
proof (cases "map_of r k")
  case None
  then have "act' = act\<lparr>decreases := AList.update k si (decreases act)\<rparr>" "r' = r"
    using assms(5) by (simp_all add: settle_outer_def)
  moreover have "net_decrease x None = x" for x by (cases x) simp_all
  ultimately show ?thesis
    using None assms(4) by (auto simp: fresh_outer_def look_outer_None reported_increase_def)
next
  case (Some ri)
  let ?ys = "hash_iter ord seed si"
  obtain act1 r1 where f: "fold (settle_inner put k) ?ys (act, ri) = (act1, r1)" by fastforce
  have ys: "distinct (map fst ?ys)" "map_of ?ys = map_of si" "fst ` set ?ys = dom (map_of si)"
    using assms(1,3) by (simp_all add: hash_iter_keys hash_iter_map_of dom_map_of_conv_image_fst)
  have act': "act' = act1\<lparr>increases := AList.update k r1 (increases act1)\<rparr>" "r' = AList.delete k r"
    using assms(5) Some f by (simp_all add: settle_outer_def)
  have fresh: "\<forall>i \<in> fst ` set ?ys. look (self_amounts act) k i = None \<and> look (decreases act) k i = None"
    using assms(4) by (simp add: fresh_outer_def)
  show ?thesis
    using settle_inner_fold [OF assms(2) ys(1) fresh f] assms(4) ys(2)
    unfolding act' ys(3)
    by (auto simp: look_outer_Some [OF Some] delete_conv' fresh_outer_def reported_increase_def restrict_map_def domIff
        intro: distinct_delete)
qed

lemma settle_outer_fold:
  assumes "hash_order_ok ord" "puts_self put"
  shows "fold (settle_outer ord seed put) xs (act, r) = (act', r') \<Longrightarrow> distinct (map fst xs) \<Longrightarrow>
    (\<forall>(k, n) \<in> set xs. distinct (map fst n)) \<Longrightarrow> (\<forall>k \<in> fst ` set xs. fresh_outer act k) \<Longrightarrow> distinct (map fst r) \<Longrightarrow>
    distinct (map fst r') \<and> map_of r' = map_of r |` (- (fst ` set xs))
    \<and> (\<forall>k i. look (decreases act') k i =
        (if k \<in> fst ` set xs then net_decrease (look xs k i) (look r k i) else look (decreases act) k i))
    \<and> (\<forall>k i. look (self_amounts act') k i =
        (if k \<in> fst ` set xs then net_self (look xs k i) (look r k i) else look (self_amounts act) k i))
    \<and> (\<forall>k i. look (increases act') k i =
        (if k \<in> fst ` set xs then reported_increase (look xs k i) (look r k i) else look (increases act) k i))"
proof (induction xs arbitrary: act r)
  case Nil
  then show ?case by (auto simp: restrict_map_def)
next
  case (Cons x xs)
  obtain k si where x: "x = (k, si)" by fastforce
  obtain act1 r1 where s: "settle_outer ord seed put (k, si) (act, r) = (act1, r1)" by fastforce
  have si: "distinct (map fst si)" and fr: "fresh_outer act k" and kx: "k \<notin> fst ` set xs" "distinct (map fst xs)"
    using Cons.prems(2-4) by (auto simp: x)
  note step = settle_outer_step [OF assms si fr s]
  have "fresh_outer act1 k'" if "k' \<in> fst ` set xs" for k'
  proof -
    have "fresh_outer act k'" "k' \<noteq> k" using Cons.prems(4) that kx(1) by (auto simp: x)
    then show ?thesis using step by (simp add: fresh_outer_def)
  qed
  moreover have "fold (settle_outer ord seed put) xs (act1, r1) = (act', r')" using Cons.prems(1) by (simp add: x s)
  ultimately have ih: "distinct (map fst r') \<and> map_of r' = map_of r1 |` (- (fst ` set xs))
    \<and> (\<forall>k i. look (decreases act') k i =
        (if k \<in> fst ` set xs then net_decrease (look xs k i) (look r1 k i) else look (decreases act1) k i))
    \<and> (\<forall>k i. look (self_amounts act') k i =
        (if k \<in> fst ` set xs then net_self (look xs k i) (look r1 k i) else look (self_amounts act1) k i))
    \<and> (\<forall>k i. look (increases act') k i =
        (if k \<in> fst ` set xs then reported_increase (look xs k i) (look r1 k i) else look (increases act1) k i))"
    using Cons.prems(3,5) kx(2) step by (intro Cons.IH) auto
  have l: "look (x # xs) k' i = (if k' = k then map_of si i else look xs k' i)" for k' i
    by (simp add: look_def nested_def x)
  have r1: "k' \<noteq> k \<Longrightarrow> look r1 k' i = look r k' i" for k' i using step by (simp add: look_def nested_def)
  have k': "k' \<in> fst ` set (x # xs) \<longleftrightarrow> k' = k \<or> k' \<in> fst ` set xs" for k' by (auto simp: x)
  have m: "map_of r' = map_of r |` (- (fst ` set (x # xs)))"
    using ih step by (auto simp: x restrict_map_def)
  have d: "distinct (map fst r')" using ih by blast
  show ?case
    unfolding l k' using ih step kx(1) by (intro conjI d m) (auto simp: r1)
qed

lemma fold_update_look:
  "distinct (map fst rest) \<Longrightarrow>
   look (fold (\<lambda>(outer, n). AList.update outer n) rest m) k i = (if k \<in> fst ` set rest then look rest k i else look m k i)"
proof (induction rest arbitrary: m)
  case Nil
  then show ?case by simp
next
  case (Cons x rest)
  obtain o' n where x: "x = (o', n)" by fastforce
  then show ?case using Cons by (auto simp: look_def nested_def update_conv')
qed

text \<open>
  C0: The net rune activity of a transaction is exact for every script and rune, whatever the iteration
  order of the hash maps: a decrease is reported with the difference, an amount received in full as a
  self-transfer, and a rune that was only received as an increase. A rune of which a script sent some and
  received more is not reported at all.
\<close>

theorem settle_exact:
  assumes "hash_order_ok ord" "put = push_self \<or> put = nested_insert" "amounts_wf sent" "amounts_wf received"
  shows "look (decreases (settle ord seed put sent received)) k i = net_decrease (look sent k i) (look received k i)
    \<and> look (self_amounts (settle ord seed put sent received)) k i = net_self (look sent k i) (look received k i)
    \<and> look (increases (settle ord seed put sent received)) k i = reported_increase (look sent k i) (look received k i)"
proof -
  let ?xs = "hash_iter ord seed sent"
  let ?e = "\<lparr>self_amounts = [], increases = [], decreases = []\<rparr> :: ('a, 'b) activity"
  obtain act r where f: "fold (settle_outer ord seed put) ?xs (?e, received) = (act, r)" by fastforce
  have put: "puts_self put" using assms(2) puts_self_instances by auto
  have xs: "distinct (map fst ?xs)" "\<forall>(k, n) \<in> set ?xs. distinct (map fst n)" "map_of ?xs = map_of sent"
    "distinct (map fst received)" "fst ` set ?xs = dom (map_of sent)"
    using assms(1,3,4) by (auto simp: amounts_wf_def hash_iter_keys hash_iter_map_of map_of_eq_Some_iff dom_map_of_conv_image_fst)
  have fr: "\<forall>k \<in> fst ` set ?xs. fresh_outer ?e k" by (simp add: fresh_outer_def look_def nested_def)
  have l: "look ?xs = look sent" by (intro ext) (simp add: look_def nested_def xs(3))
  note s = settle_outer_fold [OF assms(1) put f xs(1,2) fr xs(4), unfolded l xs(5)]
  have eq: "settle ord seed put sent received =
      act\<lparr>increases := fold (\<lambda>(outer, n). AList.update outer n) (hash_iter ord seed r) (increases act)\<rparr>"
    using f by (simp add: settle_def)
  have r: "distinct (map fst (hash_iter ord seed r))" "map_of (hash_iter ord seed r) = map_of r"
    "fst ` set (hash_iter ord seed r) = dom (map_of r)"
    subgoal using s assms(1) by (simp add: hash_iter_keys)
    subgoal using s assms(1) by (simp add: hash_iter_map_of)
    subgoal using assms(1) by (simp add: dom_map_of_conv_image_fst)
    done
  have e: "look [] k i = None" for k :: 'a and i :: 'b by (simp add: look_def nested_def)
  have n: "k \<notin> dom (map_of m) \<Longrightarrow> look m k i = None" for m :: "('a, 'b) amounts" by (auto simp: look_def nested_def domIff)
  have dec: "look (decreases (settle ord seed put sent received)) k i = net_decrease (look sent k i) (look received k i)"
    using s n [of sent] by (simp add: eq e)
  have self: "look (self_amounts (settle ord seed put sent received)) k i = net_self (look sent k i) (look received k i)"
    using s n [of sent] by (simp add: eq e)
  have lr: "look (hash_iter ord seed r) k i = look r k i" by (simp add: look_def nested_def r(2))
  have lr': "look r k i = (if k \<in> dom (map_of sent) then None else look received k i)"
    using s by (simp add: look_def nested_def)
  have "look (increases (settle ord seed put sent received)) k i = reported_increase (look sent k i) (look received k i)"
    using s n [of sent] n [of r] n [of received] lr' by (auto simp: eq fold_update_look [OF r(1)] r(3) lr e reported_increase_def)
  with dec self show ?thesis by blast
qed

theorem settle_exact_witness:
  "look (decreases (settle sample_order [8] push_self [([1 :: u8], [(1 :: u8, 10)])] [([1], [(1, 4)])])) [1] 1 = Some 6"
proof -
  have "hash_order_ok sample_order" by (simp add: hash_order_ok_def sample_order_def)
  moreover have "amounts_wf [([1 :: u8], [(1 :: u8, 10)])]" "amounts_wf [([1 :: u8], [(1 :: u8, 4)])]"
    by (simp_all add: amounts_wf_def)
  ultimately show ?thesis
    using settle_exact [of sample_order push_self "[([1 :: u8], [(1 :: u8, 10)])]" "[([1], [(1, 4)])]" "[8]" "[1]" 1]
    by (simp add: look_def nested_def)
qed

definition rune_tx :: Transaction where
  "rune_tx = \<lparr>tx_version = 2, lock_time = 0, tx_input = [sample_input [7] 0, sample_input [7] 1],
     tx_output = [\<lparr>txo_value = 546, script_pubkey = [1]\<rparr>]\<rparr>"

text \<open>Script 1 spends 10 of a rune, script 2 spends 5, and script 1 gets all 15.\<close>

definition rune_ctx :: BlockContext where
  "rune_ctx = BlockContext_new\<lparr>
     input_resolver := [(\<lparr>op_txid = [7], op_vout = 0\<rparr>, sample_utxo 546 [1]), (\<lparr>op_txid = [7], op_vout = 1\<rparr>, sample_utxo 546 [2])],
     runes_resolver := [(\<lparr>op_txid = [7], op_vout = 0\<rparr>, [((840000, 1), 10)]), (\<lparr>op_txid = [7], op_vout = 1\<rparr>, [((840000, 1), 5)]),
       (\<lparr>op_txid = [8], op_vout = 0\<rparr>, [((840000, 1), 15)])]\<rparr>"

text \<open>
  C0: A grown rune balance is missing from both indexes: script 1 spends 10 of a rune and receives 15 of it,
  but neither the activity of the script nor that of the rune reports the increase of 5.
\<close>

theorem grown_rune_balance_not_reported:
  "rune_txs_by_script_hash_reduce_block sample_lib sample_order sample_policy 9 [(rune_tx, [8])] rune_ctx ([], []) =
     Inr ([Out_RuneTxsByScriptHash [1] 9 0 [8] None None [] [] [],
           Out_RuneTxsByScriptHash [2] 9 0 [8] None None [] [] [((840000, 1), 5)]], [([1], 1), ([2], 1)])
   \<and> txs_by_rune_id_reduce_block sample_lib sample_order sample_policy 9 [(rune_tx, [8])] rune_ctx [] =
     Inr [Out_TxsByRuneId (840000, 1) 9 0 [8] False False [] [([2], 5)] []]"
  by code_simp

end
