(* ===== verification/Reducers_Inscriptions.thy ===== *)
theory Reducers_Inscriptions
  imports Block_Model Redis_Entry
begin

text \<open>
  The reducers of inscriptions and BRC-20 tokens (\<open>services/polyphony-xbt/src/reducers\<close>): contents,
  unspent outputs and activity of inscriptions, BRC-20 deployments, balances and transfers. The
  inscriptions on an output and the messages of an inscription come from the block context; the
  envelopes of a transaction are parsed by the \<open>ord\<close> crate, JSON by \<open>serde_json\<close>.
\<close>

section \<open>Contents and unspent outputs\<close>

definition inscription_ids :: "bytes \<Rightarrow> Envelope list \<Rightarrow> (InscriptionId \<times> Envelope) list" where
  "inscription_ids txid envs = map (\<lambda>(idx, env). ((txid, of_nat idx), env)) (enumerate 0 envs)"

definition bytes_or_default :: "bytes option \<Rightarrow> bytes" where
  "bytes_or_default x = (case x of Some bs \<Rightarrow> bs | None \<Rightarrow> [])"

definition content_by_inscription_id_reduce_block ::
  "bitcoin_lib \<Rightarrow> u64 \<Rightarrow> TransactionsWithIds \<Rightarrow> BlockContext \<Rightarrow> ReducerOutput list \<Rightarrow> ReducerOutput list work" where
  "content_by_inscription_id_reduce_block L block_height txs ctx outputs =
     Inr (outputs @ concat (map (\<lambda>(tx, txid). List.map_filter (\<lambda>(iid, env).
       map_option (\<lambda>num. Out_ContentByInscriptionId iid block_height num
         (bytes_or_default (env_content_type env)) (bytes_or_default (env_body env))) (new_inscriptions ctx iid))
       (inscription_ids txid (envelopes L tx))) txs))"

definition inscription_utxos_consumed ::
  "bitcoin_lib \<Rightarrow> RuntimePolicy \<Rightarrow> BlockContext \<Rightarrow> OutPoint \<Rightarrow> ReducerOutput list \<Rightarrow> ReducerOutput list work" where
  "inscription_utxos_consumed L policy ctx input outputs =
     work_bind (resolve_utxo ctx policy input) (\<lambda>u. case u of
       None \<Rightarrow> Inr outputs
     | Some utxo \<Rightarrow> Inr (if utxo_inscriptions ctx input \<noteq> None
         then outputs @ [Out_InscriptionUtxosByScriptHash (script_hash L (script_pubkey (cu_txo utxo)))
           (cu_height utxo) (op_txid input) (op_vout input) Consumed]
         else outputs))"

definition inscription_utxos_produced ::
  "bitcoin_lib \<Rightarrow> BlockContext \<Rightarrow> u64 \<Rightarrow> OutPoint \<Rightarrow> TxOut \<Rightarrow> ReducerOutput list \<Rightarrow> ReducerOutput list work" where
  "inscription_utxos_produced L ctx height outpoint txo outputs =
     (case utxo_inscriptions ctx outpoint of
        None \<Rightarrow> Inr outputs
      | Some inscriptions \<Rightarrow> Inr (outputs @ [Out_InscriptionUtxosByScriptHash (script_hash L (script_pubkey txo)) height
          (op_txid outpoint) (op_vout outpoint)
          (Produced (txo_value txo, map (\<lambda>(offset, iid). (ucast offset, iid)) inscriptions))]))"

definition inscription_utxos_by_script_hash_reduce_block ::
  "bitcoin_lib \<Rightarrow> RuntimePolicy \<Rightarrow> u64 \<Rightarrow> TransactionsWithIds \<Rightarrow> BlockContext \<Rightarrow> ReducerOutput list \<Rightarrow> ReducerOutput list work" where
  "inscription_utxos_by_script_hash_reduce_block L policy height txs ctx outputs =
     for_unchained_txos L (inscription_utxos_consumed L policy ctx) (inscription_utxos_produced L ctx height) txs outputs"

definition total_inscriptions_tx ::
  "bitcoin_lib \<Rightarrow> RuntimePolicy \<Rightarrow> BlockContext \<Rightarrow> Transaction \<times> bytes \<Rightarrow> ReducerOutput list \<Rightarrow>
   (ReducerOutput list, ReducerOutput list) flow work" where
  "total_inscriptions_tx L policy ctx = (\<lambda>(tx, tx_id) outputs.
     flow_bind
       (if \<not> is_coinbase L tx then
          for_each (\<lambda>outpoint outputs. resolve_or_stop ctx policy outputs outpoint (\<lambda>utxo.
              Inr (Next (case utxo_inscriptions ctx outpoint of
                 Some old_inscriptions \<Rightarrow> outputs @ [Out_TotalInscriptionsByScriptHash
                   (script_hash L (script_pubkey (cu_txo utxo))) (IoD_Decrement (of_nat (length old_inscriptions)))]
               | None \<Rightarrow> outputs)))) (prev_outputs tx) outputs
        else Inr (Next outputs))
       (\<lambda>outputs. Inr (Next (outputs @ List.map_filter (\<lambda>(idx, txo).
          map_option (\<lambda>new_inscriptions. Out_TotalInscriptionsByScriptHash (script_hash L (script_pubkey txo))
            (IoD_Increment (of_nat (length new_inscriptions)))) (utxo_inscriptions ctx (outpoint_at tx_id idx)))
          (indexed_outputs tx)))))"

definition total_inscriptions_by_script_hash_reduce_block ::
  "bitcoin_lib \<Rightarrow> RuntimePolicy \<Rightarrow> TransactionsWithIds \<Rightarrow> BlockContext \<Rightarrow> ReducerOutput list \<Rightarrow> ReducerOutput list work" where
  "total_inscriptions_by_script_hash_reduce_block L policy txs ctx outputs =
     flow_result (for_each (total_inscriptions_tx L policy ctx) txs outputs)"

section \<open>Inscription activity of scripts\<close>

type_synonym located = "u32 \<times> u64 \<times> bytes"

record inscription_scripts =
  is_all :: "bytes list"
  is_active :: "bytes list"
  is_located :: "(InscriptionId \<times> located) list"
  is_holders :: "(bytes \<times> InscriptionId list) list"

definition locate :: "BlockContext \<Rightarrow> OutPoint \<Rightarrow> nat \<Rightarrow> bytes \<Rightarrow> inscription_scripts \<Rightarrow> inscription_scripts" where
  "locate ctx outpoint idx sh st =
     (let st = (case utxo_inscriptions ctx outpoint of
                  None \<Rightarrow> st
                | Some inscriptions \<Rightarrow> fold (\<lambda>(offset, iid) st.
                    st\<lparr>is_located := AList.update iid (of_nat idx, ucast offset, sh) (is_located st),
                       is_holders := entry_insert sh iid (is_holders st)\<rparr>) inscriptions
                    st\<lparr>is_active := set_insert sh (is_active st)\<rparr>)
      in st\<lparr>is_all := set_insert sh (is_all st)\<rparr>)"

record script_activity =
  sa_self :: "(InscriptionId \<times> (u32 \<times> u64) \<times> (u32 \<times> u64)) list"
  sa_sent :: "(InscriptionId \<times> (u32 \<times> u64) \<times> (u32 \<times> u64 \<times> bytes) option) list"
  sa_received :: "(InscriptionId \<times> (u32 \<times> u64 \<times> bytes) option \<times> (u32 \<times> u64)) list"

text \<open>What a script does with an inscription it held in the inputs.\<close>

definition send_inscription ::
  "(InscriptionId \<times> located) list \<Rightarrow> (InscriptionId \<times> located) list \<Rightarrow> bytes \<Rightarrow> InscriptionId \<Rightarrow>
   script_activity \<times> (bytes \<times> InscriptionId list) list \<Rightarrow> (script_activity \<times> (bytes \<times> InscriptionId list) list) work" where
  "send_inscription sent_inscriptions received_inscriptions sh iid = (\<lambda>(sa, receivers).
     work_bind (unwrap (map_of sent_inscriptions iid)) (\<lambda>(input_index, input_sat_offset, _).
     Inr (case map_of received_inscriptions iid of
        Some (output_index, output_sat_offset, output_script_hash) \<Rightarrow>
          if output_script_hash = sh
          then (sa\<lparr>sa_self := sa_self sa @ [(iid, (input_index, input_sat_offset), (output_index, output_sat_offset))]\<rparr>,
                case map_of receivers sh of Some ids \<Rightarrow> AList.update sh (removeAll iid ids) receivers | None \<Rightarrow> receivers)
          else (sa\<lparr>sa_sent := sa_sent sa @ [(iid, (input_index, input_sat_offset), Some (output_index, output_sat_offset, output_script_hash))]\<rparr>,
                receivers)
      | None \<Rightarrow> (sa\<lparr>sa_sent := sa_sent sa @ [(iid, (input_index, input_sat_offset), None)]\<rparr>, receivers))))"

definition receive_inscription ::
  "(InscriptionId \<times> located) list \<Rightarrow> (InscriptionId \<times> located) list \<Rightarrow> InscriptionId \<Rightarrow> script_activity \<Rightarrow> script_activity work" where
  "receive_inscription sent_inscriptions received_inscriptions iid sa =
     work_bind (unwrap (map_of received_inscriptions iid)) (\<lambda>(output_index, output_sat_offset, _).
     Inr (sa\<lparr>sa_received := sa_received sa @ [(iid, map_of sent_inscriptions iid, (output_index, output_sat_offset))]\<rparr>))"

definition script_step ::
  "hash_order \<Rightarrow> u64 \<Rightarrow> bytes \<Rightarrow> (bytes \<times> u32) list \<Rightarrow> (InscriptionId \<times> located) list \<Rightarrow> (bytes \<times> InscriptionId list) list \<Rightarrow>
   (InscriptionId \<times> located) list \<Rightarrow> bytes \<Rightarrow> ReducerOutput list \<times> (bytes \<times> InscriptionId list) list \<Rightarrow>
   (ReducerOutput list \<times> (bytes \<times> InscriptionId list) list) work" where
  "script_step ord height tx_hash indexes sent_inscriptions senders received_inscriptions sh = (\<lambda>(outputs, receivers).
     work_bind (work_fold (send_inscription sent_inscriptions received_inscriptions sh)
         (hash_iter ord tx_hash (case map_of senders sh of Some ids \<Rightarrow> ids | None \<Rightarrow> []))
         (\<lparr>sa_self = [], sa_sent = [], sa_received = []\<rparr>, receivers)) (\<lambda>(sa, receivers).
     work_bind (work_fold (receive_inscription sent_inscriptions received_inscriptions)
         (hash_iter ord tx_hash (case map_of receivers sh of Some ids \<Rightarrow> ids | None \<Rightarrow> [])) sa) (\<lambda>sa.
     Inr (outputs @ [Out_InscriptionActivityByScriptHash sh height (counter_of sh indexes) tx_hash (sa_self sa) (sa_sent sa) (sa_received sa)],
          AList.delete sh receivers))))"

definition inscription_activity_tx ::
  "bitcoin_lib \<Rightarrow> hash_order \<Rightarrow> RuntimePolicy \<Rightarrow> BlockContext \<Rightarrow> u64 \<Rightarrow> Transaction \<times> bytes \<Rightarrow>
   ReducerOutput list \<times> (bytes \<times> u32) list \<Rightarrow>
   (ReducerOutput list \<times> (bytes \<times> u32) list, ReducerOutput list \<times> (bytes \<times> u32) list) flow work" where
  "inscription_activity_tx L ord policy ctx height = (\<lambda>(tx, tx_id) (outputs, indexes).
     flow_bind
       (if \<not> is_coinbase L tx then
          for_each (\<lambda>(idx, outpoint) st. resolve_or_stop ctx policy (outputs, indexes) outpoint (\<lambda>utxo.
              Inr (Next (locate ctx outpoint idx (script_hash L (script_pubkey (cu_txo utxo))) st))))
            (enumerate 0 (prev_outputs tx)) \<lparr>is_all = [], is_active = [], is_located = [], is_holders = []\<rparr>
        else Inr (Next \<lparr>is_all = [], is_active = [], is_located = [], is_holders = []\<rparr>))
       (\<lambda>sent.
          let received = fold (\<lambda>(idx, txo) st.
                if is_op_return L (script_pubkey txo) then st
                else locate ctx (outpoint_at tx_id idx) idx (script_hash L (script_pubkey txo)) st)
                (indexed_outputs tx) (sent\<lparr>is_located := [], is_holders := []\<rparr>)
          in work_bind (work_fold
               (script_step ord height tx_id indexes (is_located sent) (is_holders sent) (is_located received))
               (hash_iter ord tx_id (is_active received)) (outputs, is_holders received)) (\<lambda>(outputs, _).
             Inr (Next (outputs, fold counter_incr (hash_iter ord tx_id (is_all received)) indexes)))))"

definition inscription_activity_by_script_hash_reduce_block ::
  "bitcoin_lib \<Rightarrow> hash_order \<Rightarrow> RuntimePolicy \<Rightarrow> u64 \<Rightarrow> TransactionsWithIds \<Rightarrow> BlockContext \<Rightarrow>
   ReducerOutput list \<times> (bytes \<times> u32) list \<Rightarrow> (ReducerOutput list \<times> (bytes \<times> u32) list) work" where
  "inscription_activity_by_script_hash_reduce_block L ord policy height txs ctx st =
     flow_result (for_each (inscription_activity_tx L ord policy ctx height) txs st)"

section \<open>Inscription activity of transactions\<close>

type_synonym endpoint = "ScriptHash \<times> TxoIndex \<times> SatoshiOffset"

text \<open>Where the inscriptions of the inputs come from, by inscription.\<close>

definition input_infos ::
  "bitcoin_lib \<Rightarrow> RuntimePolicy \<Rightarrow> BlockContext \<Rightarrow> 'r \<Rightarrow> Transaction \<Rightarrow> ((InscriptionId \<times> endpoint) list, 'r) flow work" where
  "input_infos L policy ctx outputs tx =
     for_each (\<lambda>(idx, outpoint) infos.
       for_each (\<lambda>(offset, iid) infos. resolve_or_stop ctx policy outputs outpoint (\<lambda>utxo.
           Inr (Next (AList.update iid (script_hash L (script_pubkey (cu_txo utxo)), of_nat idx, ucast offset) infos))))
         (case utxo_inscriptions ctx outpoint of Some inscriptions \<Rightarrow> inscriptions | None \<Rightarrow> []) infos)
       (enumerate 0 (prev_outputs tx)) []"

text \<open>The inscriptions on the outputs of a transaction, in order, with where they are.\<close>

definition output_infos :: "bitcoin_lib \<Rightarrow> BlockContext \<Rightarrow> Transaction \<Rightarrow> bytes \<Rightarrow> (InscriptionId \<times> endpoint) list" where
  "output_infos L ctx tx tx_id = concat (map (\<lambda>(idx, txo).
     map (\<lambda>(offset, iid). (iid, (script_hash L (script_pubkey txo), of_nat idx, ucast offset)))
       (case utxo_inscriptions ctx (outpoint_at tx_id idx) of Some inscriptions \<Rightarrow> inscriptions | None \<Rightarrow> []))
     (indexed_outputs tx))"

definition inscription_activity_by_tx_reduce_block ::
  "bitcoin_lib \<Rightarrow> RuntimePolicy \<Rightarrow> u64 \<Rightarrow> TransactionsWithIds \<Rightarrow> BlockContext \<Rightarrow> ReducerOutput list \<Rightarrow> ReducerOutput list work" where
  "inscription_activity_by_tx_reduce_block L policy height txs ctx outputs =
     flow_result (for_each (\<lambda>(tx_index, tx, tx_id) outputs.
       flow_bind (input_infos L policy ctx outputs tx) (\<lambda>infos.
         let tx_inscriptions = map (\<lambda>(iid, target). (iid, (map_of infos iid, target))) (output_infos L ctx tx tx_id)
         in Inr (Next (if tx_inscriptions \<noteq> []
              then outputs @ [Out_InscriptionActivityByTx height (of_nat tx_index) tx_id tx_inscriptions] else outputs))))
       (enumerate 0 txs) outputs)"

text \<open>The new inscriptions of a block by the transaction that reveals them.\<close>

definition new_by_tx :: "hash_order \<Rightarrow> BlockContext \<Rightarrow> (bytes \<times> u32 list) list" where
  "new_by_tx ord ctx = fold (\<lambda>((txid, index), _). entry_push txid index) (hash_iter ord [] (get_all_new_inscriptions ctx)) []"

type_synonym activity_v2 = "InscriptionId \<times> (endpoint option \<times> endpoint option)"

definition match_output :: "InscriptionId \<times> endpoint \<Rightarrow> activity_v2 list \<times> (InscriptionId \<times> endpoint) list \<Rightarrow>
   activity_v2 list \<times> (InscriptionId \<times> endpoint) list" where
  "match_output = (\<lambda>(iid, target) (activity, infos). (activity @ [(iid, (map_of infos iid, Some target))], AList.delete iid infos))"

definition tx_activity_v2 ::
  "(InscriptionId \<times> endpoint) list \<Rightarrow> (InscriptionId \<times> endpoint) list \<Rightarrow> bytes \<Rightarrow> u32 list \<Rightarrow> activity_v2 list" where
  "tx_activity_v2 infos outs tx_id new_indices =
     (let (activity, rest) = fold match_output outs ([], infos)
      in take 10000 (activity
        @ map (\<lambda>(iid, info). (iid, (Some info, None))) (sort rest)
        @ map (\<lambda>index. ((tx_id, index), (None, None)))
            (filter (\<lambda>index. (tx_id, index) \<notin> set (map fst outs)) new_indices)))"

definition inscription_activity_v2_tx ::
  "bitcoin_lib \<Rightarrow> RuntimePolicy \<Rightarrow> BlockContext \<Rightarrow> u64 \<Rightarrow> nat \<times> Transaction \<times> bytes \<Rightarrow>
   ReducerOutput list \<times> (bytes \<times> u32 list) list \<Rightarrow> (ReducerOutput list \<times> (bytes \<times> u32 list) list, ReducerOutput list) flow work" where
  "inscription_activity_v2_tx L policy ctx height = (\<lambda>(tx_index, tx, tx_id) (outputs, news).
     flow_bind (input_infos L policy ctx outputs tx) (\<lambda>infos.
       let activity = tx_activity_v2 infos (output_infos L ctx tx tx_id) tx_id
             (case map_of news tx_id of Some indices \<Rightarrow> indices | None \<Rightarrow> [])
       in Inr (Next (if activity \<noteq> []
            then outputs @ [Out_InscriptionActivityByTxV2 height (of_nat tx_index) tx_id activity] else outputs,
          AList.delete tx_id news))))"

definition inscription_activity_by_tx_v2_reduce_block ::
  "bitcoin_lib \<Rightarrow> hash_order \<Rightarrow> RuntimePolicy \<Rightarrow> u64 \<Rightarrow> TransactionsWithIds \<Rightarrow> BlockContext \<Rightarrow> ReducerOutput list \<Rightarrow>
   ReducerOutput list work" where
  "inscription_activity_by_tx_v2_reduce_block L ord policy height txs ctx outputs =
     flow_result (flow_bind (for_each (inscription_activity_v2_tx L policy ctx height) (enumerate 0 txs)
       (outputs, new_by_tx ord ctx)) (\<lambda>(outputs, _). Inr (Next outputs)))"

section \<open>Transactions of an inscription\<close>

definition PREFIX_LENGTH :: nat where
  "PREFIX_LENGTH = 2"

type_synonym buckets = "(bytes \<times> ((bytes \<times> u32) \<times> (u32 \<times> u32) list) list) list"

definition activity_map_entry :: "u32 \<Rightarrow> u32 \<Rightarrow> InscriptionId \<Rightarrow> bytes \<times> (bytes \<times> u32) \<times> (u32 \<times> u32)" where
  "activity_map_entry tx_index counter = (\<lambda>(reveal_tx_id, inscription_index).
     (take PREFIX_LENGTH reveal_tx_id, (drop PREFIX_LENGTH reveal_tx_id, inscription_index), (tx_index, counter)))"

definition add_activity :: "u32 \<Rightarrow> InscriptionId \<Rightarrow> buckets \<times> u32 \<Rightarrow> buckets \<times> u32" where
  "add_activity tx_index iid = (\<lambda>(buckets, counter).
     let (prefix, suffix_and_index, new_activity) = activity_map_entry tx_index counter iid
     in (AList.update prefix (entry_push suffix_and_index new_activity (nested prefix buckets)) buckets, counter + 1))"

definition input_inscriptions :: "bitcoin_lib \<Rightarrow> BlockContext \<Rightarrow> Transaction \<Rightarrow> InscriptionId list" where
  "input_inscriptions L ctx tx =
     (if \<not> is_coinbase L tx then
        fold (\<lambda>outpoint. fold (\<lambda>(_, iid). set_insert iid)
          (case utxo_inscriptions ctx outpoint of Some inscriptions \<Rightarrow> inscriptions | None \<Rightarrow> [])) (prev_outputs tx) []
      else [])"

definition txs_by_inscription_tx ::
  "bitcoin_lib \<Rightarrow> BlockContext \<Rightarrow> nat \<times> Transaction \<times> bytes \<Rightarrow> buckets \<times> (bytes \<times> u32 list) list \<Rightarrow>
   buckets \<times> (bytes \<times> u32 list) list" where
  "txs_by_inscription_tx L ctx = (\<lambda>(tx_index, tx, tx_id) (buckets, news).
     let out_ids = concat (map (\<lambda>(idx, _). map snd (case utxo_inscriptions ctx (outpoint_at tx_id idx) of
           Some inscriptions \<Rightarrow> inscriptions | None \<Rightarrow> [])) (indexed_outputs tx));
         rest = fold removeAll out_ids (input_inscriptions L ctx tx);
         spent_new = map (\<lambda>index. (tx_id, index)) (filter (\<lambda>index. (tx_id, index) \<notin> set out_ids)
           (case map_of news tx_id of Some indices \<Rightarrow> indices | None \<Rightarrow> []))
     in (fst (fold (add_activity (of_nat tx_index)) (out_ids @ sort rest @ spent_new) (buckets, 0)), AList.delete tx_id news))"

definition txs_by_inscription_reduce_block ::
  "bitcoin_lib \<Rightarrow> hash_order \<Rightarrow> u64 \<Rightarrow> TransactionsWithIds \<Rightarrow> BlockContext \<Rightarrow> ReducerOutput list \<Rightarrow> ReducerOutput list work" where
  "txs_by_inscription_reduce_block L ord height txs ctx outputs =
     Inr (outputs @ map (\<lambda>(bucket_id, activity). Out_TxsByInscription bucket_id height activity)
       (fst (fold (txs_by_inscription_tx L ctx) (enumerate 0 txs) ([], new_by_tx ord ctx))))"

section \<open>BRC-20 balances and transfers\<close>

definition brc20s :: "BlockContext \<Rightarrow> InscriptionId \<Rightarrow> BRC20Message list" where
  "brc20s ctx iid = (case inscription_brc20s ctx iid of Some actions \<Rightarrow> actions | None \<Rightarrow> [])"

definition new_brc20s :: "bitcoin_lib \<Rightarrow> BlockContext \<Rightarrow> Transaction \<Rightarrow> bytes \<Rightarrow> BRC20Message list" where
  "new_brc20s L ctx tx txid = concat (map (\<lambda>(iid, _). brc20s ctx iid) (inscription_ids txid (envelopes L tx)))"

text \<open>The transfers of an output that is spent: those whose inscription has not moved since it was inscribed.\<close>

fun first_transfer :: "OutPoint \<Rightarrow> BRC20Message \<Rightarrow> (bytes \<times> u128 \<times> ScriptHash) option" where
  "first_transfer input (Brc_Transfer tick amt op receiver) = (if op = input then Some (tick, amt, receiver) else None)"
| "first_transfer input _ = None"

definition transfers_from :: "BlockContext \<Rightarrow> OutPoint \<Rightarrow> (u32 \<times> InscriptionId) list \<Rightarrow> (bytes \<times> u128 \<times> ScriptHash) list" where
  "transfers_from ctx input inscriptions =
     concat (map (\<lambda>(_, iid). List.map_filter (first_transfer input) (brc20s ctx iid)) inscriptions)"

definition balances_by_brc20_consumed ::
  "bitcoin_lib \<Rightarrow> RuntimePolicy \<Rightarrow> BlockContext \<Rightarrow> OutPoint \<Rightarrow> ReducerOutput list \<Rightarrow> ReducerOutput list work" where
  "balances_by_brc20_consumed L policy ctx input outputs =
     (case utxo_inscriptions ctx input of
        None \<Rightarrow> Inr outputs
      | Some inscriptions \<Rightarrow> work_bind (resolve_utxo ctx policy input) (\<lambda>u. case u of
          None \<Rightarrow> Inr outputs
        | Some utxo \<Rightarrow> Inr (outputs @ concat (map (\<lambda>(tick, amt, receiver).
            [Out_BalancesByBrc20 tick (script_hash L (script_pubkey (cu_txo utxo))) (IoD_Decrement amt),
             Out_BalancesByBrc20 tick receiver (IoD_Increment amt)]) (transfers_from ctx input inscriptions)))))"

fun balances_by_brc20_new :: "BRC20Message \<Rightarrow> ReducerOutput list" where
  "balances_by_brc20_new (Brc_Mint ticker amt receiver) = [Out_BalancesByBrc20 ticker receiver (IoD_Increment amt)]"
| "balances_by_brc20_new _ = []"

definition brc20_txs ::
  "bitcoin_lib \<Rightarrow> BlockContext \<Rightarrow> (OutPoint \<Rightarrow> ReducerOutput list \<Rightarrow> ReducerOutput list work) \<Rightarrow> (BRC20Message \<Rightarrow> ReducerOutput list) \<Rightarrow>
   TransactionsWithIds \<Rightarrow> ReducerOutput list \<Rightarrow> ReducerOutput list work" where
  "brc20_txs L ctx consumed new = work_fold (\<lambda>(tx, txid) outputs.
     work_bind (if \<not> is_coinbase L tx then work_fold consumed (prev_outputs tx) outputs else Inr outputs)
       (\<lambda>outputs. Inr (outputs @ concat (map new (new_brc20s L ctx tx txid)))))"

definition balances_by_brc20_reduce_block ::
  "bitcoin_lib \<Rightarrow> RuntimePolicy \<Rightarrow> TransactionsWithIds \<Rightarrow> BlockContext \<Rightarrow> ReducerOutput list \<Rightarrow> ReducerOutput list work" where
  "balances_by_brc20_reduce_block L policy txs ctx outputs =
     brc20_txs L ctx (balances_by_brc20_consumed L policy ctx) balances_by_brc20_new txs outputs"

definition brc20_balances_consumed ::
  "bitcoin_lib \<Rightarrow> RuntimePolicy \<Rightarrow> BlockContext \<Rightarrow> OutPoint \<Rightarrow> ReducerOutput list \<Rightarrow> ReducerOutput list work" where
  "brc20_balances_consumed L policy ctx input outputs =
     (case utxo_inscriptions ctx input of
        None \<Rightarrow> Inr outputs
      | Some inscriptions \<Rightarrow> work_bind (resolve_utxo ctx policy input) (\<lambda>u. case u of
          None \<Rightarrow> Inr outputs
        | Some utxo \<Rightarrow> Inr (outputs @ concat (map (\<lambda>(tick, amt, receiver).
            [Out_Brc20BalancesByScriptHash (script_hash L (script_pubkey (cu_txo utxo))) tick (IoD_Decrement amt) (IoD_Increment 0),
             Out_Brc20BalancesByScriptHash receiver tick (IoD_Increment amt) (IoD_Increment amt)])
            (transfers_from ctx input inscriptions)))))"

fun brc20_balances_new :: "BRC20Message \<Rightarrow> ReducerOutput list" where
  "brc20_balances_new (Brc_Mint ticker amt receiver) =
     [Out_Brc20BalancesByScriptHash receiver ticker (IoD_Increment amt) (IoD_Increment amt)]"
| "brc20_balances_new (Brc_TransferInit ticker amt receiver) =
     [Out_Brc20BalancesByScriptHash receiver ticker (IoD_Increment 0) (IoD_Decrement amt)]"
| "brc20_balances_new _ = []"

definition brc20_balances_by_script_hash_reduce_block ::
  "bitcoin_lib \<Rightarrow> RuntimePolicy \<Rightarrow> TransactionsWithIds \<Rightarrow> BlockContext \<Rightarrow> ReducerOutput list \<Rightarrow> ReducerOutput list work" where
  "brc20_balances_by_script_hash_reduce_block L policy txs ctx outputs =
     brc20_txs L ctx (brc20_balances_consumed L policy ctx) brc20_balances_new txs outputs"

definition transfer_inscriptions_consumed ::
  "bitcoin_lib \<Rightarrow> RuntimePolicy \<Rightarrow> BlockContext \<Rightarrow> Transaction \<Rightarrow> ReducerOutput list \<Rightarrow> ReducerOutput list work" where
  "transfer_inscriptions_consumed L policy ctx tx outputs =
     flow_result (for_each (\<lambda>input. for_each (\<lambda>(_, iid). for_each (\<lambda>action outputs.
         case first_transfer input action of
           Some (ticker, _, _) \<Rightarrow> resolve_or_stop ctx policy outputs input (\<lambda>utxo.
             Inr (Next (outputs @ [Out_TransferInscriptionsByScriptHash (script_hash L (script_pubkey (cu_txo utxo))) ticker iid Consumed])))
         | None \<Rightarrow> Inr (Next outputs)) (brc20s ctx iid))
       (case utxo_inscriptions ctx input of Some inscriptions \<Rightarrow> inscriptions | None \<Rightarrow> [])) (prev_outputs tx) outputs)"

definition transfer_inscriptions_produced ::
  "bitcoin_lib \<Rightarrow> BlockContext \<Rightarrow> u64 \<Rightarrow> Transaction \<Rightarrow> bytes \<Rightarrow> ReducerOutput list" where
  "transfer_inscriptions_produced L ctx height tx tx_id =
     concat (map (\<lambda>(iid, _). concat (map (\<lambda>action. case action of
       Brc_TransferInit ticker amt receiver \<Rightarrow>
         concat (map (\<lambda>(idx, txo). map (\<lambda>(sat_offset, _). Out_TransferInscriptionsByScriptHash receiver ticker iid
             (Produced (amt, txo_value txo, (tx_id, of_nat idx), ucast sat_offset, height)))
           (filter (\<lambda>(_, inscription_id). iid = inscription_id)
             (case utxo_inscriptions ctx (outpoint_at tx_id idx) of Some inscriptions \<Rightarrow> inscriptions | None \<Rightarrow> [])))
           (indexed_outputs tx))
     | _ \<Rightarrow> []) (brc20s ctx iid))) (inscription_ids tx_id (envelopes L tx)))"

definition transfer_inscriptions_by_script_hash_reduce_block ::
  "bitcoin_lib \<Rightarrow> RuntimePolicy \<Rightarrow> u64 \<Rightarrow> TransactionsWithIds \<Rightarrow> BlockContext \<Rightarrow> ReducerOutput list \<Rightarrow> ReducerOutput list work" where
  "transfer_inscriptions_by_script_hash_reduce_block L policy height txs ctx outputs =
     work_fold (\<lambda>(tx, tx_id) outputs.
       work_bind (if \<not> is_coinbase L tx then transfer_inscriptions_consumed L policy ctx tx outputs else Inr outputs)
         (\<lambda>outputs. Inr (outputs @ transfer_inscriptions_produced L ctx height tx tx_id))) txs outputs"

section \<open>BRC-20 deployments\<close>

fun before_semicolon :: "string \<Rightarrow> string" where
  "before_semicolon [] = []"
| "before_semicolon (c # cs) = (if c = CHR '';'' then [] else c # before_semicolon cs)"

definition unparsed_message :: "bitcoin_lib \<Rightarrow> Envelope \<Rightarrow> RawProtocolMessage option" where
  "unparsed_message L env =
     (case content_type L env of
        None \<Rightarrow> None
      | Some ct \<Rightarrow>
          if before_semicolon ct \<in> {''text/plain'', ''application/json''} then
            (if utf8_valid (bytes_or_default (env_body env)) then
               (case from_json L (bytes_or_default (env_body env)) of
                  Some raw \<Rightarrow> (if raw_p raw = ''brc-20'' then Some raw else None)
                | None \<Rightarrow> None)
             else None)
          else None)"

definition checked_mul :: "'a::len word \<Rightarrow> 'a word \<Rightarrow> 'a word option" where
  "checked_mul a b = (if unat a * unat b < 2 ^ LENGTH('a) then Some (a * b) else None)"

text \<open>\<open>str::parse\<close> for an unsigned integer type with the given number of values.\<close>

definition parse_below :: "nat \<Rightarrow> string \<Rightarrow> nat option" where
  "parse_below bound s =
     (let ds = (case s of c # cs \<Rightarrow> (if c = CHR ''+'' then cs else s) | [] \<Rightarrow> []) in
      if ds = [] then None
      else case digits_value ds 0 of
             Some n \<Rightarrow> (if n < bound then Some n else None)
           | None \<Rightarrow> None)"

primrec split_dot :: "string \<Rightarrow> string list" where
  "split_dot [] = [[]]"
| "split_dot (c # cs) =
     (if c = CHR ''.'' then [] # split_dot cs
      else case split_dot cs of p # ps \<Rightarrow> (c # p) # ps | [] \<Rightarrow> [[c]])"

definition NUMBERS :: string where
  "NUMBERS = ''0123456789''"

definition NUMBERS_AND_DOT :: string where
  "NUMBERS_AND_DOT = ''0123456789.''"

definition parse_decimal :: "string \<Rightarrow> u8 \<Rightarrow> u128 option work" where
  "parse_decimal m dec =
     (if list_ex (\<lambda>c. c \<notin> set NUMBERS_AND_DOT) m then Inr None
      else if m \<noteq> [] \<and> (hd m = CHR ''.'' \<or> last m = CHR ''.'') then Inr None
      else let parts = split_dot m in
        if length parts > 2 then Inr None
        else (case parse_u64 (parts ! 0) of
           None \<Rightarrow> Inr None
         | Some integer \<Rightarrow>
             if length parts = 2 then
               (if length (parts ! 1) > unat dec then Inr None
                else let decimal_part = parts ! 1 @ replicate (unat dec - length (parts ! 1)) (CHR ''0'') in
                  work_bind (unwrap (parse_below (2 ^ 128) (show_nat (unat integer) @ decimal_part)))
                    (\<lambda>n. Inr (Some (of_nat n))))
             else work_bind (unwrap (checked_mul (ucast integer) (10 ^ unat dec))) (\<lambda>n. Inr (Some n))))"

record DeployAction =
  deploy_ticker :: bytes
  deploy_max :: u128
  deploy_limit :: u128
  deploy_dec :: u8
  deploy_self_mint :: bool

definition parse_dec :: "RawProtocolMessage \<Rightarrow> u8 option" where
  "parse_dec raw =
     (let dec_string = (case raw_dec raw of Some x \<Rightarrow> x | None \<Rightarrow> ''18'') in
      if list_ex (\<lambda>c. c \<notin> set NUMBERS) dec_string then None
      else case parse_below (2 ^ 8) dec_string of
             Some d \<Rightarrow> (if d > 18 then None else Some (of_nat d))
           | None \<Rightarrow> None)"

definition parse_max :: "RawProtocolMessage \<Rightarrow> bool \<Rightarrow> u8 \<Rightarrow> u128 option work" where
  "parse_max raw self_mint dec =
     (case raw_max raw of
        None \<Rightarrow> Inr None
      | Some m \<Rightarrow> work_bind (parse_decimal m dec) (\<lambda>x. case x of
          None \<Rightarrow> Inr None
        | Some x \<Rightarrow>
            if x = 0 then
              (if self_mint then work_bind (unwrap (checked_mul (ucast (- 1 :: u64)) (10 ^ unat dec))) (\<lambda>n. Inr (Some n))
               else Inr None)
            else Inr (Some x)))"

definition parse_limit :: "RawProtocolMessage \<Rightarrow> u128 \<Rightarrow> u8 \<Rightarrow> u128 option work" where
  "parse_limit raw max_supply dec =
     (case raw_lim raw of
        None \<Rightarrow> Inr (Some max_supply)
      | Some l \<Rightarrow> work_bind (parse_decimal l dec) (\<lambda>x. Inr (case x of
          Some x \<Rightarrow> (if x = 0 then None else Some x)
        | None \<Rightarrow> None)))"

definition DeployAction_parse :: "bitcoin_lib \<Rightarrow> RawProtocolMessage \<Rightarrow> DeployAction option work" where
  "DeployAction_parse L raw =
     (if raw_op raw \<noteq> ''deploy'' then Inr None
      else
        let self_mint = (raw_self_mint raw = Some ''true'') in
        if length (raw_tick raw) \<noteq> (if self_mint then 5 else 4) then Inr None
        else (case parse_dec raw of
           None \<Rightarrow> Inr None
         | Some dec \<Rightarrow>
             work_bind (parse_max raw self_mint dec) (\<lambda>m. case m of
               None \<Rightarrow> Inr None
             | Some max_supply \<Rightarrow> work_bind (parse_limit raw max_supply dec) (\<lambda>l. Inr (map_option (\<lambda>limit.
                 \<lparr>deploy_ticker = str_to_lowercase L (raw_tick raw), deploy_max = max_supply, deploy_limit = limit,
                  deploy_dec = dec, deploy_self_mint = self_mint\<rparr>) l)))))"

definition brc20_terms_by_ticker_reduce_block ::
  "bitcoin_lib \<Rightarrow> TransactionsWithIds \<Rightarrow> BlockContext \<Rightarrow> ReducerOutput list \<Rightarrow> ReducerOutput list work" where
  "brc20_terms_by_ticker_reduce_block L txs ctx outputs =
     work_fold (\<lambda>(tx, txid). work_fold (\<lambda>(iid, env). work_fold (\<lambda>action outputs.
         case action of
           Brc_Deploy _ \<Rightarrow>
             work_bind (unwrap (unparsed_message L env)) (\<lambda>x.
             work_bind (DeployAction_parse L x) (\<lambda>d.
             work_bind (unwrap d) (\<lambda>deploy.
               Inr (outputs @ [Out_Brc20TermsByTicker (deploy_ticker deploy) (deploy_max deploy) (deploy_limit deploy)
                 (deploy_dec deploy) (deploy_self_mint deploy) iid]))))
         | _ \<Rightarrow> Inr outputs) (brc20s ctx iid)) (inscription_ids txid (envelopes L tx))) txs outputs"

end
