(* ===== verification/Reducer_Worker.thy ===== *)
theory Reducer_Worker
  imports Reducers_Chain Reducers_Runes Reducers_Inscriptions
begin

text \<open>
  The stage that runs the reducers (\<open>services/polyphony-xbt/src/reducers/worker.rs\<close> and the dispatch in
  \<open>reducers/mod.rs\<close>): every reducer sees every block in turn and appends to one list of outputs, a
  cursor closes the list, and the result goes to the storage stage. The time of day is an argument; metrics
  and ports are left out.
\<close>

section \<open>Dispatch\<close>

datatype (plugins only: code) ReducerStage =
    Red_BalancesByBrc20 RuntimePolicy
  | Red_BalancesByRuneId RuntimePolicy
  | Red_BlockByTxHash
  | Red_BlockInfo RuntimePolicy
  | Red_Brc20BalancesByScriptHash RuntimePolicy
  | Red_Brc20TermsByTicker
  | Red_ContentByInscriptionId
  | Red_EtchingByRuneId bool
  | Red_HeightByBlockHash
  | Red_HeightByTimestamp
  | Red_InscriptionUtxosByScriptHash RuntimePolicy
  | Red_InscriptionActivityByScriptHash RuntimePolicy activity_indexes
  | Red_InscriptionActivityByTx RuntimePolicy
  | Red_InscriptionActivityByTxV2 RuntimePolicy
  | Red_MintsByRuneId
  | Red_RuneTxsByScriptHash RuntimePolicy activity_indexes
  | Red_RuneIdByRuneName bool
  | Red_RuneUtxosByScriptHash RuntimePolicy
  | Red_SatBalanceByScriptHash RuntimePolicy
  | Red_HistoricalSatBalanceByScriptHash RuntimePolicy
  | Red_SatTxsByScriptHash RuntimePolicy activity_indexes
  | Red_SatsPerVbByBlock RuntimePolicy
  | Red_ScriptByScriptHash RuntimePolicy
  | Red_ScriptHashByAddressPayloadHash
  | Red_SpendingTxByTxo
  | Red_TotalInscriptionsByScriptHash RuntimePolicy
  | Red_TotalOutputsByScriptHash
  | Red_TotalSatInInputsByScriptHash RuntimePolicy
  | Red_TotalSatInOutputsByScriptHash
  | Red_TotalUtxosByScriptHash RuntimePolicy
  | Red_TotalTxsByScriptHash RuntimePolicy
  | Red_TransferInscriptionsByScriptHash RuntimePolicy
  | Red_TxFirstSeenTimestamp
  | Red_TxInfo RuntimePolicy
  | Red_TxsByBlock
  | Red_TxsByInscription
  | Red_TxsByRuneId RuntimePolicy
  | Red_TxsByScriptHash RuntimePolicy
  | Red_UtxosByRuneId RuntimePolicy
  | Red_UtxosByScriptHash RuntimePolicy

definition stateless :: "ReducerStage \<Rightarrow> ReducerOutput list work \<Rightarrow> (ReducerOutput list \<times> ReducerStage) work" where
  "stateless reducer r = work_bind r (\<lambda>out. Inr (out, reducer))"

definition Reducer_reduce_block ::
  "bitcoin_lib \<Rightarrow> hash_order \<Rightarrow> u64 \<Rightarrow> TransactionsWithIds \<Rightarrow> Block option \<Rightarrow> u64 \<Rightarrow> BlockContext \<Rightarrow> ReducerStage \<Rightarrow>
   ReducerOutput list \<Rightarrow> (ReducerOutput list \<times> ReducerStage) work" where
  "Reducer_reduce_block L ord height txs block timestamp ctx reducer outputs =
     (case reducer of
        Red_BalancesByBrc20 p \<Rightarrow> stateless reducer (balances_by_brc20_reduce_block L p txs ctx outputs)
      | Red_BalancesByRuneId p \<Rightarrow> stateless reducer (balances_by_rune_id_reduce_block L p txs ctx outputs)
      | Red_BlockByTxHash \<Rightarrow> stateless reducer (block_by_tx_hash_reduce_block height txs outputs)
      | Red_BlockInfo p \<Rightarrow> stateless reducer (block_info_reduce_block L p height txs block ctx outputs)
      | Red_Brc20BalancesByScriptHash p \<Rightarrow> stateless reducer (brc20_balances_by_script_hash_reduce_block L p txs ctx outputs)
      | Red_Brc20TermsByTicker \<Rightarrow> stateless reducer (brc20_terms_by_ticker_reduce_block L txs ctx outputs)
      | Red_ContentByInscriptionId \<Rightarrow> stateless reducer (content_by_inscription_id_reduce_block L height txs ctx outputs)
      | Red_EtchingByRuneId x \<Rightarrow>
          work_bind (etching_by_rune_id_reduce_block L height txs ctx (outputs, x)) (\<lambda>(out, x). Inr (out, Red_EtchingByRuneId x))
      | Red_HeightByBlockHash \<Rightarrow> stateless reducer (height_by_block_hash_reduce_block L height block outputs)
      | Red_HeightByTimestamp \<Rightarrow> stateless reducer (height_by_timestamp_reduce_block height block outputs)
      | Red_InscriptionUtxosByScriptHash p \<Rightarrow> stateless reducer (inscription_utxos_by_script_hash_reduce_block L p height txs ctx outputs)
      | Red_InscriptionActivityByScriptHash p x \<Rightarrow>
          work_bind (inscription_activity_by_script_hash_reduce_block L ord p height txs ctx (outputs, x)) (\<lambda>(out, x). Inr (out, Red_InscriptionActivityByScriptHash p x))
      | Red_InscriptionActivityByTx p \<Rightarrow> stateless reducer (inscription_activity_by_tx_reduce_block L p height txs ctx outputs)
      | Red_InscriptionActivityByTxV2 p \<Rightarrow> stateless reducer (inscription_activity_by_tx_v2_reduce_block L ord p height txs ctx outputs)
      | Red_MintsByRuneId \<Rightarrow> stateless reducer (mints_by_rune_id_reduce_block L txs ctx outputs)
      | Red_RuneTxsByScriptHash p x \<Rightarrow>
          work_bind (rune_txs_by_script_hash_reduce_block L ord p height txs ctx (outputs, x)) (\<lambda>(out, x). Inr (out, Red_RuneTxsByScriptHash p x))
      | Red_RuneIdByRuneName x \<Rightarrow>
          work_bind (rune_id_by_rune_name_reduce_block L height txs ctx (outputs, x)) (\<lambda>(out, x). Inr (out, Red_RuneIdByRuneName x))
      | Red_RuneUtxosByScriptHash p \<Rightarrow> stateless reducer (rune_utxos_by_script_hash_reduce_block L p height txs ctx outputs)
      | Red_SatBalanceByScriptHash p \<Rightarrow> stateless reducer (sat_balance_by_script_hash_reduce_block L p txs ctx outputs)
      | Red_HistoricalSatBalanceByScriptHash p \<Rightarrow> stateless reducer (historical_sat_balance_by_script_hash_reduce_block L ord p txs height ctx outputs)
      | Red_SatTxsByScriptHash p x \<Rightarrow>
          work_bind (sat_txs_by_script_hash_reduce_block L ord p height txs ctx (outputs, x)) (\<lambda>(out, x). Inr (out, Red_SatTxsByScriptHash p x))
      | Red_SatsPerVbByBlock p \<Rightarrow> stateless reducer (sats_per_vb_by_block_reduce_block L p height txs ctx outputs)
      | Red_ScriptByScriptHash p \<Rightarrow> stateless reducer (script_by_script_hash_reduce_block L p txs ctx outputs)
      | Red_ScriptHashByAddressPayloadHash \<Rightarrow> stateless reducer (script_hash_by_address_payload_hash_reduce_block L txs outputs)
      | Red_SpendingTxByTxo \<Rightarrow> stateless reducer (spending_tx_by_txo_reduce_block L txs outputs)
      | Red_TotalInscriptionsByScriptHash p \<Rightarrow> stateless reducer (total_inscriptions_by_script_hash_reduce_block L p txs ctx outputs)
      | Red_TotalOutputsByScriptHash \<Rightarrow> stateless reducer (total_outputs_by_script_hash_reduce_block L ord txs outputs)
      | Red_TotalSatInInputsByScriptHash p \<Rightarrow> stateless reducer (total_sat_in_inputs_by_script_hash_reduce_block L ord p txs ctx outputs)
      | Red_TotalSatInOutputsByScriptHash \<Rightarrow> stateless reducer (total_sat_in_outputs_by_script_hash_reduce_block L ord txs outputs)
      | Red_TotalUtxosByScriptHash p \<Rightarrow> stateless reducer (total_utxos_by_script_hash_reduce_block L p txs ctx outputs)
      | Red_TotalTxsByScriptHash p \<Rightarrow> stateless reducer (total_txs_by_script_hash_reduce_block L ord p txs ctx outputs)
      | Red_TransferInscriptionsByScriptHash p \<Rightarrow> stateless reducer (transfer_inscriptions_by_script_hash_reduce_block L p height txs ctx outputs)
      | Red_TxFirstSeenTimestamp \<Rightarrow> stateless reducer (tx_first_seen_timestamp_reduce_block txs timestamp outputs)
      | Red_TxInfo p \<Rightarrow> stateless reducer (tx_info_reduce_block L p height txs block ctx outputs)
      | Red_TxsByBlock \<Rightarrow> stateless reducer (txs_by_block_reduce_block height txs outputs)
      | Red_TxsByInscription \<Rightarrow> stateless reducer (txs_by_inscription_reduce_block L ord height txs ctx outputs)
      | Red_TxsByRuneId p \<Rightarrow> stateless reducer (txs_by_rune_id_reduce_block L ord p height txs ctx outputs)
      | Red_TxsByScriptHash p \<Rightarrow> stateless reducer (txs_by_script_hash_reduce_block L ord p height txs ctx outputs)
      | Red_UtxosByRuneId p \<Rightarrow> stateless reducer (utxos_by_rune_id_reduce_block L p height txs ctx outputs)
      | Red_UtxosByScriptHash p \<Rightarrow> stateless reducer (utxos_by_script_hash_reduce_block L p height txs ctx outputs))"

fun Reducer_reset_state :: "ReducerStage \<Rightarrow> ReducerStage" where
  "Reducer_reset_state (Red_SatTxsByScriptHash p x) = Red_SatTxsByScriptHash p []"
| "Reducer_reset_state (Red_RuneTxsByScriptHash p x) = Red_RuneTxsByScriptHash p []"
| "Reducer_reset_state (Red_InscriptionActivityByScriptHash p x) = Red_InscriptionActivityByScriptHash p []"
| "Reducer_reset_state r = r"

section \<open>The worker\<close>

record ReducerWorker =
  rw_reducers :: "ReducerStage list"
  rw_last_processed :: "Point option"

datatype EnrichedBlockPayload =
    EB_RollForward Point Block TransactionsWithIds BlockContext bool
  | EB_RollBack Point bool
  | EB_MempoolRefresh MempoolInfo "(Point \<times> TransactionsWithIds \<times> BlockContext) list" u128

text \<open>All reducers on one block.\<close>

primrec run_reducers ::
  "bitcoin_lib \<Rightarrow> hash_order \<Rightarrow> u64 \<Rightarrow> TransactionsWithIds \<Rightarrow> Block option \<Rightarrow> u64 \<Rightarrow> BlockContext \<Rightarrow>
   ReducerStage list \<Rightarrow> ReducerOutput list \<Rightarrow> (ReducerOutput list \<times> ReducerStage list) work" where
  "run_reducers L ord height txs block timestamp ctx [] outputs = Inr (outputs, [])"
| "run_reducers L ord height txs block timestamp ctx (r # rs) outputs =
     work_bind (Reducer_reduce_block L ord height txs block timestamp ctx r outputs) (\<lambda>(outputs, r).
     work_bind (run_reducers L ord height txs block timestamp ctx rs outputs) (\<lambda>(outputs, rs). Inr (outputs, r # rs)))"

definition follows :: "Point option \<Rightarrow> Point \<Rightarrow> bool" where
  "follows prev_point point = (case prev_point of None \<Rightarrow> True | Some prev \<Rightarrow> pt_height prev + 1 = pt_height point)"

definition extends :: "Point option \<Rightarrow> Point \<Rightarrow> Block \<Rightarrow> bool" where
  "extends prev_point point block =
     (case prev_point of None \<Rightarrow> True | Some prev \<Rightarrow> pt_hash prev = prev_blockhash block \<and> pt_height prev + 1 = pt_height point)"

definition Worker_reduce_block ::
  "bitcoin_lib \<Rightarrow> hash_order \<Rightarrow> u64 \<Rightarrow> Point \<Rightarrow> Block \<Rightarrow> TransactionsWithIds \<Rightarrow> BlockContext \<Rightarrow> bool \<Rightarrow>
   ReducerWorker \<Rightarrow> (StorageActionPayload \<times> ReducerWorker) work" where
  "Worker_reduce_block L ord now point block txs ctx is_mutable wk =
     (if \<not> extends (rw_last_processed wk) point block then Inl RustPanic
      else work_bind (run_reducers L ord (pt_height point) txs (Some block) (ucast (header_time block)) ctx
          (map Reducer_reset_state (rw_reducers wk)) []) (\<lambda>(outputs, reducers).
        Inr (RollForward point (outputs @ [Out_Cursor point False now None]) is_mutable,
             wk\<lparr>rw_reducers := reducers, rw_last_processed := Some point\<rparr>)))"

primrec reduce_mempool_loop ::
  "bitcoin_lib \<Rightarrow> hash_order \<Rightarrow> u64 \<Rightarrow> MempoolInfo \<Rightarrow> (Point \<times> TransactionsWithIds \<times> BlockContext) list \<Rightarrow>
   ReducerWorker \<Rightarrow> ((Point \<times> ReducerOutput list) list \<times> ReducerWorker) work" where
  "reduce_mempool_loop L ord now info [] wk = Inr ([], wk)"
| "reduce_mempool_loop L ord now info (b # bs) wk =
     (let (point, txs, ctx) = b in
      if \<not> follows (rw_last_processed wk) point then Inl RustPanic
      else work_bind (run_reducers L ord (pt_height point) txs None (mempool_view_ts info) ctx (rw_reducers wk) []) (\<lambda>(outputs, reducers).
        work_bind (reduce_mempool_loop L ord now info bs (wk\<lparr>rw_reducers := reducers, rw_last_processed := Some point\<rparr>)) (\<lambda>(rest, wk).
          Inr ((point, outputs @ [Out_Cursor point True now (Some (mi_chain_tip info, mempool_view_ts info))]) # rest, wk))))"

definition reduce_mempool_blocks ::
  "bitcoin_lib \<Rightarrow> hash_order \<Rightarrow> u64 \<Rightarrow> u128 \<Rightarrow> (Point \<times> TransactionsWithIds \<times> BlockContext) list \<Rightarrow> MempoolInfo \<Rightarrow> u128 \<Rightarrow>
   ReducerWorker \<Rightarrow> (StorageActionPayload \<times> ReducerWorker) work" where
  "reduce_mempool_blocks L ord now elapsed blocks info fetch_duration_ms wk =
     work_bind (reduce_mempool_loop L ord now info blocks
       (wk\<lparr>rw_reducers := map Reducer_reset_state (rw_reducers wk),
          rw_last_processed := Some \<lparr>pt_height = fst (mi_chain_tip info), pt_hash = snd (mi_chain_tip info)\<rparr>\<rparr>)) (\<lambda>(block_outputs, wk).
     Inr (MempoolRefresh info block_outputs fetch_duration_ms elapsed, wk))"

fun Worker_execute ::
  "bitcoin_lib \<Rightarrow> hash_order \<Rightarrow> u64 \<Rightarrow> u128 \<Rightarrow> EnrichedBlockPayload \<Rightarrow> ReducerWorker \<Rightarrow> (StorageActionPayload \<times> ReducerWorker) work" where
  "Worker_execute L ord now elapsed (EB_RollForward point block txs ctx is_mutable) wk =
     Worker_reduce_block L ord now point block txs ctx is_mutable wk"
| "Worker_execute L ord now elapsed (EB_RollBack point is_mutable) wk =
     Inr (RollBack point is_mutable, wk\<lparr>rw_last_processed := Some point\<rparr>)"
| "Worker_execute L ord now elapsed (EB_MempoolRefresh info blocks fetch_duration_ms) wk =
     reduce_mempool_blocks L ord now elapsed blocks info fetch_duration_ms wk"

end
