(* ===== verification/Spec2Isabelle.thy ===== *)
theory Spec2Isabelle
  imports Schema_Chain Schema_Tokens Merge_Soundness Persistent_Buffer Mapi_Scanner Reducer_Worker
begin

text \<open>
  A verification development of the Maestro Bitcoin indexer.
\<close>

end
